(* ===== verification/Prelude.thy ===== *)
theory Prelude
  imports Main "HOL-Library.Sublist"
begin

text \<open>
  Shared vocabulary of the development: how JavaScript values that every component uses are
  represented, the collections of rewrite rules the component proofs draw on, and the generic
  lemmas on lists and strings.

  \<^item> A JavaScript string is a \<open>string\<close> (a list of 8-bit characters); case mapping is the ASCII one.
  \<^item> A value that may be \<open>null\<close> or \<open>undefined\<close> is an \<open>option\<close>; \<open>truthy\<close> and \<open>nullish\<close> are the two
    ways the source tests one (\<open>if (x)\<close>, which also rejects the empty string, and \<open>x ?? d\<close>,
    which does not).
  \<^item> A clock reading is an \<open>int\<close> of milliseconds, and stands for its ISO rendering where the
    source stores the string.
  \<^item> A function that may throw returns a sum, \<open>Inl\<close> the error.
\<close>

section \<open>Collections of rules\<close>

named_theorems lookup_simps \<open>what a read returns after a write\<close>
named_theorems frame_simps \<open>what an operation leaves unchanged\<close>
named_theorems inv_intros \<open>operations keep their component's invariant\<close>

type_synonym millis = int

section \<open>Null, undefined and truthiness\<close>

text \<open>\<open>if (x)\<close> on a nullable string: neither null, nor undefined, nor empty.\<close>

definition truthy :: "string option \<Rightarrow> bool" where
  "truthy x = (case x of None \<Rightarrow> False | Some s \<Rightarrow> s \<noteq> [])"

text \<open>\<open>x ?? d\<close>\<close>

definition nullish :: "'a option \<Rightarrow> 'a \<Rightarrow> 'a" where
  "nullish x d = (case x of None \<Rightarrow> d | Some v \<Rightarrow> v)"

text \<open>\<open>x ?? y\<close> where both may be absent.\<close>

definition nullish2 :: "'a option \<Rightarrow> 'a option \<Rightarrow> 'a option" where
  "nullish2 x y = (case x of None \<Rightarrow> y | Some v \<Rightarrow> Some v)"

section \<open>Strings\<close>

text \<open>The code unit of a character (\<open>charCodeAt\<close>).\<close>

abbreviation code_unit :: "char \<Rightarrow> nat" where
  "code_unit c \<equiv> of_char c"

definition in_range :: "char \<Rightarrow> char \<Rightarrow> char \<Rightarrow> bool" where
  "in_range lo hi c = (code_unit lo \<le> code_unit c \<and> code_unit c \<le> code_unit hi)"

definition is_digit :: "char \<Rightarrow> bool" where
  "is_digit = in_range (CHR ''0'') (CHR ''9'')"

definition is_upper :: "char \<Rightarrow> bool" where
  "is_upper = in_range (CHR ''A'') (CHR ''Z'')"

definition is_lower :: "char \<Rightarrow> bool" where
  "is_lower = in_range (CHR ''a'') (CHR ''z'')"

text \<open>\<open>toUpperCase\<close> and \<open>toLowerCase\<close> on ASCII letters.\<close>

definition upper_char :: "char \<Rightarrow> char" where
  "upper_char c = (if is_lower c then char_of (code_unit c - 32) else c)"

definition lower_char :: "char \<Rightarrow> char" where
  "lower_char c = (if is_upper c then char_of (code_unit c + 32) else c)"

definition to_upper :: "string \<Rightarrow> string" where
  "to_upper s = map upper_char s"

definition to_lower :: "string \<Rightarrow> string" where
  "to_lower s = map lower_char s"

text \<open>The white space \<open>trim\<close> removes: tab, line feed, vertical tab, form feed, carriage return,
  space and the no-break space.\<close>

definition is_space :: "char \<Rightarrow> bool" where
  "is_space c = (code_unit c \<in> {9, 10, 11, 12, 13, 32, 160})"

definition trim :: "string \<Rightarrow> string" where
  "trim s = rev (dropWhile is_space (rev (dropWhile is_space s)))"

definition starts_with :: "string \<Rightarrow> string \<Rightarrow> bool" where
  "starts_with s p = (take (length p) s = p)"

definition ends_with :: "string \<Rightarrow> string \<Rightarrow> bool" where
  "ends_with s p = starts_with (rev s) (rev p)"

text \<open>\<open>s.includes(p)\<close>\<close>

fun str_includes :: "string \<Rightarrow> string \<Rightarrow> bool" where
  "str_includes [] p = (p = [])"
| "str_includes (c # s) p = (starts_with (c # s) p \<or> str_includes s p)"

text \<open>\<open>s.split(',')\<close> for a one-character separator.\<close>

fun split_on :: "char \<Rightarrow> string \<Rightarrow> string list" where
  "split_on c [] = [[]]"
| "split_on c (x # xs) =
     (if x = c then [] # split_on c xs
      else (case split_on c xs of [] \<Rightarrow> [[x]] | w # ws \<Rightarrow> (x # w) # ws))"

text \<open>\<open>String(n)\<close> of an integer: its decimal digits.\<close>

fun show_nat :: "nat \<Rightarrow> string" where
  "show_nat n =
     (if n < 10 then [char_of (48 + n)] else show_nat (n div 10) @ [char_of (48 + n mod 10)])"

declare show_nat.simps [simp del]

definition show_int :: "int \<Rightarrow> string" where
  "show_int i = (if i < 0 then CHR ''-'' # show_nat (nat (- i)) else show_nat (nat i))"

section \<open>Arrays\<close>

text \<open>\<open>const x = xs.find(p); x.field = \<dots>\<close>: the first element that satisfies \<open>p\<close> is changed in place.\<close>

fun update_first :: "('a \<Rightarrow> bool) \<Rightarrow> ('a \<Rightarrow> 'a) \<Rightarrow> 'a list \<Rightarrow> 'a list" where
  "update_first p f [] = []"
| "update_first p f (x # xs) = (if p x then f x # xs else x # update_first p f xs)"

text \<open>The last \<open>n\<close> elements: what a queue bounded by \<open>shift\<close> keeps.\<close>

definition last_n :: "nat \<Rightarrow> 'a list \<Rightarrow> 'a list" where
  "last_n n xs = drop (length xs - n) xs"

text \<open>\<open>[...new Set(xs)]\<close>: the first occurrence of each element, in insertion order.\<close>

fun uniq :: "'a list \<Rightarrow> 'a list" where
  "uniq [] = []"
| "uniq (x # xs) = x # filter (\<lambda>y. y \<noteq> x) (uniq xs)"

section \<open>Lemmas\<close>

lemma truthy_simps [simp]:
  "\<not> truthy None" "truthy (Some s) \<longleftrightarrow> s \<noteq> []"
  by (simp_all add: truthy_def)

lemma truthyE: "truthy x \<Longrightarrow> (\<And>s. x = Some s \<Longrightarrow> s \<noteq> [] \<Longrightarrow> P) \<Longrightarrow> P"
  by (auto simp: truthy_def split: option.splits)

lemma nullish_simps [simp]:
  "nullish None d = d" "nullish (Some v) d = v"
  by (simp_all add: nullish_def)

lemma nullish2_simps [simp]:
  "nullish2 None y = y" "nullish2 (Some v) y = Some v"
  by (simp_all add: nullish2_def)

lemma nullish2_None [simp]: "nullish2 x None = x"
  by (simp add: nullish2_def split: option.splits)

lemma length_to_upper [simp]: "length (to_upper s) = length s"
  by (simp add: to_upper_def)

lemma upper_char_idem [simp]: "upper_char (upper_char c) = upper_char c"
  by (auto simp: upper_char_def is_lower_def in_range_def)

lemma to_upper_idem [simp]: "to_upper (to_upper s) = to_upper s"
  by (simp add: to_upper_def)

lemma upper_char_space [simp]: "is_space (upper_char c) \<longleftrightarrow> is_space c"
  by (auto simp: upper_char_def is_lower_def in_range_def is_space_def)

lemma dropWhile_dropWhile_rev:
  "dropWhile p (rev (dropWhile p (rev (dropWhile p s)))) = rev (dropWhile p (rev (dropWhile p s)))"
proof -
  define t where "t = dropWhile p s"
  have hd: "t \<noteq> [] \<Longrightarrow> \<not> p (hd t)"
    unfolding t_def by (rule hd_dropWhile)
  have "dropWhile p (rev (dropWhile p (rev t))) = rev (dropWhile p (rev t))"
  proof (cases "dropWhile p (rev t) = []")
    case True
    then show ?thesis by (simp only: rev.simps dropWhile.simps)
  next
    case False
    then obtain x xs where split: "rev (dropWhile p (rev t)) = x # xs"
      by (metis neq_Nil_conv rev_is_Nil_conv)
    have "rev t = takeWhile p (rev t) @ dropWhile p (rev t)"
      by simp
    then have "t = rev (dropWhile p (rev t)) @ rev (takeWhile p (rev t))"
      by (metis rev_append rev_rev_ident)
    then have "t \<noteq> [] \<and> hd t = x"
      using split by (metis append_Cons list.distinct(1) list.sel(1))
    with hd split show ?thesis
      by simp
  qed
  then show ?thesis
    by (simp add: t_def)
qed

lemma trim_idem [simp]: "trim (trim s) = trim s"
  by (simp add: trim_def dropWhile_dropWhile_rev)

lemma dropWhile_map_inv:
  "(\<And>x. p (f x) \<longleftrightarrow> p x) \<Longrightarrow> dropWhile p (map f xs) = map f (dropWhile p xs)"
  by (induction xs) auto

lemma trim_to_upper: "trim (to_upper s) = to_upper (trim s)"
  by (simp add: trim_def to_upper_def dropWhile_map_inv rev_map)

lemma starts_with_append [simp]: "starts_with (p @ s) p"
  by (simp add: starts_with_def)

lemma starts_with_iff: "starts_with s p \<longleftrightarrow> (\<exists>t. s = p @ t)"
  by (auto simp: starts_with_def) (metis append_take_drop_id)

lemma str_includes_Nil [simp]: "str_includes s []"
  by (cases s) (simp_all add: starts_with_def)

lemma length_update_first [simp]: "length (update_first p f xs) = length xs"
  by (induction xs) auto

lemma map_update_first_key:
  "(\<And>x. key (f x) = key x) \<Longrightarrow> map key (update_first p f xs) = map key xs"
  by (induction xs) auto

lemma update_first_all:
  "list_all q xs \<Longrightarrow> (\<And>x. x \<in> set xs \<Longrightarrow> p x \<Longrightarrow> q (f x)) \<Longrightarrow> list_all q (update_first p f xs)"
  by (induction xs) auto

lemma update_first_none: "\<not> list_ex p xs \<Longrightarrow> update_first p f xs = xs"
  by (induction xs) auto

lemma find_None_list_ex: "find p xs = None \<longleftrightarrow> \<not> list_ex p xs"
  by (induction xs) auto

lemma find_SomeD: "find p xs = Some x \<Longrightarrow> x \<in> set xs \<and> p x"
  by (induction xs) (auto split: if_splits)

lemma find_append: "find p (xs @ ys) = nullish2 (find p xs) (find p ys)"
  by (induction xs) simp_all

lemma length_last_n: "length (last_n n xs) = min n (length xs)"
  by (simp add: last_n_def)

lemma last_n_Nil [simp]: "last_n n [] = []"
  by (simp add: last_n_def)

lemma last_n_snoc:
  "last_n n (xs @ [x]) =
     (let ys = last_n n xs @ [x] in if length ys > n then tl ys else ys)"
proof (cases "length xs \<ge> n")
  case True
  show ?thesis
  proof (cases n)
    case 0
    then show ?thesis by (simp add: last_n_def)
  next
    case (Suc m)
    with True have "Suc (length xs - Suc m) = length xs - m"
      by simp
    then have "drop (length xs - m) xs = tl (drop (length xs - Suc m) xs)"
      by (metis drop_Suc tl_drop)
    with Suc True show ?thesis
      by (simp add: last_n_def)
  qed
next
  case False
  then show ?thesis by (simp add: last_n_def)
qed

lemma last_n_all: "length xs \<le> n \<Longrightarrow> last_n n xs = xs"
  by (simp add: last_n_def)

lemma set_uniq [simp]: "set (uniq xs) = set xs"
  by (induction xs) auto

lemma distinct_uniq [simp]: "distinct (uniq xs)"
  by (induction xs) auto

lemma uniq_distinct: "distinct xs \<Longrightarrow> uniq xs = xs"
  by (induction xs) (auto simp: filter_id_conv)

lemma uniq_append_prefix: "distinct xs \<Longrightarrow> \<exists>ys. uniq (xs @ zs) = xs @ ys \<and> set ys \<inter> set xs = {}"
proof (induction xs)
  case Nil
  then show ?case by simp
next
  case (Cons x xs)
  then obtain ys where "uniq (xs @ zs) = xs @ ys" and "set ys \<inter> set xs = {}"
    by auto
  with Cons.prems show ?case
    by (intro exI [of _ "filter (\<lambda>y. y \<noteq> x) ys"]) (auto simp: filter_id_conv)
qed

lemma split_on_nonempty [simp]: "split_on c s \<noteq> []"
  by (induction s) (auto split: list.splits)

section \<open>Reading digits back\<close>

text \<open>The number a string of decimal digits denotes.\<close>

definition digits_value :: "string \<Rightarrow> int" where
  "digits_value ds = foldl (\<lambda>a c. 10 * a + int (code_unit c) - 48) 0 ds"

lemma is_digit_char: "n < 10 \<Longrightarrow> is_digit (char_of (48 + n))" "n < 10 \<Longrightarrow> code_unit (char_of (48 + n)) = 48 + n"
  by (auto simp: is_digit_def in_range_def)

lemma digits_value_snoc: "digits_value (ds @ [c]) = 10 * digits_value ds + int (code_unit c) - 48"
  by (simp add: digits_value_def)

lemma show_nat_digits: "list_all is_digit (show_nat n) \<and> show_nat n \<noteq> [] \<and> digits_value (show_nat n) = int n"
proof (induction n rule: show_nat.induct)
  case (1 n)
  show ?case
  proof (cases "n < 10")
    case True
    then show ?thesis
      by (subst (1 2 3) show_nat.simps) (simp add: is_digit_char digits_value_def)
  next
    case False
    with 1 have ih: "list_all is_digit (show_nat (n div 10))" "digits_value (show_nat (n div 10)) = int (n div 10)" by auto
    have "show_nat n = show_nat (n div 10) @ [char_of (48 + n mod 10)]"
      using False by (subst show_nat.simps) simp
    moreover have "int (n mod 10) + 10 * int (n div 10) = int n"
      by (metis mod_mult_div_eq of_nat_add of_nat_mult of_nat_numeral)
    ultimately show ?thesis
      using ih by (simp add: digits_value_snoc is_digit_char)
  qed
qed

lemma show_int_inj:
  assumes "0 \<le> i" "0 \<le> j" "show_int i = show_int j"
  shows "i = j"
proof -
  have "show_nat (nat i) = show_nat (nat j)"
    using assms by (simp add: show_int_def)
  then have "nat i = nat j"
    by (metis show_nat_digits of_nat_eq_iff)
  with assms(1,2) show ?thesis by simp
qed

end
