(* ===== verification/Effects.thy ===== *)
theory Effects
  imports Prelude
begin

text \<open>
  Asynchronous code that threads a state and may throw. An \<open>act\<close> maps a state to the value or the
  error its promise settles to and the state it leaves; a thrown error keeps the writes made
  before it. \<open>and_then\<close> is sequencing by \<^verbatim>\<open>await\<close>, \<open>attempt\<close> is \<^verbatim>\<open>try\<close>/\<^verbatim>\<open>catch\<close>, and \<open>seq_acts\<close>
  runs a list one after another.

  \<open>keeps P m Q\<close> is the partial-correctness triple the component proofs use: from a state that
  satisfies \<open>P\<close>, the action ends in one that satisfies \<open>P\<close>, also when it throws, and a value it
  returns satisfies \<open>Q\<close>. Its rules are collected in \<open>keeps_rules\<close>.
\<close>

named_theorems keeps_rules \<open>rules of the invariant triple\<close>

type_synonym ('s, 'e, 'a) act = "'s \<Rightarrow> ('e + 'a) \<times> 's"

section \<open>Combinators\<close>

definition ret :: "'a \<Rightarrow> ('s, 'e, 'a) act" where
  "ret a s = (Inr a, s)"

definition raise :: "'e \<Rightarrow> ('s, 'e, 'a) act" where
  "raise e s = (Inl e, s)"

definition and_then :: "('s, 'e, 'a) act \<Rightarrow> ('a \<Rightarrow> ('s, 'e, 'b) act) \<Rightarrow> ('s, 'e, 'b) act" where
  "and_then m k s = (case m s of (Inl e, s') \<Rightarrow> (Inl e, s') | (Inr a, s') \<Rightarrow> k a s')"

definition attempt :: "('s, 'e, 'a) act \<Rightarrow> ('e \<Rightarrow> ('s, 'f, 'a) act) \<Rightarrow> ('s, 'f, 'a) act" where
  "attempt m h s = (case m s of (Inl e, s') \<Rightarrow> h e s' | (Inr a, s') \<Rightarrow> (Inr a, s'))"

text \<open>The same action, its errors translated.\<close>

definition map_error :: "('e \<Rightarrow> 'f) \<Rightarrow> ('s, 'e, 'a) act \<Rightarrow> ('s, 'f, 'a) act" where
  "map_error f m s = (case m s of (Inl e, s') \<Rightarrow> (Inl (f e), s') | (Inr a, s') \<Rightarrow> (Inr a, s'))"

text \<open>A pure computation that may throw.\<close>

definition lift_sum :: "'e + 'a \<Rightarrow> ('s, 'e, 'a) act" where
  "lift_sum r s = (r, s)"

text \<open>Read or change the state.\<close>

definition asks :: "('s \<Rightarrow> 'a) \<Rightarrow> ('s, 'e, 'a) act" where
  "asks f s = (Inr (f s), s)"

definition modify :: "('s \<Rightarrow> 's) \<Rightarrow> ('s, 'e, unit) act" where
  "modify f s = (Inr (), f s)"

text \<open>\<open>if (b) throw e\<close>\<close>

definition throw_if :: "bool \<Rightarrow> 'e \<Rightarrow> ('s, 'e, unit) act" where
  "throw_if b e s = (if b then Inl e else Inr (), s)"

primrec seq_acts :: "('a \<Rightarrow> ('s, 'e, unit) act) \<Rightarrow> 'a list \<Rightarrow> ('s, 'e, unit) act" where
  "seq_acts f [] = ret ()"
| "seq_acts f (x # xs) = and_then (f x) (\<lambda>_. seq_acts f xs)"

section \<open>Running\<close>

lemma ret_run [simp]: "ret a s = (Inr a, s)"
  by (simp add: ret_def)

lemma raise_run [simp]: "raise e s = (Inl e, s)"
  by (simp add: raise_def)

lemma asks_run [simp]: "asks f s = (Inr (f s), s)"
  by (simp add: asks_def)

lemma modify_run [simp]: "modify f s = (Inr (), f s)"
  by (simp add: modify_def)

lemma throw_if_run [simp]: "throw_if b e s = (if b then Inl e else Inr (), s)"
  by (simp add: throw_if_def)

lemma and_then_Inr: "m s = (Inr a, s') \<Longrightarrow> and_then m k s = k a s'"
  by (simp add: and_then_def)

lemma and_then_Inl: "m s = (Inl e, s') \<Longrightarrow> and_then m k s = (Inl e, s')"
  by (simp add: and_then_def)

lemma attempt_Inr: "m s = (Inr a, s') \<Longrightarrow> attempt m h s = (Inr a, s')"
  by (simp add: attempt_def)

lemma attempt_Inl: "m s = (Inl e, s') \<Longrightarrow> attempt m h s = h e s'"
  by (simp add: attempt_def)

lemma and_then_ret [simp]: "and_then (ret a) k s = k a s"
  by (simp add: and_then_def)

lemma and_then_raise [simp]: "and_then (raise e) k s = (Inl e, s)"
  by (simp add: and_then_def)

lemma and_then_asks [simp]: "and_then (asks f) k s = k (f s) s"
  by (simp add: and_then_def)

lemma and_then_modify [simp]: "and_then (modify f) k s = k () (f s)"
  by (simp add: and_then_def)

lemma and_then_throw_if [simp]:
  "and_then (throw_if b e) k s = (if b then (Inl e, s) else k () s)"
  by (simp add: and_then_def)

lemmas act_simps = and_then_def attempt_def

lemma lift_sum_run [simp]: "lift_sum r s = (r, s)"
  by (simp add: lift_sum_def)

lemma map_error_Inr: "m s = (Inr a, s') \<Longrightarrow> map_error f m s = (Inr a, s')"
  by (simp add: map_error_def)

lemma map_error_Inl: "m s = (Inl e, s') \<Longrightarrow> map_error f m s = (Inl (f e), s')"
  by (simp add: map_error_def)

lemma map_error_InrD: "map_error f m s = (Inr a, s') \<Longrightarrow> m s = (Inr a, s')"
  by (simp add: map_error_def split: prod.splits sum.splits)

lemma map_error_snd [simp]: "snd (map_error f m s) = snd (m s)"
  by (simp add: map_error_def split: prod.splits sum.splits)

text \<open>A sequence that returned ran each of its parts to a value.\<close>

lemma and_then_InrE:
  assumes "and_then m k s = (Inr b, s'')"
  obtains a s' where "m s = (Inr a, s')" and "k a s' = (Inr b, s'')"
proof (cases "m s")
  case (Pair r s')
  then show thesis
    using assms that by (cases r) (simp_all add: and_then_def)
qed

lemma and_then_assoc: "and_then (and_then m f) g = and_then m (\<lambda>a. and_then (f a) g)"
  by (rule ext) (simp add: and_then_def split: prod.splits sum.splits)

section \<open>Invariant triples\<close>

definition keeps :: "('s \<Rightarrow> bool) \<Rightarrow> ('s, 'e, 'a) act \<Rightarrow> ('a \<Rightarrow> bool) \<Rightarrow> bool" where
  "keeps P m Q = (\<forall>s. P s \<longrightarrow> P (snd (m s)) \<and> (\<forall>a. fst (m s) = Inr a \<longrightarrow> Q a))"

lemma keepsI:
  "(\<And>s. P s \<Longrightarrow> P (snd (m s))) \<Longrightarrow> (\<And>s a. P s \<Longrightarrow> fst (m s) = Inr a \<Longrightarrow> Q a) \<Longrightarrow> keeps P m Q"
  by (simp add: keeps_def)

lemma keeps_state: "keeps P m Q \<Longrightarrow> P s \<Longrightarrow> P (snd (m s))"
  by (simp add: keeps_def)

lemma keeps_value: "keeps P m Q \<Longrightarrow> P s \<Longrightarrow> m s = (Inr a, s') \<Longrightarrow> Q a"
  by (simp add: keeps_def)

lemma keeps_ret [keeps_rules]: "Q a \<Longrightarrow> keeps P (ret a) Q"
  by (simp add: keeps_def)

lemma keeps_raise [keeps_rules]: "keeps P (raise e) Q"
  by (simp add: keeps_def)

lemma keeps_throw_if [keeps_rules]: "keeps P (throw_if b e) (\<lambda>_. \<not> b)"
  by (simp add: keeps_def)

lemma keeps_and_then [keeps_rules]:
  assumes "keeps P m Q" "\<And>a. Q a \<Longrightarrow> keeps P (k a) R"
  shows "keeps P (and_then m k) R"
proof (rule keepsI)
  fix s assume "P s"
  obtain r s' where ms: "m s = (r, s')" by (cases "m s")
  with assms(1) \<open>P s\<close> have P': "P s'" and Q: "\<And>a. r = Inr a \<Longrightarrow> Q a"
    by (auto simp: keeps_def dest: spec [of _ s])
  show "P (snd (and_then m k s))"
    using ms P' Q keeps_state [OF assms(2)] by (cases r) (simp_all add: and_then_def)
  fix b assume "fst (and_then m k s) = Inr b"
  then show "R b"
    using ms P' Q assms(2) by (cases r) (auto simp: and_then_def keeps_def)
qed

lemma keeps_attempt [keeps_rules]:
  assumes "keeps P m Q" "\<And>e. keeps P (h e) Q"
  shows "keeps P (attempt m h) Q"
proof (rule keepsI)
  fix s assume "P s"
  obtain r s' where ms: "m s = (r, s')" by (cases "m s")
  with assms(1) \<open>P s\<close> have P': "P s'" and Q: "\<And>a. r = Inr a \<Longrightarrow> Q a"
    by (auto simp: keeps_def dest: spec [of _ s])
  show "P (snd (attempt m h s))"
    using ms P' keeps_state [OF assms(2)] by (cases r) (simp_all add: attempt_def)
  fix b assume "fst (attempt m h s) = Inr b"
  then show "Q b"
    using ms P' Q assms(2) by (cases r) (auto simp: attempt_def keeps_def)
qed

lemma keeps_map_error [keeps_rules]: "keeps P m Q \<Longrightarrow> keeps P (map_error f m) Q"
  by (auto simp: keeps_def map_error_def split: prod.splits sum.splits)

lemma keeps_lift_sum [keeps_rules]: "(\<And>a. r = Inr a \<Longrightarrow> Q a) \<Longrightarrow> keeps P (lift_sum r) Q"
  by (simp add: keeps_def)

lemma keeps_modify: "(\<And>s. P s \<Longrightarrow> P (f s)) \<Longrightarrow> keeps P (modify f) (\<lambda>_. True)"
  by (simp add: keeps_def)

lemma keeps_if [keeps_rules]:
  "(b \<Longrightarrow> keeps P m Q) \<Longrightarrow> (\<not> b \<Longrightarrow> keeps P n Q) \<Longrightarrow> keeps P (if b then m else n) Q"
  by simp

lemma keeps_option [keeps_rules]:
  "(x = None \<Longrightarrow> keeps P m Q) \<Longrightarrow> (\<And>a. x = Some a \<Longrightarrow> keeps P (k a) Q) \<Longrightarrow>
   keeps P (case x of None \<Rightarrow> m | Some a \<Rightarrow> k a) Q"
  by (cases x) simp_all

lemma keeps_weaken: "keeps P m Q \<Longrightarrow> (\<And>a. Q a \<Longrightarrow> R a) \<Longrightarrow> keeps P m R"
  by (simp add: keeps_def)

lemma keeps_seq_acts [keeps_rules]:
  "(\<And>x. x \<in> set xs \<Longrightarrow> keeps P (f x) (\<lambda>_. True)) \<Longrightarrow> keeps P (seq_acts f xs) (\<lambda>_. True)"
  by (induction xs) (auto intro!: keeps_rules)

end
