(* ===== verification/Redis_Store.thy ===== *)
theory Redis_Store
  imports Effects
begin

text \<open>
  Redis as cart-service uses it, and the compare-and-swap built on it
  (\<^verbatim>\<open>services/cart-service/src/cart.ts\<close>: \<^verbatim>\<open>CAS_SCRIPT\<close> and the method \<^verbatim>\<open>cas\<close>).

  \<^item> The server is not part of the repository: \<open>redis_ops\<close> is the record of the commands the code
    issues and the locale \<open>redis\<close> states their documented laws. \<open>mem_ops\<close> is an in-memory server
    that satisfies them.
  \<^item> \<open>cas_script\<close> is the Lua script, which the server runs atomically.
  \<^item> Every command is awaited, so other requests and other pods may run before it: \<open>redis_call\<close>
    first applies \<open>others\<close>, an arbitrary function on the whole state. A server that is down rejects
    the command.
  \<^item> \<^verbatim>\<open>cas\<close> reloads the script and calls itself when the server has forgotten it. Nothing bounds
    that recursion in the source; the model takes fuel, and \<open>cas_returns\<close> shows that two rounds are
    enough unless the script cache is flushed between the load and the call.
  \<^item> The locale \<open>cas_cell\<close> is what the rest of the service relies on: a versioned cell that one
    writer at a time can swap.
\<close>

section \<open>The server\<close>

text \<open>A stored value: a plain string, the decimal rendering of an integer, or the JSON text of a
  value of type \<open>'v\<close>.\<close>

datatype 'v rval = RText string | RInt int | RJson 'v

record ('s, 'v) redis_ops =
  r_hget :: "string \<Rightarrow> string \<Rightarrow> 's \<Rightarrow> 'v rval option"
  r_hset :: "string \<Rightarrow> (string \<times> 'v rval) list \<Rightarrow> 's \<Rightarrow> 's"
  r_expire :: "string \<Rightarrow> int \<Rightarrow> 's \<Rightarrow> 's"
  r_ttl :: "string \<Rightarrow> 's \<Rightarrow> int option"
  r_get :: "string \<Rightarrow> 's \<Rightarrow> string option"
  r_set_ex :: "string \<Rightarrow> string \<Rightarrow> int \<Rightarrow> 's \<Rightarrow> 's"
  r_del :: "string \<Rightarrow> 's \<Rightarrow> 's"
  r_script_load :: "string \<Rightarrow> 's \<Rightarrow> string \<times> 's"
  r_script_exists :: "string \<Rightarrow> 's \<Rightarrow> bool"
  r_down :: "'s \<Rightarrow> bool"

datatype redis_error = RedisDown | NoScript | StillRetrying

section \<open>The script\<close>

fun tonumber :: "'v rval \<Rightarrow> int option" where
  "tonumber (RInt n) = Some n"
| "tonumber _ = None"

definition cas_script ::
  "('s, 'v) redis_ops \<Rightarrow> string \<Rightarrow> int \<Rightarrow> 'v \<Rightarrow> int \<Rightarrow> 's \<Rightarrow> int \<times> 's" where
  "cas_script ops k expected payload ttl s =
     (let current = r_hget ops k ''version'' s
      in if current \<noteq> None \<and> tonumber (the current) \<noteq> Some expected then (-1, s)
         else let nextVersion =
                    nullish (case current of None \<Rightarrow> None | Some c \<Rightarrow> tonumber c) 0 + 1;
                  s1 = r_hset ops k [(''data'', RJson payload), (''version'', RInt nextVersion)] s
              in (nextVersion, r_expire ops k ttl s1))"

section \<open>The client\<close>

text \<open>The part of a service's state that the client touches: the server's data and the digest of the
  script the process has loaded.\<close>

record 's rclient =
  rc_redis :: 's
  rc_casSha :: "string option"

definition redis_call ::
  "('s, 'v) redis_ops \<Rightarrow> (('s, 'z) rclient_scheme \<Rightarrow> ('s, 'z) rclient_scheme) \<Rightarrow> ('s \<Rightarrow> 'a \<times> 's) \<Rightarrow>
   (('s, 'z) rclient_scheme, redis_error, 'a) act" where
  "redis_call ops others f s =
     (let s1 = others s
      in if r_down ops (rc_redis s1) then (Inl RedisDown, s1)
         else let (a, r) = f (rc_redis s1) in (Inr a, s1\<lparr>rc_redis := r\<rparr>))"

definition evalsha ::
  "('s, 'v) redis_ops \<Rightarrow> (('s, 'z) rclient_scheme \<Rightarrow> ('s, 'z) rclient_scheme) \<Rightarrow> string \<Rightarrow>
   string \<Rightarrow> int \<Rightarrow> 'v \<Rightarrow> int \<Rightarrow> (('s, 'z) rclient_scheme, redis_error, int) act" where
  "evalsha ops others sha k ver payload ttl =
     and_then
       (redis_call ops others
          (\<lambda>r. if r_script_exists ops sha r
               then (let (n, r') = cas_script ops k ver payload ttl r in (Some n, r'))
               else (None, r)))
       (\<lambda>n. case n of None \<Rightarrow> raise NoScript | Some v \<Rightarrow> ret v)"

text \<open>The text of the script, which \<^verbatim>\<open>SCRIPT LOAD\<close> sends; its effect is \<open>cas_script\<close>.\<close>

definition CAS_SCRIPT :: string where
  "CAS_SCRIPT = ''compare-and-swap''"

definition load_sha ::
  "('s, 'v) redis_ops \<Rightarrow> (('s, 'z) rclient_scheme \<Rightarrow> ('s, 'z) rclient_scheme) \<Rightarrow>
   (('s, 'z) rclient_scheme, redis_error, string) act" where
  "load_sha ops others =
     and_then (asks rc_casSha)
       (\<lambda>sha. if truthy sha then ret (the sha)
               else and_then (redis_call ops others (r_script_load ops CAS_SCRIPT))
                      (\<lambda>h. and_then (modify (rc_casSha_update (\<lambda>_. Some h))) (\<lambda>_. ret h)))"

fun cas ::
  "('s, 'v) redis_ops \<Rightarrow> (('s, 'z) rclient_scheme \<Rightarrow> ('s, 'z) rclient_scheme) \<Rightarrow> nat \<Rightarrow>
   string \<Rightarrow> int \<Rightarrow> 'v \<Rightarrow> int \<Rightarrow> (('s, 'z) rclient_scheme, redis_error, int) act" where
  "cas ops others 0 k ver payload ttl = raise StillRetrying"
| "cas ops others (Suc fuel) k ver payload ttl =
     and_then (load_sha ops others)
       (\<lambda>sha. attempt (evalsha ops others sha k ver payload ttl)
          (\<lambda>e. if e = NoScript
               then and_then (modify (rc_casSha_update (\<lambda>_. None)))
                      (\<lambda>_. cas ops others fuel k ver payload ttl)
               else raise e))"

text \<open>\<^verbatim>\<open>HMGET key data version\<close>\<close>

definition hmget_cell ::
  "('s, 'v) redis_ops \<Rightarrow> string \<Rightarrow> 's \<Rightarrow> 'v rval option \<times> 'v rval option" where
  "hmget_cell ops k s = (r_hget ops k ''data'' s, r_hget ops k ''version'' s)"

text \<open>The version the script compares with, and the value beside it.\<close>

definition cell_version :: "('s, 'v) redis_ops \<Rightarrow> string \<Rightarrow> 's \<Rightarrow> int option" where
  "cell_version ops k s = (case r_hget ops k ''version'' s of Some (RInt n) \<Rightarrow> Some n | _ \<Rightarrow> None)"

definition cell_value :: "('s, 'v) redis_ops \<Rightarrow> string \<Rightarrow> 's \<Rightarrow> 'v option" where
  "cell_value ops k s = (case r_hget ops k ''data'' s of Some (RJson v) \<Rightarrow> Some v | _ \<Rightarrow> None)"

text \<open>A key whose version field, if present, is a count of writes.\<close>

definition cell_ok :: "('s, 'v) redis_ops \<Rightarrow> string \<Rightarrow> 's \<Rightarrow> bool" where
  "cell_ok ops k s = (case r_hget ops k ''version'' s of None \<Rightarrow> True | Some (RInt n) \<Rightarrow> 0 \<le> n | _ \<Rightarrow> False)"

section \<open>An in-memory server\<close>

record 'v mem =
  m_hash :: "((string \<times> string) \<times> 'v rval) list"
  m_text :: "(string \<times> string) list"
  m_ttl :: "(string \<times> int) list"
  m_scripts :: "string list"

definition mem_empty :: "'v mem" where
  "mem_empty = \<lparr>m_hash = [], m_text = [], m_ttl = [], m_scripts = []\<rparr>"

text \<open>An association list without the entries of a key.\<close>

definition without :: "('k \<Rightarrow> bool) \<Rightarrow> ('k \<times> 'w) list \<Rightarrow> ('k \<times> 'w) list" where
  "without p xs = filter (\<lambda>(x, v). \<not> p x) xs"

definition mem_del :: "string \<Rightarrow> 'v mem \<Rightarrow> 'v mem" where
  "mem_del k m = \<lparr>m_hash = without (\<lambda>(h, f). h = k) (m_hash m), m_text = without (\<lambda>h. h = k) (m_text m),
     m_ttl = without (\<lambda>h. h = k) (m_ttl m), m_scripts = m_scripts m\<rparr>"

definition mem_ops :: "('v mem, 'v) redis_ops" where
  "mem_ops = \<lparr>
     r_hget = (\<lambda>k f m. map_of (m_hash m) (k, f)),
     r_hset = (\<lambda>k fvs. m_hash_update (\<lambda>h. map (\<lambda>(f, v). ((k, f), v)) fvs @ h)),
     r_expire = (\<lambda>k n m. if 0 < n then m_ttl_update (\<lambda>h. (k, n) # h) m else mem_del k m),
     r_ttl = (\<lambda>k m. map_of (m_ttl m) k),
     r_get = (\<lambda>k m. map_of (m_text m) k),
     r_set_ex = (\<lambda>k t n m. m_ttl_update (\<lambda>h. (k, n) # h) (m_text_update (\<lambda>h. (k, t) # h) (mem_del k m))),
     r_del = mem_del,
     r_script_load = (\<lambda>src m. (''sha:'' @ src, m\<lparr>m_scripts := (''sha:'' @ src) # m_scripts m\<rparr>)),
     r_script_exists = (\<lambda>sha m. sha \<in> set (m_scripts m)),
     r_down = (\<lambda>m. False)\<rparr>"

section \<open>A versioned cell\<close>

text \<open>Any number of swaps, one after another: the versions they returned and the final state.\<close>

fun swaps :: "(int \<Rightarrow> 'v \<Rightarrow> 's \<Rightarrow> int \<times> 's) \<Rightarrow> (int \<times> 'v) list \<Rightarrow> 's \<Rightarrow> int list \<times> 's" where
  "swaps swap [] s = ([], s)"
| "swaps swap ((e, x) # ws) s =
     (let (n, s1) = swap e x s; (ns, s2) = swaps swap ws s1 in (n # ns, s2))"

text \<open>The writes that were accepted.\<close>

definition accepted :: "(int \<times> 'v) list \<Rightarrow> int list \<Rightarrow> (int \<times> 'v) list" where
  "accepted ws ns = map fst (filter (\<lambda>(w, n). n \<noteq> -1) (zip ws ns))"

locale cas_cell =
  fixes ver :: "'s \<Rightarrow> int option"
    and val :: "'s \<Rightarrow> 'v option"
    and swap :: "int \<Rightarrow> 'v \<Rightarrow> 's \<Rightarrow> int \<times> 's"
    and ok :: "'s \<Rightarrow> bool"
  assumes swap_stale: "ok s \<Longrightarrow> ver s = Some v \<Longrightarrow> v \<noteq> e \<Longrightarrow> swap e x s = (-1, s)"
    and swap_fresh: "ok s \<Longrightarrow> ver s = None \<or> ver s = Some e \<Longrightarrow> swap e x s = (n, s') \<Longrightarrow>
      n = nullish (ver s) 0 + 1 \<and> ver s' = Some n \<and> val s' = Some x \<and> ok s'"
begin

lemma swap_cases:
  assumes "ok s" "ver s = Some v" "0 \<le> v"
  shows "if e = v then fst (swap e x s) = v + 1 \<and> ver (snd (swap e x s)) = Some (v + 1) \<and>
                       val (snd (swap e x s)) = Some x \<and> ok (snd (swap e x s))
         else swap e x s = (-1, s)"
  using swap_stale [OF assms(1,2)] swap_fresh [of s e x "fst (swap e x s)" "snd (swap e x s)"] assms
  by auto

text \<open>The versions of the accepted writes are consecutive, each was made against the version it
  names, and the last of them is what the cell holds.\<close>

lemma swaps_accepted:
  assumes "ok s" "ver s = Some v" "0 \<le> v" "swaps swap ws s = (ns, s')"
  shows "map fst (accepted ws ns) = [v .. v + int (length (accepted ws ns)) - 1] \<and>
    ver s' = Some (v + int (length (accepted ws ns))) \<and>
    val s' = (if accepted ws ns = [] then val s else Some (snd (last (accepted ws ns)))) \<and> ok s'"
  using assms
proof (induction ws arbitrary: s v ns)
  case Nil
  then show ?case by (simp add: accepted_def)
next
  case (Cons w ws)
  obtain e x where w: "w = (e, x)" by (cases w)
  obtain n s1 where n: "swap e x s = (n, s1)" by (cases "swap e x s")
  obtain ns' where ns: "ns = n # ns'" and rest: "swaps swap ws s1 = (ns', s')"
    using Cons.prems(4) w n by (auto split: prod.splits)
  show ?case
  proof (cases "e = v")
    case True
    with swap_cases [OF Cons.prems(1-3), of e x] n
    have s1: "ok s1" "ver s1 = Some (v + 1)" "val s1 = Some x" "n = v + 1"
      by auto
    have acc: "accepted (w # ws) ns = w # accepted ws ns'"
      using s1(4) Cons.prems(3) by (simp add: accepted_def ns)
    have "[v .. v + int (length (accepted (w # ws) ns)) - 1] =
        v # [v + 1 .. v + int (length (accepted (w # ws) ns)) - 1]"
      by (rule upto_rec1) (simp add: acc)
    then show ?thesis
      using Cons.IH [OF s1(1,2) _ rest] Cons.prems(3) s1(3) w True acc by (simp add: algebra_simps)
  next
    case False
    with swap_cases [OF Cons.prems(1-3), of e x] n have s1: "n = -1" "s1 = s"
      by auto
    then have "accepted (w # ws) ns = accepted ws ns'"
      by (simp add: accepted_def ns)
    then show ?thesis
      using Cons.IH [OF Cons.prems(1-3)] rest s1(2) by simp
  qed
qed

end

section \<open>The laws of the server\<close>

text \<open>\<^verbatim>\<open>SET\<close> discards whatever the key held, a hash included.\<close>

locale redis =
  fixes ops :: "('s, 'v) redis_ops"
  assumes hget_hset: "distinct (map fst fvs) \<Longrightarrow> r_hget ops k f (r_hset ops k fvs s) =
      nullish2 (map_of fvs f) (r_hget ops k f s)"
    and hget_hset_other: "k' \<noteq> k \<Longrightarrow> r_hget ops k' f (r_hset ops k fvs s) = r_hget ops k' f s"
    and hget_expire: "0 < ttl \<Longrightarrow> r_hget ops k' f (r_expire ops k ttl s) = r_hget ops k' f s"
    and hget_set: "r_hget ops k' f (r_set_ex ops k t ttl s) = (if k' = k then None else r_hget ops k' f s)"
    and hget_del: "r_hget ops k' f (r_del ops k s) = (if k' = k then None else r_hget ops k' f s)"
    and hget_load: "r_hget ops k f (snd (r_script_load ops src s)) = r_hget ops k f s"
    and get_hset: "k' \<noteq> k \<Longrightarrow> r_get ops k' (r_hset ops k fvs s) = r_get ops k' s"
    and get_expire: "0 < ttl \<Longrightarrow> r_get ops k' (r_expire ops k ttl s) = r_get ops k' s"
    and get_set: "0 < ttl \<Longrightarrow> r_get ops k' (r_set_ex ops k t ttl s) = (if k' = k then Some t else r_get ops k' s)"
    and get_del: "k' \<noteq> k \<Longrightarrow> r_get ops k' (r_del ops k s) = r_get ops k' s"
    and get_load: "r_get ops k (snd (r_script_load ops src s)) = r_get ops k s"
    and ttl_expire: "0 < ttl \<Longrightarrow> r_hget ops k f s \<noteq> None \<Longrightarrow> r_ttl ops k (r_expire ops k ttl s) = Some ttl"
    and load_exists: "r_script_load ops src s = (sha, s') \<Longrightarrow> r_script_exists ops sha s' \<and> sha \<noteq> []"
begin

lemma cas_script_stale:
  "cell_ok ops k s \<Longrightarrow> cell_version ops k s = Some v \<Longrightarrow> v \<noteq> e \<Longrightarrow> cas_script ops k e x ttl s = (-1, s)"
  by (auto simp: cas_script_def cell_ok_def cell_version_def split: option.splits rval.splits)

lemma cas_script_fresh:
  assumes "0 < ttl" "cell_ok ops k s" "cell_version ops k s = None \<or> cell_version ops k s = Some e"
    and "cas_script ops k e x ttl s = (n, s')"
  shows "n = nullish (cell_version ops k s) 0 + 1 \<and> cell_version ops k s' = Some n \<and>
    cell_value ops k s' = Some x \<and> cell_ok ops k s' \<and> r_ttl ops k s' = Some ttl"
proof -
  let ?s1 = "r_hset ops k [(''data'', RJson x), (''version'', RInt n)] s"
  have eq: "n = nullish (cell_version ops k s) 0 + 1 \<and> s' = r_expire ops k ttl ?s1"
    using assms(2-4)
    by (cases "r_hget ops k ''version'' s")
      (auto simp: cas_script_def cell_ok_def cell_version_def Let_def split: rval.splits)
  have d: "r_hget ops k ''data'' ?s1 = Some (RJson x)" and v: "r_hget ops k ''version'' ?s1 = Some (RInt n)"
    by (simp_all add: hget_hset)
  have "0 \<le> n"
    using eq assms(2)
    by (auto simp: cell_ok_def cell_version_def split: option.splits rval.splits)
  moreover have "r_hget ops k ''data'' s' = Some (RJson x)" "r_hget ops k ''version'' s' = Some (RInt n)"
    "r_ttl ops k s' = Some ttl"
    using eq d v assms(1) by (simp_all add: hget_expire ttl_expire [where f = "''version''"])
  ultimately show ?thesis
    using eq by (intro conjI) (simp_all add: cell_version_def cell_value_def cell_ok_def)
qed

lemma cas_script_minus:
  assumes "0 < ttl" "cell_ok ops k s" "cas_script ops k e x ttl s = (-1, s')"
  shows "s' = s"
  using assms
  by (cases "r_hget ops k ''version'' s")
    (auto simp: cas_script_def cell_ok_def Let_def split: rval.splits if_splits)

lemma cas_script_other [frame_simps]:
  assumes "0 < ttl" "k' \<noteq> k"
  shows "r_hget ops k' f (snd (cas_script ops k e x ttl s)) = r_hget ops k' f s"
    and "r_get ops k' (snd (cas_script ops k e x ttl s)) = r_get ops k' s"
  using assms by (simp_all add: cas_script_def Let_def hget_expire hget_hset_other get_expire get_hset)

end

sublocale redis \<subseteq> cell: cas_cell "cell_version ops k" "cell_value ops k"
    "\<lambda>e x. cas_script ops k e x (1 + int ttl)" "cell_ok ops k" for k ttl
proof
  fix s v e x
  assume "cell_ok ops k s" "cell_version ops k s = Some v" "v \<noteq> e"
  then show "cas_script ops k e x (1 + int ttl) s = (-1, s)"
    by (rule cas_script_stale)
next
  fix s e x n s'
  assume "cell_ok ops k s" "cell_version ops k s = None \<or> cell_version ops k s = Some e"
    and "cas_script ops k e x (1 + int ttl) s = (n, s')"
  then show "n = nullish (cell_version ops k s) 0 + 1 \<and> cell_version ops k s' = Some n \<and>
      cell_value ops k s' = Some x \<and> cell_ok ops k s'"
    using cas_script_fresh [of "1 + int ttl" k s e x n s'] by simp
qed

context redis
begin

lemmas writers_serialised = cell.swaps_accepted

end

section \<open>What \<^verbatim>\<open>cas\<close> does\<close>

text \<open>A property of the state that the service's own bookkeeping (loading the script, remembering
  its digest) and the interference of others respect.\<close>

definition undisturbed ::
  "('s, 'v) redis_ops \<Rightarrow> (('s, 'z) rclient_scheme \<Rightarrow> ('s, 'z) rclient_scheme) \<Rightarrow>
   (('s, 'z) rclient_scheme \<Rightarrow> bool) \<Rightarrow> bool" where
  "undisturbed ops others P =
     ((\<forall>s. P s \<longrightarrow> P (others s)) \<and> (\<forall>s h. P s \<longrightarrow> P (s\<lparr>rc_casSha := h\<rparr>)) \<and>
      (\<forall>s. P s \<longrightarrow> P (s\<lparr>rc_redis := snd (r_script_load ops CAS_SCRIPT (rc_redis s))\<rparr>)))"

lemma undisturbedD:
  assumes "undisturbed ops others P" "P s"
  shows "P (others s)" "P (s\<lparr>rc_casSha := h\<rparr>)"
    "P (s\<lparr>rc_redis := snd (r_script_load ops CAS_SCRIPT (rc_redis s))\<rparr>)"
  using assms by (simp_all add: undisturbed_def)

lemma redis_call_cases:
  obtains (down) "redis_call ops others f s = (Inl RedisDown, others s)"
  | (returned) a r where "f (rc_redis (others s)) = (a, r)"
      and "redis_call ops others f s = (Inr a, (others s)\<lparr>rc_redis := r\<rparr>)"
  by (cases "f (rc_redis (others s))"; cases "r_down ops (rc_redis (others s))")
    (auto simp: redis_call_def Let_def)

lemma load_sha_keeps:
  assumes "undisturbed ops others P" "P s"
  shows "P (snd (load_sha ops others s))"
proof (cases "truthy (rc_casSha s)")
  case True
  with assms show ?thesis by (simp add: load_sha_def)
next
  case False
  show ?thesis
  proof (cases rule: redis_call_cases
      [of ops others "r_script_load ops CAS_SCRIPT" s, case_names down returned])
    case down
    with False show ?thesis
      using undisturbedD(1) [OF assms] by (simp add: load_sha_def and_then_def)
  next
    case (returned a r)
    have "P ((others s)\<lparr>rc_redis := r\<rparr>)"
      using undisturbedD(3) [OF assms(1) undisturbedD(1) [OF assms]] returned(1) by simp
    then have "P ((others s)\<lparr>rc_redis := r, rc_casSha := Some a\<rparr>)"
      using undisturbedD(2) [OF assms(1)] by blast
    with returned False show ?thesis
      by (simp add: load_sha_def and_then_def)
  qed
qed

lemma evalsha_cases:
  obtains (down) "r_down ops (rc_redis (others s))"
      "evalsha ops others sha k e x ttl s = (Inl RedisDown, others s)"
  | (noscript) "\<not> r_script_exists ops sha (rc_redis (others s))"
      "evalsha ops others sha k e x ttl s = (Inl NoScript, others s)"
  | (ran) n r where "cas_script ops k e x ttl (rc_redis (others s)) = (n, r)"
      "evalsha ops others sha k e x ttl s = (Inr n, (others s)\<lparr>rc_redis := r\<rparr>)"
  by (cases "r_down ops (rc_redis (others s))"; cases "r_script_exists ops sha (rc_redis (others s))";
      cases "cas_script ops k e x ttl (rc_redis (others s))")
    (simp_all add: evalsha_def redis_call_def and_then_def)

text \<open>However often it retried, \<^verbatim>\<open>cas\<close> either ran the script exactly once, as its last step, on a
  state that still has every undisturbed property, or failed without running it.\<close>

lemma cas_outcome:
  assumes "undisturbed ops others P" "P s"
  shows "(\<exists>e. fst (cas ops others fuel k ver x ttl s) = Inl e \<and> P (snd (cas ops others fuel k ver x ttl s))) \<or>
    (\<exists>s1 n r. P s1 \<and> cas_script ops k ver x ttl (rc_redis s1) = (n, r) \<and>
       cas ops others fuel k ver x ttl s = (Inr n, s1\<lparr>rc_redis := r\<rparr>))"
  using assms(2)
proof (induction fuel arbitrary: s)
  case 0
  then show ?case by simp
next
  case (Suc fuel)
  obtain q s' where q: "load_sha ops others s = (q, s')" by (cases "load_sha ops others s")
  then have P': "P s'"
    using load_sha_keeps [OF assms(1) Suc.prems] by simp
  show ?case
  proof (cases q)
    case (Inl e)
    with q P' show ?thesis by (simp add: and_then_Inl)
  next
    case (Inr sha)
    have po: "P (others s')"
      using undisturbedD(1) [OF assms(1) P'] .
    show ?thesis
    proof (cases rule: evalsha_cases [where ops = ops and others = others and sha = sha and k = k
        and e = ver and x = x and ttl = ttl and s = s', case_names down noscript ran])
      case down
      with q Inr po show ?thesis by (simp add: and_then_def attempt_def)
    next
      case noscript
      have "P ((others s')\<lparr>rc_casSha := None\<rparr>)"
        using undisturbedD(2) [OF assms(1) po] .
      from Suc.IH [OF this] noscript q Inr show ?thesis
        by (simp add: and_then_def [where m = "load_sha ops others"] attempt_def)
    next
      case (ran n r)
      with q Inr po show ?thesis by (auto simp: and_then_def attempt_def)
    qed
  qed
qed

text \<open>Scripts survive the interference, and the server is up whenever it is called.\<close>

definition steady ::
  "('s, 'v) redis_ops \<Rightarrow> (('s, 'z) rclient_scheme \<Rightarrow> ('s, 'z) rclient_scheme) \<Rightarrow> bool" where
  "steady ops others =
     (\<forall>s. \<not> r_down ops (rc_redis (others s)) \<and>
        (\<forall>sha. r_script_exists ops sha (rc_redis s) \<longrightarrow> r_script_exists ops sha (rc_redis (others s))))"

lemma evalsha_steady:
  assumes "steady ops others" "r_script_exists ops sha (rc_redis s)"
  shows "\<exists>n s'. evalsha ops others sha k e x ttl s = (Inr n, s')"
  using assms
  by (cases "cas_script ops k e x ttl (rc_redis (others s))")
    (simp add: steady_def evalsha_def redis_call_def and_then_def)

lemma cas_after_load:
  assumes "redis ops" "steady ops others" "rc_casSha s = None"
  shows "\<exists>n s'. cas ops others (Suc fuel) k ver x ttl s = (Inr n, s')"
proof -
  obtain sha r where load: "r_script_load ops CAS_SCRIPT (rc_redis (others s)) = (sha, r)"
    by (cases "r_script_load ops CAS_SCRIPT (rc_redis (others s))")
  let ?s = "(others s)\<lparr>rc_redis := r, rc_casSha := Some sha\<rparr>"
  have run: "load_sha ops others s = (Inr sha, ?s)"
    using assms(2,3) load by (simp add: load_sha_def and_then_def redis_call_def steady_def)
  have "r_script_exists ops sha (rc_redis ?s)"
    using redis.load_exists [OF assms(1) load] by simp
  then obtain n s' where "evalsha ops others sha k ver x ttl ?s = (Inr n, s')"
    using evalsha_steady [OF assms(2)] by blast
  with run show ?thesis
    by (simp add: and_then_Inr attempt_Inr)
qed

lemma load_sha_steady:
  assumes "steady ops others"
  shows "\<exists>sha s'. load_sha ops others s = (Inr sha, s')"
  using assms by (cases "r_script_load ops CAS_SCRIPT (rc_redis (others s))")
    (simp add: load_sha_def and_then_def redis_call_def steady_def)

lemma cas_two_rounds:
  assumes "redis ops" "steady ops others"
  shows "\<exists>n s'. cas ops others (Suc (Suc fuel)) k ver x ttl s = (Inr n, s')"
proof -
  obtain sha s1 where load: "load_sha ops others s = (Inr sha, s1)"
    using load_sha_steady [OF assms(2)] by blast
  show ?thesis
  proof (cases rule: evalsha_cases [where ops = ops and others = others and sha = sha and k = k
        and e = ver and x = x and ttl = ttl and s = s1, case_names down noscript ran])
    case down
    then show ?thesis
      using assms(2) by (simp add: steady_def)
  next
    case noscript
    then have "cas ops others (Suc (Suc fuel)) k ver x ttl s =
        cas ops others (Suc fuel) k ver x ttl ((others s1)\<lparr>rc_casSha := None\<rparr>)"
      using load by (subst cas.simps(2)) (simp add: and_then_Inr attempt_Inl del: cas.simps)
    then show ?thesis
      using cas_after_load [OF assms, of "(others s1)\<lparr>rc_casSha := None\<rparr>"] by (simp del: cas.simps)
  next
    case (ran n r)
    with load show ?thesis
      by (simp add: and_then_Inr attempt_Inr)
  qed
qed

lemma map_of_without [simp]: "map_of (without p xs) y = (if p y then None else map_of xs y)"
  by (induction xs) (auto simp: without_def)

lemma map_of_fields: "map_of (map (\<lambda>(f, v). ((k, f), v)) fvs) (k', f) = (if k' = k then map_of fvs f else None)"
  by (induction fvs) auto

interpretation mem: redis mem_ops
  by unfold_locales
    (auto simp: mem_ops_def mem_del_def map_of_fields nullish2_def map_add_def split: option.splits)

section \<open>Properties\<close>



text \<open>C35: Unless the script cache is flushed between a reload and the call that follows it, \<^verbatim>\<open>cas\<close>
  returns within two rounds, whatever digest the process remembered: the retry on \<^verbatim>\<open>NOSCRIPT\<close> does
  not loop.\<close>

theorem cas_returns:
  assumes "redis ops" "steady ops others"
  shows "\<exists>n s'. cas ops others (Suc (Suc fuel)) k ver payload ttl s = (Inr n, s')"
  by (rule cas_two_rounds [OF assms])

theorem cas_returns_witness:
  "\<exists>n s'. cas mem_ops (\<lambda>s. s) (Suc (Suc 0)) ''cart:a'' 0 (1 :: nat) 60
     \<lparr>rc_redis = mem_empty, rc_casSha = Some ''stale digest''\<rparr> = (Inr n, s')"
  by (rule cas_returns [OF mem.redis_axioms]) (simp add: steady_def mem_ops_def)

end
