(* ===== verification/Regex_Match.thy ===== *)
theory Regex_Match
  imports Prelude
begin

text \<open>
  The regular expressions of the contracts. The patterns used with \<^verbatim>\<open>z.string().regex\<close> are all
  anchored (\<^verbatim>\<open>^...$\<close>) and built from character classes, sequence, alternative and repetition,
  so testing one is deciding membership of the whole string in a regular language. \<open>rx\<close> is the
  syntax, \<open>rx_test\<close> the executable test by derivatives, and the lemmas characterise it on each
  constructor, which is how the contract theories read a pattern.
\<close>

section \<open>Patterns and the test\<close>

text \<open>A character class is a list of inclusive ranges.\<close>

datatype rx =
    REps
  | RNone
  | RCls "(char \<times> char) list"
  | RSeq rx rx
  | RAlt rx rx
  | RStar rx

definition in_cls :: "(char \<times> char) list \<Rightarrow> char \<Rightarrow> bool" where
  "in_cls rs c = list_ex (\<lambda>(lo, hi). in_range lo hi c) rs"

fun rx_nullable :: "rx \<Rightarrow> bool" where
  "rx_nullable REps = True"
| "rx_nullable RNone = False"
| "rx_nullable (RCls rs) = False"
| "rx_nullable (RSeq r s) = (rx_nullable r \<and> rx_nullable s)"
| "rx_nullable (RAlt r s) = (rx_nullable r \<or> rx_nullable s)"
| "rx_nullable (RStar r) = True"

fun rx_deriv :: "char \<Rightarrow> rx \<Rightarrow> rx" where
  "rx_deriv c REps = RNone"
| "rx_deriv c RNone = RNone"
| "rx_deriv c (RCls rs) = (if in_cls rs c then REps else RNone)"
| "rx_deriv c (RSeq r s) =
     (if rx_nullable r then RAlt (RSeq (rx_deriv c r) s) (rx_deriv c s) else RSeq (rx_deriv c r) s)"
| "rx_deriv c (RAlt r s) = RAlt (rx_deriv c r) (rx_deriv c s)"
| "rx_deriv c (RStar r) = RSeq (rx_deriv c r) (RStar r)"

fun rx_test :: "rx \<Rightarrow> string \<Rightarrow> bool" where
  "rx_test r [] = rx_nullable r"
| "rx_test r (c # cs) = rx_test (rx_deriv c r) cs"

section \<open>Derived forms\<close>

definition rx_char :: "char \<Rightarrow> rx" where
  "rx_char c = RCls [(c, c)]"

fun rx_lit :: "string \<Rightarrow> rx" where
  "rx_lit [] = REps"
| "rx_lit (c # cs) = RSeq (rx_char c) (rx_lit cs)"

text \<open>\<open>r{n}\<close> and \<open>r{0,n}\<close>\<close>

fun rx_rep :: "nat \<Rightarrow> rx \<Rightarrow> rx" where
  "rx_rep 0 r = REps"
| "rx_rep (Suc n) r = RSeq r (rx_rep n r)"

fun rx_upto :: "nat \<Rightarrow> rx \<Rightarrow> rx" where
  "rx_upto 0 r = REps"
| "rx_upto (Suc n) r = RAlt REps (RSeq r (rx_upto n r))"

fun rx_seq :: "rx list \<Rightarrow> rx" where
  "rx_seq [] = REps"
| "rx_seq (r # rs) = RSeq r (rx_seq rs)"

definition cls_digit :: "(char \<times> char) list" where
  "cls_digit = [(CHR ''0'', CHR ''9'')]"

definition cls_upper :: "(char \<times> char) list" where
  "cls_upper = [(CHR ''A'', CHR ''Z'')]"

section \<open>Lemmas\<close>

lemma rx_test_RNone [simp]: "\<not> rx_test RNone s"
  by (induction s) simp_all

lemma rx_test_REps [simp]: "rx_test REps s \<longleftrightarrow> s = []"
  by (cases s) simp_all

lemma rx_test_RCls [simp]: "rx_test (RCls rs) s \<longleftrightarrow> (\<exists>c. s = [c] \<and> in_cls rs c)"
  by (cases s) auto

lemma rx_test_RAlt [simp]: "rx_test (RAlt r1 r2) s \<longleftrightarrow> rx_test r1 s \<or> rx_test r2 s"
  by (induction s arbitrary: r1 r2) simp_all

lemma split_Cons:
  "(\<exists>u v. c # s = u @ v \<and> P u v) \<longleftrightarrow> P [] (c # s) \<or> (\<exists>u v. s = u @ v \<and> P (c # u) v)"
proof
  assume "\<exists>u v. c # s = u @ v \<and> P u v"
  then obtain u v where "c # s = u @ v" and "P u v" by blast
  then show "P [] (c # s) \<or> (\<exists>u v. s = u @ v \<and> P (c # u) v)"
    by (cases u) auto
next
  assume "P [] (c # s) \<or> (\<exists>u v. s = u @ v \<and> P (c # u) v)"
  then show "\<exists>u v. c # s = u @ v \<and> P u v"
    by (metis append_Cons append_Nil)
qed

lemma rx_test_RSeq: "rx_test (RSeq r1 r2) s \<longleftrightarrow> (\<exists>u v. s = u @ v \<and> rx_test r1 u \<and> rx_test r2 v)"
proof (induction s arbitrary: r1)
  case Nil
  then show ?case by auto
next
  case (Cons c s)
  have "rx_test (RSeq r1 r2) (c # s) \<longleftrightarrow>
    (rx_nullable r1 \<and> rx_test r2 (c # s)) \<or>
    (\<exists>u v. s = u @ v \<and> rx_test (rx_deriv c r1) u \<and> rx_test r2 v)"
    by (auto simp: Cons.IH)
  then show ?case
    by (simp only: split_Cons rx_test.simps)
qed

lemma rx_test_char_seq [simp]:
  "rx_test (RSeq (RCls rs) r) s \<longleftrightarrow> (\<exists>c t. s = c # t \<and> in_cls rs c \<and> rx_test r t)"
  by (cases s) (auto simp: rx_test_RSeq split_Cons)

lemma rx_test_eps_seq [simp]: "rx_test (RSeq REps r) s \<longleftrightarrow> rx_test r s"
  by (auto simp: rx_test_RSeq)

lemma rx_test_none_seq [simp]: "\<not> rx_test (RSeq RNone r) s"
  by (auto simp: rx_test_RSeq)

lemma in_cls_single [simp]: "in_cls [(c, c)] d \<longleftrightarrow> d = c"
  by (auto simp: in_cls_def in_range_def)

lemma rx_test_lit [simp]: "rx_test (rx_lit p) s \<longleftrightarrow> s = p"
  by (induction p arbitrary: s) (auto simp: rx_char_def)

lemma rx_test_lit_seq: "rx_test (RSeq (rx_lit p) r) s \<longleftrightarrow> (\<exists>t. s = p @ t \<and> rx_test r t)"
  by (auto simp: rx_test_RSeq)

lemma rx_test_rep_cls [simp]:
  "rx_test (rx_rep n (RCls rs)) s \<longleftrightarrow> length s = n \<and> list_all (in_cls rs) s"
proof (induction n arbitrary: s)
  case (Suc n)
  show ?case
    by (cases s) (simp_all add: Suc.IH)
qed auto

lemma rx_test_rep_cls_seq:
  "rx_test (RSeq (rx_rep n (RCls rs)) r) s \<longleftrightarrow>
     (\<exists>u v. s = u @ v \<and> length u = n \<and> list_all (in_cls rs) u \<and> rx_test r v)"
  by (auto simp: rx_test_RSeq)

lemma rx_test_star_cls [simp]: "rx_test (RStar (RCls rs)) s \<longleftrightarrow> list_all (in_cls rs) s"
proof (induction s)
  case (Cons c s)
  then show ?case
    by (cases "in_cls rs c") (simp_all add: rx_test_RSeq)
qed simp

lemma rx_test_seq_one [simp]: "rx_test (RSeq r REps) s \<longleftrightarrow> rx_test r s"
  by (auto simp: rx_test_RSeq)

declare rx_lit.simps [simp del] rx_seq.simps [simp del]

end
