(* ===== verification/Js_Number.thy ===== *)
theory Js_Number
  imports Complex_Main Prelude "HOL-Library.Log_Nat"
begin

text \<open>
  JavaScript numbers. A number is an IEEE-754 binary64 value, so every arithmetic operation
  rounds its exact result to a 53-bit significand, ties to even. \<open>fl64\<close> is that rounding on
  rationals; overflow to infinity and subnormals are outside the range any value of the
  program takes and are not modelled. The operations of the source are then \<open>fl64\<close> of the
  exact operation: \<open>js_add\<close>, \<open>js_mul\<close> on integers, \<open>js_div\<close> and \<open>js_times\<close> on rationals.

  The lemmas show what the components rely on: integers of the safe range are exact
  (\<open>num_safe\<close>), rounding is monotone (\<open>fl64_mono\<close>) and leaves small integers alone
  (\<open>fl64_of_int\<close>), so a quotient that lies between two integers still does after rounding.
\<close>

section \<open>Rounding to binary64\<close>

text \<open>The exponent of the leading bit of a positive rational.\<close>

definition ilog2 :: "rat \<Rightarrow> int" where
  "ilog2 x =
     (let (p, q) = quotient_of x; e = bitlen p - bitlen q
      in if 2 powi e \<le> x then e else e - 1)"

text \<open>Round to the nearest integer, ties to even.\<close>

definition rne :: "rat \<Rightarrow> int" where
  "rne x =
     (let f = \<lfloor>x\<rfloor>; d = x - of_int f
      in if d < 1 / 2 then f else if d > 1 / 2 then f + 1 else if even f then f else f + 1)"

definition fl64 :: "rat \<Rightarrow> rat" where
  "fl64 x =
     (if x = 0 then 0
      else let u = 2 powi (ilog2 \<bar>x\<bar> - 52) in of_int (rne (x / u)) * u)"

text \<open>The largest safe integer, \<open>Number.MAX_SAFE_INTEGER\<close>.\<close>

definition MAX_SAFE_INTEGER :: int where
  "MAX_SAFE_INTEGER = 9007199254740991"

definition is_safe :: "int \<Rightarrow> bool" where
  "is_safe n = (\<bar>n\<bar> \<le> MAX_SAFE_INTEGER)"

section \<open>The operations of the source\<close>

text \<open>An integer as a JavaScript number: exact in the safe range, rounded beyond it.\<close>

definition num :: "int \<Rightarrow> int" where
  "num z = \<lfloor>fl64 (of_int z)\<rfloor>"

definition js_add :: "int \<Rightarrow> int \<Rightarrow> int" where
  "js_add a b = num (a + b)"

definition js_mul :: "int \<Rightarrow> int \<Rightarrow> int" where
  "js_mul a b = num (a * b)"

definition js_div :: "rat \<Rightarrow> rat \<Rightarrow> rat" where
  "js_div a b = fl64 (a / b)"

definition js_times :: "rat \<Rightarrow> rat \<Rightarrow> rat" where
  "js_times a b = fl64 (a * b)"

text \<open>\<open>Math.round\<close> rounds a half upwards.\<close>

definition math_round :: "rat \<Rightarrow> int" where
  "math_round x = \<lfloor>x + 1 / 2\<rfloor>"

section \<open>Lemmas\<close>

lemma two_powi_pos [simp]: "(0::rat) < 2 powi e"
  by (simp add: zero_less_power_int)

lemma two_powi_mono: "a \<le> b \<Longrightarrow> (2::rat) powi a \<le> 2 powi b"
  by (rule power_int_increasing) auto

lemma bitlen_powi:
  assumes "0 < p"
  shows "2 powi (bitlen p - 1) \<le> (of_int p :: rat)" and "(of_int p :: rat) < 2 powi (bitlen p)"
proof -
  have one: "1 \<le> bitlen p"
    using assms bitlen_eq_zero_iff [of p] bitlen_nonneg [of p] by linarith
  have "(of_int (2 ^ nat (bitlen p - 1)) :: rat) \<le> of_int p"
    using bitlen_bounds [OF assms] by (simp only: of_int_le_iff)
  then show "2 powi (bitlen p - 1) \<le> (of_int p :: rat)"
    using one by (simp add: power_int_nonneg_exp)
  have "(of_int p :: rat) < of_int (2 ^ nat (bitlen p))"
    using bitlen_bounds [OF assms] by (simp only: of_int_less_iff)
  then show "(of_int p :: rat) < 2 powi (bitlen p)"
    using one by (simp add: power_int_nonneg_exp)
qed

lemma ilog2_bounds:
  assumes "0 < x"
  shows "2 powi (ilog2 x) \<le> x" and "x < 2 powi (ilog2 x + 1)"
proof -
  obtain p q where pq: "quotient_of x = (p, q)"
    by (cases "quotient_of x")
  have q: "0 < q"
    using pq quotient_of_denom_pos by blast
  have x: "x = of_int p / of_int q"
    using pq quotient_of_div by blast
  have p: "0 < p"
    using assms q by (auto simp: x zero_less_divide_iff)
  have lo: "2 powi (bitlen p - bitlen q - 1) \<le> x"
  proof -
    have "(2::rat) powi (bitlen p - 1) / 2 powi (bitlen q) \<le> of_int p / of_int q"
      using bitlen_powi [OF p] bitlen_powi [OF q] p q by (intro frac_le) auto
    then show ?thesis
      by (simp add: x power_int_diff power_int_add algebra_simps)
  qed
  have hi: "x < 2 powi (bitlen p - bitlen q + 1)"
  proof -
    have "(of_int p :: rat) / of_int q < 2 powi (bitlen p) / 2 powi (bitlen q - 1)"
      using bitlen_powi [OF p] bitlen_powi [OF q] p by (intro frac_less) auto
    then show ?thesis
      by (simp add: x power_int_diff power_int_add algebra_simps)
  qed
  show "2 powi (ilog2 x) \<le> x"
    using lo by (simp add: ilog2_def pq Let_def)
  show "x < 2 powi (ilog2 x + 1)"
    using hi by (auto simp: ilog2_def pq Let_def)
qed

lemma ilog2_mono:
  assumes "0 < x" "x \<le> y"
  shows "ilog2 x \<le> ilog2 y"
proof (rule ccontr)
  assume "\<not> ilog2 x \<le> ilog2 y"
  then have "(2::rat) powi (ilog2 y + 1) \<le> 2 powi (ilog2 x)"
    by (intro two_powi_mono) simp
  with ilog2_bounds [of x] ilog2_bounds [of y] assms show False
    by linarith
qed

lemma rne_of_int [simp]: "rne (of_int n) = n"
  by (simp add: rne_def)

lemma rne_floor: "\<lfloor>x\<rfloor> \<le> rne x" "rne x \<le> \<lfloor>x\<rfloor> + 1"
  by (auto simp: rne_def Let_def)

lemma rne_mono:
  assumes "x \<le> y"
  shows "rne x \<le> rne y"
proof (cases "\<lfloor>x\<rfloor> = \<lfloor>y\<rfloor>")
  case True
  with assms show ?thesis
    by (auto simp: rne_def Let_def)
next
  case False
  with assms have "\<lfloor>x\<rfloor> + 1 \<le> \<lfloor>y\<rfloor>"
    using floor_mono [OF assms] by linarith
  then show ?thesis
    using rne_floor [of x] rne_floor [of y] by linarith
qed

lemma fl64_zero [simp]: "fl64 0 = 0"
  by (simp add: fl64_def)

lemma fl64_exact:
  assumes "x = of_int m * 2 powi (ilog2 \<bar>x\<bar> - 52)"
  shows "fl64 x = x"
proof (cases "x = 0")
  case False
  define u where "u = (2::rat) powi (ilog2 \<bar>x\<bar> - 52)"
  have "u \<noteq> 0"
    by (simp add: u_def)
  have "x = of_int m * u"
    using assms by (simp add: u_def)
  with \<open>u \<noteq> 0\<close> have "x / u = of_int m"
    by simp
  then have "fl64 x = of_int m * u"
    using False unfolding fl64_def Let_def u_def by simp
  with \<open>x = of_int m * u\<close> show ?thesis
    by simp
qed simp

lemma fl64_of_int:
  assumes "\<bar>n\<bar> \<le> MAX_SAFE_INTEGER"
  shows "fl64 (of_int n) = of_int n"
proof (cases "n = 0")
  case False
  define e where "e = ilog2 \<bar>of_int n\<bar>"
  have pos: "(0::rat) < \<bar>of_int n\<bar>"
    using False by simp
  have "(2::rat) powi e \<le> of_int \<bar>n\<bar>"
    using ilog2_bounds(1) [OF pos] by (simp add: e_def)
  also have "\<dots> \<le> of_int MAX_SAFE_INTEGER"
    using assms by (simp only: of_int_le_iff)
  also have "\<dots> < (2::rat) powi 53"
    by (simp add: MAX_SAFE_INTEGER_def)
  finally have "e < 53"
    by (metis linorder_not_less two_powi_mono)
  then have k: "0 \<le> 52 - e"
    by simp
  have "(of_int n :: rat) = of_int (n * 2 ^ nat (52 - e)) * 2 powi (e - 52)"
    using k by (simp add: power_int_nonneg_exp [symmetric] mult.assoc power_int_add [symmetric])
  then show ?thesis
    unfolding e_def by (rule fl64_exact)
qed simp

lemma fl64_pos_bounds:
  assumes "0 < x"
  shows "2 powi (ilog2 x) \<le> fl64 x" and "fl64 x \<le> 2 powi (ilog2 x + 1)"
proof -
  define u where "u = (2::rat) powi (ilog2 x - 52)"
  have u: "0 < u"
    by (simp add: u_def)
  have low: "(2::rat) powi (ilog2 x) = of_int (2 ^ 52) * u"
    and high: "(2::rat) powi (ilog2 x + 1) = of_int (2 ^ 53) * u"
    by (simp_all add: u_def power_int_diff power_int_add)
  have "of_int (2 ^ 52) \<le> x / u" and "x / u \<le> of_int (2 ^ 53)"
    using ilog2_bounds [OF assms] u by (simp_all only: low high pos_le_divide_eq pos_divide_le_eq less_imp_le)
  then have "2 ^ 52 \<le> rne (x / u)" and "rne (x / u) \<le> 2 ^ 53"
    by (metis rne_mono rne_of_int)+
  moreover have "fl64 x = of_int (rne (x / u)) * u"
    using assms by (simp add: fl64_def u_def Let_def)
  ultimately show "2 powi (ilog2 x) \<le> fl64 x" and "fl64 x \<le> 2 powi (ilog2 x + 1)"
    using u unfolding low high by (auto intro!: mult_right_mono simp: of_int_le_iff simp del: of_int_power of_int_numeral)
qed

lemma fl64_mono:
  assumes "0 \<le> x" "x \<le> y"
  shows "fl64 x \<le> fl64 y"
proof (cases "x = 0")
  case True
  show ?thesis
  proof (cases "y = 0")
    case False
    with True assms have "0 < y" by simp
    then have "0 \<le> fl64 y"
      using fl64_pos_bounds(1) [of y] two_powi_pos [of "ilog2 y"] by linarith
    with True show ?thesis by simp
  qed (simp add: True)
next
  case False
  with assms have x: "0 < x" and y: "0 < y" by simp_all
  show ?thesis
  proof (cases "ilog2 x = ilog2 y")
    case True
    then show ?thesis
      using x y assms
      by (simp add: fl64_def Let_def rne_mono divide_right_mono mult_right_mono)
  next
    case False
    then have "ilog2 x + 1 \<le> ilog2 y"
      using ilog2_mono [OF x assms(2)] by simp
    then have "(2::rat) powi (ilog2 x + 1) \<le> 2 powi (ilog2 y)"
      by (rule two_powi_mono)
    then show ?thesis
      using fl64_pos_bounds(2) [OF x] fl64_pos_bounds(1) [OF y] by linarith
  qed
qed

lemma fl64_ge_int: "0 \<le> a \<Longrightarrow> a \<le> MAX_SAFE_INTEGER \<Longrightarrow> of_int a \<le> x \<Longrightarrow> of_int a \<le> fl64 x"
  using fl64_mono [of "of_int a" x] fl64_of_int [of a] by simp

lemma fl64_le_int: "0 \<le> x \<Longrightarrow> x \<le> of_int b \<Longrightarrow> b \<le> MAX_SAFE_INTEGER \<Longrightarrow> fl64 x \<le> of_int b"
proof -
  assume "0 \<le> x" "x \<le> of_int b" "b \<le> MAX_SAFE_INTEGER"
  then have "0 \<le> b"
    by (meson of_int_0_le_iff order_trans)
  with \<open>b \<le> MAX_SAFE_INTEGER\<close> show "fl64 x \<le> of_int b"
    using fl64_mono [OF \<open>0 \<le> x\<close> \<open>x \<le> of_int b\<close>] fl64_of_int [of b] by simp
qed

lemma fl64_nonneg: "0 \<le> x \<Longrightarrow> 0 \<le> fl64 x"
  using fl64_mono [of 0 x] by simp

lemma num_safe: "is_safe n \<Longrightarrow> num n = n"
  by (simp add: num_def fl64_of_int is_safe_def)

lemma num_zero [simp]: "num 0 = 0"
  by (simp add: num_def)

lemma math_round_mono: "x \<le> y \<Longrightarrow> math_round x \<le> math_round y"
  by (simp add: math_round_def floor_mono)

lemma math_round_of_int [simp]: "math_round (of_int n) = n"
proof -
  have "of_int n + 1 / 2 < (of_int (n + 1) :: rat)" and "(of_int n :: rat) \<le> of_int n + 1 / 2"
    by simp_all
  then show ?thesis
    by (simp add: math_round_def floor_eq_iff)
qed

lemma rne_near: "\<bar>of_int (rne x) - x\<bar> \<le> 1 / 2"
proof -
  have "of_int \<lfloor>x\<rfloor> \<le> x" "x < of_int \<lfloor>x\<rfloor> + 1" by linarith+
  then show ?thesis
    unfolding rne_def Let_def abs_if by (simp split: if_split) linarith
qed

text \<open>Rounding errs by at most one part in \<open>2\<^sup>5\<^sup>3\<close>.\<close>

lemma fl64_near:
  assumes "0 < x"
  shows "\<bar>fl64 x - x\<bar> \<le> x / 2 ^ 53"
proof -
  define u where "u = (2::rat) powi (ilog2 x - 52)"
  have u: "0 < u" by (simp add: u_def)
  have "u * 2 ^ 52 = 2 powi (ilog2 x)" by (simp add: u_def power_int_diff)
  then have "u \<le> x / 2 ^ 52" using ilog2_bounds(1) [OF assms] by (simp add: field_simps)
  moreover have "fl64 x - x = (of_int (rne (x / u)) - x / u) * u"
    using assms u by (simp add: fl64_def u_def Let_def left_diff_distrib)
  then have "\<bar>fl64 x - x\<bar> \<le> 1 / 2 * u"
    using rne_near [of "x / u"] u by (simp add: abs_mult)
  ultimately show ?thesis by simp
qed

end
