(* ===== verification/Zod_Schema.thy ===== *)
theory Zod_Schema
  imports Complex_Main Regex_Match Js_Number
begin

text \<open>
  The values that cross the service boundaries and the schemas that validate them.

  \<^item> \<open>json\<close> is a JavaScript value as \<^verbatim>\<open>JSON.parse\<close> yields it; \<open>None\<close> of \<open>json option\<close> is \<open>undefined\<close>,
    an absent property.
  \<^item> \<open>schema\<close> is the syntax of the schemas under \<^verbatim>\<open>libs/ts-contracts/src\<close>: one constructor per
    combinator of the zod package the sources use.
  \<^item> Zod itself is not part of the repository. Code that parses takes the parser as an argument,
    and the locale \<open>zod\<close> states the documented meaning of each combinator as its laws. The
    checks whose details are the package's own (the e-mail, URL and UUID formats, and the
    coercion of a query-string value to a number) are the parameter \<open>formats\<close>.
  \<^item> \<open>zparse\<close> is a parser that satisfies the laws; it interprets the locale, and the witnesses of
    the properties run on it.
\<close>

section \<open>Values and schemas\<close>

datatype json =
    JNull
  | JBool bool
  | JNum rat
  | JStr string
  | JArr "json list"
  | JObj "(string \<times> json) list"

datatype scheck = MinLen nat | MaxLen nat | Pattern rx | Email | Url | Uuid

datatype ncheck = IntOnly | SafeInt | AtLeast rat | AtMost rat | Positive

datatype unknown_keys = Strict | Strip | Passthrough

datatype schema =
    ZString "scheck list"
  | ZNumber "ncheck list"
  | ZCoerceNumber "ncheck list"
  | ZBoolean
  | ZCoerceBoolean
  | ZLiteral string
  | ZEnum "string list"
  | ZArray schema "nat option" "nat option"
  | ZTuple "schema list"
  | ZRecord schema
  | ZObject unknown_keys "(string \<times> schema) list"
  | ZOptional schema
  | ZNullable schema
  | ZDefault schema json
  | ZUnion "schema list"
  | ZDiscriminated string "schema list"
  | ZUnknown
  | ZUndefined
  | ZTrimUpper schema
  | ZRefineEither schema string "string list"

text \<open>A parse rejects, or accepts with the value the caller goes on with.\<close>

datatype zres = Reject | Accept "json option"

record formats =
  is_email :: "string \<Rightarrow> bool"
  is_url :: "string \<Rightarrow> bool"
  is_uuid :: "string \<Rightarrow> bool"
  to_number :: "json option \<Rightarrow> rat option"

section \<open>Derived forms\<close>

abbreviation z_string :: schema where
  "z_string \<equiv> ZString []"

abbreviation z_int :: schema where
  "z_int \<equiv> ZNumber [IntOnly]"

abbreviation z_int_min :: "rat \<Rightarrow> schema" where
  "z_int_min a \<equiv> ZNumber [IntOnly, AtLeast a]"

abbreviation z_strict :: "(string \<times> schema) list \<Rightarrow> schema" where
  "z_strict \<equiv> ZObject Strict"

abbreviation z_array :: "schema \<Rightarrow> schema" where
  "z_array s \<equiv> ZArray s None None"

text \<open>The methods \<^verbatim>\<open>extend\<close>, \<^verbatim>\<open>omit\<close> and \<^verbatim>\<open>partial\<close> of an object schema.\<close>

fun z_extend :: "(string \<times> schema) list \<Rightarrow> schema \<Rightarrow> schema" where
  "z_extend gs (ZObject u fs) = ZObject u (filter (\<lambda>(k, s). k \<notin> fst ` set gs) fs @ gs)"
| "z_extend gs s = s"

fun z_omit :: "string list \<Rightarrow> schema \<Rightarrow> schema" where
  "z_omit ks (ZObject u fs) = ZObject u (filter (\<lambda>(k, s). k \<notin> set ks) fs)"
| "z_omit ks s = s"

fun z_partial :: "string list \<Rightarrow> schema \<Rightarrow> schema" where
  "z_partial ks (ZObject u fs) =
     ZObject u (map (\<lambda>(k, s). (k, if k \<in> set ks then ZOptional s else s)) fs)"
| "z_partial ks s = s"

section \<open>The meaning of the checks\<close>

fun string_ok :: "formats \<Rightarrow> string \<Rightarrow> scheck \<Rightarrow> bool" where
  "string_ok f s (MinLen n) = (n \<le> length s)"
| "string_ok f s (MaxLen n) = (length s \<le> n)"
| "string_ok f s (Pattern r) = rx_test r s"
| "string_ok f s Email = is_email f s"
| "string_ok f s Url = is_url f s"
| "string_ok f s Uuid = is_uuid f s"

definition rat_is_int :: "rat \<Rightarrow> bool" where
  "rat_is_int x = (of_int \<lfloor>x\<rfloor> = x)"

fun number_ok :: "rat \<Rightarrow> ncheck \<Rightarrow> bool" where
  "number_ok x IntOnly = rat_is_int x"
| "number_ok x SafeInt = (rat_is_int x \<and> is_safe \<lfloor>x\<rfloor>)"
| "number_ok x (AtLeast a) = (a \<le> x)"
| "number_ok x (AtMost a) = (x \<le> a)"
| "number_ok x Positive = (0 < x)"

definition lookup :: "(string \<times> json) list \<Rightarrow> string \<Rightarrow> json option" where
  "lookup fs k = map_of fs k"

text \<open>\<open>v.k\<close> on a value that may not be an object (\<open>v?.k\<close>).\<close>

definition get_prop :: "json option \<Rightarrow> string \<Rightarrow> json option" where
  "get_prop v k = (case v of Some (JObj fs) \<Rightarrow> lookup fs k | _ \<Rightarrow> None)"

text \<open>\<open>Boolean(v)\<close>: undefined, null, false, zero and the empty string are false.\<close>

fun js_boolean :: "json option \<Rightarrow> bool" where
  "js_boolean None = False"
| "js_boolean (Some JNull) = False"
| "js_boolean (Some (JBool b)) = b"
| "js_boolean (Some (JNum x)) = (x \<noteq> 0)"
| "js_boolean (Some (JStr s)) = (s \<noteq> [])"
| "js_boolean (Some _) = True"

text \<open>The literal a member of a discriminated union carries in its discriminator.\<close>

definition union_tag :: "string \<Rightarrow> schema \<Rightarrow> string option" where
  "union_tag k s =
     (case s of
        ZObject u fs \<Rightarrow> (case map_of fs k of Some (ZLiteral l) \<Rightarrow> Some l | _ \<Rightarrow> None)
      | _ \<Rightarrow> None)"

text \<open>All elements accepted, or none of it.\<close>

fun collect :: "zres list \<Rightarrow> json list option" where
  "collect [] = Some []"
| "collect (Reject # rs) = None"
| "collect (Accept v # rs) = map_option (\<lambda>vs. nullish v JNull # vs) (collect rs)"

text \<open>The accepted object: a field whose value came out undefined is left out.\<close>

fun collect_fields :: "(string \<times> zres) list \<Rightarrow> (string \<times> json) list option" where
  "collect_fields [] = Some []"
| "collect_fields ((k, Reject) # rs) = None"
| "collect_fields ((k, Accept None) # rs) = collect_fields rs"
| "collect_fields ((k, Accept (Some v)) # rs) = map_option (\<lambda>fs. (k, v) # fs) (collect_fields rs)"

text \<open>The first member of a union that accepts.\<close>

fun first_accept :: "zres list \<Rightarrow> zres" where
  "first_accept [] = Reject"
| "first_accept (Reject # rs) = first_accept rs"
| "first_accept (Accept v # rs) = Accept v"

definition length_ok :: "nat option \<Rightarrow> nat option \<Rightarrow> nat \<Rightarrow> bool" where
  "length_ok lo hi n =
     ((case lo of None \<Rightarrow> True | Some a \<Rightarrow> a \<le> n) \<and> (case hi of None \<Rightarrow> True | Some b \<Rightarrow> n \<le> b))"

definition known_keys :: "(string \<times> json) list \<Rightarrow> string list \<Rightarrow> bool" where
  "known_keys os ks = list_all (\<lambda>(k, v). k \<in> set ks) os"

definition object_result ::
  "unknown_keys \<Rightarrow> string list \<Rightarrow> (string \<times> json) list \<Rightarrow> (string \<times> zres) list \<Rightarrow> zres" where
  "object_result u ks os rs =
     (if u = Strict \<and> \<not> known_keys os ks then Reject
      else case collect_fields rs of
             None \<Rightarrow> Reject
           | Some fs \<Rightarrow>
               Accept (Some (JObj (fs @ (if u = Passthrough
                                         then filter (\<lambda>(k, v). k \<notin> set ks) os else [])))))"

definition array_result :: "zres list \<Rightarrow> zres" where
  "array_result rs = (case collect rs of None \<Rightarrow> Reject | Some vs \<Rightarrow> Accept (Some (JArr vs)))"

definition record_result :: "(string \<times> zres) list \<Rightarrow> zres" where
  "record_result rs =
     (case collect_fields rs of None \<Rightarrow> Reject | Some fs \<Rightarrow> Accept (Some (JObj fs)))"

definition trim_upper_result :: "zres \<Rightarrow> zres" where
  "trim_upper_result r =
     (case r of Accept (Some (JStr s)) \<Rightarrow> Accept (Some (JStr (to_upper (trim s)))) | _ \<Rightarrow> r)"

definition refine_result :: "string \<Rightarrow> string list \<Rightarrow> zres \<Rightarrow> zres" where
  "refine_result f ks r =
     (case r of
        Accept v \<Rightarrow> if list_ex (\<lambda>k. get_prop (get_prop v f) k \<noteq> None) ks then r else Reject
      | Reject \<Rightarrow> Reject)"

section \<open>What an accepted object holds\<close>

lemma collect_fields_Accept:
  "collect_fields ((k, Accept w) # rs) =
     map_option (\<lambda>out. case w of None \<Rightarrow> out | Some v \<Rightarrow> (k, v) # out) (collect_fields rs)"
  by (cases w) (simp_all add: option.map_ident)

lemma collect_fields_ConsD:
  assumes "collect_fields ((k, r) # rs) = Some out"
  obtains w out' where "r = Accept w" and "collect_fields rs = Some out'"
    and "out = (case w of None \<Rightarrow> out' | Some v \<Rightarrow> (k, v) # out')"
proof (cases r)
  case Reject
  with assms show thesis by simp
next
  case (Accept w)
  with assms that show thesis
    by (cases "collect_fields rs") (simp_all add: collect_fields_Accept del: collect_fields.simps)
qed

lemma collect_fields_keys:
  "collect_fields (map (\<lambda>(k, s). (k, g k s)) fs) = Some out \<Longrightarrow> fst ` set out \<subseteq> fst ` set fs"
proof (induction fs arbitrary: out)
  case (Cons f fs)
  obtain k s where f: "f = (k, s)" by (cases f)
  have "collect_fields ((k, g k s) # map (\<lambda>(k, s). (k, g k s)) fs) = Some out"
    using Cons.prems f by simp
  then obtain w out' where "collect_fields (map (\<lambda>(k, s). (k, g k s)) fs) = Some out'"
    and out: "out = (case w of None \<Rightarrow> out' | Some v \<Rightarrow> (k, v) # out')"
    by (rule collect_fields_ConsD)
  then have "fst ` set out' \<subseteq> fst ` set fs"
    using Cons.IH by blast
  with out f show ?case
    by (cases w) auto
qed simp

lemma collect_fields_lookup:
  assumes "distinct (map fst fs)" "collect_fields (map (\<lambda>(k, s). (k, g k s)) fs) = Some out"
    and "(k, s) \<in> set fs"
  shows "g k s = Accept (map_of out k)"
  using assms
proof (induction fs arbitrary: out)
  case (Cons f fs)
  obtain k' s' where f: "f = (k', s')" by (cases f)
  have "collect_fields ((k', g k' s') # map (\<lambda>(k, s). (k, g k s)) fs) = Some out"
    using Cons.prems(2) f by simp
  then obtain w out' where w: "g k' s' = Accept w"
    and out': "collect_fields (map (\<lambda>(k, s). (k, g k s)) fs) = Some out'"
    and out: "out = (case w of None \<Rightarrow> out' | Some v \<Rightarrow> (k', v) # out')"
    by (rule collect_fields_ConsD)
  have fresh: "k' \<notin> fst ` set fs"
    using Cons.prems(1) f by simp
  then have "map_of out' k' = None"
    using collect_fields_keys [OF out'] by (auto simp: map_of_eq_None_iff)
  show ?case
  proof (cases "(k, s) = (k', s')")
    case True
    with w out \<open>map_of out' k' = None\<close> show ?thesis
      by (cases w) simp_all
  next
    case False
    then have mem: "(k, s) \<in> set fs" using Cons.prems(3) f by auto
    then have "k \<noteq> k'" using fresh by force
    moreover have "g k s = Accept (map_of out' k)"
      using Cons.IH [OF _ out' mem] Cons.prems(1) by simp
    ultimately show ?thesis
      using out by (cases w) simp_all
  qed
qed simp

section \<open>The laws of the package\<close>

locale zod =
  fixes parse :: "schema \<Rightarrow> json option \<Rightarrow> zres"
    and fmt :: formats
  assumes parse_string: "parse (ZString cs) v =
      (case v of Some (JStr s) \<Rightarrow> if list_all (string_ok fmt s) cs then Accept v else Reject
       | _ \<Rightarrow> Reject)"
    and parse_number: "parse (ZNumber ns) v =
      (case v of Some (JNum x) \<Rightarrow> if list_all (number_ok x) ns then Accept v else Reject
       | _ \<Rightarrow> Reject)"
    and parse_coerce_number: "parse (ZCoerceNumber ns) v =
      (case to_number fmt v of
         None \<Rightarrow> Reject
       | Some x \<Rightarrow> if list_all (number_ok x) ns then Accept (Some (JNum x)) else Reject)"
    and parse_boolean: "parse ZBoolean v = (case v of Some (JBool b) \<Rightarrow> Accept v | _ \<Rightarrow> Reject)"
    and parse_coerce_boolean: "parse ZCoerceBoolean v = Accept (Some (JBool (js_boolean v)))"
    and parse_literal: "parse (ZLiteral l) v = (if v = Some (JStr l) then Accept v else Reject)"
    and parse_enum: "parse (ZEnum ls) v =
      (case v of Some (JStr s) \<Rightarrow> if s \<in> set ls then Accept v else Reject | _ \<Rightarrow> Reject)"
    and parse_array: "parse (ZArray s lo hi) v =
      (case v of
         Some (JArr vs) \<Rightarrow>
           if length_ok lo hi (length vs) then array_result (map (\<lambda>x. parse s (Some x)) vs) else Reject
       | _ \<Rightarrow> Reject)"
    and parse_tuple: "parse (ZTuple ss) v =
      (case v of
         Some (JArr vs) \<Rightarrow>
           if length vs = length ss then array_result (map2 (\<lambda>p x. p (Some x)) (map parse ss) vs)
           else Reject
       | _ \<Rightarrow> Reject)"
    and parse_record: "parse (ZRecord s) v =
      (case v of
         Some (JObj os) \<Rightarrow> record_result (map (\<lambda>(k, x). (k, parse s (Some x))) os)
       | _ \<Rightarrow> Reject)"
    and parse_object: "parse (ZObject u fs) v =
      (case v of
         Some (JObj os) \<Rightarrow>
           object_result u (map fst fs) os (map (\<lambda>(k, s). (k, parse s (lookup os k))) fs)
       | _ \<Rightarrow> Reject)"
    and parse_optional: "parse (ZOptional s) v = (if v = None then Accept None else parse s v)"
    and parse_nullable: "parse (ZNullable s) v = (if v = Some JNull then Accept v else parse s v)"
    and parse_default: "parse (ZDefault s d) v = parse s (Some (nullish v d))"
    and parse_union: "parse (ZUnion ss) v = first_accept (map (\<lambda>s. parse s v) ss)"
    and parse_discriminated: "parse (ZDiscriminated k ss) v =
      (case get_prop v k of
         Some (JStr t) \<Rightarrow> first_accept (map (\<lambda>s. if union_tag k s = Some t then parse s v else Reject) ss)
       | _ \<Rightarrow> Reject)"
    and parse_unknown: "parse ZUnknown v = Accept v"
    and parse_undefined: "parse ZUndefined v = (if v = None then Accept None else Reject)"
    and parse_trim_upper: "parse (ZTrimUpper s) v = trim_upper_result (parse s v)"
    and parse_refine: "parse (ZRefineEither s f ks) v = refine_result f ks (parse s v)"
begin

lemmas parse_laws =
  parse_string parse_number parse_coerce_number parse_boolean parse_coerce_boolean parse_literal
  parse_enum parse_array parse_tuple parse_record parse_object parse_optional parse_nullable
  parse_default parse_union parse_discriminated parse_unknown parse_undefined parse_trim_upper
  parse_refine

lemma object_acceptD:
  assumes "parse (ZObject u fs) v = Accept r"
  obtains os out where "v = Some (JObj os)"
    and "collect_fields (map (\<lambda>(k, s). (k, parse s (lookup os k))) fs) = Some out"
    and "u = Strict \<Longrightarrow> known_keys os (map fst fs)"
    and "r = Some (JObj (out @ (if u = Passthrough
                                then filter (\<lambda>(k, v). k \<notin> set (map fst fs)) os else [])))"
proof -
  obtain os where v: "v = Some (JObj os)"
    using assms by (auto simp: parse_object split: option.splits json.splits)
  with assms have res: "object_result u (map fst fs) os
      (map (\<lambda>(k, s). (k, parse s (lookup os k))) fs) = Accept r"
    by (simp add: parse_object)
  then have known: "u = Strict \<Longrightarrow> known_keys os (map fst fs)"
    by (auto simp: object_result_def split: if_splits)
  from res obtain out where
    "collect_fields (map (\<lambda>(k, s). (k, parse s (lookup os k))) fs) = Some out"
    by (cases "collect_fields (map (\<lambda>(k, s). (k, parse s (lookup os k))) fs)")
      (auto simp: object_result_def split: if_splits)
  with res show thesis
    by (intro that [OF v _ known]) (auto simp: object_result_def split: if_splits)
qed

text \<open>A declared field of an accepted object was itself accepted, and the result holds what it
  was accepted as.\<close>

lemma object_field:
  assumes "distinct (map fst fs)" "parse (ZObject u fs) v = Accept r" "(k, s) \<in> set fs"
  shows "parse s (get_prop v k) = Accept (get_prop r k)"
proof -
  obtain os out where v: "v = Some (JObj os)"
    and out: "collect_fields (map (\<lambda>(k, s). (k, parse s (lookup os k))) fs) = Some out"
    and r: "r = Some (JObj (out @ (if u = Passthrough
                                   then filter (\<lambda>(k, v). k \<notin> set (map fst fs)) os else [])))"
    by (rule object_acceptD [OF assms(2)])
  have "parse s (lookup os k) = Accept (map_of out k)"
    using collect_fields_lookup [of fs "\<lambda>k s. parse s (lookup os k)" out k s] assms(1,3) out by simp
  moreover have "map_of (filter (\<lambda>(k, v). k \<notin> set (map fst fs)) os) k = None"
    using assms(3) by (force simp: map_of_eq_None_iff)
  ultimately show ?thesis
    using r v by (auto simp: get_prop_def lookup_def map_add_def split: option.splits)
qed

text \<open>A strict object carries no other property, before or after.\<close>

lemma strict_no_other:
  assumes "parse (ZObject Strict fs) v = Accept r" "k \<notin> fst ` set fs"
  shows "get_prop v k = None" "get_prop r k = None"
proof -
  obtain os out where v: "v = Some (JObj os)" and known: "known_keys os (map fst fs)"
    and out: "collect_fields (map (\<lambda>(k, s). (k, parse s (lookup os k))) fs) = Some out"
    and r: "r = Some (JObj out)"
    by (rule object_acceptD [OF assms(1)]) simp
  show "get_prop v k = None"
    using known assms(2) v
    by (force simp: get_prop_def lookup_def known_keys_def list_all_iff map_of_eq_None_iff)
  show "get_prop r k = None"
    using collect_fields_keys [of "\<lambda>k s. parse s (lookup os k)" fs out] out assms(2) r
    by (auto simp: get_prop_def lookup_def map_of_eq_None_iff)
qed

lemma object_is_object:
  "parse (ZObject u fs) v = Accept r \<Longrightarrow> \<exists>os out. v = Some (JObj os) \<and> r = Some (JObj out)"
  by (erule object_acceptD) simp

end

section \<open>A parser that satisfies the laws\<close>

fun zparse :: "formats \<Rightarrow> schema \<Rightarrow> json option \<Rightarrow> zres" where
  "zparse f (ZString cs) v =
     (case v of Some (JStr s) \<Rightarrow> if list_all (string_ok f s) cs then Accept v else Reject
      | _ \<Rightarrow> Reject)"
| "zparse f (ZNumber ns) v =
     (case v of Some (JNum x) \<Rightarrow> if list_all (number_ok x) ns then Accept v else Reject
      | _ \<Rightarrow> Reject)"
| "zparse f (ZCoerceNumber ns) v =
     (case to_number f v of
        None \<Rightarrow> Reject
      | Some x \<Rightarrow> if list_all (number_ok x) ns then Accept (Some (JNum x)) else Reject)"
| "zparse f ZBoolean v = (case v of Some (JBool b) \<Rightarrow> Accept v | _ \<Rightarrow> Reject)"
| "zparse f ZCoerceBoolean v = Accept (Some (JBool (js_boolean v)))"
| "zparse f (ZLiteral l) v = (if v = Some (JStr l) then Accept v else Reject)"
| "zparse f (ZEnum ls) v =
     (case v of Some (JStr s) \<Rightarrow> if s \<in> set ls then Accept v else Reject | _ \<Rightarrow> Reject)"
| "zparse f (ZArray s lo hi) v =
     (case v of
        Some (JArr vs) \<Rightarrow>
          if length_ok lo hi (length vs) then array_result (map (\<lambda>x. zparse f s (Some x)) vs) else Reject
      | _ \<Rightarrow> Reject)"
| "zparse f (ZTuple ss) v =
     (case v of
        Some (JArr vs) \<Rightarrow>
          if length vs = length ss then array_result (map2 (\<lambda>p x. p (Some x)) (map (zparse f) ss) vs)
          else Reject
      | _ \<Rightarrow> Reject)"
| "zparse f (ZRecord s) v =
     (case v of
        Some (JObj os) \<Rightarrow> record_result (map (\<lambda>(k, x). (k, zparse f s (Some x))) os)
      | _ \<Rightarrow> Reject)"
| "zparse f (ZObject u fs) v =
     (case v of
        Some (JObj os) \<Rightarrow>
          object_result u (map fst fs) os (map (\<lambda>(k, s). (k, zparse f s (lookup os k))) fs)
      | _ \<Rightarrow> Reject)"
| "zparse f (ZOptional s) v = (if v = None then Accept None else zparse f s v)"
| "zparse f (ZNullable s) v = (if v = Some JNull then Accept v else zparse f s v)"
| "zparse f (ZDefault s d) v = zparse f s (Some (nullish v d))"
| "zparse f (ZUnion ss) v = first_accept (map (\<lambda>s. zparse f s v) ss)"
| "zparse f (ZDiscriminated k ss) v =
     (case get_prop v k of
        Some (JStr t) \<Rightarrow> first_accept (map (\<lambda>s. if union_tag k s = Some t then zparse f s v else Reject) ss)
      | _ \<Rightarrow> Reject)"
| "zparse f ZUnknown v = Accept v"
| "zparse f ZUndefined v = (if v = None then Accept None else Reject)"
| "zparse f (ZTrimUpper s) v = trim_upper_result (zparse f s v)"
| "zparse f (ZRefineEither s k ks) v = refine_result k ks (zparse f s v)"

interpretation zp: zod "zparse f" f for f
  by unfold_locales simp_all

end
