(* ===== verification/Contracts_Primitives.thy ===== *)
theory Contracts_Primitives
  imports Zod_Schema
begin

text \<open>
  The scalar building blocks of the contracts (\<^verbatim>\<open>libs/ts-contracts/src/primitives.ts\<close>): the
  prefixed identifiers, money and its arithmetic, timestamps, addresses, pages and the error
  envelope. Each schema of the source is a constant of type \<open>schema\<close> with the same name, and each
  function a function with the same name; \<open>money\<close> is the inferred type \<^verbatim>\<open>Money\<close>.
\<close>

section \<open>Identifiers\<close>

text \<open>\<^verbatim>\<open>[0-9A-HJKMNP-TV-Z]\<close>\<close>

definition ulid_cls :: "(char \<times> char) list" where
  "ulid_cls =
     [(CHR ''0'', CHR ''9''), (CHR ''A'', CHR ''H''), (CHR ''J'', CHR ''J''), (CHR ''K'', CHR ''K''),
      (CHR ''M'', CHR ''M''), (CHR ''N'', CHR ''N''), (CHR ''P'', CHR ''T''), (CHR ''V'', CHR ''Z'')]"

definition ULID :: rx where
  "ULID = rx_rep 26 (RCls ulid_cls)"

definition prefixedId :: "string \<Rightarrow> schema" where
  "prefixedId p = ZString [Pattern (rx_seq [rx_lit p, rx_lit ''_'', ULID])]"

definition UserId :: schema where
  "UserId = prefixedId ''usr''"

definition ProductId :: schema where
  "ProductId = prefixedId ''prd''"

definition Sku :: schema where
  "Sku = prefixedId ''sku''"

definition OrderId :: schema where
  "OrderId = prefixedId ''ord''"

definition PaymentId :: schema where
  "PaymentId = prefixedId ''pay''"

definition ReservationId :: schema where
  "ReservationId = prefixedId ''rsv''"

definition CartId :: schema where
  "CartId = prefixedId ''crt''"

definition ReviewId :: schema where
  "ReviewId = prefixedId ''rev''"

section \<open>Money\<close>

definition CurrencyCode :: schema where
  "CurrencyCode = ZString [Pattern (rx_rep 3 (RCls cls_upper))]"

definition Money :: schema where
  "Money = z_strict
     [(''amount'', ZNumber [IntOnly, SafeInt]),
      (''currency'', CurrencyCode)]"

record money =
  amount :: int
  currency :: string

datatype money_error = CannotAdd string string | QuantityNotInteger

text \<open>\<open>Intl.NumberFormat(locale, \<dots>).format\<close> is the argument \<open>fmt\<close>.\<close>

definition formatMoney :: "(string \<Rightarrow> string \<Rightarrow> rat \<Rightarrow> string) \<Rightarrow> money \<Rightarrow> string option \<Rightarrow> string" where
  "formatMoney fmt m locale =
     fmt (nullish locale ''en-GB'') (currency m) (js_div (of_int (amount m)) 100)"

definition addMoney :: "money \<Rightarrow> money \<Rightarrow> money_error + money" where
  "addMoney a b =
     (if currency a \<noteq> currency b then Inl (CannotAdd (currency a) (currency b))
      else Inr \<lparr>amount = js_add (amount a) (amount b), currency = currency a\<rparr>)"

definition multiplyMoney :: "money \<Rightarrow> rat \<Rightarrow> money_error + money" where
  "multiplyMoney m qty =
     (if \<not> rat_is_int qty then Inl QuantityNotInteger
      else Inr \<lparr>amount = js_mul (amount m) \<lfloor>qty\<rfloor>, currency = currency m\<rparr>)"

definition zeroMoney :: "string \<Rightarrow> money" where
  "zeroMoney c = \<lparr>amount = 0, currency = c\<rparr>"

text \<open>A money value as the JSON that the schema describes.\<close>

definition money_json :: "money \<Rightarrow> json" where
  "money_json m = JObj [(''amount'', JNum (of_int (amount m))), (''currency'', JStr (currency m))]"

section \<open>Time\<close>

definition Timestamp :: schema where
  "Timestamp = ZString [Pattern (rx_seq
     [rx_rep 4 (RCls cls_digit), rx_lit ''-'', rx_rep 2 (RCls cls_digit), rx_lit ''-'',
      rx_rep 2 (RCls cls_digit), rx_lit ''T'', rx_rep 2 (RCls cls_digit), rx_lit '':'',
      rx_rep 2 (RCls cls_digit), rx_lit '':'', rx_rep 2 (RCls cls_digit),
      RAlt REps (rx_seq [rx_lit ''.'', RCls cls_digit, rx_upto 8 (RCls cls_digit)]),
      rx_lit ''Z''])]"

definition DateOnly :: schema where
  "DateOnly = ZString [Pattern (rx_seq
     [rx_rep 4 (RCls cls_digit), rx_lit ''-'', rx_rep 2 (RCls cls_digit), rx_lit ''-'',
      rx_rep 2 (RCls cls_digit)])]"

section \<open>Common value objects\<close>

definition Address :: schema where
  "Address = z_strict
     [(''recipient'', ZString [MinLen 1, MaxLen 200]),
      (''line1'', ZString [MinLen 1, MaxLen 300]),
      (''line2'', ZOptional (ZString [MaxLen 300])),
      (''city'', ZString [MinLen 1, MaxLen 150]),
      (''region'', ZOptional (ZString [MaxLen 150])),
      (''postalCode'', ZString [MinLen 1, MaxLen 30]),
      (''countryCode'', ZString [Pattern (rx_rep 2 (RCls cls_upper))]),
      (''phone'', ZOptional (ZString [MaxLen 40]))]"

definition Image_schema :: schema where
  "Image_schema = z_strict
     [(''url'', ZString [Url]),
      (''alt'', ZDefault (ZString [MaxLen 300]) (JStr [])),
      (''width'', ZOptional (ZNumber [IntOnly, Positive])),
      (''height'', ZOptional (ZNumber [IntOnly, Positive]))]"

section \<open>Pagination\<close>

definition PageRequest :: schema where
  "PageRequest = z_strict
     [(''limit'', ZDefault (ZCoerceNumber [IntOnly, AtLeast 1, AtMost 100]) (JNum 20)),
      (''cursor'', ZOptional (ZString [MaxLen 500]))]"

definition paginated :: "schema \<Rightarrow> schema" where
  "paginated item = z_strict
     [(''items'', z_array item),
      (''nextCursor'', ZNullable z_string),
      (''hasMore'', ZBoolean)]"

section \<open>The error envelope\<close>

definition FieldError :: schema where
  "FieldError = z_strict [(''field'', z_string), (''message'', z_string)]"

definition ProblemDetails :: schema where
  "ProblemDetails = z_strict
     [(''type'', z_string),
      (''title'', z_string),
      (''status'', ZNumber [IntOnly, AtLeast 100, AtMost 599]),
      (''detail'', ZOptional z_string),
      (''instance'', ZOptional z_string),
      (''code'', ZString [Pattern (rx_seq
         [RCls cls_upper, RStar (RCls [(CHR ''A'', CHR ''Z''), (CHR ''0'', CHR ''9''), (CHR ''_'', CHR ''_'')])])]),
      (''requestId'', z_string),
      (''timestamp'', Timestamp),
      (''errors'', ZOptional (z_array FieldError))]"

definition ERROR_CODES :: "string list" where
  "ERROR_CODES =
     [''VALIDATION_FAILED'', ''UNSUPPORTED_CURRENCY'', ''WEAK_PASSWORD'',
      ''UNAUTHENTICATED'', ''TOKEN_EXPIRED'', ''REFRESH_TOKEN_REUSED'', ''FORBIDDEN'', ''MFA_REQUIRED'',
      ''PRODUCT_NOT_FOUND'', ''ORDER_NOT_FOUND'', ''CART_NOT_FOUND'',
      ''INVENTORY_INSUFFICIENT_STOCK'', ''IDEMPOTENCY_KEY_REUSE'', ''REQUEST_IN_PROGRESS'',
      ''CART_STALE'', ''ORDER_NOT_CANCELLABLE'',
      ''ACCOUNT_LOCKED'', ''RATE_LIMITED'',
      ''PAYMENT_DECLINED'', ''PAYMENT_REQUIRES_ACTION'',
      ''UPSTREAM_UNAVAILABLE'', ''UPSTREAM_TIMEOUT'', ''INTERNAL_ERROR'']"

definition isErrorCode :: "string \<Rightarrow> bool" where
  "isErrorCode v = (v \<in> set ERROR_CODES)"

section \<open>Lemmas\<close>

text \<open>What a prefixed identifier is: the prefix, an underscore and 26 Crockford characters.\<close>

definition is_prefixed_id :: "string \<Rightarrow> string \<Rightarrow> bool" where
  "is_prefixed_id p s =
     (take (length p + 1) s = p @ ''_'' \<and> length (drop (length p + 1) s) = 26 \<and>
      list_all (in_cls ulid_cls) (drop (length p + 1) s))"

lemma prefixed_id_test:
  "rx_test (rx_seq [rx_lit p, rx_lit ''_'', ULID]) s \<longleftrightarrow> is_prefixed_id p s"
proof -
  have "rx_test (rx_seq [rx_lit p, rx_lit ''_'', ULID]) s \<longleftrightarrow>
    (\<exists>t. s = p @ ''_'' @ t \<and> length t = 26 \<and> list_all (in_cls ulid_cls) t)"
    by (auto simp: rx_seq.simps rx_test_lit_seq ULID_def)
  also have "\<dots> \<longleftrightarrow> is_prefixed_id p s"
  proof
    assume "is_prefixed_id p s"
    then have "s = (p @ ''_'') @ drop (length p + 1) s"
      unfolding is_prefixed_id_def by (metis append_take_drop_id)
    with \<open>is_prefixed_id p s\<close> show "\<exists>t. s = p @ ''_'' @ t \<and> length t = 26 \<and> list_all (in_cls ulid_cls) t"
      unfolding is_prefixed_id_def by (metis append.assoc)
  qed (auto simp: is_prefixed_id_def)
  finally show ?thesis .
qed

context zod
begin

lemma parse_prefixedId:
  "parse (prefixedId p) v =
     (case v of Some (JStr s) \<Rightarrow> if is_prefixed_id p s then Accept v else Reject | _ \<Rightarrow> Reject)"
  by (simp add: prefixedId_def parse_string prefixed_id_test cong: option.case_cong json.case_cong)

end

end
