(* ===== verification/Catalog_Client.thy ===== *)
theory Catalog_Client
  imports Contracts_Primitives
begin

text \<open>
  The read-through client of catalog-service (\<^verbatim>\<open>services/cart-service/src/catalog.ts\<close>).

  The process-local \<^verbatim>\<open>Map\<close> is a map from SKUs to entries; the clock and the HTTP request are
  arguments. A request either fails (network, deadline, an unreadable body) or answers with a
  status and a body of items. The lemmas say exactly what a lookup of one SKU sees after
  \<open>getVariants\<close>: the fresh entry, else what catalog-service returned, else, when it could not be
  reached, the stale entry.
\<close>

section \<open>State and operations\<close>

record variant =
  v_sku :: string
  v_productId :: string
  v_title :: string
  v_image :: "string option"
  v_price :: money
  v_status :: string
  v_categoryPath :: "string list"
  v_brand :: "string option"
  v_attributes :: "(string \<times> string) list"

type_synonym variant_cache = "string \<rightharpoonup> variant \<times> millis"

datatype catalog_reply = Unreachable | Response nat "variant list option"

type_synonym catalog_fetch = "string list \<Rightarrow> catalog_reply"

definition TTL_MS :: millis where
  "TTL_MS = 60000"

text \<open>\<open>hit && now - hit.at < TTL_MS\<close>\<close>

definition fresh_hit :: "variant_cache \<Rightarrow> millis \<Rightarrow> string \<Rightarrow> variant option" where
  "fresh_hit cache now sku =
     (case cache sku of Some (v, t) \<Rightarrow> if now - t < TTL_MS then Some v else None | None \<Rightarrow> None)"

definition cache_items :: "millis \<Rightarrow> variant list \<Rightarrow> variant_cache \<Rightarrow> variant_cache" where
  "cache_items now items cache = fold (\<lambda>v c. c(v_sku v \<mapsto> (v, now))) items cache"

definition stale_items :: "variant_cache \<Rightarrow> string list \<Rightarrow> variant list" where
  "stale_items cache skus = List.map_filter (\<lambda>sku. map_option fst (cache sku)) skus"

text \<open>The items of a successful answer: \<open>res.ok\<close> and a readable body.\<close>

definition reply_items :: "catalog_reply \<Rightarrow> variant list option" where
  "reply_items r =
     (case r of
        Unreachable \<Rightarrow> None
      | Response status body \<Rightarrow> if 200 \<le> status \<and> status < 300 then body else None)"

definition missing_skus :: "variant_cache \<Rightarrow> millis \<Rightarrow> string list \<Rightarrow> string list" where
  "missing_skus cache now skus = filter (\<lambda>sku. fresh_hit cache now sku = None) skus"

definition getVariants ::
  "catalog_fetch \<Rightarrow> millis \<Rightarrow> string list \<Rightarrow> variant_cache \<Rightarrow> variant list \<times> variant_cache" where
  "getVariants fetch now skus cache =
     (let out = List.map_filter (fresh_hit cache now) skus;
          missing = missing_skus cache now skus
      in if missing = [] then (out, cache)
         else case reply_items (fetch missing) of
                Some items \<Rightarrow> (out @ items, cache_items now items cache)
              | None \<Rightarrow> (out @ stale_items cache missing, cache))"

definition getVariant ::
  "catalog_fetch \<Rightarrow> millis \<Rightarrow> string \<Rightarrow> variant_cache \<Rightarrow> variant option \<times> variant_cache" where
  "getVariant fetch now sku cache =
     (case fresh_hit cache now sku of
        Some v \<Rightarrow> (Some v, cache)
      | None \<Rightarrow>
          (case getVariants fetch now [sku] cache of
             ([], cache') \<Rightarrow> (None, cache')
           | (v # vs, cache') \<Rightarrow> (Some v, cache')))"

definition prune :: "millis \<Rightarrow> variant_cache \<Rightarrow> variant_cache" where
  "prune now cache =
     (\<lambda>sku. case cache sku of
        Some (v, t) \<Rightarrow> if t < now - TTL_MS * 10 then None else Some (v, t)
      | None \<Rightarrow> None)"

text \<open>\<open>new Map(variants.map((v) => [v.sku, v]))\<close>: a later entry replaces an earlier one.\<close>

definition by_sku :: "variant list \<Rightarrow> string \<Rightarrow> variant option" where
  "by_sku vs sku = find (\<lambda>v. v_sku v = sku) (rev vs)"

text \<open>A catalog entry for the witnesses of the properties.\<close>

definition sample_variant :: variant where
  "sample_variant = \<lparr>v_sku = ''a'', v_productId = ''p'', v_title = ''T'', v_image = None,
      v_price = \<lparr>amount = 500, currency = ''EGP''\<rparr>, v_status = ''ACTIVE'', v_categoryPath = [],
      v_brand = None, v_attributes = []\<rparr>"

section \<open>Invariant\<close>

text \<open>Every entry is filed under its own SKU.\<close>

definition cache_inv :: "variant_cache \<Rightarrow> bool" where
  "cache_inv cache = (\<forall>sku v t. cache sku = Some (v, t) \<longrightarrow> v_sku v = sku)"

text \<open>What the client relies on catalog-service for: it answers with items that were asked for.\<close>

definition answers_requested :: "catalog_fetch \<Rightarrow> bool" where
  "answers_requested fetch =
     (\<forall>skus items. reply_items (fetch skus) = Some items \<longrightarrow> v_sku ` set items \<subseteq> set skus)"

section \<open>Lemmas\<close>

lemma map_filter_eq: "List.map_filter f xs = map (the \<circ> f) (filter (\<lambda>x. f x \<noteq> None) xs)"
  by (simp add: List.map_filter_def)

lemma by_sku_Nil [simp]: "by_sku [] sku = None"
  by (simp add: by_sku_def)

lemma by_sku_append: "by_sku (vs @ ws) sku = nullish2 (by_sku ws sku) (by_sku vs sku)"
  by (simp add: by_sku_def find_append)

lemma by_sku_Cons:
  "by_sku (v # vs) sku = nullish2 (by_sku vs sku) (if v_sku v = sku then Some v else None)"
  by (simp add: by_sku_def find_append)

lemma by_sku_SomeD: "by_sku vs sku = Some v \<Longrightarrow> v \<in> set vs \<and> v_sku v = sku"
  unfolding by_sku_def by (drule find_SomeD) simp

lemma by_sku_None: "sku \<notin> v_sku ` set vs \<Longrightarrow> by_sku vs sku = None"
  using by_sku_SomeD [of vs sku] by (cases "by_sku vs sku") auto

lemma by_sku_map_filter:
  assumes "\<And>s v. f s = Some v \<Longrightarrow> v_sku v = s"
  shows "by_sku (List.map_filter f skus) sku = (if sku \<in> set skus then f sku else None)"
proof (induction skus)
  case (Cons s skus)
  show ?case
  proof (cases "f s")
    case None
    with Cons.IH show ?thesis by (auto simp: map_filter_simps)
  next
    case (Some v)
    with assms have "v_sku v = s" by blast
    with Some Cons.IH show ?thesis
      by (cases "sku \<in> set skus"; cases "f sku") (auto simp: map_filter_simps by_sku_Cons)
  qed
qed (simp add: map_filter_simps)

lemma fresh_hit_sku: "cache_inv cache \<Longrightarrow> fresh_hit cache now sku = Some v \<Longrightarrow> v_sku v = sku"
  by (auto simp: fresh_hit_def cache_inv_def split: option.splits if_splits)

lemma stale_sku: "cache_inv cache \<Longrightarrow> map_option fst (cache sku) = Some v \<Longrightarrow> v_sku v = sku"
  by (auto simp: cache_inv_def)

lemma cache_inv_upd: "cache_inv cache \<Longrightarrow> cache_inv (cache(v_sku v \<mapsto> (v, t)))"
  by (simp add: cache_inv_def)

lemma cache_items_inv [inv_intros]: "cache_inv cache \<Longrightarrow> cache_inv (cache_items now items cache)"
  by (induction items arbitrary: cache) (simp_all add: cache_items_def cache_inv_upd del: fun_upd_apply)

lemma getVariants_inv [inv_intros]:
  "cache_inv cache \<Longrightarrow> cache_inv (snd (getVariants fetch now skus cache))"
  by (auto simp: getVariants_def Let_def intro: inv_intros split: option.splits)

lemma getVariant_inv [inv_intros]:
  "cache_inv cache \<Longrightarrow> cache_inv (snd (getVariant fetch now sku cache))"
  using getVariants_inv [of cache fetch now "[sku]"]
  by (auto simp: getVariant_def split: option.splits prod.splits list.splits)

lemma prune_inv [inv_intros]: "cache_inv cache \<Longrightarrow> cache_inv (prune now cache)"
  by (auto simp: cache_inv_def prune_def split: option.splits if_splits)

lemma missing_Nil_fresh:
  "missing_skus cache now skus = [] \<Longrightarrow> sku \<in> set skus \<Longrightarrow> \<exists>v. fresh_hit cache now sku = Some v"
  by (auto simp: missing_skus_def filter_empty_conv)

section \<open>Properties\<close>

text \<open>After \<^verbatim>\<open>getVariants\<close>, a requested SKU resolves to its cache entry if that is fresh, else to
  what catalog-service answered, else, when catalog-service failed, to the stale entry: an outage
  never loses a product the process has seen, and a product that catalog-service no longer returns
  is absent.\<close>

theorem getVariants_lookup:
  assumes "cache_inv cache" "answers_requested fetch" "sku \<in> set skus"
  shows "by_sku (fst (getVariants fetch now skus cache)) sku =
    (case fresh_hit cache now sku of
       Some v \<Rightarrow> Some v
     | None \<Rightarrow>
         (case reply_items (fetch (missing_skus cache now skus)) of
            Some items \<Rightarrow> by_sku items sku
          | None \<Rightarrow> map_option fst (cache sku)))"
proof (cases "missing_skus cache now skus = []")
  case True
  then obtain v where v: "fresh_hit cache now sku = Some v"
    using missing_Nil_fresh assms(3) by blast
  have "by_sku (List.map_filter (fresh_hit cache now) skus) sku = Some v"
    using by_sku_map_filter [of "fresh_hit cache now" skus sku] fresh_hit_sku [OF assms(1)] assms(3) v
    by simp
  with True v show ?thesis
    by (simp add: getVariants_def Let_def)
next
  case False
  define missing where "missing = missing_skus cache now skus"
  have out: "by_sku (List.map_filter (fresh_hit cache now) skus) sku = fresh_hit cache now sku"
    using by_sku_map_filter [of "fresh_hit cache now" skus sku] fresh_hit_sku [OF assms(1)] assms(3)
    by simp
  have stale: "by_sku (stale_items cache missing) sku =
      (if sku \<in> set missing then map_option fst (cache sku) else None)"
    unfolding stale_items_def by (rule by_sku_map_filter) (rule stale_sku [OF assms(1)])
  have mem: "sku \<in> set missing \<longleftrightarrow> fresh_hit cache now sku = None"
    using assms(3) by (simp add: missing_def missing_skus_def)
  show ?thesis
  proof (cases "reply_items (fetch missing)")
    case None
    with False out stale mem show ?thesis
      by (auto simp: getVariants_def Let_def missing_def by_sku_append split: option.splits)
  next
    case (Some items)
    then have "v_sku ` set items \<subseteq> set missing"
      using assms(2) by (auto simp: answers_requested_def)
    then have "fresh_hit cache now sku \<noteq> None \<Longrightarrow> by_sku items sku = None"
      using mem by (intro by_sku_None) auto
    with Some False out show ?thesis
      by (auto simp: getVariants_def Let_def missing_def by_sku_append split: option.splits)
  qed
qed

theorem getVariants_lookup_witness:
  "by_sku (fst (getVariants (\<lambda>_. Unreachable) 90000 [''a'', ''b''] [''a'' \<mapsto> (sample_variant, 0)])) ''a'' = Some sample_variant"
  using getVariants_lookup [of "[''a'' \<mapsto> (sample_variant, 0)]" "\<lambda>_. Unreachable" "''a''" "[''a'', ''b'']" 90000]
  by (simp add: sample_variant_def cache_inv_def answers_requested_def reply_items_def fresh_hit_def TTL_MS_def)

text \<open>When every requested entry is fresh, \<^verbatim>\<open>getVariants\<close> sends no request at all, whatever
  catalog-service would answer, and returns one variant per SKU in the order asked.\<close>

theorem getVariants_no_request:
  assumes "cache_inv cache" "\<forall>sku\<in>set skus. fresh_hit cache now sku \<noteq> None"
  shows "getVariants fetch now skus cache = getVariants fetch' now skus cache \<and>
    map v_sku (fst (getVariants fetch now skus cache)) = skus"
proof -
  have "missing_skus cache now skus = []"
    using assms(2) by (simp add: missing_skus_def filter_empty_conv)
  moreover have "map v_sku (List.map_filter (fresh_hit cache now) skus) = skus"
    using assms(2) fresh_hit_sku [OF assms(1)]
    by (induction skus) (auto simp: map_filter_simps split: option.splits)
  ultimately show ?thesis
    by (simp add: getVariants_def)
qed

theorem getVariants_no_request_witness:
  "map v_sku (fst (getVariants (\<lambda>_. Unreachable) 59999 [''a''] [''a'' \<mapsto> (sample_variant, 0)])) = [''a'']"
  using getVariants_no_request [of "[''a'' \<mapsto> (sample_variant, 0)]" "[''a'']" 59999
      "\<lambda>_. Unreachable" "\<lambda>_. Unreachable"]
  by (simp add: sample_variant_def cache_inv_def fresh_hit_def TTL_MS_def)

end
