(* ===== verification/Circuit_Breaker.thy ===== *)
theory Circuit_Breaker
  imports Js_Number
begin

text \<open>
  The rolling-window circuit breaker of cart-service
  (\<^verbatim>\<open>services/cart-service/src/circuit-breaker.ts\<close>), class \<^verbatim>\<open>CircuitBreaker\<close>.

  \<^item> \<open>breaker\<close> is the object's mutable state and \<open>breaker_options\<close> its tuning; the injected clock
    is the argument \<open>now\<close> of the two methods, and the three callbacks are the list of
    \<open>breaker_event\<close>s a method returns.
  \<^item> \<open>breaker_run\<close> drives a breaker through any sequence of \<open>allow\<close> and \<open>record\<close> calls;
    \<open>breaker_history\<close> is the abstract view, the whole list of outcomes since the last recovery,
    of which the code keeps only a window.

  The lemmas show the window invariant, the exact condition under which the circuit opens, that
  half-open admits nothing until an outcome is recorded, and that the window is the tail of the
  abstract history.
\<close>

section \<open>State and operations\<close>

datatype BreakerState = Closed | Open | HalfOpen

record breaker_options =
  windowSize :: nat
  failureThreshold :: rat
  probeAfterMs :: millis

record breaker =
  brk_state :: BreakerState
  brk_failures :: "bool list"
  brk_openedAt :: millis

datatype breaker_event = OnOpen rat | OnClose | OnHalfOpen

text \<open>The tuning a constructor call gets when an option is left out.\<close>

definition default_options :: breaker_options where
  "default_options = \<lparr>windowSize = 20, failureThreshold = 1 / 2, probeAfterMs = 10000\<rparr>"

definition new_breaker :: breaker where
  "new_breaker = \<lparr>brk_state = Closed, brk_failures = [], brk_openedAt = 0\<rparr>"

definition allow :: "breaker_options \<Rightarrow> millis \<Rightarrow> breaker \<Rightarrow> bool \<times> breaker \<times> breaker_event list" where
  "allow opt now b =
     (case brk_state b of
        Closed \<Rightarrow> (True, b, [])
      | Open \<Rightarrow>
          (if now - brk_openedAt b < probeAfterMs opt then (False, b, [])
           else (True, b\<lparr>brk_state := HalfOpen\<rparr>, [OnHalfOpen]))
      | HalfOpen \<Rightarrow> (False, b, []))"

text \<open>\<open>this.failures.filter(Boolean).length / this.failures.length\<close>\<close>

definition failure_rate :: "bool list \<Rightarrow> rat" where
  "failure_rate fs = js_div (of_nat (length (filter (\<lambda>x. x) fs))) (of_nat (length fs))"

text \<open>\<open>rate >= this.failureThreshold\<close>; on an empty window the rate is \<open>NaN\<close> and the comparison false.\<close>

definition rate_reached :: "breaker_options \<Rightarrow> bool list \<Rightarrow> bool" where
  "rate_reached opt fs = (fs \<noteq> [] \<and> failure_rate fs \<ge> failureThreshold opt)"

text \<open>\<open>push\<close>, then \<open>shift\<close> when the window is over-full.\<close>

definition push_outcome :: "nat \<Rightarrow> bool \<Rightarrow> bool list \<Rightarrow> bool list" where
  "push_outcome n x fs = (let gs = fs @ [x] in if length gs > n then tl gs else gs)"

definition record_outcome ::
  "breaker_options \<Rightarrow> millis \<Rightarrow> bool \<Rightarrow> breaker \<Rightarrow> breaker \<times> breaker_event list" where
  "record_outcome opt now success b =
     (if brk_state b = HalfOpen then
        (if success then (b\<lparr>brk_state := Closed, brk_failures := []\<rparr>, [OnClose])
         else (b\<lparr>brk_state := Open, brk_openedAt := now\<rparr>, [OnOpen 1]))
      else
        let fs = push_outcome (windowSize opt) (\<not> success) (brk_failures b);
            b' = b\<lparr>brk_failures := fs\<rparr>
        in if length fs < windowSize opt then (b', [])
           else if rate_reached opt fs \<and> brk_state b = Closed
           then (b'\<lparr>brk_state := Open, brk_openedAt := now\<rparr>, [OnOpen (failure_rate fs)])
           else (b', []))"

definition currentState :: "breaker \<Rightarrow> BreakerState" where
  "currentState b = brk_state b"

section \<open>Runs\<close>

datatype breaker_call = Allow millis | Record millis bool

fun breaker_step :: "breaker_options \<Rightarrow> breaker \<Rightarrow> breaker_call \<Rightarrow> breaker" where
  "breaker_step opt b (Allow now) = fst (snd (allow opt now b))"
| "breaker_step opt b (Record now ok) = fst (record_outcome opt now ok b)"

fun breaker_run :: "breaker_options \<Rightarrow> breaker \<Rightarrow> breaker_call list \<Rightarrow> breaker" where
  "breaker_run opt b [] = b"
| "breaker_run opt b (c # cs) = breaker_run opt (breaker_step opt b c) cs"

text \<open>How many calls of a run the breaker let through.\<close>

fun admitted :: "breaker_options \<Rightarrow> breaker \<Rightarrow> breaker_call list \<Rightarrow> nat" where
  "admitted opt b [] = 0"
| "admitted opt b (Allow now # cs) =
     (if fst (allow opt now b) then 1 else 0) + admitted opt (breaker_step opt b (Allow now)) cs"
| "admitted opt b (Record now ok # cs) = admitted opt (breaker_step opt b (Record now ok)) cs"

text \<open>The abstract view: every outcome recorded since the last recovery, a probe's own outcome
  excepted.\<close>

fun breaker_history :: "breaker_options \<Rightarrow> breaker \<Rightarrow> bool list \<Rightarrow> breaker_call list \<Rightarrow> bool list" where
  "breaker_history opt b h [] = h"
| "breaker_history opt b h (Allow now # cs) =
     breaker_history opt (breaker_step opt b (Allow now)) h cs"
| "breaker_history opt b h (Record now ok # cs) =
     breaker_history opt (breaker_step opt b (Record now ok))
       (if brk_state b = HalfOpen then (if ok then [] else h) else h @ [\<not> ok]) cs"

text \<open>What holds of every breaker between calls: the window is bounded, and a closed circuit with a
  full window is below the threshold.\<close>

definition breaker_inv :: "breaker_options \<Rightarrow> breaker \<Rightarrow> bool" where
  "breaker_inv opt b =
     (length (brk_failures b) \<le> windowSize opt \<and>
      (brk_state b = Closed \<and> length (brk_failures b) = windowSize opt \<longrightarrow>
         \<not> rate_reached opt (brk_failures b)))"

text \<open>Some window of twenty consecutive outcomes held at least ten failures.\<close>

definition tripping_window :: "bool list \<Rightarrow> bool" where
  "tripping_window oks =
     list_ex (\<lambda>k. 20 \<le> k \<and> 10 \<le> length (filter Not (last_n 20 (take k oks)))) [0..<Suc (length oks)]"

section \<open>Lemmas\<close>

lemma push_outcome_last_n: "push_outcome n x (last_n n h) = last_n n (h @ [x])"
  by (simp add: push_outcome_def last_n_snoc)

lemma length_push_outcome: "length fs \<le> n \<Longrightarrow> length (push_outcome n x fs) \<le> n"
  by (auto simp: push_outcome_def Let_def)

lemma rate_reached_Nil [simp]: "\<not> rate_reached opt []"
  by (simp add: rate_reached_def)

lemma new_breaker_inv: "breaker_inv opt new_breaker"
  by (simp add: breaker_inv_def new_breaker_def)

lemma allow_inv [inv_intros]: "breaker_inv opt b \<Longrightarrow> breaker_inv opt (fst (snd (allow opt now b)))"
  by (auto simp: breaker_inv_def allow_def split: BreakerState.splits)

lemma record_outcome_inv [inv_intros]:
  "breaker_inv opt b \<Longrightarrow> breaker_inv opt (fst (record_outcome opt now ok b))"
  using length_push_outcome [of "brk_failures b" "windowSize opt" "\<not> ok"]
  by (cases "brk_state b") (auto simp: breaker_inv_def record_outcome_def Let_def)

lemma breaker_step_inv [inv_intros]: "breaker_inv opt b \<Longrightarrow> breaker_inv opt (breaker_step opt b c)"
  by (cases c) (simp_all add: inv_intros)

lemma allow_failures [frame_simps]: "brk_failures (fst (snd (allow opt now b))) = brk_failures b"
  by (simp add: allow_def split: BreakerState.splits)

lemma half_open_allow [simp]:
  "brk_state b = HalfOpen \<Longrightarrow> allow opt now b = (False, b, [])"
  by (simp add: allow_def)

lemma half_open_allows:
  "brk_state b = HalfOpen \<Longrightarrow> breaker_run opt b (map Allow ts) = b \<and> admitted opt b (map Allow ts) = 0"
  by (induction ts) simp_all

lemma failure_rate_bounds: "fs \<noteq> [] \<Longrightarrow> length fs \<le> 1000000 \<Longrightarrow> 0 \<le> failure_rate fs \<and> failure_rate fs \<le> 1"
proof -
  assume "fs \<noteq> []" "length fs \<le> 1000000"
  let ?x = "of_nat (length (filter (\<lambda>x. x) fs)) / of_nat (length fs) :: rat"
  have "0 \<le> ?x" "?x \<le> of_int 1"
    using \<open>fs \<noteq> []\<close> length_filter_le [of "\<lambda>x. x" fs] by (simp_all add: divide_le_eq)
  then show ?thesis
    unfolding failure_rate_def js_div_def
    using fl64_le_int [of ?x 1] fl64_nonneg [of ?x] by (simp add: MAX_SAFE_INTEGER_def)
qed

lemma breaker_run_append [simp]:
  "breaker_run opt b (cs @ ds) = breaker_run opt (breaker_run opt b cs) ds"
  by (induction cs arbitrary: b) simp_all

lemma breaker_run_inv: "breaker_inv opt b \<Longrightarrow> breaker_inv opt (breaker_run opt b cs)"
  by (induction cs arbitrary: b) (simp_all add: inv_intros)

lemma breaker_step_window:
  assumes "brk_failures b = last_n (windowSize opt) h"
  shows "brk_failures (breaker_step opt b (Record now ok)) =
    last_n (windowSize opt)
      (if brk_state b = HalfOpen then (if ok then [] else h) else h @ [\<not> ok])"
  using assms by (simp add: record_outcome_def Let_def push_outcome_last_n)

lemma breaker_run_window:
  "brk_failures b = last_n (windowSize opt) h \<Longrightarrow>
   brk_failures (breaker_run opt b cs) = last_n (windowSize opt) (breaker_history opt b h cs)"
proof (induction cs arbitrary: b h)
  case Nil
  then show ?case by simp
next
  case (Cons c cs)
  show ?case
  proof (cases c)
    case (Allow now)
    with Cons show ?thesis by (simp add: allow_failures)
  next
    case (Record now ok)
    have "brk_failures (breaker_step opt b (Record now ok)) =
      last_n (windowSize opt) (if brk_state b = HalfOpen then (if ok then [] else h) else h @ [\<not> ok])"
      using Cons.prems by (rule breaker_step_window)
    with Record show ?thesis
      by (simp only: breaker_run.simps breaker_history.simps Cons.IH)
  qed
qed

lemma open_admits:
  "brk_state b = Open \<Longrightarrow>
   admitted opt b (map Allow ts) = (if \<exists>t\<in>set ts. probeAfterMs opt \<le> t - brk_openedAt b then 1 else 0)"
proof (induction ts)
  case (Cons t ts)
  then show ?case
    using half_open_allows [of "b\<lparr>brk_state := HalfOpen\<rparr>" opt ts] by (auto simp: allow_def)
qed simp

text \<open>At the shipped tuning the rounded rate reaches one half exactly when ten of the twenty calls
  failed.\<close>

lemma default_rate_reached:
  assumes "length fs = 20"
  shows "rate_reached default_options fs \<longleftrightarrow> 10 \<le> length (filter (\<lambda>x. x) fs)"
proof -
  let ?n = "length (filter (\<lambda>x. x) fs)"
  have rate: "failure_rate fs = fl64 (of_nat ?n / 20)"
    using assms by (simp add: failure_rate_def js_div_def)
  have half: "fl64 (10 / 20) = 1 / 2" and below: "fl64 (9 / 20) < 1 / 2"
    by code_simp+
  show ?thesis
  proof (cases "10 \<le> ?n")
    case True
    then have "fl64 (10 / 20) \<le> fl64 (of_nat ?n / 20)"
      by (intro fl64_mono divide_right_mono) simp_all
    with True half rate assms show ?thesis
      by (auto simp: rate_reached_def default_options_def)
  next
    case False
    then have "fl64 (of_nat ?n / 20) \<le> fl64 (9 / 20)"
      by (intro fl64_mono divide_right_mono) simp_all
    with False below rate show ?thesis
      by (simp add: rate_reached_def default_options_def)
  qed
qed

lemma tripping_window_snoc:
  "tripping_window (oks @ [ok]) \<longleftrightarrow>
     tripping_window oks \<or>
     (20 \<le> Suc (length oks) \<and> 10 \<le> length (filter Not (last_n 20 (oks @ [ok]))))"
  by (auto simp: tripping_window_def list_ex_iff less_Suc_eq)

lemma filter_id_map_Not: "length (filter (\<lambda>x. x) (map Not xs)) = length (filter Not xs)"
  by (induction xs) simp_all

lemma last_n_map: "last_n n (map f xs) = map f (last_n n xs)"
  by (simp add: last_n_def drop_map)

lemma records_run:
  fixes t :: millis
  defines "run \<equiv> \<lambda>oks. breaker_run default_options new_breaker (map (Record t) oks)"
  shows "brk_failures (run oks) = last_n 20 (map Not oks) \<and>
    brk_state (run oks) = (if tripping_window oks then Open else Closed)"
proof (induction oks rule: rev_induct)
  case Nil
  then show ?case
    by (simp add: run_def new_breaker_def tripping_window_def)
next
  case (snoc ok oks)
  have step: "run (oks @ [ok]) = fst (record_outcome default_options t ok (run oks))"
    by (simp add: run_def)
  have win: "push_outcome 20 (\<not> ok) (brk_failures (run oks)) = last_n 20 (map Not (oks @ [ok]))"
    using snoc by (simp add: push_outcome_last_n)
  have w20: "windowSize default_options = 20"
    by (simp add: default_options_def)
  have len: "length (last_n 20 (map Not (oks @ [ok]))) = min 20 (Suc (length oks))"
    by (simp add: length_last_n)
  show ?case
  proof (cases "20 \<le> Suc (length oks)")
    case True
    with len have full: "length (last_n 20 (map Not (oks @ [ok]))) = 20"
      by simp
    have "rate_reached default_options (last_n 20 (map Not (oks @ [ok]))) \<longleftrightarrow>
      10 \<le> length (filter Not (last_n 20 (oks @ [ok])))"
      using default_rate_reached [OF full] by (simp only: last_n_map filter_id_map_Not)
    with True snoc show ?thesis
      unfolding step record_outcome_def Let_def w20 win len tripping_window_snoc by auto
  next
    case False
    with snoc show ?thesis
      unfolding step record_outcome_def Let_def w20 win len tripping_window_snoc by auto
  qed
qed

section \<open>Properties\<close>

text \<open>Whatever calls a breaker has served, its window holds at most \<open>windowSize\<close> outcomes, and a
  closed circuit never sits on a full window whose failure rate has reached the threshold.\<close>

theorem breaker_window_invariant: "breaker_inv opt (breaker_run opt new_breaker cs)"
  by (rule breaker_run_inv [OF new_breaker_inv])

text \<open>C15: The window the breaker judges is the tail of length \<open>windowSize\<close> of the full history of
  outcomes since the last recovery: the push-and-shift array refines the unbounded history.\<close>

theorem breaker_window_refines_history:
  "brk_failures (breaker_run opt new_breaker cs) =
     last_n (windowSize opt) (breaker_history opt new_breaker [] cs)"
  by (rule breaker_run_window) (simp add: new_breaker_def)

text \<open>At the shipped tuning (20 calls, 0.5), a fresh breaker that records a sequence of outcomes
  is open exactly when some twenty consecutive outcomes contained at least ten failures; before
  that it is closed, so a short burst of failures on a cold start never opens it.\<close>

theorem breaker_opens_exactly:
  "brk_state (breaker_run default_options new_breaker (map (Record t) oks)) =
     (if tripping_window oks then Open else Closed)"
  using records_run by blast

text \<open>C16: However many calls arrive while the circuit is open, exactly one is admitted once the probe
  delay has passed, and none before: the rest are refused until an outcome is recorded.\<close>

theorem breaker_single_probe:
  "brk_state b = Open \<Longrightarrow>
   admitted opt b (map Allow ts) = (if \<exists>t\<in>set ts. probeAfterMs opt \<le> t - brk_openedAt b then 1 else 0)"
  by (rule open_admits)

theorem breaker_single_probe_witness:
  "admitted default_options \<lparr>brk_state = Open, brk_failures = [], brk_openedAt = 1000\<rparr>
     (map Allow [5000, 11000, 11001, 30000]) = 1"
  using breaker_single_probe [of "\<lparr>brk_state = Open, brk_failures = [], brk_openedAt = 1000\<rparr>"
      default_options "[5000, 11000, 11001, 30000]"]
  by (simp add: default_options_def)

end
