(* ===== verification/Pricing_Client.thy ===== *)
theory Pricing_Client
  imports Circuit_Breaker Contracts_Primitives
begin

text \<open>
  The client of pricing-engine (\<^verbatim>\<open>services/cart-service/src/pricing.ts\<close>), class
  \<^verbatim>\<open>PricingClient\<close>.

  The engine is behind gRPC and is an argument: for a request it raises before the call is made,
  reports an error code, answers with nothing, or answers with a priced cart. \<open>calculate\<close> takes two
  clock readings, one at the guard and one when the callback runs, and returns what the promise
  settles to, the breaker and the label of the \<^verbatim>\<open>pricingCalls\<close> counter it increments.

  What the client needs of a breaker is the locale \<open>gate\<close>; the class \<^verbatim>\<open>CircuitBreaker\<close> interprets it.
\<close>

section \<open>Data\<close>

record priced_line =
  unitEffectivePrice :: money
  pl_lineTotal :: money
  lineDiscount :: money

record applied_promotion =
  promotionId :: string
  ap_name :: string
  ap_discount :: money
  ap_couponCode :: "string option"

record rejected_promotion =
  rp_couponCode :: string
  rp_reasonCode :: string

record PricedCart =
  pc_lines :: "priced_line list"
  pc_subtotal :: money
  pc_discountTotal :: money
  pc_shippingTotal :: money
  pc_taxTotal :: money
  pc_grandTotal :: money
  appliedPromotions :: "applied_promotion list"
  rejectedPromotions :: "rejected_promotion list"
  pc_rulesVersion :: string
  degraded :: bool

record request_line =
  rl_sku :: string
  rl_productId :: string
  rl_quantity :: int
  unitListPrice :: money
  rl_categoryPath :: "string list"
  rl_brand :: "string option"
  rl_attributes :: "(string \<times> string) list"

record CalculateRequest =
  rq_lines :: "request_line list"
  rq_userId :: "string option"
  rq_currency :: string
  rq_countryCode :: string
  rq_couponCodes :: "string list"
  rq_channel :: string

datatype engine_answer = Threw | ServiceError nat | EmptyResponse | Answered PricedCart

datatype pricing_error = CircuitIsOpen | EngineThrew | EngineError nat | EngineEmpty

section \<open>Operations\<close>

definition DEADLINE_MS :: millis where
  "DEADLINE_MS = 250"

text \<open>The breaker the client is built with.\<close>

definition pricing_breaker_options :: breaker_options where
  "pricing_breaker_options = \<lparr>windowSize = 20, failureThreshold = 1 / 2, probeAfterMs = 10000\<rparr>"

text \<open>The private methods \<^verbatim>\<open>allow\<close> and \<^verbatim>\<open>record\<close>.\<close>

definition pricing_allow :: "breaker_options \<Rightarrow> millis \<Rightarrow> breaker \<Rightarrow> bool \<times> breaker" where
  "pricing_allow opt now b = (let (ok, b', ev) = allow opt now b in (ok, b'))"

definition pricing_record :: "breaker_options \<Rightarrow> millis \<Rightarrow> bool \<Rightarrow> breaker \<Rightarrow> breaker" where
  "pricing_record opt now ok b = fst (record_outcome opt now ok b)"

definition calculate_via ::
  "(millis \<Rightarrow> 's \<Rightarrow> bool \<times> 's) \<Rightarrow> (millis \<Rightarrow> bool \<Rightarrow> 's \<Rightarrow> 's) \<Rightarrow>
   (CalculateRequest \<Rightarrow> engine_answer) \<Rightarrow> millis \<Rightarrow> millis \<Rightarrow> CalculateRequest \<Rightarrow> 's \<Rightarrow>
   (pricing_error + PricedCart) \<times> 's \<times> string option" where
  "calculate_via admit settle engine t t' req s =
     (let (ok, s') = admit t s
      in if \<not> ok then (Inl CircuitIsOpen, s', Some ''circuit_open'')
         else case engine req of
                Threw \<Rightarrow> (Inl EngineThrew, s', None)
              | ServiceError code \<Rightarrow>
                  (Inl (EngineError code), settle t' False s',
                   Some (if code = 4 then ''deadline'' else ''error''))
              | EmptyResponse \<Rightarrow> (Inl EngineEmpty, settle t' False s', Some ''error'')
              | Answered p \<Rightarrow> (Inr p, settle t' True s', Some ''ok''))"

definition calculate ::
  "(CalculateRequest \<Rightarrow> engine_answer) \<Rightarrow> millis \<Rightarrow> millis \<Rightarrow> CalculateRequest \<Rightarrow> breaker \<Rightarrow>
   (pricing_error + PricedCart) \<times> breaker \<times> string option" where
  "calculate = calculate_via (pricing_allow pricing_breaker_options) (pricing_record pricing_breaker_options)"

definition breakerState :: "breaker \<Rightarrow> BreakerState" where
  "breakerState b = currentState b"

text \<open>A sequence of calls, each with its two clock readings: how many reach the engine.\<close>

fun reaching :: "(CalculateRequest \<Rightarrow> engine_answer) \<Rightarrow> CalculateRequest \<Rightarrow>
    (millis \<times> millis) list \<Rightarrow> breaker \<Rightarrow> nat" where
  "reaching engine req [] b = 0"
| "reaching engine req ((t, t') # ts) b =
     (case calculate engine t t' req b of
        (r, b', m) \<Rightarrow> (if r = Inl CircuitIsOpen then 0 else 1) + reaching engine req ts b')"

text \<open>The circuit refuses a call made now.\<close>

definition breaker_shut :: "breaker_options \<Rightarrow> millis \<Rightarrow> breaker \<Rightarrow> bool" where
  "breaker_shut opt now b =
     (brk_state b = HalfOpen \<or> brk_state b = Open \<and> now - brk_openedAt b < probeAfterMs opt)"

section \<open>What the client needs of a breaker\<close>

locale gate =
  fixes admit :: "millis \<Rightarrow> 's \<Rightarrow> bool \<times> 's"
    and settle :: "millis \<Rightarrow> bool \<Rightarrow> 's \<Rightarrow> 's"
    and shut :: "millis \<Rightarrow> 's \<Rightarrow> bool"
  assumes shut_refuses: "shut now s \<Longrightarrow> admit now s = (False, s)"
    and not_shut_admits: "\<not> shut now s \<Longrightarrow> fst (admit now s)"
begin

lemma shut_call:
  "shut t s \<Longrightarrow>
   calculate_via admit settle engine t t' req s = (Inl CircuitIsOpen, s, Some ''circuit_open'')"
  by (simp add: calculate_via_def shut_refuses)

lemma admitted_call:
  assumes "\<not> shut t s"
  shows "calculate_via admit settle engine t t' req s =
    (case engine req of
       Threw \<Rightarrow> (Inl EngineThrew, snd (admit t s), None)
     | ServiceError code \<Rightarrow>
         (Inl (EngineError code), settle t' False (snd (admit t s)),
          Some (if code = 4 then ''deadline'' else ''error''))
     | EmptyResponse \<Rightarrow> (Inl EngineEmpty, settle t' False (snd (admit t s)), Some ''error'')
     | Answered p \<Rightarrow> (Inr p, settle t' True (snd (admit t s)), Some ''ok''))"
  using not_shut_admits [OF assms]
  by (cases "admit t s") (simp add: calculate_via_def split: engine_answer.splits)

lemma refused_iff_shut:
  "fst (calculate_via admit settle engine t t' req s) = Inl CircuitIsOpen \<longleftrightarrow> shut t s"
  by (cases "shut t s"; cases "engine req") (simp_all add: shut_call admitted_call)

end

lemma pricing_allow_refuses: "breaker_shut opt now b \<Longrightarrow> pricing_allow opt now b = (False, b)"
  by (auto simp: breaker_shut_def pricing_allow_def allow_def)

lemma pricing_allow_admits: "\<not> breaker_shut opt now b \<Longrightarrow> fst (pricing_allow opt now b)"
  by (auto simp: breaker_shut_def pricing_allow_def allow_def split: BreakerState.splits)

interpretation pricing_gate:
  gate "pricing_allow opt" "pricing_record opt" "breaker_shut opt" for opt
  by unfold_locales (simp_all add: pricing_allow_refuses pricing_allow_admits)

section \<open>Lemmas\<close>

lemma pricing_options_default: "pricing_breaker_options = default_options"
  by (simp add: pricing_breaker_options_def default_options_def)

text \<open>A closed breaker that has only seen \<open>k\<close> failures.\<close>

definition failed_times :: "nat \<Rightarrow> breaker \<Rightarrow> bool" where
  "failed_times k b = (brk_state b = Closed \<and> brk_failures b = replicate k True)"

lemma replicate_snoc: "replicate k x @ [x] = replicate (Suc k) x"
  by (simp add: replicate_append_same)

lemma failing_call_reaches:
  assumes "failed_times k b" "k < 20" "\<And>p. engine req \<noteq> Answered p" "engine req \<noteq> Threw"
  shows "\<exists>b'. snd (calculate engine t t' req b) = (b', snd (snd (calculate engine t t' req b))) \<and>
    fst (calculate engine t t' req b) \<noteq> Inl CircuitIsOpen \<and>
    (if k < 19 then failed_times (Suc k) b' else brk_state b' = Open \<and> brk_openedAt b' = t')"
proof -
  have closed: "brk_state b = Closed" and fs: "brk_failures b = replicate k True"
    using assms(1) by (simp_all add: failed_times_def)
  have unshut: "\<not> breaker_shut default_options t b"
    using closed by (simp add: breaker_shut_def)
  have stay: "snd (pricing_allow default_options t b) = b"
    using closed by (simp add: pricing_allow_def allow_def)
  have push: "push_outcome 20 True (replicate k True) = replicate (Suc k) True"
    using assms(2) by (simp add: push_outcome_def replicate_snoc del: replicate.simps)
  have w20: "windowSize default_options = 20"
    by (simp add: default_options_def)
  have reached: "k = 19 \<Longrightarrow> rate_reached default_options (replicate (Suc k) True)"
    by (subst default_rate_reached) simp_all
  let ?b = "pricing_record default_options t' False b"
  have "if k < 19 then failed_times (Suc k) ?b else brk_state ?b = Open \<and> brk_openedAt ?b = t'"
  proof (cases "k = 19")
    case True
    with reached closed fs push show ?thesis
      by (simp add: pricing_record_def record_outcome_def Let_def w20 del: replicate.simps)
  next
    case False
    with assms(2) closed fs push show ?thesis
      by (simp add: pricing_record_def record_outcome_def Let_def failed_times_def w20
          del: replicate.simps)
  qed
  then show ?thesis
    using assms(3,4) pricing_gate.admitted_call [OF unshut, of engine t' req] stay
    by (cases "engine req") (auto simp: calculate_def pricing_options_default)
qed

lemma open_reaches_nothing:
  assumes "brk_state b = Open" "\<forall>(t, t')\<in>set ts. t - brk_openedAt b < 10000"
  shows "reaching engine req ts b = 0"
  using assms(2)
proof (induction ts)
  case (Cons p ts)
  obtain t t' where p: "p = (t, t')" by (cases p)
  have "breaker_shut default_options t b"
    using Cons.prems assms(1) p by (auto simp: breaker_shut_def default_options_def)
  then show ?case
    using Cons p pricing_gate.shut_call [of default_options t b engine t' req]
    by (simp add: calculate_def pricing_options_default)
qed simp

lemma failing_run_reaches:
  assumes "\<And>p. engine req \<noteq> Answered p" "engine req \<noteq> Threw"
    and "failed_times k b" "k < 20"
    and "\<forall>(t, t')\<in>set ts. T \<le> t \<and> t \<le> t' \<and> t < T + 10000"
  shows "reaching engine req ts b = min (length ts) (20 - k)"
  using assms(3-)
proof (induction ts arbitrary: k b)
  case (Cons p ts)
  obtain t t' where p: "p = (t, t')" by (cases p)
  obtain b' where b': "snd (calculate engine t t' req b) = (b', snd (snd (calculate engine t t' req b)))"
    and ne: "fst (calculate engine t t' req b) \<noteq> Inl CircuitIsOpen"
    and after: "if k < 19 then failed_times (Suc k) b' else brk_state b' = Open \<and> brk_openedAt b' = t'"
    using failing_call_reaches [where engine = engine and req = req, OF Cons.prems(1,2) assms(1,2)] by blast
  have step: "reaching engine req (p # ts) b = Suc (reaching engine req ts b')"
    using b' ne p by (simp split: prod.splits) (metis fst_conv snd_conv)
  have times: "\<forall>(t, t')\<in>set ts. T \<le> t \<and> t \<le> t' \<and> t < T + 10000"
    using Cons.prems(3) by simp
  show ?case
  proof (cases "k < 19")
    case True
    then show ?thesis
      using Cons.IH [of "Suc k" b'] after times step by simp
  next
    case False
    moreover have "T \<le> t'"
      using Cons.prems(3) p by auto
    ultimately have "reaching engine req ts b' = 0"
      using after times by (intro open_reaches_nothing) auto
    with step False Cons.prems(2) show ?thesis
      by simp
  qed
qed simp

section \<open>Properties\<close>



text \<open>A probe that raises before the call is made leaves the circuit half-open, and from then on
  every call is refused, however long the process runs: nothing records an outcome any more.\<close>

theorem probe_that_raises_wedges:
  assumes "brk_state b = Open" "probeAfterMs pricing_breaker_options \<le> t - brk_openedAt b"
    and "engine req = Threw"
  shows "reaching engine' req' calls (fst (snd (calculate engine t t' req b))) = 0"
proof -
  let ?b = "fst (snd (calculate engine t t' req b))"
  have "brk_state ?b = HalfOpen"
    using assms
    by (simp add: calculate_def calculate_via_def pricing_allow_def allow_def)
  then have "breaker_shut pricing_breaker_options u ?b" for u
    by (simp add: breaker_shut_def)
  then have "calculate engine' u u' req' ?b = (Inl CircuitIsOpen, ?b, Some ''circuit_open'')" for u u'
    unfolding calculate_def by (simp add: pricing_gate.shut_call)
  then show ?thesis
    by (induction calls) auto
qed

theorem probe_that_raises_wedges_witness:
  "reaching (\<lambda>_. EmptyResponse)
     \<lparr>rq_lines = [], rq_userId = None, rq_currency = ''EGP'', rq_countryCode = ''EG'',
      rq_couponCodes = [], rq_channel = ''web''\<rparr>
     (replicate 5 (10 ^ 12, 10 ^ 12))
     (fst (snd (calculate (\<lambda>_. Threw) 20000 20000
        \<lparr>rq_lines = [], rq_userId = None, rq_currency = ''EGP'', rq_countryCode = ''EG'',
         rq_couponCodes = [], rq_channel = ''web''\<rparr>
        \<lparr>brk_state = Open, brk_failures = [], brk_openedAt = 0\<rparr>))) = 0"
  by (rule probe_that_raises_wedges) (simp_all add: pricing_breaker_options_def)

end
