(* ===== verification/Ulid.thy ===== *)
theory Ulid
  imports Contracts_Primitives
begin

text \<open>
  The identifiers the services mint: the function \<^verbatim>\<open>ulid\<close> of
  \<^verbatim>\<open>services/cart-service/src/cart.ts\<close> (and its copy in
  \<^verbatim>\<open>services/review-service/src/index.ts\<close>). The clock reading and the sixteen random bytes are
  arguments. The lemmas show that a minted identifier is one the contracts accept, and that
  identifiers minted at different times sort by time.
\<close>

section \<open>Minting\<close>

definition CROCKFORD :: string where
  "CROCKFORD = ''0123456789ABCDEFGHJKMNPQRSTVWXYZ''"

text \<open>The loop of \<^verbatim>\<open>Array.from\<close>: the digits of \<open>ts\<close> in base 32, least significant first.\<close>

fun time_digits :: "nat \<Rightarrow> nat \<Rightarrow> string" where
  "time_digits 0 ts = []"
| "time_digits (Suc n) ts = CROCKFORD ! (ts mod 32) # time_digits n (ts div 32)"

definition ulid :: "nat \<Rightarrow> nat list \<Rightarrow> string" where
  "ulid ts bytes =
     rev (time_digits 10 ts) @ map (\<lambda>b. CROCKFORD ! (b mod 32)) (take 16 bytes)"

section \<open>Lemmas\<close>

lemma crockford_length [simp]: "length CROCKFORD = 32"
  by (simp add: CROCKFORD_def)

lemma crockford_chars: "list_all (in_cls ulid_cls) CROCKFORD"
  by code_simp

lemma crockford_sorted: "sorted_wrt (\<lambda>c d. (code_unit c :: nat) < code_unit d) CROCKFORD"
  by code_simp

lemma crockford_nth: "i < 32 \<Longrightarrow> in_cls ulid_cls (CROCKFORD ! i)"
  using crockford_chars by (simp add: list_all_length)

lemma crockford_less:
  "i < j \<Longrightarrow> j < 32 \<Longrightarrow> (code_unit (CROCKFORD ! i) :: nat) < code_unit (CROCKFORD ! j)"
  using crockford_sorted by (simp add: sorted_wrt_iff_nth_less)

lemma length_time_digits [simp]: "length (time_digits n ts) = n"
  by (induction n arbitrary: ts) simp_all

lemma time_digits_chars: "list_all (in_cls ulid_cls) (time_digits n ts)"
  by (induction n arbitrary: ts) (simp_all add: crockford_nth)

lemma length_ulid: "length bytes = 16 \<Longrightarrow> length (ulid ts bytes) = 26"
  by (simp add: ulid_def)

lemma ulid_chars: "list_all (in_cls ulid_cls) (ulid ts bytes)"
  using time_digits_chars by (auto simp: ulid_def list_all_iff crockford_nth)

lemma ulid_is_prefixed_id: "length bytes = 16 \<Longrightarrow> is_prefixed_id p (p @ ''_'' @ ulid ts bytes)"
  by (simp add: is_prefixed_id_def length_ulid ulid_chars)

lemma time_digits_less:
  assumes "a < b" "b < 32 ^ n"
  shows "(rev (time_digits n a), rev (time_digits n b))
           \<in> lexord {(c, d). (code_unit c :: nat) < code_unit d}"
  using assms
proof (induction n arbitrary: a b)
  case (Suc n)
  show ?case
  proof (cases "a div 32 = b div 32")
    case True
    then have "a mod 32 < b mod 32"
      using Suc.prems(1) by (metis div_mult_mod_eq add_less_cancel_left)
    with True show ?thesis
      by (simp add: crockford_less lexord_same_pref_iff)
  next
    case False
    then have "a div 32 < b div 32"
      using Suc.prems(1) div_le_mono [of a b 32] by simp
    moreover have "b div 32 < 32 ^ n"
      using Suc.prems(2) by (simp add: less_mult_imp_div_less mult.commute)
    ultimately show ?thesis
      using Suc.IH by (simp add: lexord_sufI)
  qed
qed simp

section \<open>Properties\<close>

text \<open>Every identifier \<^verbatim>\<open>create\<close> mints, whatever the clock and the random bytes, is one that
  the contract's \<^verbatim>\<open>CartId\<close> accepts unchanged.\<close>

theorem minted_cart_id_valid:
  assumes "zod parse fmt" "length bytes = 16"
  shows "parse CartId (Some (JStr (''crt_'' @ ulid ts bytes))) =
           Accept (Some (JStr (''crt_'' @ ulid ts bytes)))"
  using zod.parse_prefixedId [OF assms(1)] ulid_is_prefixed_id [OF assms(2), of "''crt''" ts]
  by (simp add: CartId_def)

theorem minted_cart_id_valid_witness:
  "zparse \<lparr>is_email = \<lambda>_. True, is_url = \<lambda>_. True, is_uuid = \<lambda>_. True, to_number = \<lambda>_. None\<rparr> CartId
     (Some (JStr (''crt_'' @ ulid 1700000000000 (replicate 16 33)))) =
   Accept (Some (JStr (''crt_'' @ ulid 1700000000000 (replicate 16 33))))"
  by (rule minted_cart_id_valid [OF zp.zod_axioms]) simp

text \<open>Identifiers sort by the time they were minted at, millisecond by millisecond, whatever
  the random part, for every clock reading that ten base-32 digits can hold.\<close>

theorem ulid_time_ordered:
  assumes "t < t'" "t' < 2 ^ 50"
  shows "(ulid t bytes, ulid t' bytes') \<in> lexord {(c, d). (code_unit c :: nat) < code_unit d}"
  using time_digits_less [of t t' 10] assms by (simp add: ulid_def lexord_sufI)

theorem ulid_time_ordered_witness:
  "(ulid 1700000000000 (replicate 16 255), ulid 1700000000001 (replicate 16 0))
     \<in> lexord {(c, d). (code_unit c :: nat) < code_unit d}"
  by (rule ulid_time_ordered) simp_all

end
