(* ===== verification/Cart_Service.thy ===== *)
theory Cart_Service
  imports Redis_Store Catalog_Client Pricing_Client Ulid
begin

text \<open>
  Cart storage and pricing (\<^verbatim>\<open>services/cart-service/src/cart.ts\<close>), class \<^verbatim>\<open>CartService\<close>.

  \<^item> \<open>stored_cart\<close> and \<open>stored_line\<close> are what is kept in Redis, \<open>cart_view\<close> the \<^verbatim>\<open>Cart\<close> a method returns.
  \<^item> The service's state \<open>svc\<close> extends the Redis client's by the catalog cache and the breaker.
    \<open>cart_env\<close> gathers what is outside the repository: the Redis commands, the interference of other
    requests, the catalog's and the engine's answers, the clock, the random bytes, and the fuel of
    \<^verbatim>\<open>cas\<close>.
  \<^item> Each method is an action of type \<open>act\<close> with the source's name. One clock reading serves a whole
    request; the pricing callback has a second one.
  \<^item> \<open>cart_inv\<close> is the invariant of stored carts.
\<close>

section \<open>Data\<close>

record stored_line =
  l_sku :: string
  l_productId :: string
  l_quantity :: int
  l_addedAtPrice :: int
  l_addedAt :: millis

record stored_cart =
  sc_id :: string
  sc_userId :: "string option"
  sc_lines :: "stored_line list"
  sc_currency :: string
  sc_coupons :: "string list"
  sc_countryCode :: string
  sc_createdAt :: millis
  sc_updatedAt :: millis

record hydrated_line =
  h_sku :: string
  h_productId :: string
  h_title :: string
  h_image :: "string option"
  h_quantity :: int
  h_unitPrice :: money
  h_categoryPath :: "string list"
  h_brand :: "string option"
  h_attributes :: "(string \<times> string) list"

record cart_line =
  cl_sku :: string
  cl_productId :: string
  cl_title :: string
  cl_image :: "string option"
  cl_quantity :: int
  cl_unitPrice :: money
  cl_lineTotal :: money
  cl_priceChanged :: bool

record applied_coupon =
  ac_code :: string
  ac_discount :: money
  ac_name :: string

record rejected_coupon =
  rc_code :: string
  rc_reasonCode :: string

record cart_view =
  cv_id :: string
  cv_userId :: "string option"
  cv_lines :: "cart_line list"
  cv_subtotal :: money
  cv_discountTotal :: money
  cv_shippingTotal :: money
  cv_taxTotal :: money
  cv_total :: money
  cv_appliedCoupons :: "applied_coupon list"
  cv_rejectedCoupons :: "rejected_coupon list"
  cv_currency :: string
  cv_pricingDegraded :: bool
  cv_rulesVersion :: "string option"
  cv_version :: int
  cv_expiresAt :: millis
  cv_updatedAt :: millis

datatype cart_error =
    CartNotFound
  | ProductNotFound
  | ProductNotAvailable
  | LineNotFound
  | CartStale int int
  | CartFull
  | StoreError redis_error
  | BadPayload
  | MoneyError money_error

record 's svc = "'s rclient" +
  svc_cache :: variant_cache
  svc_breaker :: breaker

record 's cart_env =
  e_ops :: "('s, stored_cart) redis_ops"
  e_others :: "'s svc \<Rightarrow> 's svc"
  e_fetch :: catalog_fetch
  e_engine :: "CalculateRequest \<Rightarrow> engine_answer"
  e_now :: millis
  e_settled :: millis
  e_random :: "nat list"
  e_fuel :: nat

type_synonym ('s, 'a) cart_act = "('s svc, cart_error, 'a) act"

section \<open>Storage\<close>

definition CART_TTL_SECONDS :: int where
  "CART_TTL_SECONDS = 30 * 24 * 60 * 60"

definition ANON_CART_TTL_SECONDS :: int where
  "ANON_CART_TTL_SECONDS = 7 * 24 * 60 * 60"

definition MAX_LINES :: nat where
  "MAX_LINES = 100"

definition MAX_QTY_PER_LINE :: int where
  "MAX_QTY_PER_LINE = 99"

definition key :: "string \<Rightarrow> string" where
  "key cartId = ''cart:'' @ cartId"

definition userIndex :: "string \<Rightarrow> string" where
  "userIndex userId = ''cart:user:'' @ userId"

definition store_call :: "'s cart_env \<Rightarrow> ('s \<Rightarrow> 'a \<times> 's) \<Rightarrow> ('s, 'a) cart_act" where
  "store_call env f = map_error StoreError (redis_call (e_ops env) (e_others env) f)"

definition cas_cart :: "'s cart_env \<Rightarrow> string \<Rightarrow> int \<Rightarrow> stored_cart \<Rightarrow> int \<Rightarrow> ('s, int) cart_act" where
  "cas_cart env cartId version cart ttl =
     map_error StoreError (cas (e_ops env) (e_others env) (e_fuel env) (key cartId) version cart ttl)"

text \<open>What the two fields of a cart's hash are read as: the cart parsed from its JSON, and
  \<^verbatim>\<open>Number(version ?? 0)\<close>. The script writes only JSON beside a number; anything else in the hash
  is not JSON of a cart and fails to parse.\<close>

fun decode_cell ::
  "stored_cart rval option \<times> stored_cart rval option \<Rightarrow> cart_error + (stored_cart \<times> int) option" where
  "decode_cell (None, v) = Inr None"
| "decode_cell (Some (RText t), v) = (if t = [] then Inr None else Inl BadPayload)"
| "decode_cell (Some (RInt n), v) = Inl BadPayload"
| "decode_cell (Some (RJson c), None) = Inr (Some (c, 0))"
| "decode_cell (Some (RJson c), Some (RInt n)) = Inr (Some (c, n))"
| "decode_cell (Some (RJson c), Some v) = Inl BadPayload"

definition load :: "'s cart_env \<Rightarrow> string \<Rightarrow> ('s, (stored_cart \<times> int) option) cart_act" where
  "load env cartId =
     and_then (store_call env (\<lambda>r. (hmget_cell (e_ops env) (key cartId) r, r)))
       (\<lambda>raw. lift_sum (decode_cell raw))"

definition ttlFor :: "stored_cart \<Rightarrow> int" where
  "ttlFor cart = (if truthy (sc_userId cart) then CART_TTL_SECONDS else ANON_CART_TTL_SECONDS)"

section \<open>Pricing\<close>

definition hydrate_line :: "stored_line \<Rightarrow> variant \<Rightarrow> hydrated_line" where
  "hydrate_line line v =
     \<lparr>h_sku = l_sku line, h_productId = v_productId v, h_title = v_title v, h_image = v_image v,
      h_quantity = l_quantity line, h_unitPrice = v_price v, h_categoryPath = v_categoryPath v,
      h_brand = v_brand v, h_attributes = v_attributes v\<rparr>"

definition hydrate :: "'s cart_env \<Rightarrow> stored_cart \<Rightarrow> ('s, hydrated_line list) cart_act" where
  "hydrate env cart s =
     (if sc_lines cart = [] then (Inr [], s)
      else let (variants, cache) =
                 getVariants (e_fetch env) (e_now env) (map l_sku (sc_lines cart)) (svc_cache s)
           in (Inr (List.map_filter
                     (\<lambda>line. map_option (hydrate_line line) (by_sku variants (l_sku line)))
                     (sc_lines cart)),
               s\<lparr>svc_cache := cache\<rparr>))"

definition pricing_request :: "stored_cart \<Rightarrow> hydrated_line list \<Rightarrow> CalculateRequest" where
  "pricing_request cart lines =
     \<lparr>rq_lines = map (\<lambda>l. \<lparr>rl_sku = h_sku l, rl_productId = h_productId l, rl_quantity = h_quantity l,
        unitListPrice = h_unitPrice l, rl_categoryPath = h_categoryPath l, rl_brand = h_brand l,
        rl_attributes = h_attributes l\<rparr>) lines,
      rq_userId = sc_userId cart, rq_currency = sc_currency cart,
      rq_countryCode = sc_countryCode cart, rq_couponCodes = sc_coupons cart,
      rq_channel = ''web''\<rparr>"

definition expires_at :: "'s cart_env \<Rightarrow> stored_cart \<Rightarrow> millis" where
  "expires_at env cart = e_now env + ttlFor cart * 1000"

text \<open>The loop of \<^verbatim>\<open>degradedCart\<close>: line totals, and the subtotal summed as it goes.\<close>

fun degraded_lines :: "hydrated_line list \<Rightarrow> money \<Rightarrow> money_error + (cart_line list \<times> money)" where
  "degraded_lines [] subtotal = Inr ([], subtotal)"
| "degraded_lines (l # ls) subtotal =
     (case multiplyMoney (h_unitPrice l) (of_int (h_quantity l)) of
        Inl e \<Rightarrow> Inl e
      | Inr lineTotal \<Rightarrow>
          (case addMoney subtotal lineTotal of
             Inl e \<Rightarrow> Inl e
           | Inr subtotal' \<Rightarrow>
               (case degraded_lines ls subtotal' of
                  Inl e \<Rightarrow> Inl e
                | Inr (cls, subtotal'') \<Rightarrow>
                    Inr (\<lparr>cl_sku = h_sku l, cl_productId = h_productId l, cl_title = h_title l,
                          cl_image = h_image l, cl_quantity = h_quantity l,
                          cl_unitPrice = h_unitPrice l, cl_lineTotal = lineTotal,
                          cl_priceChanged = False\<rparr> # cls, subtotal''))))"

definition degradedCart ::
  "'s cart_env \<Rightarrow> stored_cart \<Rightarrow> hydrated_line list \<Rightarrow> int \<Rightarrow> money_error + cart_view" where
  "degradedCart env cart lines version =
     (case degraded_lines lines (zeroMoney (sc_currency cart)) of
        Inl e \<Rightarrow> Inl e
      | Inr (cls, subtotal) \<Rightarrow> Inr
          \<lparr>cv_id = sc_id cart, cv_userId = sc_userId cart, cv_lines = cls,
           cv_subtotal = subtotal, cv_discountTotal = zeroMoney (sc_currency cart),
           cv_shippingTotal = zeroMoney (sc_currency cart), cv_taxTotal = zeroMoney (sc_currency cart),
           cv_total = subtotal, cv_appliedCoupons = [], cv_rejectedCoupons = [],
           cv_currency = sc_currency cart, cv_pricingDegraded = True, cv_rulesVersion = None,
           cv_version = version, cv_expiresAt = expires_at env cart,
           cv_updatedAt = sc_updatedAt cart\<rparr>)"

text \<open>The line at index \<open>i\<close>: the hydrated line, the engine's line at the same index if it sent one,
  and the stored line at the same index. (There are at least as many stored lines as hydrated ones.)\<close>

definition priced_cart_line ::
  "hydrated_line \<Rightarrow> priced_line option \<Rightarrow> stored_line \<Rightarrow> money_error + cart_line" where
  "priced_cart_line l p stored =
     (case (case p of Some q \<Rightarrow> Inr (pl_lineTotal q)
                    | None \<Rightarrow> multiplyMoney (h_unitPrice l) (of_int (h_quantity l))) of
        Inl e \<Rightarrow> Inl e
      | Inr lineTotal \<Rightarrow>
          let unit = nullish (map_option unitEffectivePrice p) (h_unitPrice l)
          in Inr \<lparr>cl_sku = h_sku l, cl_productId = h_productId l, cl_title = h_title l,
                  cl_image = h_image l, cl_quantity = h_quantity l, cl_unitPrice = unit,
                  cl_lineTotal = lineTotal,
                  cl_priceChanged = (amount unit \<noteq> l_addedAtPrice stored)\<rparr>)"

fun priced_cart_lines ::
  "hydrated_line list \<Rightarrow> priced_line list \<Rightarrow> stored_line list \<Rightarrow> money_error + cart_line list" where
  "priced_cart_lines (l # ls) ps (st # sts) =
     (case priced_cart_line l (case ps of [] \<Rightarrow> None | p # _ \<Rightarrow> Some p) st of
        Inl e \<Rightarrow> Inl e
      | Inr c \<Rightarrow>
          (case priced_cart_lines ls (tl ps) sts of Inl e \<Rightarrow> Inl e | Inr cs \<Rightarrow> Inr (c # cs)))"
| "priced_cart_lines _ _ _ = Inr []"

definition pricedCart ::
  "'s cart_env \<Rightarrow> stored_cart \<Rightarrow> hydrated_line list \<Rightarrow> PricedCart \<Rightarrow> int \<Rightarrow> money_error + cart_view" where
  "pricedCart env cart lines priced version =
     (case priced_cart_lines lines (pc_lines priced) (sc_lines cart) of
        Inl e \<Rightarrow> Inl e
      | Inr cls \<Rightarrow> Inr
          \<lparr>cv_id = sc_id cart, cv_userId = sc_userId cart, cv_lines = cls,
           cv_subtotal = pc_subtotal priced, cv_discountTotal = pc_discountTotal priced,
           cv_shippingTotal = pc_shippingTotal priced, cv_taxTotal = pc_taxTotal priced,
           cv_total = pc_grandTotal priced,
           cv_appliedCoupons =
             map (\<lambda>p. \<lparr>ac_code = the (ap_couponCode p), ac_discount = ap_discount p, ac_name = ap_name p\<rparr>)
               (filter (\<lambda>p. truthy (ap_couponCode p)) (appliedPromotions priced)),
           cv_rejectedCoupons =
             map (\<lambda>r. \<lparr>rc_code = rp_couponCode r, rc_reasonCode = rp_reasonCode r\<rparr>)
               (rejectedPromotions priced),
           cv_currency = sc_currency cart, cv_pricingDegraded = degraded priced,
           cv_rulesVersion = Some (pc_rulesVersion priced), cv_version = version,
           cv_expiresAt = expires_at env cart, cv_updatedAt = sc_updatedAt cart\<rparr>)"

definition price :: "'s cart_env \<Rightarrow> stored_cart \<Rightarrow> int \<Rightarrow> ('s, cart_view) cart_act" where
  "price env cart version =
     and_then (hydrate env cart)
       (\<lambda>lines s.
          case calculate (e_engine env) (e_now env) (e_settled env) (pricing_request cart lines)
                 (svc_breaker s) of
            (r, b, m) \<Rightarrow>
              map_error MoneyError
                (lift_sum (case r of
                             Inl e \<Rightarrow> degradedCart env cart lines version
                           | Inr priced \<Rightarrow> pricedCart env cart lines priced version))
                (s\<lparr>svc_breaker := b\<rparr>))"

section \<open>The methods\<close>

definition get_cart :: "'s cart_env \<Rightarrow> string \<Rightarrow> ('s, cart_view option) cart_act" where
  "get_cart env cartId =
     and_then (load env cartId)
       (\<lambda>loaded. case loaded of
          None \<Rightarrow> ret None
        | Some (cart, version) \<Rightarrow> and_then (price env cart version) (\<lambda>c. ret (Some c)))"

definition create :: "'s cart_env \<Rightarrow> string option \<Rightarrow> string \<Rightarrow> string \<Rightarrow> ('s, cart_view) cart_act" where
  "create env userId cur countryCode =
     (let cartId = ''crt_'' @ ulid (nat (e_now env)) (e_random env);
          cart = \<lparr>sc_id = cartId, sc_userId = userId, sc_lines = [], sc_currency = cur,
                  sc_coupons = [], sc_countryCode = countryCode, sc_createdAt = e_now env,
                  sc_updatedAt = e_now env\<rparr>
      in and_then (cas_cart env cartId 0 cart (ttlFor cart))
           (\<lambda>_. and_then
              (if truthy userId
               then store_call env (\<lambda>r. ((), r_set_ex (e_ops env) (userIndex (the userId)) cartId CART_TTL_SECONDS r))
               else ret ())
              (\<lambda>_. price env cart 1)))"

text \<open>The catalog lookup of \<^verbatim>\<open>addLine\<close>, through the cache.\<close>

definition find_variant :: "'s cart_env \<Rightarrow> string \<Rightarrow> ('s, variant option) cart_act" where
  "find_variant env sku s =
     (let (v, cache) = getVariant (e_fetch env) (e_now env) sku (svc_cache s)
      in (Inr v, s\<lparr>svc_cache := cache\<rparr>))"

definition add_to_lines ::
  "millis \<Rightarrow> string \<Rightarrow> int \<Rightarrow> variant \<Rightarrow> stored_line list \<Rightarrow> cart_error + stored_line list" where
  "add_to_lines now sku quantity product lines =
     (if list_ex (\<lambda>l. l_sku l = sku) lines
      then Inr (update_first (\<lambda>l. l_sku l = sku)
                  (\<lambda>l. l\<lparr>l_quantity := min (l_quantity l + quantity) MAX_QTY_PER_LINE\<rparr>) lines)
      else if length lines \<ge> MAX_LINES then Inl CartFull
      else Inr (lines @ [\<lparr>l_sku = sku, l_productId = v_productId product,
                          l_quantity = min quantity MAX_QTY_PER_LINE,
                          l_addedAtPrice = amount (v_price product), l_addedAt = now\<rparr>]))"

text \<open>The tail that the mutations share: write, report a conflict with the version now stored, and
  price what was written.\<close>

definition commit :: "'s cart_env \<Rightarrow> string \<Rightarrow> stored_cart \<Rightarrow> int \<Rightarrow> ('s, cart_view) cart_act" where
  "commit env cartId cart version =
     and_then (cas_cart env cartId version cart (ttlFor cart))
       (\<lambda>next. if next = -1
         then and_then (load env cartId)
                (\<lambda>fresh. raise (CartStale version (nullish (map_option snd fresh) (-1))))
         else price env cart next)"

definition addLine ::
  "'s cart_env \<Rightarrow> string \<Rightarrow> string \<Rightarrow> int \<Rightarrow> int \<Rightarrow> ('s, cart_view) cart_act" where
  "addLine env cartId sku quantity expectedVersion =
     and_then (load env cartId)
       (\<lambda>loaded. case loaded of
          None \<Rightarrow> raise CartNotFound
        | Some (cart, version) \<Rightarrow>
            and_then (throw_if (version \<noteq> expectedVersion) (CartStale expectedVersion version))
              (\<lambda>_. and_then (find_variant env sku)
                 (\<lambda>product. case product of
                    None \<Rightarrow> raise ProductNotFound
                  | Some v \<Rightarrow>
                      and_then (throw_if (v_status v \<noteq> ''ACTIVE'') ProductNotAvailable)
                        (\<lambda>_. and_then (lift_sum (add_to_lines (e_now env) sku quantity v (sc_lines cart)))
                           (\<lambda>lines. commit env cartId
                              (cart\<lparr>sc_lines := lines, sc_updatedAt := e_now env\<rparr>) version)))))"

definition update_lines :: "string \<Rightarrow> int \<Rightarrow> stored_line list \<Rightarrow> cart_error + stored_line list" where
  "update_lines sku quantity lines =
     (if quantity = 0 then Inr (filter (\<lambda>l. l_sku l \<noteq> sku) lines)
      else if \<not> list_ex (\<lambda>l. l_sku l = sku) lines then Inl LineNotFound
      else Inr (update_first (\<lambda>l. l_sku l = sku)
                  (\<lambda>l. l\<lparr>l_quantity := min quantity MAX_QTY_PER_LINE\<rparr>) lines))"

definition updateLine ::
  "'s cart_env \<Rightarrow> string \<Rightarrow> string \<Rightarrow> int \<Rightarrow> int \<Rightarrow> ('s, cart_view) cart_act" where
  "updateLine env cartId sku quantity expectedVersion =
     and_then (load env cartId)
       (\<lambda>loaded. case loaded of
          None \<Rightarrow> raise CartNotFound
        | Some (cart, version) \<Rightarrow>
            and_then (throw_if (version \<noteq> expectedVersion) (CartStale expectedVersion version))
              (\<lambda>_. and_then (lift_sum (update_lines sku quantity (sc_lines cart)))
                 (\<lambda>lines. commit env cartId
                    (cart\<lparr>sc_lines := lines, sc_updatedAt := e_now env\<rparr>) version)))"

definition add_coupon :: "string \<Rightarrow> string list \<Rightarrow> string list" where
  "add_coupon code coupons =
     (let normalised = to_upper (trim code)
      in if normalised \<in> set coupons then coupons else coupons @ [normalised])"

definition applyCoupon ::
  "'s cart_env \<Rightarrow> string \<Rightarrow> string \<Rightarrow> int \<Rightarrow> ('s, cart_view) cart_act" where
  "applyCoupon env cartId code expectedVersion =
     and_then (load env cartId)
       (\<lambda>loaded. case loaded of
          None \<Rightarrow> raise CartNotFound
        | Some (cart, version) \<Rightarrow>
            and_then (throw_if (version \<noteq> expectedVersion) (CartStale expectedVersion version))
              (\<lambda>_. commit env cartId
                 (cart\<lparr>sc_coupons := add_coupon code (sc_coupons cart), sc_updatedAt := e_now env\<rparr>)
                 version))"

text \<open>One round of the loop of \<^verbatim>\<open>merge\<close>.\<close>

definition merge_line :: "stored_line \<Rightarrow> stored_line list \<Rightarrow> stored_line list" where
  "merge_line line merged =
     (if list_ex (\<lambda>l. l_sku l = l_sku line) merged
      then update_first (\<lambda>l. l_sku l = l_sku line)
             (\<lambda>l. l\<lparr>l_quantity := min (max (l_quantity l) (l_quantity line)) MAX_QTY_PER_LINE\<rparr>) merged
      else if length merged < MAX_LINES then merged @ [line]
      else merged)"

definition merge_lines :: "stored_line list \<Rightarrow> stored_line list \<Rightarrow> stored_line list" where
  "merge_lines merged anon = fold merge_line anon merged"

definition merge_carts :: "millis \<Rightarrow> stored_cart \<Rightarrow> stored_cart \<Rightarrow> stored_cart" where
  "merge_carts now existing anon =
     existing\<lparr>sc_lines := merge_lines (sc_lines existing) (sc_lines anon),
              sc_coupons := uniq (sc_coupons existing @ sc_coupons anon),
              sc_updatedAt := now\<rparr>"

definition merge :: "'s cart_env \<Rightarrow> string \<Rightarrow> string \<Rightarrow> ('s, cart_view) cart_act" where
  "merge env anonCartId userId =
     and_then (load env anonCartId)
       (\<lambda>anon. and_then (store_call env (\<lambda>r. (r_get (e_ops env) (userIndex userId) r, r)))
          (\<lambda>existingId. and_then (if truthy existingId then load env (the existingId) else ret None)
             (\<lambda>existing.
                case existing of
                  None \<Rightarrow>
                    (case anon of
                       None \<Rightarrow> create env (Some userId) ''EGP'' ''EG''
                     | Some (acart, aversion) \<Rightarrow>
                         (let cart = acart\<lparr>sc_userId := Some userId\<rparr>
                          in and_then (cas_cart env (sc_id cart) aversion cart CART_TTL_SECONDS)
                               (\<lambda>next. and_then
                                  (store_call env (\<lambda>r. ((), r_set_ex (e_ops env) (userIndex userId) (sc_id cart) CART_TTL_SECONDS r)))
                                  (\<lambda>_. price env cart next))))
                | Some (ecart, eversion) \<Rightarrow>
                    (case anon of
                       None \<Rightarrow> price env ecart eversion
                     | Some (acart, aversion) \<Rightarrow>
                         (let merged = merge_carts (e_now env) ecart acart
                          in and_then (cas_cart env (sc_id merged) eversion merged CART_TTL_SECONDS)
                               (\<lambda>next. and_then
                                  (store_call env (\<lambda>r. ((), r_del (e_ops env) (key anonCartId) r)))
                                  (\<lambda>_. price env merged next)))))))"

end
