(* ===== verification/Cart_Invariant.thy ===== *)
theory Cart_Invariant
  imports Cart_Service
begin

text \<open>
  The invariant of stored carts and that every method of \<^verbatim>\<open>CartService\<close> keeps it: at most a hundred
  lines, each SKU once, every quantity from 1 to 99, each coupon once. \<open>cart_request\<close> and
  \<open>run_requests\<close> drive the service through any sequence of requests, each with its own clock, random
  bytes, catalog and engine answers and interference.
\<close>

section \<open>Definitions\<close>

definition line_ok :: "stored_line \<Rightarrow> bool" where
  "line_ok l = (1 \<le> l_quantity l \<and> l_quantity l \<le> MAX_QTY_PER_LINE)"

definition lines_ok :: "stored_line list \<Rightarrow> bool" where
  "lines_ok ls = (length ls \<le> MAX_LINES \<and> distinct (map l_sku ls) \<and> list_all line_ok ls)"

definition cart_inv :: "stored_cart \<Rightarrow> bool" where
  "cart_inv c = (lines_ok (sc_lines c) \<and> distinct (sc_coupons c))"

text \<open>Every cart in the store satisfies the invariant, and every version is a number.\<close>

definition store_inv :: "('s, stored_cart) redis_ops \<Rightarrow> ('s, 'z) rclient_scheme \<Rightarrow> bool" where
  "store_inv ops s =
     ((\<forall>k c. cell_value ops k (rc_redis s) = Some c \<longrightarrow> cart_inv c) \<and>
      (\<forall>k. cell_ok ops k (rc_redis s)))"

text \<open>What a client is shown.\<close>

definition view_ok :: "cart_view \<Rightarrow> bool" where
  "view_ok c =
     (length (cv_lines c) \<le> MAX_LINES \<and>
      list_all (\<lambda>l. 1 \<le> cl_quantity l \<and> cl_quantity l \<le> MAX_QTY_PER_LINE) (cv_lines c))"

text \<open>The other clients of the store are other instances of this service: they keep the invariant.\<close>

definition env_ok :: "'s cart_env \<Rightarrow> bool" where
  "env_ok env =
     (redis (e_ops env) \<and> (\<forall>s. store_inv (e_ops env) s \<longrightarrow> store_inv (e_ops env) (e_others env s)))"

datatype cart_request =
    Get string
  | Create "string option" string string
  | AddLine string string int int
  | UpdateLine string string int int
  | ApplyCoupon string string int
  | Merge string string

text \<open>The bounds the route schemas put on a quantity.\<close>

fun request_ok :: "cart_request \<Rightarrow> bool" where
  "request_ok (AddLine c sku q v) = (1 \<le> q)"
| "request_ok (UpdateLine c sku q v) = (0 \<le> q)"
| "request_ok _ = True"

fun exec_request :: "'s cart_env \<Rightarrow> cart_request \<Rightarrow> ('s, cart_view option) cart_act" where
  "exec_request env (Get c) = get_cart env c"
| "exec_request env (Create u cur country) = and_then (create env u cur country) (\<lambda>v. ret (Some v))"
| "exec_request env (AddLine c sku q v) = and_then (addLine env c sku q v) (\<lambda>v. ret (Some v))"
| "exec_request env (UpdateLine c sku q v) = and_then (updateLine env c sku q v) (\<lambda>v. ret (Some v))"
| "exec_request env (ApplyCoupon c code v) = and_then (applyCoupon env c code v) (\<lambda>v. ret (Some v))"
| "exec_request env (Merge a u) = and_then (merge env a u) (\<lambda>v. ret (Some v))"

fun run_requests :: "('s cart_env \<times> cart_request) list \<Rightarrow> 's svc \<Rightarrow> 's svc" where
  "run_requests [] s = s"
| "run_requests ((env, q) # qs) s = run_requests qs (snd (exec_request env q s))"

section \<open>Lines and coupons\<close>

lemma qty_bounds: "1 \<le> q \<Longrightarrow> 1 \<le> min q MAX_QTY_PER_LINE \<and> min q MAX_QTY_PER_LINE \<le> MAX_QTY_PER_LINE"
  by (simp add: MAX_QTY_PER_LINE_def)

lemma update_first_lines_ok:
  assumes "lines_ok ls" "\<And>l. line_ok l \<Longrightarrow> line_ok (f l)" "\<And>l. l_sku (f l) = l_sku l"
  shows "lines_ok (update_first p f ls)"
proof -
  have "list_all line_ok ls"
    using assms(1) by (simp add: lines_ok_def)
  then have "list_all line_ok (update_first p f ls)"
    by (rule update_first_all) (auto simp: list_all_iff intro: assms(2) \<open>list_all line_ok ls\<close> [unfolded list_all_iff, rule_format])
  with assms(1) show ?thesis
    by (simp add: lines_ok_def map_update_first_key [of l_sku f, OF assms(3)])
qed

lemma add_to_lines_ok:
  assumes "lines_ok ls" "1 \<le> q" "add_to_lines now sku q v ls = Inr ls'"
  shows "lines_ok ls'"
proof (cases "list_ex (\<lambda>l. l_sku l = sku) ls")
  case True
  then have "ls' = update_first (\<lambda>l. l_sku l = sku)
      (\<lambda>l. l\<lparr>l_quantity := min (l_quantity l + q) MAX_QTY_PER_LINE\<rparr>) ls"
    using assms(3) by (simp add: add_to_lines_def)
  moreover have "line_ok (l\<lparr>l_quantity := min (l_quantity l + q) MAX_QTY_PER_LINE\<rparr>)" if "line_ok l" for l
    using that assms(2) qty_bounds [of "l_quantity l + q"] by (simp add: line_ok_def)
  ultimately show ?thesis
    using update_first_lines_ok [OF assms(1)] by simp
next
  case False
  then have "length ls < MAX_LINES" and
    "ls' = ls @ [\<lparr>l_sku = sku, l_productId = v_productId v, l_quantity = min q MAX_QTY_PER_LINE,
                 l_addedAtPrice = amount (v_price v), l_addedAt = now\<rparr>]"
    using assms(3) by (auto simp: add_to_lines_def split: if_splits)
  moreover have "sku \<notin> l_sku ` set ls"
    using False by (auto simp: list_ex_iff)
  ultimately show ?thesis
    using assms(1) qty_bounds [OF assms(2)] by (simp add: lines_ok_def line_ok_def)
qed

lemma filter_lines_ok: "lines_ok ls \<Longrightarrow> lines_ok (filter p ls)"
  unfolding lines_ok_def
  by (intro conjI order_trans [OF length_filter_le]) (auto simp: list_all_iff distinct_map_filter)

lemma update_lines_ok:
  assumes "lines_ok ls" "0 \<le> q" "update_lines sku q ls = Inr ls'"
  shows "lines_ok ls'"
proof (cases "q = 0")
  case True
  with assms show ?thesis by (auto simp: update_lines_def filter_lines_ok)
next
  case False
  then have "ls' = update_first (\<lambda>l. l_sku l = sku)
      (\<lambda>l. l\<lparr>l_quantity := min q MAX_QTY_PER_LINE\<rparr>) ls"
    using assms(3) by (simp add: update_lines_def split: if_splits)
  moreover have "line_ok (l\<lparr>l_quantity := min q MAX_QTY_PER_LINE\<rparr>)" for l
    using False assms(2) qty_bounds [of q] by (simp add: line_ok_def)
  ultimately show ?thesis
    using update_first_lines_ok [OF assms(1)] by simp
qed

lemma merge_line_ok: "lines_ok ls \<Longrightarrow> line_ok l \<Longrightarrow> lines_ok (merge_line l ls)"
proof (cases "list_ex (\<lambda>m. l_sku m = l_sku l) ls")
  case True
  assume "lines_ok ls" "line_ok l"
  have "line_ok (m\<lparr>l_quantity := min (max (l_quantity m) (l_quantity l)) MAX_QTY_PER_LINE\<rparr>)"
    if "line_ok m" for m
    using that qty_bounds [of "max (l_quantity m) (l_quantity l)"] by (simp add: line_ok_def le_max_iff_disj)
  then show ?thesis
    using True update_first_lines_ok [OF \<open>lines_ok ls\<close>] by (simp add: merge_line_def)
next
  case False
  assume "lines_ok ls" "line_ok l"
  moreover have "l_sku l \<notin> l_sku ` set ls"
    using False by (auto simp: list_ex_iff)
  ultimately show ?thesis
    using False by (auto simp: merge_line_def lines_ok_def)
qed

lemma merge_lines_ok: "lines_ok ls \<Longrightarrow> list_all line_ok as \<Longrightarrow> lines_ok (merge_lines ls as)"
  unfolding merge_lines_def by (induction as arbitrary: ls) (simp_all add: merge_line_ok)

lemma add_coupon_distinct: "distinct cs \<Longrightarrow> distinct (add_coupon code cs)"
  by (simp add: add_coupon_def Let_def)

lemma merge_carts_inv [inv_intros]:
  "cart_inv e \<Longrightarrow> cart_inv a \<Longrightarrow> cart_inv (merge_carts now e a)"
  by (simp add: cart_inv_def merge_carts_def merge_lines_ok lines_ok_def [of "sc_lines a"])

lemma cart_inv_userId [simp]: "cart_inv (c\<lparr>sc_userId := x\<rparr>) = cart_inv c"
  by (simp add: cart_inv_def)

section \<open>The store\<close>

lemma ttl_positive [simp]: "0 < CART_TTL_SECONDS" "0 < ttlFor c"
  by (simp_all add: CART_TTL_SECONDS_def ANON_CART_TTL_SECONDS_def ttlFor_def)

context redis
begin

lemma cell_value_script:
  "0 < ttl \<Longrightarrow>
   cell_value ops k' (snd (cas_script ops k e x ttl s)) \<in> {cell_value ops k' s, Some x}"
  by (cases "k' = k")
    (auto simp: cas_script_def Let_def cell_value_def hget_expire hget_hset hget_hset_other)

lemma cell_ok_script:
  "0 < ttl \<Longrightarrow> cell_ok ops k' s \<Longrightarrow> cell_ok ops k' (snd (cas_script ops k e x ttl s))"
  by (cases "k' = k"; cases "r_hget ops k ''version'' s")
    (auto simp: cas_script_def Let_def cell_ok_def hget_expire hget_hset hget_hset_other split: rval.splits)

lemma cell_frames:
  "cell_value ops k (snd (r_script_load ops src s)) = cell_value ops k s"
  "cell_ok ops k (snd (r_script_load ops src s)) = cell_ok ops k s"
  "cell_value ops k' (r_del ops k s) = (if k' = k then None else cell_value ops k' s)"
  "cell_ok ops k' (r_del ops k s) \<longleftrightarrow> k' = k \<or> cell_ok ops k' s"
  by (simp_all add: cell_value_def cell_ok_def hget_load hget_del)

lemma cell_set:
  "cell_value ops k' (r_set_ex ops k t ttl s) = (if k' = k then None else cell_value ops k' s)"
  "cell_ok ops k' (r_set_ex ops k t ttl s) \<longleftrightarrow> k' = k \<or> cell_ok ops k' s"
  by (simp_all add: cell_value_def cell_ok_def hget_set)

end

lemma store_inv_script:
  assumes "redis ops" "0 < ttl" "cart_inv c" "store_inv ops s"
  shows "store_inv ops (s\<lparr>rc_redis := snd (cas_script ops k e c ttl (rc_redis s))\<rparr>)"
  unfolding store_inv_def
proof (intro conjI allI impI)
  fix k' c' assume "cell_value ops k' (rc_redis (s\<lparr>rc_redis := snd (cas_script ops k e c ttl (rc_redis s))\<rparr>)) = Some c'"
  then have "cell_value ops k' (rc_redis s) = Some c' \<or> c' = c"
    using redis.cell_value_script [OF assms(1,2), of k' k e c "rc_redis s"] by auto
  then show "cart_inv c'"
    using assms(3,4) by (auto simp: store_inv_def)
next
  fix k' show "cell_ok ops k' (rc_redis (s\<lparr>rc_redis := snd (cas_script ops k e c ttl (rc_redis s))\<rparr>))"
    using redis.cell_ok_script [OF assms(1,2)] assms(4) by (simp add: store_inv_def)
qed

lemma store_inv_del: "redis ops \<Longrightarrow> store_inv ops s \<Longrightarrow> store_inv ops (s\<lparr>rc_redis := r_del ops k (rc_redis s)\<rparr>)"
  by (simp add: store_inv_def redis.cell_frames)

lemma store_inv_set:
  "redis ops \<Longrightarrow> store_inv ops s \<Longrightarrow> store_inv ops (s\<lparr>rc_redis := r_set_ex ops k t ttl (rc_redis s)\<rparr>)"
  by (simp add: store_inv_def redis.cell_set)

lemma store_inv_frames [simp]:
  "store_inv ops (s\<lparr>svc_cache := c\<rparr>) = store_inv ops s"
  "store_inv ops (s\<lparr>svc_breaker := b\<rparr>) = store_inv ops s"
  by (simp_all add: store_inv_def)

lemma store_inv_undisturbed:
  "env_ok env \<Longrightarrow> undisturbed (e_ops env) (e_others env) (store_inv (e_ops env))"
  by (simp add: undisturbed_def env_ok_def store_inv_def redis.cell_frames)

section \<open>The methods keep the invariant\<close>

abbreviation cart_keeps :: "'s cart_env \<Rightarrow> ('s, 'a) cart_act \<Rightarrow> ('a \<Rightarrow> bool) \<Rightarrow> bool" where
  "cart_keeps env \<equiv> keeps (store_inv (e_ops env))"

lemma keeps_store_call:
  fixes env :: "'s cart_env"
  assumes "env_ok env"
    and "\<And>s :: 's svc. store_inv (e_ops env) s \<Longrightarrow> store_inv (e_ops env) (s\<lparr>rc_redis := snd (f (rc_redis s))\<rparr>)"
  shows "cart_keeps env (store_call env f) (\<lambda>a. \<exists>s :: 's svc. store_inv (e_ops env) s \<and> a = fst (f (rc_redis s)))"
  unfolding store_call_def
proof (rule keeps_map_error, rule keepsI)
  fix s :: "'s svc" assume inv: "store_inv (e_ops env) s"
  have o: "store_inv (e_ops env) (e_others env s)"
    using assms(1) inv by (simp add: env_ok_def)
  let ?m = "redis_call (e_ops env) (e_others env) f s"
  show "store_inv (e_ops env) (snd ?m)"
    by (rule redis_call_cases [of "e_ops env" "e_others env" f s]) (use o assms(2) [OF o] in auto)
  fix a assume a: "fst ?m = Inr a"
  show "\<exists>s :: 's svc. store_inv (e_ops env) s \<and> a = fst (f (rc_redis s))"
    by (rule redis_call_cases [of "e_ops env" "e_others env" f s])
      (use o a in \<open>auto intro!: exI [of _ "e_others env s"]\<close>)
qed

lemma keeps_cas_cart:
  fixes env :: "'s cart_env"
  assumes "env_ok env" "cart_inv c" "0 < ttl"
  shows "cart_keeps env (cas_cart env cartId v c ttl) (\<lambda>_. True)"
  unfolding cas_cart_def
proof (rule keeps_map_error, rule keepsI)
  fix s :: "'s svc" assume inv: "store_inv (e_ops env) s"
  have r: "redis (e_ops env)" using assms(1) by (simp add: env_ok_def)
  let ?m = "cas (e_ops env) (e_others env) (e_fuel env) (key cartId) v c ttl s"
  consider "store_inv (e_ops env) (snd ?m)"
    | s1 n r where "store_inv (e_ops env) s1"
      "cas_script (e_ops env) (key cartId) v c ttl (rc_redis s1) = (n, r)"
      "?m = (Inr n, s1\<lparr>rc_redis := r\<rparr>)"
    using cas_outcome [OF store_inv_undisturbed [OF assms(1)] inv] by blast
  then show "store_inv (e_ops env) (snd ?m)"
  proof cases
    case (2 s1 n r)
    with store_inv_script [OF \<open>redis (e_ops env)\<close> assms(3,2) 2(1), of "key cartId" v] show ?thesis
      by simp
  qed
qed simp

lemma keeps_load:
  fixes env :: "'s cart_env"
  assumes "env_ok env"
  shows "cart_keeps env (load env cartId) (\<lambda>x. \<forall>c v. x = Some (c, v) \<longrightarrow> cart_inv c)"
  unfolding load_def
proof (rule keeps_and_then [OF keeps_store_call [OF assms]])
  fix a assume "\<exists>s :: 's svc. store_inv (e_ops env) s \<and>
      a = fst (hmget_cell (e_ops env) (key cartId) (rc_redis s), rc_redis s)"
  then obtain s :: "'s svc" where inv: "store_inv (e_ops env) s"
    and a: "a = hmget_cell (e_ops env) (key cartId) (rc_redis s)"
    by auto
  have "\<And>c. fst a = Some (RJson c) \<Longrightarrow> cart_inv c"
    using inv a by (auto simp: hmget_cell_def store_inv_def cell_value_def split: option.splits rval.splits)
  then show "cart_keeps env (lift_sum (decode_cell a)) (\<lambda>x. \<forall>c v. x = Some (c, v) \<longrightarrow> cart_inv c)"
    by (intro keeps_lift_sum) (cases a rule: decode_cell.cases, auto split: if_splits)
qed simp

lemma hydrate_run:
  obtains ls s' where "hydrate env c s = (Inr ls, s')" "rc_redis s' = rc_redis s"
  by (cases "sc_lines c = []";
      cases "getVariants (e_fetch env) (e_now env) (map l_sku (sc_lines c)) (svc_cache s)")
    (simp_all add: hydrate_def)

lemma hydrate_ok:
  assumes "cart_inv c" "hydrate env c s = (Inr ls, s')"
  shows "length ls \<le> length (sc_lines c)" "list_all (\<lambda>l. 1 \<le> h_quantity l \<and> h_quantity l \<le> MAX_QTY_PER_LINE) ls"
    "rc_redis s' = rc_redis s"
proof -
  have "length (List.map_filter f xs) \<le> length xs" for f :: "stored_line \<Rightarrow> hydrated_line option" and xs
    by (simp add: map_filter_eq)
  then show "length ls \<le> length (sc_lines c)"
    using assms(2) by (auto simp: hydrate_def Let_def split: if_splits prod.splits)
  show "list_all (\<lambda>l. 1 \<le> h_quantity l \<and> h_quantity l \<le> MAX_QTY_PER_LINE) ls"
    using assms
    by (auto simp: hydrate_def Let_def map_filter_eq list_all_iff hydrate_line_def cart_inv_def
        lines_ok_def line_ok_def split: if_splits prod.splits)
  show "rc_redis s' = rc_redis s"
    using assms(2) by (auto simp: hydrate_def Let_def split: if_splits prod.splits)
qed

lemma degraded_lines_view:
  "degraded_lines ls m = Inr (cls, m') \<Longrightarrow>
   map cl_quantity cls = map h_quantity ls \<and> map cl_sku cls = map h_sku ls"
  by (induction ls m arbitrary: cls m' rule: degraded_lines.induct)
    (auto split: sum.splits)

lemma priced_cart_line_view:
  "priced_cart_line l p st = Inr c \<Longrightarrow> cl_quantity c = h_quantity l \<and> cl_sku c = h_sku l"
  by (auto simp: priced_cart_line_def Let_def split: sum.splits)

lemma priced_cart_lines_view:
  "priced_cart_lines ls ps sts = Inr cls \<Longrightarrow> length ls \<le> length sts \<Longrightarrow>
   map cl_quantity cls = map h_quantity ls \<and> map cl_sku cls = map h_sku ls"
  by (induction ls ps sts arbitrary: cls rule: priced_cart_lines.induct)
    (auto split: sum.splits dest: priced_cart_line_view)

lemma quantities_view_ok:
  assumes "map cl_quantity (cv_lines v) = map h_quantity ls" "length ls \<le> MAX_LINES"
    "list_all (\<lambda>l. 1 \<le> h_quantity l \<and> h_quantity l \<le> MAX_QTY_PER_LINE) ls"
  shows "view_ok v"
proof -
  have "list_all (\<lambda>q. 1 \<le> q \<and> q \<le> MAX_QTY_PER_LINE) (map cl_quantity (cv_lines v))"
    using assms(1,3) by (simp add: list.pred_map comp_def)
  moreover have "length (cv_lines v) = length ls"
    using assms(1) by (metis length_map)
  ultimately show ?thesis
    using assms(2) by (simp add: view_ok_def list.pred_map comp_def)
qed

text \<open>A cart is priced from its own lines, by either path, and the store is not touched.\<close>

lemma price_run:
  assumes "price env c v s = (r, s')"
  obtains ls s1 where "hydrate env c s = (Inr ls, s1)" and "rc_redis s' = rc_redis s"
    and "r = (case fst (calculate (e_engine env) (e_now env) (e_settled env) (pricing_request c ls) (svc_breaker s1)) of
                Inl e \<Rightarrow> map_sum MoneyError id (degradedCart env c ls v)
              | Inr p \<Rightarrow> map_sum MoneyError id (pricedCart env c ls p v))"
proof -
  obtain ls s1 where h: "hydrate env c s = (Inr ls, s1)" and red: "rc_redis s1 = rc_redis s"
    by (rule hydrate_run)
  obtain q b m where q: "calculate (e_engine env) (e_now env) (e_settled env) (pricing_request c ls)
      (svc_breaker s1) = (q, b, m)"
    by (cases "calculate (e_engine env) (e_now env) (e_settled env) (pricing_request c ls) (svc_breaker s1)")
  show thesis
    using assms h q red
    by (intro that [OF h])
      (auto simp: price_def and_then_def map_error_def split: sum.splits)
qed

lemma price_view_ok:
  assumes "cart_inv c" "price env c v s = (Inr view, s')"
  shows "view_ok view"
proof -
  obtain ls s1 where h: "hydrate env c s = (Inr ls, s1)"
    and r: "Inr view = (case fst (calculate (e_engine env) (e_now env) (e_settled env) (pricing_request c ls) (svc_breaker s1)) of
                Inl e \<Rightarrow> map_sum MoneyError id (degradedCart env c ls v)
              | Inr p \<Rightarrow> map_sum MoneyError id (pricedCart env c ls p v))"
    using assms(2) by (rule price_run) blast
  have len: "length ls \<le> length (sc_lines c)" and max: "length (sc_lines c) \<le> MAX_LINES"
    using hydrate_ok(1) [OF assms(1) h] assms(1) by (simp_all add: cart_inv_def lines_ok_def)
  have "map cl_quantity (cv_lines view) = map h_quantity ls"
    using r len
    by (auto simp: degradedCart_def pricedCart_def map_sum_def split: sum.splits
        dest!: degraded_lines_view priced_cart_lines_view)
  then show ?thesis
    using quantities_view_ok hydrate_ok(2) [OF assms(1) h] len max by (metis order_trans)
qed

lemma keeps_price:
  assumes "cart_inv c"
  shows "cart_keeps env (price env c v) view_ok"
proof (rule keepsI)
  fix s :: "'a svc" assume inv: "store_inv (e_ops env) s"
  obtain r s' where p: "price env c v s = (r, s')" by (cases "price env c v s")
  then have "rc_redis s' = rc_redis s"
    by (rule price_run)
  with inv p show "store_inv (e_ops env) (snd (price env c v s))"
    by (simp add: store_inv_def)
  fix a assume "fst (price env c v s) = Inr a"
  with p show "view_ok a"
    using price_view_ok [OF assms] by simp
qed

lemma keeps_find_variant: "cart_keeps env (find_variant env sku) (\<lambda>_. True)"
  by (simp add: keeps_def find_variant_def split: prod.splits)

lemma keeps_commit:
  assumes "env_ok env" "cart_inv c"
  shows "cart_keeps env (commit env cartId c v) view_ok"
  unfolding commit_def
  by (intro keeps_and_then [OF keeps_cas_cart [OF assms]] keeps_if keeps_and_then [OF keeps_load [OF assms(1)]]
      keeps_raise keeps_price assms) simp

lemma keeps_get: "env_ok env \<Longrightarrow> cart_keeps env (get_cart env cartId) (\<lambda>x. \<forall>v. x = Some v \<longrightarrow> view_ok v)"
  unfolding get_cart_def
  by (rule keeps_and_then [OF keeps_load])
    (auto intro!: keeps_and_then [OF keeps_price] keeps_ret split: option.splits)

lemma keeps_create:
  assumes "env_ok env"
  shows "cart_keeps env (create env u cur country) view_ok"
  unfolding create_def Let_def
  by (intro keeps_and_then [OF keeps_cas_cart [OF assms]] keeps_and_then [where Q = "\<lambda>_. True"] keeps_if
      keeps_weaken [OF keeps_store_call [OF assms]] keeps_ret keeps_price)
    (use assms in \<open>simp_all add: cart_inv_def lines_ok_def store_inv_set env_ok_def\<close>)

text \<open>The frame the three mutations share: load, check the version, compute, commit.\<close>

lemma keeps_loaded:
  assumes "env_ok env" "\<And>c v. cart_inv c \<Longrightarrow> cart_keeps env (k c v) Q"
  shows "cart_keeps env
    (and_then (load env cartId)
       (\<lambda>loaded. case loaded of
          None \<Rightarrow> raise CartNotFound
        | Some (cart, version) \<Rightarrow>
            and_then (throw_if (version \<noteq> expected) (CartStale expected version)) (\<lambda>_. k cart version))) Q"
  by (rule keeps_and_then [OF keeps_load [OF assms(1)]])
    (auto intro!: keeps_and_then [OF keeps_throw_if] keeps_raise assms(2) split: option.splits)

lemma keeps_addLine:
  assumes "env_ok env" "1 \<le> q"
  shows "cart_keeps env (addLine env cartId sku q e) view_ok"
  unfolding addLine_def
proof (rule keeps_loaded [OF assms(1)])
  fix c v assume c: "cart_inv c"
  have step: "cart_keeps env (and_then (lift_sum (add_to_lines (e_now env) sku q p (sc_lines c)))
      (\<lambda>lines. commit env cartId (c\<lparr>sc_lines := lines, sc_updatedAt := e_now env\<rparr>) v)) view_ok" for p
    using c by (intro keeps_and_then [OF keeps_lift_sum] keeps_commit [OF assms(1)])
      (auto simp: cart_inv_def intro: add_to_lines_ok [OF _ assms(2)])
  show "cart_keeps env (and_then (find_variant env sku)
      (\<lambda>product. case product of
         None \<Rightarrow> raise ProductNotFound
       | Some p \<Rightarrow> and_then (throw_if (v_status p \<noteq> ''ACTIVE'') ProductNotAvailable)
           (\<lambda>_. and_then (lift_sum (add_to_lines (e_now env) sku q p (sc_lines c)))
              (\<lambda>lines. commit env cartId (c\<lparr>sc_lines := lines, sc_updatedAt := e_now env\<rparr>) v)))) view_ok"
    by (rule keeps_and_then [OF keeps_find_variant])
      (auto intro!: keeps_and_then [OF keeps_throw_if] keeps_raise step split: option.splits)
qed

lemma keeps_updateLine:
  assumes "env_ok env" "0 \<le> q"
  shows "cart_keeps env (updateLine env cartId sku q e) view_ok"
  unfolding updateLine_def
proof (rule keeps_loaded [OF assms(1)])
  fix c v assume c: "cart_inv c"
  show "cart_keeps env (and_then (lift_sum (update_lines sku q (sc_lines c)))
      (\<lambda>lines. commit env cartId (c\<lparr>sc_lines := lines, sc_updatedAt := e_now env\<rparr>) v)) view_ok"
    using c by (intro keeps_and_then [OF keeps_lift_sum] keeps_commit [OF assms(1)])
      (auto simp: cart_inv_def intro: update_lines_ok [OF _ assms(2)])
qed

lemma keeps_applyCoupon: "env_ok env \<Longrightarrow> cart_keeps env (applyCoupon env cartId code e) view_ok"
  unfolding applyCoupon_def
  by (rule keeps_loaded) (auto intro!: keeps_commit simp: cart_inv_def add_coupon_distinct)

lemma keeps_merge:
  assumes "env_ok env"
  shows "cart_keeps env (merge env a u) view_ok"
proof -
  let ?Q = "\<lambda>x. \<forall>c v. x = Some (c, v) \<longrightarrow> cart_inv c"
  have red: "redis (e_ops env)"
    using assms by (simp add: env_ok_def)
  have set: "cart_keeps env (store_call env (\<lambda>r. ((), r_set_ex (e_ops env) k t CART_TTL_SECONDS r))) (\<lambda>_. True)"
    and del: "cart_keeps env (store_call env (\<lambda>r. ((), r_del (e_ops env) k r))) (\<lambda>_. True)" for k t
    by (rule keeps_weaken [OF keeps_store_call [OF assms]]; simp add: store_inv_set [OF red] store_inv_del [OF red])+
  have idx: "cart_keeps env (store_call env (\<lambda>r. (r_get (e_ops env) (userIndex u) r, r))) (\<lambda>_. True)"
    by (rule keeps_weaken [OF keeps_store_call [OF assms]]) simp_all
  have ex: "cart_keeps env (if truthy i then load env (the i) else ret None) ?Q" for i
    by (rule keeps_if [OF keeps_load [OF assms] keeps_ret]) simp
  have adopt: "cart_keeps env (and_then (cas_cart env i v c CART_TTL_SECONDS)
      (\<lambda>n. and_then (store_call env (\<lambda>r. ((), r_set_ex (e_ops env) (userIndex u) i CART_TTL_SECONDS r)))
        (\<lambda>_. price env c n))) view_ok" if "cart_inv c" for c v i
    by (intro keeps_and_then [OF keeps_cas_cart [OF assms that]] keeps_and_then [OF set] keeps_price that) simp
  have union: "cart_keeps env (and_then (cas_cart env i v c CART_TTL_SECONDS)
      (\<lambda>n. and_then (store_call env (\<lambda>r. ((), r_del (e_ops env) (key a) r)))
        (\<lambda>_. price env c n))) view_ok" if "cart_inv c" for c v i
    by (intro keeps_and_then [OF keeps_cas_cart [OF assms that]] keeps_and_then [OF del] keeps_price that) simp
  show ?thesis
    unfolding merge_def
  proof (intro keeps_and_then [OF keeps_load [OF assms]] keeps_and_then [OF idx] keeps_and_then [OF ex], goal_cases)
    case (1 anon i existing)
    then show ?case
      by (auto intro!: keeps_create [OF assms] keeps_price adopt union merge_carts_inv
          simp: Let_def split: option.splits)
  qed
qed

lemma keeps_exec_request:
  assumes "env_ok env" "request_ok q"
  shows "cart_keeps env (exec_request env q) (\<lambda>x. \<forall>v. x = Some v \<longrightarrow> view_ok v)"
  using assms
  by (cases q)
    (auto intro!: keeps_and_then [OF keeps_create] keeps_and_then [OF keeps_addLine]
      keeps_and_then [OF keeps_updateLine] keeps_and_then [OF keeps_applyCoupon]
      keeps_and_then [OF keeps_merge] keeps_get keeps_ret)

lemma run_requests_inv:
  assumes "\<forall>(env, q)\<in>set qs. env_ok env \<and> e_ops env = ops \<and> request_ok q" "store_inv ops s"
  shows "store_inv ops (run_requests qs s)"
  using assms
proof (induction qs arbitrary: s)
  case (Cons p qs)
  obtain env q where p: "p = (env, q)" by (cases p)
  with Cons.prems(1) have "env_ok env" "e_ops env = ops" "request_ok q"
    by auto
  then have "store_inv ops (snd (exec_request env q s))"
    using keeps_state [OF keeps_exec_request] Cons.prems(2) by blast
  then show ?case
    using Cons.IH Cons.prems(1) p by simp
qed simp

end
