(* ===== verification/Cart_Concurrency.thy ===== *)
theory Cart_Concurrency
  imports Cart_Invariant
begin

text \<open>
  What the mutations of \<^verbatim>\<open>CartService\<close> guarantee when other requests run between any two of their
  awaits. \<open>addLine\<close>, \<open>updateLine\<close> and \<open>applyCoupon\<close> are one scheme, \<open>mutate\<close>: load, compare the
  version, compute the new cart, commit. The locale \<open>mutation\<close> states what the computation may do
  (it does not touch the store) and its lemmas hold for all three: a mutation that returns took
  effect as one atomic step on the cart at the expected version, and one that is refused wrote
  nothing.
\<close>

section \<open>Definitions\<close>

definition mutate ::
  "'s cart_env \<Rightarrow> string \<Rightarrow> int \<Rightarrow> (stored_cart \<Rightarrow> ('s, stored_cart) cart_act) \<Rightarrow> ('s, cart_view) cart_act" where
  "mutate env cartId expectedVersion f =
     and_then (load env cartId)
       (\<lambda>loaded. case loaded of
          None \<Rightarrow> raise CartNotFound
        | Some (cart, version) \<Rightarrow>
            and_then (throw_if (version \<noteq> expectedVersion) (CartStale expectedVersion version))
              (\<lambda>_. and_then (f cart) (\<lambda>cart'. commit env cartId cart' version)))"

definition add_line_step :: "string \<Rightarrow> int \<Rightarrow> 's cart_env \<Rightarrow> stored_cart \<Rightarrow> ('s, stored_cart) cart_act" where
  "add_line_step sku quantity env cart =
     and_then (find_variant env sku)
       (\<lambda>product. case product of
          None \<Rightarrow> raise ProductNotFound
        | Some v \<Rightarrow>
            and_then (throw_if (v_status v \<noteq> ''ACTIVE'') ProductNotAvailable)
              (\<lambda>_. and_then (lift_sum (add_to_lines (e_now env) sku quantity v (sc_lines cart)))
                 (\<lambda>lines. ret (cart\<lparr>sc_lines := lines, sc_updatedAt := e_now env\<rparr>))))"

definition update_line_step :: "string \<Rightarrow> int \<Rightarrow> 's cart_env \<Rightarrow> stored_cart \<Rightarrow> ('s, stored_cart) cart_act" where
  "update_line_step sku quantity env cart =
     and_then (lift_sum (update_lines sku quantity (sc_lines cart)))
       (\<lambda>lines. ret (cart\<lparr>sc_lines := lines, sc_updatedAt := e_now env\<rparr>))"

definition coupon_step :: "string \<Rightarrow> 's cart_env \<Rightarrow> stored_cart \<Rightarrow> ('s, stored_cart) cart_act" where
  "coupon_step code env cart =
     ret (cart\<lparr>sc_coupons := add_coupon code (sc_coupons cart), sc_updatedAt := e_now env\<rparr>)"

text \<open>A property of the store that survives the interference and the loading of the script.\<close>

definition quiet :: "'s cart_env \<Rightarrow> ('s \<Rightarrow> bool) \<Rightarrow> bool" where
  "quiet env P =
     ((\<forall>s. P (rc_redis s) \<longrightarrow> P (rc_redis (e_others env s))) \<and>
      (\<forall>r. P r \<longrightarrow> P (snd (r_script_load (e_ops env) CAS_SCRIPT r))))"

text \<open>Other clients change a cart only by bumping its version, and do not delete it meanwhile.\<close>

definition others_advance :: "'s cart_env \<Rightarrow> string \<Rightarrow> bool" where
  "others_advance env k =
     (\<forall>s v. cell_version (e_ops env) k (rc_redis s) = Some v \<longrightarrow>
        (\<exists>v'. cell_version (e_ops env) k (rc_redis (e_others env s)) = Some v' \<and> v \<le> v' \<and>
           (v' = v \<longrightarrow> cell_value (e_ops env) k (rc_redis (e_others env s)) =
                       cell_value (e_ops env) k (rc_redis s))))"

section \<open>The methods are mutations\<close>

lemma case_option_and_then:
  "and_then (case x of None \<Rightarrow> raise e | Some a \<Rightarrow> f a) g =
   (case x of None \<Rightarrow> raise e | Some a \<Rightarrow> and_then (f a) g)"
  by (cases x) (auto simp: and_then_def)

lemma and_then_ret_fun: "and_then (ret a) g = g a"
  by (rule ext) simp

lemma addLine_mutate: "addLine env cartId sku q e = mutate env cartId e (add_line_step sku q env)"
  unfolding addLine_def mutate_def add_line_step_def
  by (simp add: and_then_assoc case_option_and_then and_then_ret_fun cong: option.case_cong)

lemma updateLine_mutate: "updateLine env cartId sku q e = mutate env cartId e (update_line_step sku q env)"
  unfolding updateLine_def mutate_def update_line_step_def
  by (simp add: and_then_assoc and_then_ret_fun)

lemma applyCoupon_mutate: "applyCoupon env cartId code e = mutate env cartId e (coupon_step code env)"
  unfolding applyCoupon_def mutate_def coupon_step_def
  by (simp add: and_then_ret_fun)

section \<open>Running against interference\<close>

lemma quiet_undisturbed:
  "quiet env P \<Longrightarrow> undisturbed (e_ops env) (e_others env) (\<lambda>s. P (rc_redis s))"
  by (simp add: quiet_def undisturbed_def)

lemma load_cases:
  obtains (down) "load env cartId s = (Inl (StoreError RedisDown), e_others env s)"
  | (read) "load env cartId s =
      (decode_cell (hmget_cell (e_ops env) (key cartId) (rc_redis (e_others env s))), e_others env s)"
  by (cases "r_down (e_ops env) (rc_redis (e_others env s))")
    (simp_all add: load_def store_call_def map_error_def redis_call_def and_then_def Let_def)

lemma load_keeps_quiet: "quiet env P \<Longrightarrow> P (rc_redis s) \<Longrightarrow> P (rc_redis (snd (load env cartId s)))"
  by (rule load_cases [of env cartId s]) (simp_all add: quiet_def)

lemma price_redis [frame_simps]: "rc_redis (snd (price env c v s)) = rc_redis s"
proof -
  obtain r s' where p: "price env c v s = (r, s')" by (cases "price env c v s")
  from p have "rc_redis s' = rc_redis s" by (rule price_run)
  with p show ?thesis by simp
qed

lemma price_version: "price env c v s = (Inr view, s') \<Longrightarrow> cv_version view = v"
  by (erule price_run)
    (auto simp: degradedCart_def pricedCart_def map_sum_def split: sum.splits)

lemma cas_cart_cases:
  assumes "quiet env P" "P (rc_redis s)"
  obtains (failed) e s' where "cas_cart env cartId v c ttl s = (Inl (StoreError e), s')" "P (rc_redis s')"
  | (ran) n s' r where "P r" "cas_script (e_ops env) (key cartId) v c ttl r = (n, rc_redis s')"
      "cas_cart env cartId v c ttl s = (Inr n, s')"
proof -
  let ?m = "cas (e_ops env) (e_others env) (e_fuel env) (key cartId) v c ttl s"
  consider e where "fst ?m = Inl e" "P (rc_redis (snd ?m))"
    | s1 n r where "P (rc_redis s1)" "cas_script (e_ops env) (key cartId) v c ttl (rc_redis s1) = (n, r)"
      "?m = (Inr n, s1\<lparr>rc_redis := r\<rparr>)"
    using cas_outcome [OF quiet_undisturbed [OF assms(1)] assms(2)] by blast
  then show thesis
  proof cases
    case (1 e)
    then show thesis
      by (intro failed [of e "snd ?m"])
        (simp_all add: cas_cart_def map_error_Inl [of _ s e "snd ?m"] prod_eq_iff)
  next
    case (2 s1 n r)
    then show thesis
      by (intro ran [of "rc_redis s1" n "s1\<lparr>rc_redis := r\<rparr>"]) (simp_all add: cas_cart_def map_error_Inr)
  qed
qed

text \<open>The errors that \<^verbatim>\<open>commit\<close> and what precedes it raise before anything is written.\<close>

fun refusal :: "cart_error \<Rightarrow> bool" where
  "refusal (MoneyError e) = False"
| "refusal _ = True"

lemma commit_success:
  assumes "quiet env P" "P (rc_redis s)" "commit env cartId c v s = (Inr view, s')"
  shows "\<exists>r. P r \<and> cas_script (e_ops env) (key cartId) v c (ttlFor c) r = (cv_version view, rc_redis s')
    \<and> cv_version view \<noteq> -1"
proof (cases rule: cas_cart_cases [OF assms(1,2), of cartId v c "ttlFor c", case_names failed ran])
  case (failed e s1)
  then show ?thesis using assms(3) by (simp add: commit_def and_then_def)
next
  case (ran n s1 r)
  have n: "n \<noteq> -1"
  proof
    assume "n = -1"
    then have "commit env cartId c v s =
        and_then (load env cartId) (\<lambda>fresh. raise (CartStale v (nullish (map_option snd fresh) (-1)))) s1"
      using ran by (simp add: commit_def and_then_Inr)
    with assms(3) show False
      by (auto elim!: and_then_InrE)
  qed
  then have p: "price env c n s1 = (Inr view, s')"
    using assms(3) ran by (simp add: commit_def and_then_Inr)
  then have "cv_version view = n" "rc_redis s' = rc_redis s1"
    using price_version price_redis [of env c n s1] by auto
  with ran n show ?thesis by auto
qed

lemma commit_refusal:
  assumes "quiet env P" "P (rc_redis s)" "redis (e_ops env)" "commit env cartId c v s = (Inl e, s')" "refusal e"
    and "\<And>r. P r \<Longrightarrow> cell_ok (e_ops env) (key cartId) r"
  shows "P (rc_redis s')"
proof (cases rule: cas_cart_cases [OF assms(1,2), of cartId v c "ttlFor c", case_names failed ran])
  case (failed e s1)
  then show ?thesis using assms(4) by (simp add: commit_def and_then_def)
next
  case (ran n s1 r)
  show ?thesis
  proof (cases "n = -1")
    case True
    have "rc_redis s1 = r"
      using ran(2) True redis.cas_script_minus [OF assms(3) ttl_positive(2)] assms(6) [OF ran(1)] by blast
    then have "P (rc_redis (snd (load env cartId s1)))"
      using load_keeps_quiet [OF assms(1)] ran(1) by simp
    moreover have "snd (commit env cartId c v s) = snd (load env cartId s1)"
      using True ran(3) by (simp add: commit_def and_then_def split: prod.splits sum.splits)
    ultimately show ?thesis using assms(4) by simp
  next
    case False
    then have "price env c n s1 = (Inl e, s')"
      using assms(4) ran by (simp add: commit_def and_then_Inr)
    then have "\<exists>m. e = MoneyError m"
      by (rule price_run) (auto simp: map_sum_def split: sum.splits)
    with assms(5) show ?thesis by auto
  qed
qed

text \<open>The cart is still the one that was read, or its version has moved past it.\<close>

definition unmoved :: "('s, stored_cart) redis_ops \<Rightarrow> string \<Rightarrow> int \<Rightarrow> stored_cart \<Rightarrow> 's \<Rightarrow> bool" where
  "unmoved ops k e c r =
     (\<exists>v. cell_version ops k r = Some v \<and> e \<le> v \<and> (v = e \<longrightarrow> cell_value ops k r = Some c))"

lemma cell_version_ok: "cell_version ops k r = Some v \<Longrightarrow> 0 \<le> v \<Longrightarrow> cell_ok ops k r"
  by (auto simp: cell_version_def cell_ok_def split: option.splits rval.splits)

lemma unmoved_ok: "0 \<le> e \<Longrightarrow> unmoved ops k e c r \<Longrightarrow> cell_ok ops k r"
  using cell_version_ok by (force simp: unmoved_def)

lemma unmoved_quiet:
  fixes env :: "'s cart_env"
  assumes "redis (e_ops env)" "others_advance env k"
  shows "quiet env (unmoved (e_ops env) k e c)"
  unfolding quiet_def
proof (intro conjI allI impI)
  fix s :: "'s svc" assume "unmoved (e_ops env) k e c (rc_redis s)"
  then obtain v where v: "cell_version (e_ops env) k (rc_redis s) = Some v" "e \<le> v"
    "v = e \<longrightarrow> cell_value (e_ops env) k (rc_redis s) = Some c"
    by (auto simp: unmoved_def)
  obtain v' where "cell_version (e_ops env) k (rc_redis (e_others env s)) = Some v'" "v \<le> v'"
    "v' = v \<longrightarrow> cell_value (e_ops env) k (rc_redis (e_others env s)) = cell_value (e_ops env) k (rc_redis s)"
    using assms(2) v(1) by (auto simp: others_advance_def)
  with v show "unmoved (e_ops env) k e c (rc_redis (e_others env s))"
    by (auto simp: unmoved_def)
next
  fix r assume "unmoved (e_ops env) k e c r"
  then show "unmoved (e_ops env) k e c (snd (r_script_load (e_ops env) CAS_SCRIPT r))"
    by (simp add: unmoved_def cell_version_def redis.cell_frames(1) [OF assms(1)] redis.hget_load [OF assms(1)])
qed

lemma script_on_unmoved:
  assumes "redis ops" "0 \<le> e" "unmoved ops k e c r" "0 < ttl"
    and "cas_script ops k e c' ttl r = (n, r')" "n \<noteq> -1"
  shows "cell_version ops k r = Some e \<and> cell_value ops k r = Some c \<and> n = e + 1 \<and>
    cell_version ops k r' = Some (e + 1) \<and> cell_value ops k r' = Some c' \<and> r_ttl ops k r' = Some ttl"
proof -
  obtain v where v: "cell_version ops k r = Some v" "e \<le> v" "v = e \<longrightarrow> cell_value ops k r = Some c"
    using assms(3) by (auto simp: unmoved_def)
  have ok: "cell_ok ops k r"
    using unmoved_ok [OF assms(2,3)] .
  have "v = e"
    using redis.cas_script_stale [OF assms(1) ok v(1)] assms(5,6) by fastforce
  with v redis.cas_script_fresh [OF assms(1,4) ok _ assms(5)] show ?thesis
    by auto
qed

lemma decode_cell_loaded:
  assumes "decode_cell (hmget_cell ops k r) = Inr (Some (c, v))" "cell_version ops k r = Some w"
  shows "cell_value ops k r = Some c" "v = w"
  using assms
  by (cases "hmget_cell ops k r" rule: decode_cell.cases;
      auto simp: hmget_cell_def cell_value_def cell_version_def split: if_splits)+

section \<open>What a mutation guarantees\<close>

locale mutation =
  fixes f :: "'s cart_env \<Rightarrow> stored_cart \<Rightarrow> ('s, stored_cart) cart_act"
  assumes f_frame: "rc_redis (snd (f env c s)) = rc_redis s"
begin

lemma returned:
  assumes "redis (e_ops env)" "others_advance env (key cartId)"
    and "cell_version (e_ops env) (key cartId) (rc_redis s) = Some v0" "0 \<le> v0"
    and "mutate env cartId e (f env) s = (Inr view, s')"
  shows "\<exists>r c c' sA sB. cell_value (e_ops env) (key cartId) r = Some c \<and>
    cell_version (e_ops env) (key cartId) r = Some e \<and> f env c sA = (Inr c', sB) \<and>
    cell_value (e_ops env) (key cartId) (rc_redis s') = Some c' \<and>
    cell_version (e_ops env) (key cartId) (rc_redis s') = Some (e + 1) \<and>
    r_ttl (e_ops env) (key cartId) (rc_redis s') = Some (ttlFor c') \<and> cv_version view = e + 1"
proof -
  let ?k = "key cartId" and ?ops = "e_ops env" and ?s0 = "e_others env s"
  obtain v where v: "cell_version ?ops ?k (rc_redis ?s0) = Some v" "v0 \<le> v"
    using assms(2,3) by (auto simp: others_advance_def)
  obtain l s1 where l: "load env cartId s = (Inr l, s1)"
    and rest: "(case l of None \<Rightarrow> raise CartNotFound
        | Some (cart, version) \<Rightarrow> and_then (throw_if (version \<noteq> e) (CartStale e version))
            (\<lambda>_. and_then (f env cart) (\<lambda>cart'. commit env cartId cart' version))) s1 = (Inr view, s')"
    using assms(5) unfolding mutate_def by (rule and_then_InrE)
  have s1: "s1 = ?s0" and dec: "decode_cell (hmget_cell ?ops ?k (rc_redis ?s0)) = Inr l"
    using l by (auto intro: load_cases [of env cartId s])
  obtain c w where lc: "l = Some (c, w)" and w: "w = e"
    and run: "and_then (f env c) (\<lambda>cart'. commit env cartId cart' e) s1 = (Inr view, s')"
    using rest by (auto split: option.splits if_splits)
  have c: "cell_value ?ops ?k (rc_redis ?s0) = Some c" and e: "v = e"
    using decode_cell_loaded [OF dec [unfolded lc] v(1)] w by auto
  obtain c' s2 where f: "f env c s1 = (Inr c', s2)" and com: "commit env cartId c' e s2 = (Inr view, s')"
    using run by (rule and_then_InrE)
  have "unmoved ?ops ?k e c (rc_redis s2)"
    using f_frame [of env c s1] f s1 v(1) c e by (simp add: unmoved_def)
  then obtain r where "unmoved ?ops ?k e c r" "cv_version view \<noteq> -1"
    "cas_script ?ops ?k e c' (ttlFor c') r = (cv_version view, rc_redis s')"
    using commit_success [OF unmoved_quiet [OF assms(1,2)] _ com] by blast
  with script_on_unmoved [OF assms(1) _ this(1) ttl_positive(2) this(3,2)] f assms(4) v(2) e show ?thesis
    by fastforce
qed

lemma refused:
  assumes "quiet env P" "P (rc_redis s)" "redis (e_ops env)"
    and "\<And>r. P r \<Longrightarrow> cell_ok (e_ops env) (key cartId) r"
    and "mutate env cartId e (f env) s = (Inl err, s')" "refusal err"
  shows "P (rc_redis s')"
proof -
  obtain l s1 where l: "load env cartId s = (l, s1)" by (cases "load env cartId s")
  then have p1: "P (rc_redis s1)"
    using load_keeps_quiet [OF assms(1,2), of cartId] by simp
  show ?thesis
  proof (cases l)
    case (Inl x)
    then show ?thesis using l p1 assms(5) by (simp add: mutate_def and_then_Inl)
  next
    case (Inr loaded)
    then have rest: "(case loaded of None \<Rightarrow> raise CartNotFound
        | Some (cart, version) \<Rightarrow> and_then (throw_if (version \<noteq> e) (CartStale e version))
            (\<lambda>_. and_then (f env cart) (\<lambda>cart'. commit env cartId cart' version))) s1 = (Inl err, s')"
      using l assms(5) by (simp add: mutate_def and_then_Inr)
    consider "s' = s1" | c where "and_then (f env c) (\<lambda>cart'. commit env cartId cart' e) s1 = (Inl err, s')"
      using rest by (auto split: option.splits if_splits)
    then show ?thesis
    proof cases
      case (2 c)
      obtain q s2 where q: "f env c s1 = (q, s2)" by (cases "f env c s1")
      then have p2: "P (rc_redis s2)"
        using f_frame [of env c s1] p1 by simp
      show ?thesis
        using 2 q p2 commit_refusal [OF assms(1) p2 assms(3) _ assms(6,4)]
        by (cases q) (auto simp: and_then_def)
    qed (use p1 in simp)
  qed
qed

end

lemma find_variant_redis: "rc_redis (snd (find_variant env sku s)) = rc_redis s"
  by (simp add: find_variant_def split: prod.splits)

lemma add_line_step_redis: "rc_redis (snd (add_line_step sku q env c s)) = rc_redis s"
proof -
  obtain p s1 where p: "find_variant env sku s = (Inr p, s1)"
    by (cases "getVariant (e_fetch env) (e_now env) sku (svc_cache s)") (simp add: find_variant_def)
  then have "rc_redis s1 = rc_redis s"
    using find_variant_redis [of env sku s] by simp
  with p show ?thesis
    by (cases p; cases "add_to_lines (e_now env) sku q (the p) (sc_lines c)")
      (simp_all add: add_line_step_def and_then_Inr and_then_def)
qed

lemma update_line_step_redis: "rc_redis (snd (update_line_step sku q env c s)) = rc_redis s"
  by (cases "update_lines sku q (sc_lines c)") (simp_all add: update_line_step_def and_then_def)

interpretation add_line: mutation "add_line_step sku q" for sku q
  by unfold_locales (rule add_line_step_redis)

interpretation update_line: mutation "update_line_step sku q" for sku q
  by unfold_locales (rule update_line_step_redis)

interpretation coupon: mutation "coupon_step code" for code
  by unfold_locales (simp add: coupon_step_def)

end
