(* ===== verification/Cart_Properties.thy ===== *)
theory Cart_Properties
  imports Cart_Concurrency
begin

text \<open>
  The properties of cart-service's storage: the quantities a mutation leaves behind, the union that
  \<^verbatim>\<open>merge\<close> forms, atomicity under interference, the degraded price, and the cases in which the code
  loses a cart or reports the wrong change.
\<close>

section \<open>Definitions\<close>

text \<open>The quantity of a SKU, 0 when no line has it.\<close>

definition line_qty :: "stored_line list \<Rightarrow> string \<Rightarrow> int" where
  "line_qty ls sku = (case find (\<lambda>l. l_sku l = sku) ls of None \<Rightarrow> 0 | Some l \<Rightarrow> l_quantity l)"

definition line_skus :: "stored_line list \<Rightarrow> string set" where
  "line_skus ls = l_sku ` set ls"

text \<open>An environment without interference over the in-memory server, with a given catalog and engine.\<close>

definition mem_env :: "catalog_fetch \<Rightarrow> (CalculateRequest \<Rightarrow> engine_answer) \<Rightarrow> stored_cart mem cart_env" where
  "mem_env fetch engine =
     \<lparr>e_ops = mem_ops, e_others = \<lambda>s. s, e_fetch = fetch, e_engine = engine, e_now = 1700000000000,
      e_settled = 1700000000010, e_random = replicate 16 7, e_fuel = 2\<rparr>"

definition mem_svc :: "stored_cart mem svc" where
  "mem_svc = \<lparr>rc_redis = mem_empty, rc_casSha = None, svc_cache = Map.empty, svc_breaker = new_breaker\<rparr>"

definition sample_line :: "string \<Rightarrow> int \<Rightarrow> stored_line" where
  "sample_line sku q = \<lparr>l_sku = sku, l_productId = ''p'', l_quantity = q, l_addedAtPrice = 500, l_addedAt = 0\<rparr>"

definition sample_cart :: "string \<Rightarrow> string option \<Rightarrow> stored_line list \<Rightarrow> stored_cart" where
  "sample_cart i u ls = \<lparr>sc_id = i, sc_userId = u, sc_lines = ls, sc_currency = ''EGP'', sc_coupons = [],
     sc_countryCode = ''EG'', sc_createdAt = 0, sc_updatedAt = 0\<rparr>"

text \<open>A store that holds the given carts at the given versions, and an index entry per user.\<close>

definition mem_with :: "(stored_cart \<times> int) list \<Rightarrow> (string \<times> string) list \<Rightarrow> stored_cart mem svc" where
  "mem_with cs us = mem_svc\<lparr>rc_redis :=
     \<lparr>m_hash = concat (map (\<lambda>(c, v). [((key (sc_id c), ''data''), RJson c), ((key (sc_id c), ''version''), RInt v)]) cs),
      m_text = map (\<lambda>(u, i). (userIndex u, i)) us, m_ttl = [], m_scripts = []\<rparr>\<rparr>"

text \<open>A session: a line is added twice, beyond the limit per line, with pricing-engine down.\<close>

definition sample_env :: "stored_cart mem cart_env" where
  "sample_env = mem_env (\<lambda>_. Response 200 (Some [sample_variant])) (\<lambda>_. EmptyResponse)"

definition sample_session :: "(stored_cart mem cart_env \<times> cart_request) list" where
  "sample_session = [(sample_env, AddLine ''c'' ''a'' 7 3), (sample_env, AddLine ''c'' ''a'' 95 4)]"

definition sample_view :: "string \<Rightarrow> variant" where
  "sample_view sku = sample_variant\<lparr>v_sku := sku\<rparr>"

text \<open>What the lines come to at list price.\<close>

definition list_total :: "hydrated_line list \<Rightarrow> int" where
  "list_total ls = sum_list (map (\<lambda>l. amount (h_unitPrice l) * h_quantity l) ls)"

text \<open>Another device keeps writing to the user's cart.\<close>

definition racing_env :: "stored_cart mem cart_env" where
  "racing_env = sample_env\<lparr>e_others := \<lambda>s.
     (case cell_version mem_ops (key ''c'') (rc_redis s) of
        None \<Rightarrow> s
      | Some v \<Rightarrow> s\<lparr>rc_redis := snd (cas_script mem_ops (key ''c'') v
                    (sample_cart ''c'' (Some ''u'') [sample_line ''b'' 1]) 60 (rc_redis s))\<rparr>)\<rparr>"

text \<open>An engine that applies no promotion and quotes no line, and a catalog that has lost \<^verbatim>\<open>a\<close>.\<close>

definition plain_engine :: "CalculateRequest \<Rightarrow> engine_answer" where
  "plain_engine req =
     (let z = zeroMoney (rq_currency req)
      in Answered \<lparr>pc_lines = [], pc_subtotal = z, pc_discountTotal = z, pc_shippingTotal = z, pc_taxTotal = z,
           pc_grandTotal = z, appliedPromotions = [], rejectedPromotions = [], pc_rulesVersion = ''r1'',
           degraded = False\<rparr>)"

definition shrunk_env :: "stored_cart mem cart_env" where
  "shrunk_env = mem_env (\<lambda>_. Response 200 (Some
     [sample_variant\<lparr>v_sku := ''b'', v_price := \<lparr>amount = 900, currency = ''EGP''\<rparr>\<rparr>])) plain_engine"

section \<open>Quantities\<close>

lemma line_qty_Nil [simp]: "line_qty [] sku = 0"
  by (simp add: line_qty_def)

lemma line_qty_Cons: "line_qty (l # ls) sku = (if l_sku l = sku then l_quantity l else line_qty ls sku)"
  by (simp add: line_qty_def)

lemma line_qty_absent: "sku \<notin> line_skus ls \<Longrightarrow> line_qty ls sku = 0"
  by (induction ls) (auto simp: line_qty_Cons line_skus_def)

lemma line_qty_snoc:
  "line_qty (ls @ [l]) sku = (if sku \<in> line_skus ls then line_qty ls sku
     else if l_sku l = sku then l_quantity l else 0)"
  by (induction ls) (auto simp: line_qty_Cons line_skus_def)

lemma line_qty_update_first:
  assumes "\<And>l. l_sku (f l) = l_sku l" "\<And>l. l_quantity (f l) = g (l_quantity l)"
  shows "line_qty (update_first (\<lambda>l. l_sku l = x) f ls) sku =
    (if sku = x \<and> x \<in> line_skus ls then g (line_qty ls sku) else line_qty ls sku)"
  by (induction ls) (auto simp: line_qty_Cons line_skus_def assms)

lemma line_skus_update_first:
  "(\<And>l. l_sku (f l) = l_sku l) \<Longrightarrow> line_skus (update_first p f ls) = line_skus ls"
  using map_update_first_key [of l_sku f p ls] by (metis line_skus_def list.set_map)

lemma list_ex_sku: "list_ex (\<lambda>l. l_sku l = sku) ls \<longleftrightarrow> sku \<in> line_skus ls"
  by (auto simp: list_ex_iff line_skus_def)

lemma line_qty_bounds: "lines_ok ls \<Longrightarrow> 0 \<le> line_qty ls sku \<and> line_qty ls sku \<le> MAX_QTY_PER_LINE"
proof -
  assume "lines_ok ls"
  then have "list_all line_ok ls" by (simp add: lines_ok_def)
  then show ?thesis
    by (induction ls) (auto simp: line_qty_Cons line_ok_def MAX_QTY_PER_LINE_def)
qed

lemma card_line_skus: "distinct (map l_sku ls) \<Longrightarrow> card (line_skus ls) = length ls"
  by (metis distinct_card length_map line_skus_def list.set_map)

lemma merge_line_skus:
  "line_skus (merge_line l ls) =
     (if l_sku l \<in> line_skus ls \<or> length ls < MAX_LINES then insert (l_sku l) (line_skus ls) else line_skus ls)"
proof (cases "l_sku l \<in> line_skus ls")
  case True
  then show ?thesis
    by (simp add: merge_line_def list_ex_sku line_skus_update_first insert_absorb)
next
  case False
  then show ?thesis
    by (auto simp: merge_line_def list_ex_sku line_skus_def)
qed

lemma merge_line_qty:
  assumes "lines_ok ls" "line_ok l" "l_sku l \<in> line_skus ls \<or> length ls < MAX_LINES"
  shows "line_qty (merge_line l ls) sku =
    (if sku = l_sku l then max (line_qty ls sku) (l_quantity l) else line_qty ls sku)"
proof (cases "l_sku l \<in> line_skus ls")
  case True
  have "max (line_qty ls (l_sku l)) (l_quantity l) \<le> MAX_QTY_PER_LINE"
    using line_qty_bounds [OF assms(1)] assms(2) by (simp add: line_ok_def)
  with True show ?thesis
    by (simp add: merge_line_def list_ex_sku
        line_qty_update_first [where g = "\<lambda>q. min (max q (l_quantity l)) MAX_QTY_PER_LINE"])
next
  case False
  then show ?thesis
    using assms(2,3) line_qty_absent [of sku ls] line_qty_absent [of "l_sku l" ls]
    by (auto simp: merge_line_def list_ex_sku line_qty_snoc line_ok_def)
qed

lemma merge_lines_union:
  assumes "lines_ok ls" "list_all line_ok as" "distinct (map l_sku as)"
    and "card (line_skus ls \<union> line_skus as) \<le> MAX_LINES"
  shows "line_qty (merge_lines ls as) sku = max (line_qty ls sku) (line_qty as sku)"
  using assms
proof (induction as arbitrary: ls)
  case Nil
  then show ?case
    using line_qty_bounds [OF Nil(1), of sku] by (simp add: merge_lines_def)
next
  case (Cons l as)
  have fin: "finite (line_skus xs)" for xs
    by (simp add: line_skus_def)
  have room: "l_sku l \<in> line_skus ls \<or> length ls < MAX_LINES"
  proof (rule disjCI)
    assume "\<not> length ls < MAX_LINES"
    then have "card (line_skus ls) \<ge> MAX_LINES"
      using Cons.prems(1) card_line_skus by (simp add: lines_ok_def)
    moreover have "line_skus ls \<subseteq> line_skus ls \<union> line_skus (l # as)" by blast
    ultimately have "line_skus ls = line_skus ls \<union> line_skus (l # as)"
      using Cons.prems(4) by (intro card_seteq finite_UnI fin) simp_all
    moreover have "l_sku l \<in> line_skus ls \<union> line_skus (l # as)"
      by (simp add: line_skus_def)
    ultimately show "l_sku l \<in> line_skus ls"
      by (rule ssubst)
  qed
  have step: "line_skus (merge_line l ls) = insert (l_sku l) (line_skus ls)"
    using room by (simp add: merge_line_skus)
  have "card (line_skus (merge_line l ls) \<union> line_skus as) \<le> MAX_LINES"
    using Cons.prems(4) unfolding step by (simp add: line_skus_def Un_insert_left)
  then have "line_qty (merge_lines (merge_line l ls) as) sku =
      max (line_qty (merge_line l ls) sku) (line_qty as sku)"
    using Cons.IH [OF merge_line_ok] Cons.prems by simp
  moreover have "line_qty as (l_sku l) = 0"
    using Cons.prems(3) by (intro line_qty_absent) (simp add: line_skus_def)
  moreover have "0 \<le> line_qty ls sku" "0 \<le> l_quantity l"
    using line_qty_bounds [OF Cons.prems(1)] Cons.prems(2) by (simp_all add: line_ok_def)
  ultimately show ?case
    using merge_line_qty [OF Cons.prems(1) _ room] Cons.prems(2)
    by (auto simp: merge_lines_def line_qty_Cons)
qed

section \<open>The in-memory environment\<close>

lemma mem_env_ok: "env_ok (mem_env fetch engine)"
  by (simp add: env_ok_def mem_env_def mem.redis_axioms)

lemma mem_env_simps [simp]:
  "e_ops (mem_env fetch engine) = mem_ops" "e_others (mem_env fetch engine) s = s"
  "e_fetch (mem_env fetch engine) = fetch" "e_engine (mem_env fetch engine) = engine"
  "e_fuel (mem_env fetch engine) = 2" "e_now (mem_env fetch engine) = 1700000000000"
  "e_settled (mem_env fetch engine) = 1700000000010"
  by (simp_all add: mem_env_def)

lemma mem_svc_inv: "store_inv mem_ops mem_svc"
  by (simp add: store_inv_def mem_svc_def mem_empty_def mem_ops_def cell_value_def cell_ok_def)

section \<open>Degraded prices\<close>

lemma multiplyMoney_int: "multiplyMoney m (of_int q) = Inr \<lparr>amount = js_mul (amount m) q, currency = currency m\<rparr>"
  by (simp add: multiplyMoney_def rat_is_int_def)

lemma degraded_lines_fails:
  "isl (degraded_lines ls m) \<longleftrightarrow> (\<exists>l\<in>set ls. currency (h_unitPrice l) \<noteq> currency m)"
proof (induction ls arbitrary: m)
  case (Cons l ls)
  let ?m = "\<lparr>amount = js_add (amount m) (js_mul (amount (h_unitPrice l)) (h_quantity l)), currency = currency m\<rparr>"
  show ?case
    using Cons.IH [of ?m]
    by (cases "degraded_lines ls ?m") (auto simp: multiplyMoney_int addMoney_def)
qed simp

lemma list_total_nonneg:
  "\<forall>l\<in>set ls. 0 \<le> amount (h_unitPrice l) \<and> 0 \<le> h_quantity l \<Longrightarrow> 0 \<le> list_total ls"
  by (induction ls) (simp_all add: list_total_def)

lemma degraded_lines_total:
  assumes "\<forall>l\<in>set ls. currency (h_unitPrice l) = currency m \<and> 0 \<le> amount (h_unitPrice l) \<and> 0 \<le> h_quantity l"
    and "0 \<le> amount m" "amount m + list_total ls \<le> MAX_SAFE_INTEGER"
  shows "\<exists>cls. degraded_lines ls m = Inr (cls, \<lparr>amount = amount m + list_total ls, currency = currency m\<rparr>) \<and>
    map (\<lambda>c. amount (cl_lineTotal c)) cls = map (\<lambda>l. amount (h_unitPrice l) * h_quantity l) ls"
  using assms
proof (induction ls arbitrary: m)
  case Nil
  then show ?case by (simp add: list_total_def)
next
  case (Cons l ls)
  let ?p = "amount (h_unitPrice l) * h_quantity l"
  let ?m = "\<lparr>amount = amount m + ?p, currency = currency m\<rparr>"
  have tot: "list_total (l # ls) = ?p + list_total ls" and p: "0 \<le> ?p" and rest: "0 \<le> list_total ls"
    using Cons.prems(1) list_total_nonneg [of ls] by (simp_all add: list_total_def)
  have safe: "is_safe ?p" "is_safe (amount m + ?p)"
    using Cons.prems(2,3) tot p rest by (simp_all add: is_safe_def)
  have "currency (h_unitPrice l) = currency m"
    using Cons.prems(1) by simp
  moreover obtain cls where "degraded_lines ls ?m = Inr (cls, \<lparr>amount = amount ?m + list_total ls, currency = currency ?m\<rparr>)"
    "map (\<lambda>c. amount (cl_lineTotal c)) cls = map (\<lambda>l. amount (h_unitPrice l) * h_quantity l) ls"
    using Cons.IH [of ?m] Cons.prems p tot by auto
  ultimately show ?case
    using safe tot by (simp add: multiplyMoney_int addMoney_def js_mul_def js_add_def num_safe add.assoc)
qed

lemma priced_cart_lines_flags:
  "priced_cart_lines ls ps sts = Inr cls \<Longrightarrow> map h_sku ls = map l_sku sts \<Longrightarrow>
   list_all2 (\<lambda>c st. cl_sku c = l_sku st \<and> cl_priceChanged c = (amount (cl_unitPrice c) \<noteq> l_addedAtPrice st)) cls sts"
proof (induction ls ps sts arbitrary: cls rule: priced_cart_lines.induct)
  case (1 l ls ps st sts)
  obtain c cs where c: "priced_cart_line l (case ps of [] \<Rightarrow> None | p # _ \<Rightarrow> Some p) st = Inr c"
    and cs: "priced_cart_lines ls (tl ps) sts = Inr cs" and cls: "cls = c # cs"
    using 1(2) by (auto split: sum.splits)
  have "cl_sku c = l_sku st \<and> cl_priceChanged c = (amount (cl_unitPrice c) \<noteq> l_addedAtPrice st)"
    using c 1(3) by (auto simp: priced_cart_line_def Let_def split: sum.splits)
  with 1(1) [OF c cs] 1(3) cls show ?case by simp
qed auto

section \<open>Merging without interference\<close>

lemma load_found:
  assumes "\<And>s. e_others env s = s" "\<not> r_down (e_ops env) (rc_redis s)"
    "cell_value (e_ops env) (key i) (rc_redis s) = Some c" "cell_version (e_ops env) (key i) (rc_redis s) = Some v"
  shows "load env i s = (Inr (Some (c, v)), s)"
proof -
  have "hmget_cell (e_ops env) (key i) (rc_redis s) = (Some (RJson c), Some (RInt v))"
    using assms(3,4)
    by (auto simp: hmget_cell_def cell_value_def cell_version_def split: option.splits rval.splits)
  with assms(1,2) show ?thesis
    by (simp add: load_def store_call_def map_error_def redis_call_def and_then_def)
qed

lemma store_call_quiet:
  assumes "\<And>s. e_others env s = s" "\<not> r_down (e_ops env) (rc_redis s)" "f (rc_redis s) = (a, r)"
  shows "store_call env f s = (Inr a, s\<lparr>rc_redis := r\<rparr>)"
  using assms by (simp add: store_call_def map_error_def redis_call_def)

section \<open>Properties\<close>

text \<open>C1: Whatever sequence of requests the service serves, with whatever catalog and pricing answers
  and interference from other instances, every stored cart keeps at most 100 lines, each SKU on one
  line only, every quantity between 1 and 99, and each coupon once.\<close>

theorem cart_requests_keep_invariant:
  assumes "\<forall>(env, q)\<in>set qs. env_ok env \<and> e_ops env = ops \<and> request_ok q" "store_inv ops s"
    and "cell_value ops (key cartId) (rc_redis (run_requests qs s)) = Some cart"
  shows "length (sc_lines cart) \<le> 100 \<and> distinct (map l_sku (sc_lines cart)) \<and>
    (\<forall>l\<in>set (sc_lines cart). 1 \<le> l_quantity l \<and> l_quantity l \<le> 99) \<and> distinct (sc_coupons cart)"
proof -
  have "cart_inv cart"
    using run_requests_inv [OF assms(1,2)] assms(3) by (auto simp: store_inv_def)
  then show ?thesis
    by (simp add: cart_inv_def lines_ok_def line_ok_def list_all_iff MAX_LINES_def MAX_QTY_PER_LINE_def)
qed

theorem cart_requests_keep_invariant_witness:
  "\<exists>cart. cell_value mem_ops (key ''c'') (rc_redis (run_requests sample_session
       (mem_with [(sample_cart ''c'' None [], 3)] []))) = Some cart \<and>
     (\<forall>l\<in>set (sc_lines cart). 1 \<le> l_quantity l \<and> l_quantity l \<le> 99)"
proof -
  let ?s = "mem_with [(sample_cart ''c'' None [], 3)] []"
  have envs: "\<forall>(env, q)\<in>set sample_session. env_ok env \<and> e_ops env = mem_ops \<and> request_ok q"
    by (simp add: sample_session_def sample_env_def mem_env_ok)
  have start: "store_inv mem_ops ?s"
    by (auto simp: store_inv_def mem_with_def mem_svc_def mem_ops_def cell_value_def cell_ok_def
        sample_cart_def cart_inv_def lines_ok_def split: option.splits if_splits)
  have "cell_value mem_ops (key ''c'') (rc_redis (run_requests sample_session ?s)) \<noteq> None"
    by code_simp
  then obtain cart where "cell_value mem_ops (key ''c'') (rc_redis (run_requests sample_session ?s)) = Some cart"
    by blast
  with cart_requests_keep_invariant [OF envs start this] show ?thesis
    by blast
qed

text \<open>Adding a SKU raises its quantity by what was asked, capped at 99, and leaves every other
  line's quantity alone; it is refused exactly when the SKU is new and the cart already has 100
  lines.\<close>

theorem add_to_lines_quantities:
  assumes "lines_ok ls" "1 \<le> q"
  shows "(case add_to_lines now sku q product ls of
      Inl e \<Rightarrow> e = CartFull \<and> sku \<notin> line_skus ls \<and> length ls = 100
    | Inr ls' \<Rightarrow> line_qty ls' sku = min (line_qty ls sku + q) 99 \<and>
        (\<forall>other. other \<noteq> sku \<longrightarrow> line_qty ls' other = line_qty ls other))"
proof (cases "sku \<in> line_skus ls")
  case True
  then show ?thesis
    by (simp add: add_to_lines_def list_ex_sku MAX_QTY_PER_LINE_def
        line_qty_update_first [where g = "\<lambda>x. min (x + q) 99"])
next
  case False
  moreover have "length ls \<le> 100"
    using assms(1) by (simp add: lines_ok_def MAX_LINES_def)
  ultimately show ?thesis
    using line_qty_absent [of _ ls]
    by (auto simp: add_to_lines_def list_ex_sku line_qty_snoc MAX_LINES_def MAX_QTY_PER_LINE_def)
qed

theorem add_to_lines_quantities_witness:
  "case add_to_lines 0 ''a'' 95 sample_variant [sample_line ''a'' 7, sample_line ''b'' 1] of
     Inl e \<Rightarrow> False
   | Inr ls' \<Rightarrow> line_qty ls' ''a'' = 99 \<and> line_qty ls' ''b'' = 1"
  using add_to_lines_quantities [of "[sample_line ''a'' 7, sample_line ''b'' 1]" 95, where now = 0 and sku = "''a''"
      and product = sample_variant]
  by (simp add: lines_ok_def line_ok_def sample_line_def line_qty_Cons line_skus_def MAX_LINES_def
      MAX_QTY_PER_LINE_def split: sum.splits)




lemma mem_env_advance: "others_advance (mem_env fetch engine) k"
  by (simp add: others_advance_def)


text \<open>C29: A mutation that is refused (the cart is gone, its version is stale, the product is unknown or
  inactive, the line is missing, the cart is full, Redis is down) has written nothing: every fact
  about the stored carts that the other clients leave alone still holds.\<close>

theorem refused_mutation_writes_nothing:
  assumes "redis (e_ops env)" "quiet env P" "P (rc_redis s)"
    and "\<And>r. P r \<Longrightarrow> cell_ok (e_ops env) (key cartId) r"
    and "addLine env cartId sku quantity v s = (Inl err, s') \<or>
         updateLine env cartId sku quantity v s = (Inl err, s') \<or>
         applyCoupon env cartId code v s = (Inl err, s')"
    and "\<forall>m. err \<noteq> MoneyError m"
  shows "P (rc_redis s')"
proof -
  have ref: "refusal err"
    using assms(6) by (cases err) simp_all
  from assms(5) consider "addLine env cartId sku quantity v s = (Inl err, s')"
    | "updateLine env cartId sku quantity v s = (Inl err, s')" | "applyCoupon env cartId code v s = (Inl err, s')"
    by blast
  then show ?thesis
  proof cases
    case 1
    with add_line.refused [OF assms(2,3,1,4) _ ref] show ?thesis by (simp add: addLine_mutate)
  next
    case 2
    with update_line.refused [OF assms(2,3,1,4) _ ref] show ?thesis by (simp add: updateLine_mutate)
  next
    case 3
    with coupon.refused [OF assms(2,3,1,4) _ ref] show ?thesis by (simp add: applyCoupon_mutate)
  qed
qed

theorem refused_mutation_writes_nothing_witness:
  "\<exists>s'. updateLine sample_env ''c'' ''a'' 5 2 (mem_with [(sample_cart ''c'' None [], 3)] []) = (Inl (CartStale 2 3), s') \<and>
     cell_value mem_ops (key ''c'') (rc_redis s') = Some (sample_cart ''c'' None [])"
proof -
  let ?s = "mem_with [(sample_cart ''c'' None [], 3)] []"
  let ?P = "\<lambda>r. cell_value mem_ops (key ''c'') r = Some (sample_cart ''c'' None []) \<and> cell_ok mem_ops (key ''c'') r"
  have "fst (updateLine sample_env ''c'' ''a'' 5 2 ?s) = Inl (CartStale 2 3)"
    by code_simp
  then obtain s' where run: "updateLine sample_env ''c'' ''a'' 5 2 ?s = (Inl (CartStale 2 3), s')"
    by (cases "updateLine sample_env ''c'' ''a'' 5 2 ?s") simp
  have start: "?P (rc_redis ?s)"
    by (simp add: mem_with_def mem_svc_def mem_ops_def cell_value_def cell_ok_def sample_cart_def)
  have quiet: "quiet sample_env ?P"
    by (simp add: quiet_def sample_env_def mem.cell_frames)
  have "?P (rc_redis s')"
    by (rule refused_mutation_writes_nothing [where P = ?P and cartId = "''c''" and sku = "''a''"
        and quantity = 5 and v = 2 and err = "CartStale 2 3" and code = "[]", OF _ quiet start])
      (use run in \<open>simp_all add: sample_env_def mem.redis_axioms\<close>)
  with run show ?thesis by blast
qed

text \<open>When pricing-engine does not answer, the cart is shown at list price: each line total is
  price times quantity, the total is their exact sum (within the safe integer range), nothing is
  discounted, and the rules version is null so that the order cannot be placed.\<close>

theorem degraded_cart_total:
  assumes "\<forall>l\<in>set lines. currency (h_unitPrice l) = sc_currency cart \<and> 0 \<le> amount (h_unitPrice l) \<and> 0 \<le> h_quantity l"
    and "list_total lines \<le> MAX_SAFE_INTEGER"
  shows "\<exists>view. degradedCart env cart lines version = Inr view \<and>
    cv_total view = \<lparr>amount = list_total lines, currency = sc_currency cart\<rparr> \<and>
    cv_subtotal view = cv_total view \<and> amount (cv_discountTotal view) = 0 \<and>
    map (\<lambda>c. amount (cl_lineTotal c)) (cv_lines view) = map (\<lambda>l. amount (h_unitPrice l) * h_quantity l) lines \<and>
    cv_pricingDegraded view \<and> cv_rulesVersion view = None \<and> cv_version view = version"
  using degraded_lines_total [of lines "zeroMoney (sc_currency cart)"] assms
  by (auto simp: degradedCart_def zeroMoney_def)

theorem degraded_cart_total_witness:
  "\<exists>view. degradedCart sample_env (sample_cart ''c'' None [])
      [hydrate_line (sample_line ''a'' 3) sample_variant, hydrate_line (sample_line ''b'' 2) sample_variant] 4 = Inr view \<and>
    cv_total view = \<lparr>amount = 2500, currency = ''EGP''\<rparr> \<and> cv_rulesVersion view = None"
  using degraded_cart_total [of "[hydrate_line (sample_line ''a'' 3) sample_variant, hydrate_line (sample_line ''b'' 2) sample_variant]"
      "sample_cart ''c'' None []" sample_env 4]
  by (auto simp: hydrate_line_def sample_line_def sample_variant_def sample_cart_def list_total_def MAX_SAFE_INTEGER_def)

text \<open>The fallback price itself fails exactly when the catalog quotes some line in another currency
  than the cart's: an outage of pricing-engine then turns into an error of the whole cart.\<close>

theorem degraded_cart_fails_iff:
  "isl (degradedCart env cart lines version) \<longleftrightarrow>
     (\<exists>l\<in>set lines. currency (h_unitPrice l) \<noteq> sc_currency cart)"
  using degraded_lines_fails [of lines "zeroMoney (sc_currency cart)"]
  by (auto simp: degradedCart_def zeroMoney_def split: sum.splits prod.splits)

text \<open>Merging a cart into the account that already owns it (a second login with the same cart
  cookie) deletes the user's cart from the store.\<close>

theorem merge_own_cart_deletes_it:
  assumes "redis (e_ops env)" "\<And>s. e_others env s = s" "\<And>r. \<not> r_down (e_ops env) r" "e_fuel env = Suc (Suc n)"
    and "cell_value (e_ops env) (key cartId) (rc_redis s) = Some c"
    and "cell_version (e_ops env) (key cartId) (rc_redis s) = Some v"
    and "r_get (e_ops env) (userIndex userId) (rc_redis s) = Some cartId" "cartId \<noteq> []"
  shows "cell_value (e_ops env) (key cartId) (rc_redis (snd (merge env cartId userId s))) = None"
proof -
  have load: "load env cartId s = (Inr (Some (c, v)), s)"
    by (rule load_found) (use assms in simp_all)
  have idx: "store_call env (\<lambda>r. (r_get (e_ops env) (userIndex userId) r, r)) s = (Inr (Some cartId), s)"
    using store_call_quiet [of env s "\<lambda>r. (r_get (e_ops env) (userIndex userId) r, r)"] assms by simp
  let ?m = "merge_carts (e_now env) c c"
  obtain k s1 where cas: "cas_cart env (sc_id ?m) v ?m CART_TTL_SECONDS s = (Inr k, s1)"
    using cas_two_rounds [OF assms(1), of "e_others env" n "key (sc_id ?m)" v ?m CART_TTL_SECONDS s] assms(2-4)
    by (auto simp: steady_def cas_cart_def map_error_def)
  have del: "store_call env (\<lambda>r. ((), r_del (e_ops env) (key cartId) r)) s1 =
      (Inr (), s1\<lparr>rc_redis := r_del (e_ops env) (key cartId) (rc_redis s1)\<rparr>)"
    by (rule store_call_quiet) (use assms in simp_all)
  have "merge env cartId userId s = price env ?m k (s1\<lparr>rc_redis := r_del (e_ops env) (key cartId) (rc_redis s1)\<rparr>)"
    using load idx cas del assms(8) by (simp add: merge_def and_then_Inr Let_def)
  then show ?thesis
    by (simp add: price_redis redis.cell_frames [OF assms(1)])
qed

theorem merge_own_cart_deletes_it_witness:
  "cell_value mem_ops (key ''c'') (rc_redis (snd (merge sample_env ''c'' ''u''
     (mem_with [(sample_cart ''c'' (Some ''u'') [sample_line ''a'' 2], 5)] [(''u'', ''c'')])))) = None"
  using merge_own_cart_deletes_it [of sample_env 0 "''c''"
      "mem_with [(sample_cart ''c'' (Some ''u'') [sample_line ''a'' 2], 5)] [(''u'', ''c'')]" _ 5 "''u''"]
  by (simp add: sample_env_def mem.redis_axioms mem_with_def mem_svc_def cell_value_def cell_version_def
      sample_cart_def userIndex_def) (simp add: mem_ops_def)

text \<open>If another device writes to the user's cart while the anonymous cart is being merged into it,
  the merge is refused by the store but reported as done with version -1: the anonymous cart is
  deleted and its line is in neither cart.\<close>

theorem merge_conflict_loses_anonymous_cart:
  "case merge racing_env ''d'' ''u''
      (mem_with [(sample_cart ''c'' (Some ''u'') [], 5), (sample_cart ''d'' None [sample_line ''a'' 4], 2)] [(''u'', ''c'')]) of
     (Inl e, s') \<Rightarrow> False
   | (Inr view, s') \<Rightarrow>
       cv_version view = -1 \<and> map cl_sku (cv_lines view) = [''a''] \<and>
       cell_value mem_ops (key ''d'') (rc_redis s') = None \<and>
       map_option (\<lambda>c. line_qty (sc_lines c) ''a'') (cell_value mem_ops (key ''c'') (rc_redis s')) = Some 0"
  by code_simp

text \<open>While the catalog still knows every product of the cart, the flag \<^verbatim>\<open>priceChanged\<close> of a line says
  whether the price shown differs from the one the customer saw when adding that same line.\<close>

theorem price_changed_flag:
  assumes "map h_sku lines = map l_sku (sc_lines cart)" "distinct (map l_sku (sc_lines cart))"
    and "pricedCart env cart lines priced version = Inr view"
    and "c \<in> set (cv_lines view)" "st \<in> set (sc_lines cart)" "cl_sku c = l_sku st"
  shows "cl_priceChanged c \<longleftrightarrow> amount (cl_unitPrice c) \<noteq> l_addedAtPrice st"
proof -
  have "list_all2 (\<lambda>c st. cl_sku c = l_sku st \<and> cl_priceChanged c = (amount (cl_unitPrice c) \<noteq> l_addedAtPrice st))
      (cv_lines view) (sc_lines cart)"
    using assms(1,3) by (auto simp: pricedCart_def split: sum.splits intro: priced_cart_lines_flags)
  then obtain st' where "st' \<in> set (sc_lines cart)" "cl_sku c = l_sku st'"
    "cl_priceChanged c = (amount (cl_unitPrice c) \<noteq> l_addedAtPrice st')"
    using assms(4) by (fastforce simp: list_all2_conv_all_nth in_set_conv_nth)
  moreover have "st' = st"
    using assms(2,5,6) calculation by (metis distinct_map inj_onD)
  ultimately show ?thesis by simp
qed

theorem price_changed_flag_witness:
  "\<exists>view c. pricedCart shrunk_env (sample_cart ''c'' None [sample_line ''b'' 1])
      [hydrate_line (sample_line ''b'' 1) (sample_variant\<lparr>v_price := \<lparr>amount = 900, currency = ''EGP''\<rparr>\<rparr>)]
      \<lparr>pc_lines = [], pc_subtotal = zeroMoney ''EGP'', pc_discountTotal = zeroMoney ''EGP'',
       pc_shippingTotal = zeroMoney ''EGP'', pc_taxTotal = zeroMoney ''EGP'', pc_grandTotal = zeroMoney ''EGP'',
       appliedPromotions = [], rejectedPromotions = [], pc_rulesVersion = ''r1'', degraded = False\<rparr> 1 = Inr view \<and>
     c \<in> set (cv_lines view) \<and> cl_priceChanged c"
proof -
  let ?cart = "sample_cart ''c'' None [sample_line ''b'' 1]"
  let ?ls = "[hydrate_line (sample_line ''b'' 1) (sample_variant\<lparr>v_price := \<lparr>amount = 900, currency = ''EGP''\<rparr>\<rparr>)]"
  let ?p = "\<lparr>pc_lines = [], pc_subtotal = zeroMoney ''EGP'', pc_discountTotal = zeroMoney ''EGP'',
       pc_shippingTotal = zeroMoney ''EGP'', pc_taxTotal = zeroMoney ''EGP'', pc_grandTotal = zeroMoney ''EGP'',
       appliedPromotions = [], rejectedPromotions = [], pc_rulesVersion = ''r1'', degraded = False\<rparr>"
  obtain view c where run: "pricedCart shrunk_env ?cart ?ls ?p 1 = Inr view" and c: "cv_lines view = [c]"
    and shown: "cl_sku c = ''b''" "amount (cl_unitPrice c) = 900"
    by (simp add: pricedCart_def priced_cart_line_def multiplyMoney_def rat_is_int_def Let_def
        sample_cart_def hydrate_line_def sample_line_def sample_variant_def)
  have "cl_priceChanged c \<longleftrightarrow> amount (cl_unitPrice c) \<noteq> l_addedAtPrice (sample_line ''b'' 1)"
    by (rule price_changed_flag [OF _ _ run])
      (use c shown in \<open>simp_all add: sample_cart_def hydrate_line_def sample_line_def\<close>)
  with run c shown show ?thesis
    by (simp add: sample_line_def)
qed

text \<open>Once the catalog has dropped a product that is in the cart, the flags of the lines after it
  are computed against the wrong stored line: a line whose price has not moved is reported as
  changed.\<close>

theorem price_changed_misaligned:
  "case price shrunk_env (sample_cart ''c'' None [sample_line ''a'' 1, (sample_line ''b'' 1)\<lparr>l_addedAtPrice := 900\<rparr>]) 1 mem_svc of
     (Inl e, s) \<Rightarrow> False
   | (Inr view, s) \<Rightarrow>
       map (\<lambda>l. (cl_sku l, amount (cl_unitPrice l), cl_priceChanged l)) (cv_lines view) = [(''b'', 900, True)]"
  by code_simp

end
