(* ===== verification/Contracts_Events.thy ===== *)
theory Contracts_Events
  imports Contracts_Primitives
begin

text \<open>
  The CloudEvents envelopes of every topic (\<^verbatim>\<open>libs/ts-contracts/src/events.ts\<close>): the topics, one
  schema per event type, the unions a consumer parses with, and the topic-to-schema table.
\<close>

section \<open>Topics and the envelope\<close>

definition TOPICS :: "(string \<times> string) list" where
  "TOPICS =
     [(''orderEvents'', ''souq.order.events.v1''),
      (''orderCommands'', ''souq.order.commands.v1''),
      (''inventoryEvents'', ''souq.inventory.events.v1''),
      (''paymentEvents'', ''souq.payment.events.v1''),
      (''catalogEvents'', ''souq.catalog.events.v1''),
      (''userActivity'', ''souq.user.activity.v1''),
      (''notificationCommands'', ''souq.notification.commands.v1'')]"

definition dlqFor :: "string \<Rightarrow> string" where
  "dlqFor topic = topic @ ''.dlq''"

definition cloudEventBase :: "(string \<times> schema) list" where
  "cloudEventBase =
     [(''specversion'', ZLiteral ''1.0''),
      (''id'', ZString [MinLen 1]),
      (''source'', ZString [MinLen 1]),
      (''subject'', ZOptional z_string),
      (''time'', Timestamp),
      (''datacontenttype'', ZDefault (ZLiteral ''application/json'') (JStr ''application/json'')),
      (''traceparent'', ZOptional z_string),
      (''correlationid'', ZOptional z_string),
      (''dataschema'', ZOptional z_string)]"

definition cloudEvent :: "string \<Rightarrow> schema \<Rightarrow> schema" where
  "cloudEvent ty d = z_strict (cloudEventBase @ [(''type'', ZLiteral ty), (''data'', d)])"

section \<open>Shared payload fragments\<close>

definition OrderItem :: schema where
  "OrderItem = z_strict
     [(''sku'', Sku),
      (''productId'', ProductId),
      (''title'', ZOptional (ZString [MaxLen 500])),
      (''quantity'', ZNumber [IntOnly, AtLeast 1, AtMost 999]),
      (''unitPrice'', Money),
      (''lineTotal'', ZOptional Money)]"

definition UnavailableSku :: schema where
  "UnavailableSku = z_strict
     [(''sku'', z_string),
      (''requested'', z_int_min 1),
      (''available'', z_int_min 0)]"

definition ReserveItem :: schema where
  "ReserveItem = z_strict
     [(''sku'', Sku),
      (''quantity'', z_int_min 1)]"

section \<open>Order events\<close>

definition OrderCreated :: schema where
  "OrderCreated = cloudEvent ''souq.order.created.v1'' (z_strict
     [(''orderId'', OrderId),
      (''userId'', UserId),
      (''items'', ZArray OrderItem (Some 1) (Some 100)),
      (''subtotal'', Money),
      (''discountTotal'', Money),
      (''shippingTotal'', Money),
      (''taxTotal'', Money),
      (''total'', Money),
      (''shippingAddress'', Address),
      (''rulesVersion'', z_string),
      (''idempotencyKey'', ZString [Uuid])])"

definition OrderConfirmed_data :: "(string \<times> schema) list" where
  "OrderConfirmed_data =
     [(''orderId'', OrderId),
      (''userId'', UserId),
      (''paymentId'', PaymentId),
      (''reservationId'', ReservationId),
      (''total'', Money),
      (''confirmedAt'', Timestamp)]"

definition OrderConfirmed :: schema where
  "OrderConfirmed = cloudEvent ''souq.order.confirmed.v1'' (z_strict OrderConfirmed_data)"

definition CancellationReason :: schema where
  "CancellationReason = ZEnum
     [''INSUFFICIENT_STOCK'', ''PAYMENT_DECLINED'', ''PAYMENT_TIMEOUT'', ''RESERVATION_TIMEOUT'',
      ''CUSTOMER_CANCELLED'', ''FRAUD_REJECTED'']"

definition OrderCancelled :: schema where
  "OrderCancelled = cloudEvent ''souq.order.cancelled.v1'' (z_strict
     [(''orderId'', OrderId),
      (''userId'', UserId),
      (''reasonCode'', CancellationReason),
      (''failedStep'', ZDefault (ZEnum [''RESERVE'', ''AUTHORIZE'', ''COMMIT'', ''CAPTURE'', ''NONE'']) (JStr ''NONE'')),
      (''unavailable'', ZOptional (z_array UnavailableSku))])"

definition OrderShipped_data :: "(string \<times> schema) list" where
  "OrderShipped_data =
     [(''orderId'', OrderId),
      (''trackingNumber'', z_string),
      (''carrier'', z_string),
      (''shippedAt'', Timestamp),
      (''estimatedDelivery'', ZOptional z_string)]"

definition OrderShipped :: schema where
  "OrderShipped = cloudEvent ''souq.order.shipped.v1'' (z_strict OrderShipped_data)"

section \<open>Saga commands\<close>

definition InventoryReserve :: schema where
  "InventoryReserve = cloudEvent ''souq.inventory.reserve.v1'' (z_strict
     [(''orderId'', OrderId),
      (''reservationId'', ReservationId),
      (''items'', ZArray ReserveItem (Some 1) None),
      (''ttlSeconds'', ZDefault (ZNumber [IntOnly, Positive]) (JNum 900))])"

definition InventoryRelease :: schema where
  "InventoryRelease = cloudEvent ''souq.inventory.release.v1'' (z_strict
     [(''orderId'', OrderId),
      (''reservationId'', ReservationId),
      (''reasonCode'', z_string)])"

definition InventoryCommit :: schema where
  "InventoryCommit = cloudEvent ''souq.inventory.commit.v1'' (z_strict
     [(''orderId'', OrderId),
      (''reservationId'', ReservationId)])"

definition PaymentAuthorize :: schema where
  "PaymentAuthorize = cloudEvent ''souq.payment.authorize.v1'' (z_strict
     [(''orderId'', OrderId),
      (''paymentId'', PaymentId),
      (''userId'', UserId),
      (''amount'', Money),
      (''paymentMethodToken'', z_string),
      (''billingAddress'', ZOptional Address)])"

definition PaymentCapture :: schema where
  "PaymentCapture = cloudEvent ''souq.payment.capture.v1'' (z_strict
     [(''orderId'', OrderId),
      (''paymentId'', PaymentId),
      (''amount'', ZOptional Money)])"

definition PaymentVoid :: schema where
  "PaymentVoid = cloudEvent ''souq.payment.void.v1'' (z_strict
     [(''orderId'', OrderId),
      (''paymentId'', PaymentId),
      (''reasonCode'', z_string)])"

section \<open>Inventory events\<close>

definition InventoryReserved :: schema where
  "InventoryReserved = cloudEvent ''souq.inventory.reserved.v1'' (z_strict
     [(''orderId'', OrderId),
      (''reservationId'', ReservationId),
      (''expiresAt'', Timestamp),
      (''items'', ZOptional (z_array ReserveItem))])"

definition InventoryReservationFailed :: schema where
  "InventoryReservationFailed = cloudEvent ''souq.inventory.reservation_failed.v1'' (z_strict
     [(''orderId'', OrderId),
      (''reservationId'', ReservationId),
      (''reasonCode'', ZEnum
         [''INSUFFICIENT_STOCK'', ''SKU_NOT_FOUND'', ''SKU_DISCONTINUED'', ''RESERVATION_TOMBSTONED'']),
      (''unavailable'', ZOptional (z_array UnavailableSku))])"

definition InventoryReleased :: schema where
  "InventoryReleased = cloudEvent ''souq.inventory.released.v1'' (z_strict
     [(''orderId'', OrderId),
      (''reservationId'', ReservationId),
      (''wasTombstone'', ZDefault ZBoolean (JBool False))])"

definition InventoryCommitted :: schema where
  "InventoryCommitted = cloudEvent ''souq.inventory.committed.v1'' (z_strict
     [(''orderId'', OrderId),
      (''reservationId'', ReservationId)])"

definition StockChanged :: schema where
  "StockChanged = cloudEvent ''souq.inventory.stock_changed.v1'' (z_strict
     [(''sku'', Sku),
      (''onHand'', z_int_min 0),
      (''reserved'', z_int_min 0),
      (''available'', z_int_min 0),
      (''reasonCode'', ZEnum
         [''RESERVATION'', ''RELEASE'', ''COMMIT'', ''RESTOCK'', ''ADJUSTMENT'', ''RETURN'', ''SHRINKAGE''])])"

section \<open>Payment events\<close>

definition PaymentAuthorized :: schema where
  "PaymentAuthorized = cloudEvent ''souq.payment.authorized.v1'' (z_strict
     [(''orderId'', OrderId),
      (''paymentId'', PaymentId),
      (''amount'', Money),
      (''provider'', ZEnum [''stripe'', ''adyen'', ''checkout'', ''mock'']),
      (''authCode'', ZOptional z_string),
      (''expiresAt'', ZOptional Timestamp)])"

definition PaymentDeclineReason :: schema where
  "PaymentDeclineReason = ZEnum
     [''INSUFFICIENT_FUNDS'', ''CARD_DECLINED'', ''CARD_EXPIRED'', ''INVALID_CVC'', ''FRAUD_SUSPECTED'',
      ''THREE_DS_FAILED'', ''PROVIDER_UNAVAILABLE'', ''AUTHORIZATION_EXPIRED'']"

definition PaymentFailed_data :: "(string \<times> schema) list" where
  "PaymentFailed_data =
     [(''orderId'', OrderId),
      (''paymentId'', PaymentId),
      (''reasonCode'', PaymentDeclineReason),
      (''declineCode'', ZOptional z_string),
      (''retriable'', ZBoolean)]"

definition PaymentFailed :: schema where
  "PaymentFailed = cloudEvent ''souq.payment.failed.v1'' (z_strict PaymentFailed_data)"

definition PaymentCaptured :: schema where
  "PaymentCaptured = cloudEvent ''souq.payment.captured.v1'' (z_strict
     [(''orderId'', OrderId),
      (''paymentId'', PaymentId),
      (''amount'', Money),
      (''capturedAt'', ZOptional Timestamp)])"

definition PaymentVoided :: schema where
  "PaymentVoided = cloudEvent ''souq.payment.voided.v1'' (z_strict
     [(''orderId'', OrderId),
      (''paymentId'', PaymentId),
      (''wasTombstone'', ZDefault ZBoolean (JBool False))])"

definition PaymentRefunded_data :: "(string \<times> schema) list" where
  "PaymentRefunded_data =
     [(''orderId'', OrderId),
      (''paymentId'', PaymentId),
      (''refundId'', z_string),
      (''amount'', Money),
      (''partial'', ZDefault ZBoolean (JBool False)),
      (''reasonCode'', ZOptional z_string)]"

definition PaymentRefunded :: schema where
  "PaymentRefunded = cloudEvent ''souq.payment.refunded.v1'' (z_strict PaymentRefunded_data)"

section \<open>Catalog events\<close>

definition ProductStatus :: schema where
  "ProductStatus = ZEnum [''DRAFT'', ''ACTIVE'', ''ARCHIVED'', ''DISCONTINUED'']"

definition ProductUpserted :: schema where
  "ProductUpserted = cloudEvent ''souq.catalog.product_upserted.v1'' (z_strict
     [(''productId'', ProductId),
      (''sku'', Sku),
      (''title'', ZString [MaxLen 500]),
      (''description'', ZOptional (ZString [MaxLen 20000])),
      (''brand'', ZOptional z_string),
      (''categoryPath'', ZDefault (z_array z_string) (JArr [])),
      (''attributes'', ZDefault (ZRecord z_string) (JObj [])),
      (''images'', ZDefault (z_array (z_strict
         [(''url'', ZString [Url]),
          (''alt'', ZDefault z_string (JStr [])),
          (''width'', ZOptional z_int),
          (''height'', ZOptional z_int)])) (JArr [])),
      (''price'', Money),
      (''listPrice'', ZOptional Money),
      (''status'', ProductStatus),
      (''locale'', ZDefault z_string (JStr ''en-GB'')),
      (''updatedAt'', Timestamp)])"

definition ProductDeleted :: schema where
  "ProductDeleted = cloudEvent ''souq.catalog.product_deleted.v1'' (z_strict
     [(''productId'', ProductId)])"

section \<open>User activity and notification commands\<close>

definition ActivityType :: schema where
  "ActivityType = ZEnum
     [''VIEW'', ''ADD_TO_CART'', ''REMOVE_FROM_CART'', ''PURCHASE'', ''SEARCH'', ''WISHLIST'', ''REVIEW'']"

definition UserActivity :: schema where
  "UserActivity = ZRefineEither (cloudEvent ''souq.activity.v1'' (z_strict
     [(''eventType'', ActivityType),
      (''userId'', ZOptional UserId),
      (''anonymousId'', ZOptional z_string),
      (''sessionId'', z_string),
      (''itemId'', ZOptional ProductId),
      (''query'', ZOptional (ZString [MaxLen 500])),
      (''resultCount'', ZOptional (z_int_min 0)),
      (''position'', ZOptional (z_int_min 0)),
      (''value'', ZOptional Money),
      (''deviceType'', ZOptional (ZEnum [''desktop'', ''mobile'', ''tablet'', ''app''])),
      (''locale'', ZOptional z_string),
      (''occurredAt'', Timestamp),
      (''recommendationId'', ZOptional z_string)])) ''data'' [''userId'', ''anonymousId'']"

definition NotificationCommand :: schema where
  "NotificationCommand = cloudEvent ''souq.notify.v1'' (z_strict
     [(''channel'', ZEnum [''EMAIL'', ''SMS'', ''PUSH'', ''WEBHOOK'']),
      (''userId'', ZOptional UserId),
      (''to'', ZOptional z_string),
      (''template'', z_string),
      (''locale'', ZDefault z_string (JStr ''en-GB'')),
      (''params'', ZDefault (ZRecord ZUnknown) (JObj [])),
      (''dedupeKey'', z_string),
      (''sendAfter'', ZOptional Timestamp)])"

section \<open>Unions\<close>

definition OrderEvent :: schema where
  "OrderEvent = ZDiscriminated ''type'' [OrderCreated, OrderConfirmed, OrderCancelled, OrderShipped]"

definition SagaCommand :: schema where
  "SagaCommand = ZDiscriminated ''type''
     [InventoryReserve, InventoryRelease, InventoryCommit, PaymentAuthorize, PaymentCapture, PaymentVoid]"

definition InventoryEvent :: schema where
  "InventoryEvent = ZDiscriminated ''type''
     [InventoryReserved, InventoryReservationFailed, InventoryReleased, InventoryCommitted, StockChanged]"

definition PaymentEvent :: schema where
  "PaymentEvent = ZDiscriminated ''type''
     [PaymentAuthorized, PaymentFailed, PaymentCaptured, PaymentVoided, PaymentRefunded]"

definition CatalogEvent :: schema where
  "CatalogEvent = ZDiscriminated ''type'' [ProductUpserted, ProductDeleted]"

definition AnyEvent :: schema where
  "AnyEvent = ZUnion
     [OrderEvent, SagaCommand, InventoryEvent, PaymentEvent, CatalogEvent, UserActivity, NotificationCommand]"

definition SCHEMA_BY_TOPIC :: "(string \<times> schema) list" where
  "SCHEMA_BY_TOPIC =
     [(''souq.order.events.v1'', OrderEvent),
      (''souq.order.commands.v1'', SagaCommand),
      (''souq.inventory.events.v1'', InventoryEvent),
      (''souq.payment.events.v1'', PaymentEvent),
      (''souq.catalog.events.v1'', CatalogEvent),
      (''souq.user.activity.v1'', UserActivity),
      (''souq.notification.commands.v1'', NotificationCommand)]"

section \<open>Lemmas\<close>

lemma union_tag_cloudEvent [simp]: "union_tag ''type'' (cloudEvent ty d) = Some ty"
  by (simp add: union_tag_def cloudEvent_def cloudEventBase_def)

context zod
begin

lemma cloudEvent_accept:
  assumes "parse (cloudEvent ty d) v = Accept r"
  shows "get_prop v ''type'' = Some (JStr ty)" and "parse d (get_prop v ''data'') = Accept (get_prop r ''data'')"
proof -
  let ?fs = "cloudEventBase @ [(''type'', ZLiteral ty), (''data'', d)]"
  have dist: "distinct (map fst ?fs)"
    by (simp add: cloudEventBase_def)
  have acc: "parse (ZObject Strict ?fs) v = Accept r"
    using assms by (simp add: cloudEvent_def)
  have "parse (ZLiteral ty) (get_prop v ''type'') = Accept (get_prop r ''type'')"
    by (rule object_field [OF dist acc]) simp
  then show "get_prop v ''type'' = Some (JStr ty)"
    by (simp add: parse_literal split: if_splits)
  show "parse d (get_prop v ''data'') = Accept (get_prop r ''data'')"
    by (rule object_field [OF dist acc]) simp
qed

text \<open>A strict payload has no property beyond its schema's.\<close>

lemma cloudEvent_data_missing:
  assumes "parse (cloudEvent ty (z_strict fs)) v = Accept r" "k \<notin> fst ` set fs"
  shows "get_prop (get_prop v ''data'') k = None"
  using strict_no_other(1) [OF cloudEvent_accept(2) [OF assms(1)] assms(2)] .

text \<open>A discriminated union of envelopes accepts exactly through the member named by the tag.\<close>

lemma discriminated_accept:
  assumes "parse (ZDiscriminated ''type'' ss) v = Accept r"
  shows "\<exists>s t. s \<in> set ss \<and> get_prop v ''type'' = Some (JStr t) \<and> union_tag ''type'' s = Some t \<and>
    parse s v = Accept r"
proof -
  obtain t where t: "get_prop v ''type'' = Some (JStr t)"
    using assms by (auto simp: parse_discriminated split: option.splits json.splits)
  have "first_accept (map (\<lambda>s. if union_tag ''type'' s = Some t then parse s v else Reject) ss) = Accept r
    \<Longrightarrow> \<exists>s\<in>set ss. union_tag ''type'' s = Some t \<and> parse s v = Accept r"
  proof (induction ss)
    case (Cons s ss)
    then show ?case
      by (cases "if union_tag ''type'' s = Some t then parse s v else Reject") (auto split: if_splits)
  qed simp
  with assms t show ?thesis
    by (auto simp: parse_discriminated)
qed

end

end
