(* ===== verification/Contracts_Api.thy ===== *)
theory Contracts_Api
  imports Contracts_Events
begin

text \<open>
  The HTTP request and response shapes of every endpoint the frontends touch
  (\<^verbatim>\<open>libs/ts-contracts/src/api.ts\<close>), in the order of the source. Each schema is a constant of type
  \<open>schema\<close> with the source's name; the two helpers on order states are functions on the strings of
  \<open>OrderStatus\<close>.
\<close>

section \<open>identity-service\<close>

definition Role :: schema where
  "Role = ZEnum [''CUSTOMER'', ''MERCHANT'', ''SUPPORT'', ''OPS'', ''ADMIN'']"

definition RegisterRequest :: schema where
  "RegisterRequest = z_strict
     [(''email'', ZString [Email, MaxLen 320]),
      (''password'', ZString [MinLen 12, MaxLen 256]),
      (''fullName'', ZString [MinLen 1, MaxLen 200]),
      (''locale'', ZDefault z_string (JStr ''en-GB'')),
      (''acceptedTermsVersion'', z_string)]"

definition LoginRequest :: schema where
  "LoginRequest = z_strict
     [(''email'', ZString [Email]),
      (''password'', ZString [MinLen 1, MaxLen 256]),
      (''mfaCode'', ZOptional (ZString [Pattern (rx_rep 6 (RCls cls_digit))]))]"

definition TokenPair :: schema where
  "TokenPair = z_strict
     [(''accessToken'', z_string),
      (''expiresIn'', ZNumber [IntOnly, Positive]),
      (''tokenType'', ZLiteral ''Bearer''),
      (''refreshToken'', ZOptional z_string)]"

definition UserProfile :: schema where
  "UserProfile = z_strict
     [(''id'', UserId),
      (''email'', ZString [Email]),
      (''fullName'', z_string),
      (''locale'', z_string),
      (''roles'', z_array Role),
      (''mfaEnabled'', ZBoolean),
      (''emailVerified'', ZBoolean),
      (''createdAt'', Timestamp)]"

definition LoginResponse :: schema where
  "LoginResponse = z_strict
     [(''tokens'', TokenPair),
      (''user'', UserProfile)]"

section \<open>catalog-service\<close>

definition ProductVariant :: schema where
  "ProductVariant = z_strict
     [(''sku'', Sku),
      (''attributes'', ZRecord z_string),
      (''price'', Money),
      (''listPrice'', ZOptional Money),
      (''available'', ZNullable (z_int_min 0)),
      (''images'', ZDefault (z_array Image_schema) (JArr []))]"

definition Product :: schema where
  "Product = z_strict
     [(''id'', ProductId),
      (''sku'', Sku),
      (''title'', z_string),
      (''slug'', z_string),
      (''description'', ZDefault z_string (JStr [])),
      (''brand'', ZNullable z_string),
      (''categoryPath'', z_array z_string),
      (''attributes'', ZRecord z_string),
      (''images'', z_array Image_schema),
      (''price'', Money),
      (''listPrice'', ZNullable Money),
      (''status'', ProductStatus),
      (''variants'', ZDefault (z_array ProductVariant) (JArr [])),
      (''rating'', ZNullable (ZObject Strip
         [(''average'', ZNumber [AtLeast 0, AtMost 5]),
          (''count'', z_int_min 0)])),
      (''createdAt'', Timestamp),
      (''updatedAt'', Timestamp)]"

definition ProductPage :: schema where
  "ProductPage = paginated Product"

definition CreateProductRequest :: schema where
  "CreateProductRequest =
     z_partial [''variants'', ''attributes'', ''images'', ''listPrice'']
       (z_omit [''id'', ''createdAt'', ''updatedAt'', ''rating'', ''slug''] Product)"

definition Category :: schema where
  "Category = z_strict
     [(''id'', z_string),
      (''slug'', z_string),
      (''name'', z_string),
      (''path'', z_array z_string),
      (''parentId'', ZNullable z_string),
      (''productCount'', z_int_min 0)]"

section \<open>cart-service\<close>

definition CartLine :: schema where
  "CartLine = z_strict
     [(''sku'', Sku),
      (''productId'', ProductId),
      (''title'', z_string),
      (''image'', ZNullable (ZString [Url])),
      (''quantity'', ZNumber [IntOnly, AtLeast 1, AtMost 99]),
      (''unitPrice'', Money),
      (''lineTotal'', Money),
      (''priceChanged'', ZDefault ZBoolean (JBool False))]"

definition Cart :: schema where
  "Cart = z_strict
     [(''id'', CartId),
      (''userId'', ZNullable UserId),
      (''lines'', z_array CartLine),
      (''subtotal'', Money),
      (''discountTotal'', Money),
      (''shippingTotal'', Money),
      (''taxTotal'', Money),
      (''total'', Money),
      (''appliedCoupons'', ZDefault (z_array (z_strict
         [(''code'', z_string), (''discount'', Money), (''name'', z_string)])) (JArr [])),
      (''rejectedCoupons'', ZDefault (z_array (z_strict
         [(''code'', z_string), (''reasonCode'', z_string)])) (JArr [])),
      (''currency'', z_string),
      (''pricingDegraded'', ZDefault ZBoolean (JBool False)),
      (''rulesVersion'', ZNullable z_string),
      (''version'', z_int_min 0),
      (''expiresAt'', Timestamp),
      (''updatedAt'', Timestamp)]"

definition AddToCartRequest :: schema where
  "AddToCartRequest = z_strict
     [(''sku'', Sku),
      (''quantity'', ZNumber [IntOnly, AtLeast 1, AtMost 99])]"

definition UpdateCartLineRequest :: schema where
  "UpdateCartLineRequest = z_strict
     [(''quantity'', ZNumber [IntOnly, AtLeast 0, AtMost 99]),
      (''version'', z_int_min 0)]"

definition ApplyCouponRequest :: schema where
  "ApplyCouponRequest = z_strict
     [(''code'', ZTrimUpper (ZString [MinLen 1, MaxLen 50]))]"

section \<open>order-service\<close>

definition OrderStatus_options :: "string list" where
  "OrderStatus_options =
     [''PENDING'', ''STOCK_RESERVED'', ''PAID'', ''STOCK_COMMITTED'', ''CONFIRMED'', ''COMPENSATING'',
      ''CANCELLED'', ''SHIPPED'', ''DELIVERED'', ''REFUNDED'']"

definition OrderStatus :: schema where
  "OrderStatus = ZEnum OrderStatus_options"

definition POINT_OF_NO_RETURN :: "string list" where
  "POINT_OF_NO_RETURN = [''PAID'', ''STOCK_COMMITTED'', ''CONFIRMED'']"

definition isTerminal :: "string \<Rightarrow> bool" where
  "isTerminal s = (s \<in> set [''CONFIRMED'', ''CANCELLED'', ''SHIPPED'', ''DELIVERED'', ''REFUNDED''])"

definition OrderLine :: schema where
  "OrderLine = z_strict
     [(''sku'', Sku),
      (''productId'', ProductId),
      (''title'', z_string),
      (''image'', ZNullable (ZString [Url])),
      (''quantity'', z_int_min 1),
      (''unitPrice'', Money),
      (''lineTotal'', Money)]"

definition Order :: schema where
  "Order = z_strict
     [(''id'', OrderId),
      (''userId'', UserId),
      (''status'', OrderStatus),
      (''lines'', z_array OrderLine),
      (''subtotal'', Money),
      (''discountTotal'', Money),
      (''shippingTotal'', Money),
      (''taxTotal'', Money),
      (''total'', Money),
      (''shippingAddress'', Address),
      (''billingAddress'', ZNullable Address),
      (''paymentId'', ZNullable PaymentId),
      (''reservationId'', ZNullable ReservationId),
      (''cancellationReason'', ZNullable CancellationReason),
      (''trackingNumber'', ZNullable z_string),
      (''rulesVersion'', z_string),
      (''placedAt'', Timestamp),
      (''updatedAt'', Timestamp)]"

definition OrderPage :: schema where
  "OrderPage = paginated Order"

definition CreateOrderRequest :: schema where
  "CreateOrderRequest = z_strict
     [(''cartId'', CartId),
      (''cartVersion'', z_int_min 0),
      (''shippingAddress'', Address),
      (''billingAddress'', ZOptional Address),
      (''paymentMethodToken'', ZString [MinLen 1]),
      (''expectedTotal'', Money)]"

definition CreateOrderResponse :: schema where
  "CreateOrderResponse = z_strict
     [(''orderId'', OrderId),
      (''status'', OrderStatus),
      (''statusUrl'', z_string),
      (''pollAfterMs'', ZDefault (ZNumber [IntOnly, Positive]) (JNum 500))]"

definition OrderStatusResponse :: schema where
  "OrderStatusResponse = z_strict
     [(''orderId'', OrderId),
      (''status'', OrderStatus),
      (''terminal'', ZBoolean),
      (''cancellationReason'', ZNullable CancellationReason),
      (''unavailable'', ZOptional (z_array (z_strict
         [(''sku'', z_string), (''requested'', z_int), (''available'', z_int)]))),
      (''updatedAt'', Timestamp)]"

section \<open>search-service\<close>

definition SearchFacetValue :: schema where
  "SearchFacetValue = z_strict
     [(''value'', z_string),
      (''count'', z_int_min 0),
      (''selected'', ZDefault ZBoolean (JBool False))]"

definition SearchFacet :: schema where
  "SearchFacet = z_strict
     [(''field'', z_string),
      (''label'', z_string),
      (''type'', ZEnum [''terms'', ''range'', ''boolean'']),
      (''values'', z_array SearchFacetValue)]"

definition SearchHit :: schema where
  "SearchHit = z_strict
     [(''productId'', ProductId),
      (''sku'', Sku),
      (''title'', z_string),
      (''slug'', z_string),
      (''brand'', ZNullable z_string),
      (''image'', ZNullable (ZString [Url])),
      (''price'', Money),
      (''listPrice'', ZNullable Money),
      (''rating'', ZNullable (ZNumber [AtLeast 0, AtMost 5])),
      (''ratingCount'', ZDefault (z_int_min 0) (JNum 0)),
      (''inStock'', ZBoolean),
      (''score'', ZNumber []),
      (''highlights'', ZOptional (ZRecord (z_array z_string)))]"

definition SearchRequest :: schema where
  "SearchRequest = z_strict
     [(''q'', ZDefault (ZString [MaxLen 200]) (JStr [])),
      (''page'', ZDefault (ZCoerceNumber [IntOnly, AtLeast 1, AtMost 100]) (JNum 1)),
      (''size'', ZDefault (ZCoerceNumber [IntOnly, AtLeast 1, AtMost 100]) (JNum 24)),
      (''sort'', ZDefault (ZEnum [''relevance'', ''price_asc'', ''price_desc'', ''newest'', ''rating''])
                   (JStr ''relevance'')),
      (''filters'', ZDefault (ZRecord (z_array z_string)) (JObj [])),
      (''priceMin'', ZOptional (ZCoerceNumber [IntOnly])),
      (''priceMax'', ZOptional (ZCoerceNumber [IntOnly])),
      (''inStockOnly'', ZDefault ZCoerceBoolean (JBool False))]"

definition SearchResponse :: schema where
  "SearchResponse = z_strict
     [(''hits'', z_array SearchHit),
      (''total'', z_int_min 0),
      (''totalIsLowerBound'', ZDefault ZBoolean (JBool False)),
      (''page'', z_int),
      (''size'', z_int),
      (''facets'', z_array SearchFacet),
      (''tookMs'', z_int),
      (''didYouMean'', ZNullable z_string),
      (''degraded'', ZDefault ZBoolean (JBool False))]"

definition SuggestResponse :: schema where
  "SuggestResponse = z_strict
     [(''suggestions'', z_array (z_strict
         [(''text'', z_string),
          (''type'', ZEnum [''query'', ''product'', ''category'', ''brand'']),
          (''productId'', ZOptional ProductId),
          (''image'', ZOptional (ZNullable (ZString [Url])))]))]"

section \<open>recommendation-service\<close>

definition RecommendationRequest :: schema where
  "RecommendationRequest = z_strict
     [(''placement'', ZEnum
         [''home_for_you'', ''pdp_similar'', ''pdp_frequently_bought_together'', ''cart_upsell'',
          ''search_reranked'', ''email_winback'']),
      (''userId'', ZOptional UserId),
      (''itemId'', ZOptional ProductId),
      (''itemIds'', ZOptional (ZArray ProductId None (Some 50))),
      (''count'', ZDefault (ZCoerceNumber [IntOnly, AtLeast 1, AtMost 50]) (JNum 10)),
      (''context'', ZOptional (ZRecord z_string))]"

definition RecommendationResponse :: schema where
  "RecommendationResponse = z_strict
     [(''recommendationId'', z_string),
      (''placement'', z_string),
      (''items'', z_array (z_strict
         [(''productId'', ProductId), (''score'', ZNullable (ZNumber [])), (''reason'', ZNullable z_string)])),
      (''fallback'', ZDefault ZBoolean (JBool False)),
      (''fallbackReason'', ZNullable z_string)]"

section \<open>review-service\<close>

definition Review :: schema where
  "Review = z_strict
     [(''id'', ReviewId),
      (''productId'', ProductId),
      (''userId'', UserId),
      (''authorName'', z_string),
      (''rating'', ZNumber [IntOnly, AtLeast 1, AtMost 5]),
      (''title'', ZString [MaxLen 200]),
      (''body'', ZString [MaxLen 5000]),
      (''verifiedPurchase'', ZBoolean),
      (''helpfulCount'', ZDefault (z_int_min 0) (JNum 0)),
      (''images'', ZDefault (z_array (ZString [Url])) (JArr [])),
      (''status'', ZEnum [''PENDING_MODERATION'', ''PUBLISHED'', ''REJECTED'']),
      (''createdAt'', Timestamp)]"

definition ReviewPage :: schema where
  "ReviewPage = paginated Review"

definition CreateReviewRequest :: schema where
  "CreateReviewRequest = z_strict
     [(''productId'', ProductId),
      (''rating'', ZNumber [IntOnly, AtLeast 1, AtMost 5]),
      (''title'', ZString [MinLen 1, MaxLen 200]),
      (''body'', ZString [MinLen 10, MaxLen 5000]),
      (''images'', ZDefault (ZArray (ZString [Url]) None (Some 5)) (JArr []))]"

definition RatingSummary :: schema where
  "RatingSummary = z_strict
     [(''productId'', ProductId),
      (''average'', ZNumber [AtLeast 0, AtMost 5]),
      (''count'', z_int_min 0),
      (''distribution'', ZTuple [z_int, z_int, z_int, z_int, z_int])]"

section \<open>Admin only\<close>

definition SagaTrace :: schema where
  "SagaTrace = z_strict
     [(''orderId'', OrderId),
      (''status'', OrderStatus),
      (''steps'', z_array (z_strict
         [(''step'', ZEnum [''RESERVE'', ''AUTHORIZE'', ''COMMIT'', ''CAPTURE'', ''RELEASE'', ''VOID'']),
          (''state'', ZEnum [''PENDING'', ''SENT'', ''ACKED'', ''FAILED'', ''TIMED_OUT'', ''SKIPPED'']),
          (''attempts'', z_int_min 0),
          (''sentAt'', ZNullable Timestamp),
          (''ackedAt'', ZNullable Timestamp),
          (''deadlineAt'', ZNullable Timestamp),
          (''error'', ZNullable z_string),
          (''eventId'', ZNullable z_string)])),
      (''rollbackForbidden'', ZBoolean),
      (''correlationId'', z_string),
      (''startedAt'', Timestamp),
      (''updatedAt'', Timestamp)]"

definition DlqMessage :: schema where
  "DlqMessage = z_strict
     [(''id'', z_string),
      (''originalTopic'', z_string),
      (''eventId'', z_string),
      (''eventType'', z_string),
      (''attempts'', z_int),
      (''reason'', z_string),
      (''payload'', ZUnknown),
      (''failedAt'', Timestamp)]"

definition DashboardKpis :: schema where
  "DashboardKpis = z_strict
     [(''ordersToday'', z_int),
      (''revenueToday'', Money),
      (''averageOrderValue'', Money),
      (''conversionRate'', ZNumber [AtLeast 0, AtMost 1]),
      (''cartAbandonmentRate'', ZNumber [AtLeast 0, AtMost 1]),
      (''stuckSagas'', z_int_min 0),
      (''dlqDepth'', z_int_min 0),
      (''p99CheckoutMs'', z_int),
      (''errorBudgetBurn'', ZNumber [])]"

end
