(* ===== verification/Http.thy ===== *)
theory Http
  imports Contracts_Api
begin

text \<open>
  What the HTTP services share: the request as a handler sees it, the problem documents their error
  handlers send, and typed access to the fields of a validated body. (The two TypeScript services
  that serve HTTP, cart-service and review-service, each carry their own copy of these few lines.)
  The lemmas show that the documents satisfy the contract \<^verbatim>\<open>ProblemDetails\<close>.
\<close>

section \<open>Requests\<close>

record http_request =
  hr_params :: json
  hr_query :: json
  hr_body :: "json option"
  hr_headers :: "(string \<times> string) list"
  hr_ip :: string
  hr_id :: string

definition header :: "http_request \<Rightarrow> string \<Rightarrow> string option" where
  "header req name = map_of (hr_headers req) name"

section \<open>Problem documents\<close>

definition replace_char :: "char \<Rightarrow> char \<Rightarrow> string \<Rightarrow> string" where
  "replace_char a b s = map (\<lambda>c. if c = a then b else c) s"

definition problem_json :: "string \<Rightarrow> string \<Rightarrow> nat \<Rightarrow> string \<Rightarrow> string \<Rightarrow> string \<Rightarrow> json" where
  "problem_json ts rid status code detail service =
     JObj [(''type'', JStr (''https://errors.souq.dev/'' @ service @ ''/'' @ replace_char CHR ''_'' CHR ''-'' (to_lower code))),
           (''title'', JStr (to_lower (replace_char CHR ''_'' CHR '' '' code))),
           (''status'', JNum (of_nat status)), (''code'', JStr code), (''detail'', JStr detail),
           (''requestId'', JStr rid), (''timestamp'', JStr ts)]"

definition field_errors_json :: "(string \<times> string) list \<Rightarrow> json" where
  "field_errors_json es = JArr (map (\<lambda>(f, m). JObj [(''field'', JStr f), (''message'', JStr m)]) es)"

definition validation_json :: "string \<Rightarrow> string \<Rightarrow> (string \<times> string) list \<Rightarrow> string \<Rightarrow> json" where
  "validation_json ts rid es service =
     JObj [(''type'', JStr (''https://errors.souq.dev/'' @ service @ ''/validation-failed'')),
           (''title'', JStr ''Validation failed''), (''status'', JNum 422), (''code'', JStr ''VALIDATION_FAILED''),
           (''requestId'', JStr rid), (''timestamp'', JStr ts), (''errors'', field_errors_json es)]"

section \<open>Fields\<close>

text \<open>A field of a parsed object at its inferred type.\<close>

definition str_field :: "json option \<Rightarrow> string \<Rightarrow> string" where
  "str_field v k = (case get_prop v k of Some (JStr s) \<Rightarrow> s | _ \<Rightarrow> [])"

definition int_field :: "json option \<Rightarrow> string \<Rightarrow> int" where
  "int_field v k = (case get_prop v k of Some (JNum x) \<Rightarrow> \<lfloor>x\<rfloor> | _ \<Rightarrow> 0)"

definition opt_str_field :: "json option \<Rightarrow> string \<Rightarrow> string option" where
  "opt_str_field v k = (case get_prop v k of Some (JStr t) \<Rightarrow> Some t | _ \<Rightarrow> None)"

section \<open>Messages\<close>

text \<open>The value of a Kafka message: absent, not JSON, or JSON.\<close>

datatype message_value = NoValue | Malformed | Parsed json

text \<open>A property inside a template string: \<^verbatim>\<open>undefined\<close> is rendered as that word, other values by the
  argument \<open>render\<close>.\<close>

definition interpolated :: "(json \<Rightarrow> string) \<Rightarrow> json option \<Rightarrow> string" where
  "interpolated render v = (case v of None \<Rightarrow> ''undefined'' | Some (JStr t) \<Rightarrow> t | Some j \<Rightarrow> render j)"

text \<open>A zod whose format checks accept everything, and a server over the in-memory store, for the
  witnesses.\<close>

definition any_format :: formats where
  "any_format = \<lparr>is_email = \<lambda>_. True, is_url = \<lambda>_. True, is_uuid = \<lambda>_. True,
     to_number = \<lambda>v. case v of Some (JNum x) \<Rightarrow> Some x | _ \<Rightarrow> None\<rparr>"

definition plain_request :: http_request where
  "plain_request = \<lparr>hr_params = JObj [], hr_query = JObj [], hr_body = None, hr_headers = [], hr_ip = ''10.0.0.1'', hr_id = ''r''\<rparr>"

text \<open>A CloudEvents envelope with the required attributes.\<close>

definition sample_event :: "string \<Rightarrow> (string \<times> json) list \<Rightarrow> json" where
  "sample_event ty payload = JObj
     [(''specversion'', JStr ''1.0''), (''id'', JStr ''e1''), (''source'', JStr ''/order-service''),
      (''time'', JStr ''2023-11-14T22:13:20Z''), (''type'', JStr ty), (''data'', JObj payload)]"

definition zero_id :: "string \<Rightarrow> json" where
  "zero_id p = JStr (p @ ''_00000000000000000000000000'')"

section \<open>Lemmas\<close>

lemma error_code_patterns:
  "list_all (rx_test (rx_seq
     [RCls cls_upper, RStar (RCls [(CHR ''A'', CHR ''Z''), (CHR ''0'', CHR ''9''), (CHR ''_'', CHR ''_'')])])) ERROR_CODES"
  by code_simp

lemma error_code_pattern:
  "code \<in> set ERROR_CODES \<Longrightarrow> rx_test (rx_seq
     [RCls cls_upper, RStar (RCls [(CHR ''A'', CHR ''Z''), (CHR ''0'', CHR ''9''), (CHR ''_'', CHR ''_'')])]) code"
  using error_code_patterns by (simp add: list_all_iff)

context zod
begin

lemma field_errors_accept:
  "parse (z_array FieldError) (Some (field_errors_json es)) = Accept (Some (field_errors_json es))"
proof -
  have "parse FieldError (Some (JObj [(''field'', JStr f), (''message'', JStr m)])) =
      Accept (Some (JObj [(''field'', JStr f), (''message'', JStr m)]))" for f m
    by (simp add: FieldError_def parse_object parse_string object_result_def known_keys_def lookup_def)
  then have "collect (map (\<lambda>x. parse FieldError (Some x)) (map (\<lambda>(f, m). JObj [(''field'', JStr f), (''message'', JStr m)]) es)) =
      Some (map (\<lambda>(f, m). JObj [(''field'', JStr f), (''message'', JStr m)]) es)"
    by (induction es) auto
  then show ?thesis
    by (simp add: parse_array field_errors_json_def array_result_def length_ok_def)
qed

lemma number_field_bound:
  assumes "parse (ZNumber (IntOnly # AtLeast (of_int a) # ns)) (get_prop v k) = Accept (get_prop r k)"
  shows "a \<le> int_field r k"
  using assms
  by (auto simp: parse_number int_field_def le_floor_iff split: option.splits json.splits if_splits)

text \<open>A problem document with a well-formed code satisfies the contract.\<close>

lemma problem_accept_code:
  assumes "parse Timestamp (Some (JStr ts)) = Accept (Some (JStr ts))" "100 \<le> status" "status \<le> 599"
    and "rx_test (rx_seq
     [RCls cls_upper, RStar (RCls [(CHR ''A'', CHR ''Z''), (CHR ''0'', CHR ''9''), (CHR ''_'', CHR ''_'')])]) code"
  shows "\<exists>r. parse ProblemDetails (Some (problem_json ts rid status code detail svc)) = Accept r"
  using assms
  by (simp add: ProblemDetails_def problem_json_def parse_object parse_optional parse_string parse_number
      object_result_def known_keys_def lookup_def rat_is_int_def)

lemmas problem_accept = problem_accept_code [OF _ _ _ error_code_pattern]

lemma validation_accept:
  assumes "parse Timestamp (Some (JStr ts)) = Accept (Some (JStr ts))"
  shows "\<exists>r. parse ProblemDetails (Some (validation_json ts rid es svc)) = Accept r"
  using assms error_code_pattern [of "''VALIDATION_FAILED''"] field_errors_accept [of es]
  by (auto simp: ProblemDetails_def validation_json_def parse_object parse_optional parse_string parse_number
      object_result_def known_keys_def lookup_def rat_is_int_def ERROR_CODES_def)

end

end
