(* ===== verification/Cart_Routes.thy ===== *)
theory Cart_Routes
  imports Cart_Properties Http
begin

text \<open>
  The HTTP surface of cart-service (\<^verbatim>\<open>services/cart-service/src/index.ts\<close>): the route handlers and the
  error handler. A request is the record \<open>http_request\<close>; the zod
  parser is the argument \<open>parse\<close>. A handler validates, calls the service and replies, or throws into
  the error handler, which turns every error into a status and a problem document. The rendering
  of a clock reading (\<^verbatim>\<open>toISOString\<close>) and of zod's issues are parameters.

  Not modelled: plugin registration (helmet, rate limiting, load shedding), metrics, and start-up
  and shutdown of the process.
\<close>

section \<open>Requests and replies\<close>

datatype route_error = Invalid "(string \<times> string) list" | Service cart_error

datatype reply_body = CartBody cart_view | JsonBody json

type_synonym reply = "nat \<times> reply_body"

text \<open>What the handlers are given besides the service's environment: zod, the issues it reports, and the
  rendering of times.\<close>

record 's route_env =
  re_env :: "'s cart_env"
  re_parse :: "schema \<Rightarrow> json option \<Rightarrow> zres"
  re_issues :: "schema \<Rightarrow> json option \<Rightarrow> (string \<times> string) list"
  re_iso :: "millis \<Rightarrow> string"

section \<open>The error handler\<close>

text \<open>The status, code and detail of an error of the service. Redis, JSON and currency errors carry
  messages no case matches, and fall through to the last.\<close>

fun error_problem :: "cart_error \<Rightarrow> nat \<times> string \<times> string" where
  "error_problem (CartStale e a) = (409, ''CART_STALE'', ''cart changed since it was loaded (you sent version '' @ show_int e @ '')'')"
| "error_problem CartFull = (422, ''VALIDATION_FAILED'', ''a cart may hold at most 100 distinct items'')"
| "error_problem CartNotFound = (404, ''CART_NOT_FOUND'', ''No such cart.'')"
| "error_problem ProductNotFound = (404, ''PRODUCT_NOT_FOUND'', ''No such product.'')"
| "error_problem ProductNotAvailable = (409, ''PRODUCT_NOT_FOUND'', ''This product is no longer for sale.'')"
| "error_problem LineNotFound = (404, ''CART_NOT_FOUND'', ''That item is not in the cart.'')"
| "error_problem _ = (500, ''INTERNAL_ERROR'', ''The request could not be completed.'')"

definition errorHandler :: "'s route_env \<Rightarrow> http_request \<Rightarrow> route_error \<Rightarrow> reply" where
  "errorHandler re req err =
     (let ts = re_iso re (e_now (re_env re))
      in case err of
           Invalid es \<Rightarrow> (422, JsonBody (validation_json ts (hr_id req) es ''cart''))
         | Service e \<Rightarrow>
             (case error_problem e of
                (status, code, detail) \<Rightarrow>
                  (status, JsonBody (problem_json ts (hr_id req) status code detail ''cart''))))"

section \<open>The handlers\<close>

text \<open>The body of the 404 that \<^verbatim>\<open>GET /v1/carts/:cartId\<close> sends itself.\<close>

definition missing_cart_json :: "string \<Rightarrow> json" where
  "missing_cart_json rid =
     JObj [(''code'', JStr ''CART_NOT_FOUND''), (''status'', JNum 404), (''requestId'', JStr rid)]"

definition parse_or_throw ::
  "'s route_env \<Rightarrow> schema \<Rightarrow> json option \<Rightarrow> ('s svc, route_error, json option) act" where
  "parse_or_throw re sch v =
     (case re_parse re sch v of Accept r \<Rightarrow> ret r | Reject \<Rightarrow> raise (Invalid (re_issues re sch v)))"

definition with_version :: "schema \<Rightarrow> schema" where
  "with_version s = z_extend [(''version'', z_int_min 0)] s"

definition cart_params :: schema where
  "cart_params = ZObject Strip [(''cartId'', CartId)]"

definition line_params :: schema where
  "line_params = ZObject Strip [(''cartId'', CartId), (''sku'', Sku)]"

definition create_body :: schema where
  "create_body = ZObject Strip
     [(''currency'', ZDefault (ZString [Pattern (rx_rep 3 (RCls cls_upper))]) (JStr ''EGP'')),
      (''countryCode'', ZDefault (ZString [Pattern (rx_rep 2 (RCls cls_upper))]) (JStr ''EG''))]"

definition merge_body :: schema where
  "merge_body = ZObject Strip [(''userId'', z_string)]"

definition service :: "('s, 'a) cart_act \<Rightarrow> ('s svc, route_error, 'a) act" where
  "service m = map_error Service m"

definition userOf :: "http_request \<Rightarrow> string option" where
  "userOf req = header req ''x-user-id''"

text \<open>\<^verbatim>\<open>POST /v1/carts\<close>; \<^verbatim>\<open>req.body ?? {}\<close> also replaces a null body.\<close>

definition post_carts :: "'s route_env \<Rightarrow> http_request \<Rightarrow> ('s svc, route_error, reply) act" where
  "post_carts re req =
     and_then (parse_or_throw re create_body
        (Some (case hr_body req of None \<Rightarrow> JObj [] | Some JNull \<Rightarrow> JObj [] | Some b \<Rightarrow> b)))
       (\<lambda>body. and_then
          (service (create (re_env re) (userOf req) (str_field body ''currency'') (str_field body ''countryCode'')))
          (\<lambda>cart. ret (201, CartBody cart)))"

definition get_cart_route :: "'s route_env \<Rightarrow> http_request \<Rightarrow> ('s svc, route_error, reply) act" where
  "get_cart_route re req =
     and_then (parse_or_throw re cart_params (Some (hr_params req)))
       (\<lambda>ps. and_then (service (get_cart (re_env re) (str_field ps ''cartId'')))
          (\<lambda>found. ret (case found of
             None \<Rightarrow> (404, JsonBody (missing_cart_json (hr_id req)))
           | Some cart \<Rightarrow> (200, CartBody cart))))"

definition post_lines :: "'s route_env \<Rightarrow> http_request \<Rightarrow> ('s svc, route_error, reply) act" where
  "post_lines re req =
     and_then (parse_or_throw re cart_params (Some (hr_params req)))
       (\<lambda>ps. and_then (parse_or_throw re (with_version AddToCartRequest) (hr_body req))
          (\<lambda>body. and_then
             (service (addLine (re_env re) (str_field ps ''cartId'') (str_field body ''sku'')
                (int_field body ''quantity'') (int_field body ''version'')))
             (\<lambda>cart. ret (200, CartBody cart))))"

definition patch_line :: "'s route_env \<Rightarrow> http_request \<Rightarrow> ('s svc, route_error, reply) act" where
  "patch_line re req =
     and_then (parse_or_throw re line_params (Some (hr_params req)))
       (\<lambda>ps. and_then (parse_or_throw re UpdateCartLineRequest (hr_body req))
          (\<lambda>body. and_then
             (service (updateLine (re_env re) (str_field ps ''cartId'') (str_field ps ''sku'')
                (int_field body ''quantity'') (int_field body ''version'')))
             (\<lambda>cart. ret (200, CartBody cart))))"

definition post_coupons :: "'s route_env \<Rightarrow> http_request \<Rightarrow> ('s svc, route_error, reply) act" where
  "post_coupons re req =
     and_then (parse_or_throw re cart_params (Some (hr_params req)))
       (\<lambda>ps. and_then (parse_or_throw re (with_version ApplyCouponRequest) (hr_body req))
          (\<lambda>body. and_then
             (service (applyCoupon (re_env re) (str_field ps ''cartId'') (str_field body ''code'')
                (int_field body ''version'')))
             (\<lambda>cart. ret (200, CartBody cart))))"

definition post_merge :: "'s route_env \<Rightarrow> http_request \<Rightarrow> ('s svc, route_error, reply) act" where
  "post_merge re req =
     and_then (parse_or_throw re cart_params (Some (hr_params req)))
       (\<lambda>ps. and_then (parse_or_throw re merge_body (hr_body req))
          (\<lambda>body. and_then (service (merge (re_env re) (str_field ps ''cartId'') (str_field body ''userId'')))
             (\<lambda>cart. ret (200, CartBody cart))))"

text \<open>\<^verbatim>\<open>GET /health/ready\<close>: only Redis decides; the breaker's state is reported, not judged.\<close>

definition cart_ready :: "'s cart_env \<Rightarrow> 's svc \<Rightarrow> nat \<times> BreakerState option" where
  "cart_ready env s =
     (if r_down (e_ops env) (rc_redis s) then (503, None) else (200, Some (breakerState (svc_breaker s))))"

text \<open>A handler's promise, settled into a reply by the framework.\<close>

definition respond ::
  "'s route_env \<Rightarrow> http_request \<Rightarrow> ('s svc, route_error, reply) act \<Rightarrow> 's svc \<Rightarrow> reply \<times> 's svc" where
  "respond re req m s =
     (case m s of (Inr r, s') \<Rightarrow> (r, s') | (Inl e, s') \<Rightarrow> (errorHandler re req e, s'))"

datatype cart_route = PostCarts | GetCart | PostLines | PatchLine | PostCoupons | PostMerge

fun handler :: "cart_route \<Rightarrow> 's route_env \<Rightarrow> http_request \<Rightarrow> ('s svc, route_error, reply) act" where
  "handler PostCarts = post_carts"
| "handler GetCart = get_cart_route"
| "handler PostLines = post_lines"
| "handler PatchLine = patch_line"
| "handler PostCoupons = post_coupons"
| "handler PostMerge = post_merge"

text \<open>Any traffic: a list of requests, each to some route.\<close>

fun serve :: "('s route_env \<times> cart_route \<times> http_request) list \<Rightarrow> 's svc \<Rightarrow> reply list \<times> 's svc" where
  "serve [] s = ([], s)"
| "serve ((re, rt, req) # qs) s =
     (case respond re req (handler rt re req) s of
        (r, s') \<Rightarrow> (case serve qs s' of (rs, s'') \<Rightarrow> (r # rs, s'')))"

definition sample_route_env :: "stored_cart mem route_env" where
  "sample_route_env = \<lparr>re_env = sample_env, re_parse = zparse any_format, re_issues = \<lambda>_ _. [],
     re_iso = \<lambda>_. ''2023-11-14T22:13:20.000Z''\<rparr>"

definition sample_cart_id :: string where
  "sample_cart_id = ''crt_00000000000000000000000000''"

definition sample_cart_store :: "stored_cart mem svc" where
  "sample_cart_store = mem_with [(sample_cart sample_cart_id None [], 3)] []"

definition sample_coupon_request :: http_request where
  "sample_coupon_request = plain_request\<lparr>hr_params := JObj [(''cartId'', JStr sample_cart_id)],
     hr_body := Some (JObj [(''code'', JStr '' save10 ''), (''version'', JNum 3)])\<rparr>"

section \<open>Validated requests\<close>

lemma with_version_add:
  "with_version AddToCartRequest = z_strict
     [(''sku'', Sku), (''quantity'', ZNumber [IntOnly, AtLeast 1, AtMost 99]), (''version'', z_int_min 0)]"
  by (simp add: with_version_def AddToCartRequest_def)

lemma with_version_coupon:
  "with_version ApplyCouponRequest = z_strict
     [(''code'', ZTrimUpper (ZString [MinLen 1, MaxLen 50])), (''version'', z_int_min 0)]"
  by (simp add: with_version_def ApplyCouponRequest_def)

context zod
begin

lemma add_body_quantity:
  assumes "parse (with_version AddToCartRequest) v = Accept r"
  shows "1 \<le> int_field r ''quantity''"
  using object_field [OF _ assms [unfolded with_version_add], of "''quantity''"] number_field_bound [of 1]
  by simp

lemma update_body_quantity:
  assumes "parse UpdateCartLineRequest v = Accept r"
  shows "0 \<le> int_field r ''quantity''"
  using object_field [OF _ assms [unfolded UpdateCartLineRequest_def], of "''quantity''"] number_field_bound [of 0]
  by simp

end

section \<open>The handlers keep the store's invariant\<close>

lemma keeps_parse_or_throw:
  "keeps P (parse_or_throw re sch v) (\<lambda>r. re_parse re sch v = Accept r)"
  by (cases "re_parse re sch v") (simp_all add: parse_or_throw_def keeps_ret keeps_raise)

lemma keeps_service: "keeps P m Q \<Longrightarrow> keeps P (service m) Q"
  unfolding service_def by (rule keeps_map_error)

lemma keeps_handler:
  assumes env: "env_ok (re_env re)" and zod: "zod (re_parse re) fmt"
  shows "keeps (store_inv (e_ops (re_env re))) (handler rt re req) (\<lambda>_. True)"
proof (cases rt)
  case PostCarts
  then show ?thesis
    by (auto simp: post_carts_def intro!: keeps_and_then [OF keeps_parse_or_throw]
        keeps_and_then [OF keeps_service [OF keeps_create [OF env]]] keeps_ret)
next
  case GetCart
  then show ?thesis
    by (auto simp: get_cart_route_def intro!: keeps_and_then [OF keeps_parse_or_throw]
        keeps_and_then [OF keeps_service [OF keeps_get [OF env]]] keeps_ret)
next
  case PostLines
  then show ?thesis
    by (auto simp: post_lines_def intro!: keeps_and_then [OF keeps_parse_or_throw]
        keeps_and_then [OF keeps_service [OF keeps_addLine [OF env]]] keeps_ret
        intro: zod.add_body_quantity [OF zod])
next
  case PatchLine
  then show ?thesis
    by (auto simp: patch_line_def intro!: keeps_and_then [OF keeps_parse_or_throw]
        keeps_and_then [OF keeps_service [OF keeps_updateLine [OF env]]] keeps_ret
        intro: zod.update_body_quantity [OF zod])
next
  case PostCoupons
  then show ?thesis
    by (auto simp: post_coupons_def intro!: keeps_and_then [OF keeps_parse_or_throw]
        keeps_and_then [OF keeps_service [OF keeps_applyCoupon [OF env]]] keeps_ret)
next
  case PostMerge
  then show ?thesis
    by (auto simp: post_merge_def intro!: keeps_and_then [OF keeps_parse_or_throw]
        keeps_and_then [OF keeps_service [OF keeps_merge [OF env]]] keeps_ret)
qed

lemma respond_state: "snd (respond re req m s) = snd (m s)"
  by (simp add: respond_def split: prod.splits sum.splits)

lemma serve_inv:
  assumes "\<forall>(re, rt, req)\<in>set qs. env_ok (re_env re) \<and> e_ops (re_env re) = ops \<and> (\<exists>fmt. zod (re_parse re) fmt)"
    and "store_inv ops s"
  shows "store_inv ops (snd (serve qs s))"
  using assms
proof (induction qs arbitrary: s)
  case (Cons q qs)
  obtain re rt req where q: "q = (re, rt, req)" by (cases q) auto
  with Cons.prems(1) obtain fmt where env: "env_ok (re_env re)" "e_ops (re_env re) = ops" and "zod (re_parse re) fmt"
    by auto
  then have "store_inv ops (snd (respond re req (handler rt re req) s))"
    using keeps_state [OF keeps_handler] Cons.prems(2) unfolding respond_state by blast
  moreover have "snd (serve (q # qs) s) = snd (serve qs (snd (respond re req (handler rt re req) s)))"
    by (simp add: q split: prod.splits)
  ultimately show ?case
    using Cons.IH Cons.prems(1) by simp
qed simp

section \<open>Properties\<close>

text \<open>C19: No sequence of HTTP requests, however malformed, brings a stored cart outside its limits: the
  handlers validate what the service relies on.\<close>

theorem http_traffic_keeps_invariant:
  assumes "\<forall>(re, rt, req)\<in>set qs. env_ok (re_env re) \<and> e_ops (re_env re) = ops \<and> (\<exists>fmt. zod (re_parse re) fmt)"
    and "store_inv ops s" "cell_value ops (key cartId) (rc_redis (snd (serve qs s))) = Some cart"
  shows "length (sc_lines cart) \<le> 100 \<and> distinct (map l_sku (sc_lines cart)) \<and>
    (\<forall>l\<in>set (sc_lines cart). 1 \<le> l_quantity l \<and> l_quantity l \<le> 99)"
  using serve_inv [OF assms(1,2)] assms(3)
  by (auto simp: store_inv_def cart_inv_def lines_ok_def line_ok_def list_all_iff MAX_LINES_def MAX_QTY_PER_LINE_def)

theorem http_traffic_keeps_invariant_witness:
  "\<exists>cart. cell_value mem_ops (key sample_cart_id) (rc_redis (snd (serve
       [(sample_route_env, PostCoupons, sample_coupon_request)] sample_cart_store))) = Some cart \<and>
     length (sc_lines cart) \<le> 100"
proof -
  let ?q = "(sample_route_env, PostCoupons, sample_coupon_request)"
  let ?c = "cell_value mem_ops (key sample_cart_id) (rc_redis (snd (serve [?q] sample_cart_store)))"
  have "map_option sc_coupons ?c = Some [''SAVE10'']"
    by code_simp
  then obtain cart where cart: "?c = Some cart" by auto
  have envs: "\<forall>(re, rt, req)\<in>set [?q]. env_ok (re_env re) \<and> e_ops (re_env re) = mem_ops \<and> (\<exists>fmt. zod (re_parse re) fmt)"
    using zp.zod_axioms by (auto simp: sample_route_env_def sample_env_def mem_env_ok)
  have start: "store_inv mem_ops sample_cart_store"
    by (auto simp: store_inv_def sample_cart_store_def mem_with_def mem_svc_def mem_ops_def cell_value_def
        cell_ok_def sample_cart_def cart_inv_def lines_ok_def split: option.splits if_splits)
  from http_traffic_keeps_invariant [OF envs start cart] cart show ?thesis
    by blast
qed

text \<open>Whatever a handler throws, the client receives a problem document that satisfies the
  \<^verbatim>\<open>ProblemDetails\<close> contract, with a 4xx or 5xx status; and a 500 says nothing about its cause.\<close>

theorem thrown_errors_are_problems:
  assumes "zod (re_parse re) fmt"
    and "\<forall>t. re_parse re Timestamp (Some (JStr (re_iso re t))) = Accept (Some (JStr (re_iso re t)))"
  shows "\<exists>status j r. errorHandler re req err = (status, JsonBody j) \<and>
    re_parse re ProblemDetails (Some j) = Accept r \<and> 400 \<le> status \<and> status \<le> 599 \<and>
    (status = 500 \<longrightarrow> get_prop (Some j) ''detail'' = Some (JStr ''The request could not be completed.''))"
proof (cases err)
  case (Invalid es)
  then show ?thesis
    using zod.validation_accept [OF assms(1)] assms(2) by (auto simp: errorHandler_def Let_def)
next
  case (Service e)
  obtain status code detail where p: "error_problem e = (status, code, detail)"
    by (cases "error_problem e")
  then have "status \<in> {404, 409, 422, 500}" "code \<in> set ERROR_CODES"
    "status = 500 \<Longrightarrow> detail = ''The request could not be completed.''"
    by (cases e; auto simp: ERROR_CODES_def)+
  then show ?thesis
    using zod.problem_accept [OF assms(1) assms(2) [THEN spec], of status code _ "hr_id req" detail "''cart''"]
      p Service
    by (auto simp: errorHandler_def Let_def problem_json_def get_prop_def lookup_def)
qed

theorem thrown_errors_are_problems_witness:
  "\<exists>j r. errorHandler sample_route_env plain_request
       (Service (CartStale 1 2)) = (409, JsonBody j) \<and> zparse any_format ProblemDetails (Some j) = Accept r"
proof -
  have stamp: "zparse any_format Timestamp (Some (JStr ''2023-11-14T22:13:20.000Z'')) =
      Accept (Some (JStr ''2023-11-14T22:13:20.000Z''))"
    by code_simp
  show ?thesis
    using thrown_errors_are_problems [of sample_route_env any_format
        "plain_request" "Service (CartStale 1 2)"]
      zp.zod_axioms stamp
    by (auto simp: sample_route_env_def errorHandler_def)
qed

text \<open>The one error reply that does not go through the error handler, the 404 of a missing cart, is
  not a problem document: it lacks the type, the title and the time that the contract requires.\<close>

theorem missing_cart_reply_not_a_problem:
  assumes "zod parse fmt"
  shows "parse ProblemDetails (Some (missing_cart_json rid)) = Reject"
  using zod.parse_object [OF assms] zod.parse_string [OF assms]
  by (simp add: ProblemDetails_def missing_cart_json_def object_result_def known_keys_def lookup_def)

theorem missing_cart_reply_not_a_problem_witness:
  "zparse any_format ProblemDetails (Some (missing_cart_json ''r'')) = Reject"
  by (rule missing_cart_reply_not_a_problem [OF zp.zod_axioms])

end
