(* ===== verification/Rating.thy ===== *)
theory Rating
  imports Zod_Schema
begin

text \<open>
  The arithmetic behind a product's rating (\<^verbatim>\<open>services/review-service/src/rating.ts\<close>). A histogram is
  a list of counts, bucket 0 the one-star ratings; a rating is any JavaScript number, and one that
  is not an integer from 1 to 5 raises a \<^verbatim>\<open>RangeError\<close> (\<open>None\<close>). Sums and quotients are rounded as
  binary64 numbers are.

  The lemmas show that the average lies between one and five stars, is exact for a unanimous
  product, and never decreases when the true mean does not; and that publishing and withdrawing
  are inverse.
\<close>

section \<open>Operations\<close>

type_synonym distribution = "int list"

definition EMPTY_DISTRIBUTION :: distribution where
  "EMPTY_DISTRIBUTION = [0, 0, 0, 0, 0]"

definition bucketFor :: "rat \<Rightarrow> nat option" where
  "bucketFor rating =
     (if \<not> rat_is_int rating \<or> rating < 1 \<or> rating > 5 then None else Some (nat (\<lfloor>rating\<rfloor> - 1)))"

definition count_of :: "distribution \<Rightarrow> int" where
  "count_of d = fold (\<lambda>n acc. js_add acc n) d 0"

text \<open>\<open>acc + n * (index + 1)\<close>, the index counted from \<open>i\<close>.\<close>

fun weighted_from :: "int \<Rightarrow> int \<Rightarrow> distribution \<Rightarrow> int" where
  "weighted_from i acc [] = acc"
| "weighted_from i acc (n # d) = weighted_from (i + 1) (js_add acc (js_mul n (i + 1))) d"

text \<open>\<open>Math.round((weighted / count) * 10) / 10\<close>\<close>

definition one_decimal :: "int \<Rightarrow> int \<Rightarrow> rat" where
  "one_decimal w c = js_div (of_int (math_round (js_times (js_div (of_int w) (of_int c)) 10))) 10"

record rating_summary =
  average :: rat
  rs_count :: int

definition summarise :: "distribution \<Rightarrow> rating_summary" where
  "summarise d =
     (let count = count_of d
      in if count = 0 then \<lparr>average = 0, rs_count = 0\<rparr>
         else \<lparr>average = one_decimal (weighted_from 0 0 d) count, rs_count = count\<rparr>)"

text \<open>An index past the end of the array reads as zero and extends the array with holes.\<close>

definition bump :: "nat \<Rightarrow> int \<Rightarrow> distribution \<Rightarrow> distribution" where
  "bump i v d = (if i < length d then d[i := v] else d @ replicate (i - length d) 0 @ [v])"

definition applyDelta :: "distribution \<Rightarrow> rat \<Rightarrow> int \<Rightarrow> distribution option" where
  "applyDelta d rating delta =
     map_option (\<lambda>i. bump i (max 0 (js_add (if i < length d then d ! i else 0) delta)) d) (bucketFor rating)"

text \<open>The true sums.\<close>

definition stars :: "distribution \<Rightarrow> int" where
  "stars d = sum_list (map2 (\<lambda>i n. n * (int i + 1)) [0..<length d] d)"

section \<open>Lemmas\<close>

text \<open>A histogram of a product with fewer reviews than would leave the safe integers.\<close>

definition dist_ok :: "distribution \<Rightarrow> bool" where
  "dist_ok d = (length d = 5 \<and> list_all (\<lambda>n. 0 \<le> n) d \<and> sum_list d \<le> 10 ^ 12)"

lemma num_small: "0 \<le> n \<Longrightarrow> n \<le> 10 ^ 13 \<Longrightarrow> num n = n"
  by (rule num_safe) (simp add: is_safe_def MAX_SAFE_INTEGER_def)

lemma dist_cases:
  assumes "dist_ok d"
  obtains a b c e f where "d = [a, b, c, e, f]" "0 \<le> a" "0 \<le> b" "0 \<le> c" "0 \<le> e" "0 \<le> f"
    "a + b + c + e + f \<le> 10 ^ 12"
proof -
  from assms obtain a b c e f where "d = [a, b, c, e, f]"
    by (auto simp: dist_ok_def length_Suc_conv numeral_eq_Suc)
  with assms that show thesis
    by (simp add: dist_ok_def)
qed

lemma count_of_sum: "dist_ok d \<Longrightarrow> count_of d = sum_list d"
  by (erule dist_cases) (simp add: count_of_def js_add_def num_small)

lemma summarise_count: "dist_ok d \<Longrightarrow> rs_count (summarise d) = sum_list d"
  by (simp add: summarise_def Let_def count_of_sum)

lemma weighted_stars: "dist_ok d \<Longrightarrow> weighted_from 0 0 d = stars d"
  by (erule dist_cases) (simp add: stars_def js_add_def js_mul_def num_small upt_rec)

lemma stars_bounds:
  assumes "dist_ok d"
  shows "sum_list d \<le> stars d" "stars d \<le> 5 * sum_list d"
  by (rule dist_cases [OF assms]; simp add: stars_def upt_rec)+

lemma one_decimal_mono:
  fixes a b a' b' :: int
  defines "x \<equiv> of_int a / of_int b :: rat" and "y \<equiv> of_int a' / of_int b' :: rat"
  assumes "0 \<le> x" "x \<le> y"
  shows "one_decimal a b \<le> one_decimal a' b'"
proof -
  have 1: "fl64 x \<le> fl64 y" "0 \<le> fl64 x"
    using assms(3,4) by (simp_all add: fl64_mono fl64_nonneg)
  then have 2: "fl64 (fl64 x * 10) \<le> fl64 (fl64 y * 10)" "0 \<le> fl64 (fl64 x * 10)"
    by (simp_all add: fl64_mono fl64_nonneg)
  then have "math_round (fl64 (fl64 x * 10)) \<le> math_round (fl64 (fl64 y * 10))"
    by (intro math_round_mono)
  moreover have "0 \<le> math_round (fl64 (fl64 x * 10))"
    using 2(2) by (simp add: math_round_def)
  ultimately show ?thesis
    unfolding one_decimal_def js_div_def js_times_def x_def [symmetric] y_def [symmetric]
    by (intro fl64_mono) (simp_all add: divide_right_mono)
qed

lemma one_decimal_exact:
  assumes "0 < c" "w = k * c" "1 \<le> k" "k \<le> 5"
  shows "one_decimal w c = of_int k"
proof -
  have "(of_int w :: rat) / of_int c = of_int k"
    using assms by simp
  moreover have "fl64 (of_int k) = (of_int k :: rat)" "fl64 (of_int (k * 10)) = (of_int (k * 10) :: rat)"
    using assms by (intro fl64_of_int; simp add: MAX_SAFE_INTEGER_def)+
  ultimately show ?thesis
    using math_round_of_int [of "k * 10"] by (simp add: one_decimal_def js_div_def js_times_def)
qed

lemma bucketFor_int: "bucketFor (of_int r) = (if 1 \<le> r \<and> r \<le> 5 then Some (nat (r - 1)) else None)"
  by (auto simp: bucketFor_def rat_is_int_def)

lemma sum_list_update_int: "k < length xs \<Longrightarrow> sum_list (xs[k := x]) = sum_list xs + x - xs ! k" for x :: int
  by (induction xs arbitrary: k) (auto split: nat.splits)

lemma bucketFor_SomeD:
  assumes "bucketFor rating = Some i"
  shows "i < 5" "rating = of_nat i + 1" "nat (\<lfloor>rating\<rfloor> - 1) = i"
proof -
  from assms have int: "rat_is_int rating" and b: "1 \<le> rating" "rating \<le> 5" and i: "i = nat (\<lfloor>rating\<rfloor> - 1)"
    by (auto simp: bucketFor_def split: if_splits)
  then obtain r where r: "rating = of_int r"
    by (metis rat_is_int_def)
  with b have "1 \<le> r" "r \<le> 5" by simp_all
  with i r show "i < 5" "rating = of_nat i + 1" "nat (\<lfloor>rating\<rfloor> - 1) = i" by simp_all
qed

lemma bucket_bounds: "dist_ok d \<Longrightarrow> i < 5 \<Longrightarrow> 0 \<le> d ! i \<and> d ! i \<le> 10 ^ 12"
  by (erule dist_cases) (auto simp: numeral_eq_Suc less_Suc_eq)

section \<open>Properties\<close>

text \<open>A product with at least one rating is shown between one and five stars, and the count shown is
  the number of ratings in the histogram; with none it is shown as \<open>{average: 0, count: 0}\<close>.\<close>

theorem summarise_in_range:
  assumes "dist_ok d"
  shows "rs_count (summarise d) = sum_list d \<and>
    (if sum_list d = 0 then average (summarise d) = 0
     else 1 \<le> average (summarise d) \<and> average (summarise d) \<le> 5)"
proof (cases "sum_list d = 0")
  case True
  then show ?thesis
    by (simp add: summarise_def count_of_sum [OF assms] Let_def)
next
  case False
  have "0 \<le> sum_list d"
    using assms by (auto simp: dist_ok_def list_all_iff intro!: sum_list_nonneg)
  with False have pos: "0 < sum_list d" by simp
  let ?c = "sum_list d" and ?w = "stars d"
  have "(of_int ?c :: rat) \<le> of_int ?w" "(of_int ?w :: rat) \<le> of_int (5 * ?c)"
    using stars_bounds [OF assms] by (simp_all only: of_int_le_iff)
  then have "one_decimal ?c ?c \<le> one_decimal ?w ?c" "one_decimal ?w ?c \<le> one_decimal (5 * ?c) ?c"
    using pos by (intro one_decimal_mono divide_right_mono divide_nonneg_nonneg; simp)+
  moreover have "one_decimal ?c ?c = 1" "one_decimal (5 * ?c) ?c = 5"
    using one_decimal_exact [OF pos, of ?c 1] one_decimal_exact [OF pos, of "5 * ?c" 5] by simp_all
  ultimately show ?thesis
    using False by (simp add: summarise_def Let_def count_of_sum [OF assms] weighted_stars [OF assms])
qed

theorem summarise_in_range_witness:
  "1 \<le> average (summarise [3, 0, 1, 7, 20]) \<and> average (summarise [3, 0, 1, 7, 20]) \<le> 5"
  using summarise_in_range [of "[3, 0, 1, 7, 20]"] by (simp add: dist_ok_def)

text \<open>The number shown never decreases when the true mean does not: two clients comparing products
  by the rounded average never see them in the wrong order. A product whose ratings are all \<open>k\<close> stars
  shows exactly \<open>k\<close>.\<close>

theorem summarise_monotone:
  assumes "dist_ok d" "dist_ok e" "0 < sum_list d" "0 < sum_list e"
    and "stars d * sum_list e \<le> stars e * sum_list d"
  shows "average (summarise d) \<le> average (summarise e)"
proof -
  have "(of_int (stars d * sum_list e) :: rat) \<le> of_int (stars e * sum_list d)"
    using assms(5) by (simp only: of_int_le_iff)
  then have "(of_int (stars d) :: rat) / of_int (sum_list d) \<le> of_int (stars e) / of_int (sum_list e)"
    using assms(3,4) by (simp add: divide_simps mult.commute)
  moreover have "0 \<le> stars d"
    using stars_bounds(1) [OF assms(1)] assms(3) by simp
  ultimately show ?thesis
    using assms(3,4) one_decimal_mono [of "stars d" "sum_list d" "stars e" "sum_list e"]
    by (simp add: summarise_def Let_def count_of_sum weighted_stars assms(1,2))
qed

theorem summarise_monotone_witness:
  "average (summarise [0, 0, 1, 2, 1]) \<le> average (summarise [0, 0, 1, 2, 2])"
  by (rule summarise_monotone) (simp_all add: dist_ok_def stars_def upt_rec)

text \<open>Withdrawing a published review puts the histogram back exactly as it was; publishing adds one
  to the bucket of that many stars and to no other; a rating that is not a whole number of one to
  five stars is refused.\<close>

theorem publish_withdraw:
  assumes "dist_ok d"
  shows "(case applyDelta d rating 1 of
      None \<Rightarrow> rating \<notin> {1, 2, 3, 4, 5}
    | Some d' \<Rightarrow> rating \<in> {1, 2, 3, 4, 5} \<and> applyDelta d' rating (-1) = Some d \<and>
        d' = d[nat (\<lfloor>rating\<rfloor> - 1) := d ! nat (\<lfloor>rating\<rfloor> - 1) + 1] \<and> sum_list d' = sum_list d + 1)"
proof (cases "bucketFor rating")
  case None
  then have "rating \<notin> {1, 2, 3, 4, 5}"
    by (auto simp: bucketFor_def rat_is_int_def split: if_splits)
  with None show ?thesis
    by (simp add: applyDelta_def)
next
  case (Some i)
  have i: "i < 5" "rating = of_nat i + 1" "nat (\<lfloor>rating\<rfloor> - 1) = i"
    using bucketFor_SomeD [OF Some] by simp_all
  have len: "length d = 5"
    using assms by (simp add: dist_ok_def)
  have d: "0 \<le> d ! i" "d ! i \<le> 10 ^ 12"
    using bucket_bounds [OF assms i(1)] by simp_all
  have plus: "applyDelta d rating 1 = Some (d[i := d ! i + 1])"
    using Some len i(1) d by (simp add: applyDelta_def bump_def js_add_def num_small)
  have "applyDelta (d[i := d ! i + 1]) rating (-1) = Some d"
    using Some len i(1) d by (simp add: applyDelta_def bump_def js_add_def num_small)
  moreover have "sum_list (d[i := d ! i + 1]) = sum_list d + 1"
    using len i(1) by (simp add: sum_list_update_int)
  moreover have "rating \<in> {1, 2, 3, 4, 5}"
    using i(1,2) by (auto simp: numeral_eq_Suc less_Suc_eq)
  ultimately show ?thesis
    using plus i(3) by simp
qed

theorem publish_withdraw_witness:
  "case applyDelta [0, 0, 2, 0, 1] 4 1 of None \<Rightarrow> False
   | Some d' \<Rightarrow> applyDelta d' 4 (-1) = Some [0, 0, 2, 0, 1] \<and> sum_list d' = 4"
  using publish_withdraw [of "[0, 0, 2, 0, 1]" 4] by (auto simp: dist_ok_def split: option.splits)

end
