(* ===== verification/Reviews_Repository.thy ===== *)
theory Reviews_Repository
  imports Effects Rating
begin

text \<open>
  Reviews, their rating summaries and the purchase projection
  (\<^verbatim>\<open>services/review-service/src/reviews.ts\<close>), class \<^verbatim>\<open>ReviewsRepository\<close>.

  \<^item> MongoDB is not part of the repository: \<open>coll\<close> is one collection as the code uses it, documents
    found and written by \<^verbatim>\<open>_id\<close> and scanned; the locale \<open>collection\<close> states the laws and
    \<open>mem_coll\<close>, over \<open>mem_db\<close>, satisfies them. The update operators (\<^verbatim>\<open>$set\<close>, \<^verbatim>\<open>$inc\<close>, \<^verbatim>\<open>$setOnInsert\<close>
    with \<^verbatim>\<open>upsert\<close>) and the unique partial index are written out over those operations, as MongoDB
    documents them: one call is one atomic step on one document.
  \<^item> A \<^verbatim>\<open>$inc\<close> of \<^verbatim>\<open>distribution.N\<close> on a document without the field creates an embedded document
    with the key \<^verbatim>\<open>N\<close>, not an array; \<open>dist\<close> keeps the two apart.
  \<^item> Between any two awaits other requests may run: \<open>await\<close> applies \<open>re_others\<close> first.
  \<^item> The SHA-256 digest is the argument \<open>re_sha\<close>; a cursor is the time it encodes.
\<close>

section \<open>Documents\<close>

datatype review_status = PENDING_MODERATION | PUBLISHED | REJECTED

record review =
  rv_id :: string
  rv_productId :: string
  rv_userId :: string
  rv_authorName :: string
  rv_rating :: int
  rv_title :: string
  rv_body :: string
  rv_images :: "string list"
  rv_verifiedPurchase :: bool
  rv_helpfulCount :: int
  rv_status :: review_status
  rv_reason :: "string option"
  rv_moderatedBy :: "string option"
  rv_moderatedAt :: "millis option"
  rv_autoFlags :: "string list"
  rv_locale :: string
  rv_createdAt :: millis
  rv_updatedAt :: millis

datatype dist = DArr "int list" | DObj "(nat \<times> int) list"

record summary_doc =
  sd_average :: "rat option"
  sd_count :: "int option"
  sd_distribution :: "dist option"
  sd_verifiedCount :: "int option"
  sd_updatedAt :: "millis option"

record purchase =
  pu_userId :: string
  pu_productId :: string
  pu_orderId :: string
  pu_purchasedAt :: millis

datatype review_error = ReviewNotFound string | DuplicateReview string | RangeError | NotAnArray | UniqueViolation

section \<open>Collections\<close>

record ('s, 'd) coll =
  c_find :: "string \<Rightarrow> 's \<Rightarrow> 'd option"
  c_put :: "string \<Rightarrow> 'd \<Rightarrow> 's \<Rightarrow> 's"
  c_ids :: "'s \<Rightarrow> string list"

definition docs :: "('s, 'd) coll \<Rightarrow> 's \<Rightarrow> 'd list" where
  "docs c s = List.map_filter (\<lambda>i. c_find c i s) (c_ids c s)"

text \<open>How many documents satisfy a filter.\<close>

definition count_docs :: "('s, 'd) coll \<Rightarrow> ('d \<Rightarrow> bool) \<Rightarrow> 's \<Rightarrow> nat" where
  "count_docs c p s =
     length (filter (\<lambda>i. case c_find c i s of None \<Rightarrow> False | Some d \<Rightarrow> p d) (c_ids c s))"

text \<open>\<^verbatim>\<open>updateOne({_id}, \<dots>)\<close> without upsert: nothing happens when there is no such document.\<close>

definition update_doc :: "('s, 'd) coll \<Rightarrow> string \<Rightarrow> ('d \<Rightarrow> 'd) \<Rightarrow> 's \<Rightarrow> 's" where
  "update_doc c i f s = (case c_find c i s of None \<Rightarrow> s | Some d \<Rightarrow> c_put c i (f d) s)"

text \<open>\<^verbatim>\<open>updateOne({_id}, {$setOnInsert: d}, {upsert: true})\<close> and its \<^verbatim>\<open>upsertedCount\<close>.\<close>

definition insert_if_absent :: "('s, 'd) coll \<Rightarrow> string \<Rightarrow> 'd \<Rightarrow> 's \<Rightarrow> nat \<times> 's" where
  "insert_if_absent c i d s = (case c_find c i s of None \<Rightarrow> (1, c_put c i d s) | Some _ \<Rightarrow> (0, s))"

record 's review_env =
  re_reviews :: "('s, review) coll"
  re_summaries :: "('s, summary_doc) coll"
  re_purchases :: "('s, purchase) coll"
  re_votes :: "('s, unit) coll"
  re_others :: "'s \<Rightarrow> 's"
  re_sha :: "string \<Rightarrow> string"
  re_now :: millis

definition await :: "'s review_env \<Rightarrow> ('s \<Rightarrow> 'a \<times> 's) \<Rightarrow> ('s, 'e, 'a) act" where
  "await env f s = (case f (re_others env s) of (a, s') \<Rightarrow> (Inr a, s'))"

text \<open>The unique partial index \<^verbatim>\<open>one_review_per_user_per_product\<close>: another pending or published review
  by the same user for the same product.\<close>

definition counts_for_index :: "review_status \<Rightarrow> bool" where
  "counts_for_index st = (st = PENDING_MODERATION \<or> st = PUBLISHED)"

definition index_conflict :: "'s review_env \<Rightarrow> review \<Rightarrow> 's \<Rightarrow> bool" where
  "index_conflict env r s =
     (counts_for_index (rv_status r) \<and>
      list_ex (\<lambda>d. rv_id d \<noteq> rv_id r \<and> rv_productId d = rv_productId r \<and> rv_userId d = rv_userId r \<and>
                  counts_for_index (rv_status d)) (docs (re_reviews env) s))"

section \<open>Purchases\<close>

definition purchaseKey :: "'s review_env \<Rightarrow> string \<Rightarrow> string \<Rightarrow> string" where
  "purchaseKey env userId productId = take 32 (re_sha env (userId @ '':'' @ productId))"

definition recordPurchase :: "'s review_env \<Rightarrow> string \<Rightarrow> string \<Rightarrow> string \<Rightarrow> ('s, review_error, unit) act" where
  "recordPurchase env userId productId orderId =
     await env (\<lambda>s. ((), snd (insert_if_absent (re_purchases env) (purchaseKey env userId productId)
       \<lparr>pu_userId = userId, pu_productId = productId, pu_orderId = orderId, pu_purchasedAt = re_now env\<rparr> s)))"

definition hasPurchased :: "'s review_env \<Rightarrow> string \<Rightarrow> string \<Rightarrow> ('s, review_error, bool) act" where
  "hasPurchased env userId productId =
     await env (\<lambda>s. (c_find (re_purchases env) (purchaseKey env userId productId) s \<noteq> None, s))"

section \<open>Automatic flags\<close>

definition is_word :: "char \<Rightarrow> bool" where
  "is_word c = (is_digit c \<or> is_upper c \<or> is_lower c \<or> c = CHR ''_'')"

text \<open>\<^verbatim>\<open>/https?:\/\/|www\.|\.com\b/\<close>\<close>

fun com_word :: "string \<Rightarrow> bool" where
  "com_word [] = False"
| "com_word (c # s) =
     (starts_with (c # s) ''.com'' \<and> (case drop 4 (c # s) of [] \<Rightarrow> True | d # _ \<Rightarrow> \<not> is_word d) \<or> com_word s)"

definition contains_url :: "string \<Rightarrow> bool" where
  "contains_url t =
     (str_includes t ''http://'' \<or> str_includes t ''https://'' \<or> str_includes t ''www.'' \<or> com_word t)"

text \<open>The maximal runs of word characters; \<^verbatim>\<open>\b\d{10,}\b\<close> matches such a run of digits only.\<close>

fun word_runs :: "string \<Rightarrow> string \<Rightarrow> string list" where
  "word_runs run [] = [rev run]"
| "word_runs run (c # s) = (if is_word c then word_runs (c # run) s else rev run # word_runs [] s)"

text \<open>\<^verbatim>\<open>\b[\w.]+@[\w.]+\b\<close>: on both sides of an at sign, the adjacent run of word characters and dots
  has a word character.\<close>

fun email_like :: "string \<Rightarrow> string \<Rightarrow> bool" where
  "email_like before [] = False"
| "email_like before (c # s) =
     (c = CHR ''@'' \<and>
      list_ex is_word (takeWhile (\<lambda>d. is_word d \<or> d = CHR ''.'') before) \<and>
      list_ex is_word (takeWhile (\<lambda>d. is_word d \<or> d = CHR ''.'') s)
      \<or> email_like (c # before) s)"

definition contains_contact :: "string \<Rightarrow> bool" where
  "contains_contact t = (list_ex (\<lambda>w. 10 \<le> length w \<and> list_all is_digit w) (word_runs [] t) \<or> email_like [] t)"

text \<open>\<^verbatim>\<open>/(.)\1{6,}/\<close>: seven equal characters in a row; a dot matches no line terminator.\<close>

fun repeated :: "string \<Rightarrow> bool" where
  "repeated [] = False"
| "repeated (c # s) =
     (c \<noteq> CHR 0x0A \<and> c \<noteq> CHR 0x0D \<and> starts_with s (replicate 6 c) \<or> repeated s)"

definition autoModerate :: "string \<Rightarrow> string \<Rightarrow> int \<Rightarrow> string list" where
  "autoModerate title body rating =
     (let t = to_lower (title @ '' '' @ body);
          letters = filter (\<lambda>c. is_upper c \<or> is_lower c) body
      in (if contains_url t then [''CONTAINS_URL''] else []) @
         (if contains_contact t then [''CONTAINS_CONTACT_DETAILS''] else []) @
         (if rating = 5 \<and> length (trim body) < 25 then [''SHORT_FIVE_STAR''] else []) @
         (if 20 < length letters \<and> letters = to_upper letters then [''ALL_CAPS''] else []) @
         (if repeated body then [''REPEATED_CHARACTERS''] else []))"

section \<open>Reviews\<close>

record review_input =
  in_id :: string
  in_productId :: string
  in_userId :: string
  in_authorName :: string
  in_rating :: int
  in_title :: string
  in_body :: string
  in_images :: "string list"
  in_locale :: string

definition new_review :: "'s review_env \<Rightarrow> review_input \<Rightarrow> bool \<Rightarrow> review" where
  "new_review env i verified =
     \<lparr>rv_id = in_id i, rv_productId = in_productId i, rv_userId = in_userId i,
      rv_authorName = in_authorName i, rv_rating = in_rating i, rv_title = in_title i, rv_body = in_body i,
      rv_images = in_images i, rv_verifiedPurchase = verified, rv_helpfulCount = 0,
      rv_status = PENDING_MODERATION, rv_reason = None, rv_moderatedBy = None, rv_moderatedAt = None,
      rv_autoFlags = autoModerate (in_title i) (in_body i) (in_rating i),
      rv_locale = in_locale i, rv_createdAt = re_now env, rv_updatedAt = re_now env\<rparr>"

text \<open>\<^verbatim>\<open>insertOne\<close>, false for error 11000: the \<^verbatim>\<open>_id\<close> is taken or the unique index is violated.\<close>

definition insert_review :: "'s review_env \<Rightarrow> review \<Rightarrow> 's \<Rightarrow> bool \<times> 's" where
  "insert_review env r s =
     (if c_find (re_reviews env) (rv_id r) s \<noteq> None \<or> index_conflict env r s then (False, s)
      else (True, c_put (re_reviews env) (rv_id r) r s))"

definition create_review :: "'s review_env \<Rightarrow> review_input \<Rightarrow> ('s, review_error, review) act" where
  "create_review env i =
     and_then (hasPurchased env (in_userId i) (in_productId i))
       (\<lambda>verified. let r = new_review env i verified
          in and_then (await env (insert_review env r))
               (\<lambda>ok. and_then (throw_if (\<not> ok) (DuplicateReview (in_productId i))) (\<lambda>_. ret r)))"

text \<open>\<^verbatim>\<open>$inc\<close> of \<^verbatim>\<open>distribution.N\<close>. (An array that is too short is padded with nulls, which count as zero.)\<close>

fun inc_dist :: "nat \<Rightarrow> int \<Rightarrow> dist option \<Rightarrow> dist" where
  "inc_dist b d None = DObj [(b, d)]"
| "inc_dist b d (Some (DArr xs)) = DArr (bump b ((if b < length xs then xs ! b else 0) + d) xs)"
| "inc_dist b d (Some (DObj fs)) = DObj ((b, nullish (map_of fs b) 0 + d) # filter (\<lambda>(k, v). k \<noteq> b) fs)"

definition inc_summary :: "'s review_env \<Rightarrow> nat \<Rightarrow> int \<Rightarrow> bool \<Rightarrow> summary_doc \<Rightarrow> summary_doc" where
  "inc_summary env b delta verified sd =
     sd\<lparr>sd_distribution := Some (inc_dist b delta (sd_distribution sd)),
        sd_count := Some (nullish (sd_count sd) 0 + delta),
        sd_verifiedCount := (if verified then Some (nullish (sd_verifiedCount sd) 0 + delta) else sd_verifiedCount sd),
        sd_updatedAt := Some (re_now env)\<rparr>"

definition empty_summary :: summary_doc where
  "empty_summary = \<lparr>sd_average = None, sd_count = None, sd_distribution = None, sd_verifiedCount = None,
     sd_updatedAt = None\<rparr>"

text \<open>\<^verbatim>\<open>summarise(summary.distribution ?? EMPTY_DISTRIBUTION)\<close>; an embedded document has no \<^verbatim>\<open>reduce\<close>.\<close>

fun summarise_dist :: "dist option \<Rightarrow> review_error + rating_summary" where
  "summarise_dist None = Inr (summarise EMPTY_DISTRIBUTION)"
| "summarise_dist (Some (DArr xs)) = Inr (summarise xs)"
| "summarise_dist (Some (DObj fs)) = Inl NotAnArray"

definition applyRatingDelta ::
  "'s review_env \<Rightarrow> string \<Rightarrow> int \<Rightarrow> int \<Rightarrow> bool \<Rightarrow> ('s, review_error, unit) act" where
  "applyRatingDelta env productId rating delta verified =
     (case bucketFor (of_int rating) of
        None \<Rightarrow> raise RangeError
      | Some b \<Rightarrow>
          and_then (await env (\<lambda>s. ((), c_put (re_summaries env) productId
              (inc_summary env b delta verified (nullish (c_find (re_summaries env) productId s) empty_summary)) s)))
            (\<lambda>_. and_then (await env (\<lambda>s. (c_find (re_summaries env) productId s, s)))
               (\<lambda>found. case found of
                  None \<Rightarrow> ret ()
                | Some sd \<Rightarrow>
                    and_then (lift_sum (summarise_dist (sd_distribution sd)))
                      (\<lambda>r. await env (\<lambda>s. ((), update_doc (re_summaries env) productId
                         (\<lambda>d. d\<lparr>sd_average := Some (average r), sd_count := Some (rs_count r)\<rparr>) s))))))"

definition decide :: "'s review_env \<Rightarrow> review_status \<Rightarrow> string option \<Rightarrow> string option \<Rightarrow> review \<Rightarrow> review" where
  "decide env decision moderatedBy reason r =
     r\<lparr>rv_status := decision, rv_updatedAt := re_now env, rv_moderatedBy := moderatedBy,
       rv_moderatedAt := Some (re_now env), rv_reason := (if truthy reason then reason else rv_reason r)\<rparr>"

text \<open>The \<^verbatim>\<open>updateOne\<close> of \<^verbatim>\<open>moderate\<close>; false when the unique index rejects it.\<close>

definition set_decision ::
  "'s review_env \<Rightarrow> string \<Rightarrow> review_status \<Rightarrow> string option \<Rightarrow> string option \<Rightarrow> 's \<Rightarrow> bool \<times> 's" where
  "set_decision env reviewId decision moderatedBy reason s =
     (case c_find (re_reviews env) reviewId s of
        None \<Rightarrow> (True, s)
      | Some r \<Rightarrow>
          let r' = decide env decision moderatedBy reason r
          in if index_conflict env r' s then (False, s) else (True, c_put (re_reviews env) reviewId r' s))"

definition moderate ::
  "'s review_env \<Rightarrow> string \<Rightarrow> review_status \<Rightarrow> string option \<Rightarrow> string option \<Rightarrow> ('s, review_error, unit) act" where
  "moderate env reviewId decision moderatedBy reason =
     and_then (await env (\<lambda>s. (c_find (re_reviews env) reviewId s, s)))
       (\<lambda>before. case before of
          None \<Rightarrow> raise (ReviewNotFound reviewId)
        | Some b \<Rightarrow>
            if rv_status b = decision then ret ()
            else and_then (await env (set_decision env reviewId decision moderatedBy reason))
              (\<lambda>ok. and_then (throw_if (\<not> ok) UniqueViolation)
                 (\<lambda>_. if (rv_status b = PUBLISHED) = (decision = PUBLISHED) then ret ()
                      else applyRatingDelta env (rv_productId b) (rv_rating b)
                             (if decision = PUBLISHED then 1 else -1) (rv_verifiedPurchase b))))"

section \<open>Queries\<close>

definition published_for :: "'s review_env \<Rightarrow> string \<Rightarrow> 's \<Rightarrow> review list" where
  "published_for env productId s =
     filter (\<lambda>r. rv_productId r = productId \<and> rv_status r = PUBLISHED) (docs (re_reviews env) s)"

record list_opts =
  lo_limit :: nat
  lo_cursor :: "millis option"
  lo_verifiedOnly :: bool
  lo_rating :: "int option"

record review_page =
  pg_items :: "review list"
  pg_nextCursor :: "millis option"
  pg_hasMore :: bool

text \<open>\<^verbatim>\<open>sort({createdAt: -1}).limit(n + 1)\<close> over the filtered documents, then the page.\<close>

definition page_of :: "nat \<Rightarrow> review list \<Rightarrow> review_page" where
  "page_of n rs =
     (let found = take (n + 1) (sort_key (\<lambda>r. - rv_createdAt r) rs);
          hasMore = n < length found;
          items = (if hasMore then butlast found else found)
      in \<lparr>pg_items = items,
          pg_nextCursor = (if hasMore \<and> items \<noteq> [] then Some (rv_createdAt (last items)) else None),
          pg_hasMore = hasMore\<rparr>)"

definition listForProduct ::
  "'s review_env \<Rightarrow> string \<Rightarrow> list_opts \<Rightarrow> ('s, review_error, review_page) act" where
  "listForProduct env productId opts =
     await env (\<lambda>s. (page_of (lo_limit opts)
       (filter (\<lambda>r. (lo_verifiedOnly opts \<longrightarrow> rv_verifiedPurchase r) \<and>
                   (case lo_rating opts of None \<Rightarrow> True | Some k \<Rightarrow> k = 0 \<or> rv_rating r = k) \<and>
                   (case lo_cursor opts of None \<Rightarrow> True | Some c \<Rightarrow> rv_createdAt r < c))
          (published_for env productId s)), s))"

definition summary :: "'s review_env \<Rightarrow> string \<Rightarrow> ('s, review_error, summary_doc option) act" where
  "summary env productId = await env (\<lambda>s. (c_find (re_summaries env) productId s, s))"

text \<open>The \<^verbatim>\<open>$group\<close> by rating: the number of published reviews with each number of stars.\<close>

definition histogram :: "'s review_env \<Rightarrow> string \<Rightarrow> 's \<Rightarrow> int list" where
  "histogram env productId s =
     map (\<lambda>i. int (count_docs (re_reviews env)
        (\<lambda>r. rv_productId r = productId \<and> rv_status r = PUBLISHED \<and> rv_rating r = int i + 1) s)) [0..<5]"

definition rebuildSummary :: "'s review_env \<Rightarrow> string \<Rightarrow> ('s, review_error, summary_doc) act" where
  "rebuildSummary env productId =
     and_then (await env (\<lambda>s. ((histogram env productId s,
         int (count_docs (re_reviews env)
           (\<lambda>r. rv_productId r = productId \<and> rv_status r = PUBLISHED \<and> rv_verifiedPurchase r) s)), s)))
       (\<lambda>(d, verified).
          let n = count_of d;
              sd = \<lparr>sd_average = Some (if 0 < n then one_decimal (weighted_from 0 0 d) n else 0),
                    sd_count = Some n, sd_distribution = Some (DArr d), sd_verifiedCount = Some verified,
                    sd_updatedAt = Some (re_now env)\<rparr>
          in and_then (await env (\<lambda>s. ((), c_put (re_summaries env) productId sd s))) (\<lambda>_. ret sd))"

definition voteId :: "'s review_env \<Rightarrow> string \<Rightarrow> string \<Rightarrow> string" where
  "voteId env reviewId userId = take 32 (re_sha env (reviewId @ '':'' @ userId))"

definition markHelpful :: "'s review_env \<Rightarrow> string \<Rightarrow> string \<Rightarrow> ('s, review_error, int) act" where
  "markHelpful env reviewId userId =
     and_then (await env (insert_if_absent (re_votes env) (voteId env reviewId userId) ()))
       (\<lambda>upserted.
          if upserted = 0
          then await env (\<lambda>s. (nullish (map_option rv_helpfulCount (c_find (re_reviews env) reviewId s)) 0, s))
          else await env (\<lambda>s.
                 let s' = update_doc (re_reviews env) reviewId (\<lambda>r. r\<lparr>rv_helpfulCount := rv_helpfulCount r + 1\<rparr>) s
                 in (nullish (map_option rv_helpfulCount (c_find (re_reviews env) reviewId s')) 0, s')))"

end
