(* ===== verification/Reviews_Properties.thy ===== *)
theory Reviews_Properties
  imports Reviews_Repository
begin

text \<open>
  What \<^verbatim>\<open>ReviewsRepository\<close> guarantees of the collections behind it. The locale \<open>collection\<close> states what
  one MongoDB collection promises, \<open>review_store\<close> that the four collections are independent; an
  in-memory database interprets both. The properties: one live review per user and product
  whatever runs concurrently, the summary kept in step with the published reviews, votes counted
  once, pages that add up to the whole listing, and the situations in which the code breaks these.
\<close>

section \<open>Definitions\<close>

text \<open>The in-memory database. \<open>md_tick\<close> counts the calls, so that interference can be timed.\<close>

record mem_db =
  md_reviews :: "(string \<times> review) list"
  md_summaries :: "(string \<times> summary_doc) list"
  md_purchases :: "(string \<times> purchase) list"
  md_votes :: "(string \<times> unit) list"
  md_tick :: nat

definition mem_coll ::
  "('s \<Rightarrow> (string \<times> 'd) list) \<Rightarrow> (((string \<times> 'd) list \<Rightarrow> (string \<times> 'd) list) \<Rightarrow> 's \<Rightarrow> 's) \<Rightarrow> ('s, 'd) coll" where
  "mem_coll sel upd =
     \<lparr>c_find = (\<lambda>i s. map_of (sel s) i),
      c_put = (\<lambda>i d. upd (\<lambda>xs. (i, d) # xs)),
      c_ids = (\<lambda>s. remdups (map fst (sel s)))\<rparr>"

definition mem_review_env :: "mem_db review_env" where
  "mem_review_env =
     \<lparr>re_reviews = mem_coll md_reviews md_reviews_update, re_summaries = mem_coll md_summaries md_summaries_update,
      re_purchases = mem_coll md_purchases md_purchases_update, re_votes = mem_coll md_votes md_votes_update,
      re_others = \<lambda>s. s, re_sha = \<lambda>t. t, re_now = 1000\<rparr>"

definition mem_db_empty :: mem_db where
  "mem_db_empty = \<lparr>md_reviews = [], md_summaries = [], md_purchases = [], md_votes = [], md_tick = 0\<rparr>"

definition sample_review :: "string \<Rightarrow> string \<Rightarrow> int \<Rightarrow> millis \<Rightarrow> review_status \<Rightarrow> review" where
  "sample_review i u stars_given t st =
     \<lparr>rv_id = i, rv_productId = ''p'', rv_userId = u, rv_authorName = u, rv_rating = stars_given, rv_title = ''t'',
      rv_body = ''a perfectly ordinary review'', rv_images = [], rv_verifiedPurchase = False, rv_helpfulCount = 0,
      rv_status = st, rv_reason = None, rv_moderatedBy = None, rv_moderatedAt = None, rv_autoFlags = [],
      rv_locale = ''en'', rv_createdAt = t, rv_updatedAt = t\<rparr>"

definition sample_input :: review_input where
  "sample_input = \<lparr>in_id = ''r9'', in_productId = ''p'', in_userId = ''u'', in_authorName = ''U'', in_rating = 5,
     in_title = ''Good'', in_body = ''I have used it daily for a month'', in_images = [], in_locale = ''en''\<rparr>"

text \<open>Every review is filed under its own identifier, and no user has two live reviews of a product.\<close>

definition reviews_inv :: "'s review_env \<Rightarrow> 's \<Rightarrow> bool" where
  "reviews_inv env s =
     ((\<forall>i r. c_find (re_reviews env) i s = Some r \<longrightarrow> rv_id r = i) \<and>
      (\<forall>i j a b. c_find (re_reviews env) i s = Some a \<longrightarrow> c_find (re_reviews env) j s = Some b \<longrightarrow>
         rv_productId a = rv_productId b \<longrightarrow> rv_userId a = rv_userId b \<longrightarrow>
         counts_for_index (rv_status a) \<longrightarrow> counts_for_index (rv_status b) \<longrightarrow> i = j))"

text \<open>The stored summary of a product agrees with its published reviews.\<close>

definition in_step :: "'s review_env \<Rightarrow> string \<Rightarrow> 's \<Rightarrow> bool" where
  "in_step env p s =
     (\<exists>sd. c_find (re_summaries env) p s = Some sd \<and>
        sd_distribution sd = Some (DArr (histogram env p s)) \<and>
        sd_count sd = Some (sum_list (histogram env p s)) \<and>
        sd_average sd = Some (average (summarise (histogram env p s))))"

text \<open>Any sequence of writes to the repository.\<close>

datatype review_op =
    Submit review_input
  | Moderate string review_status "string option" "string option"
  | Helpful string string
  | Purchase string string string

fun exec_review :: "'s review_env \<Rightarrow> review_op \<Rightarrow> 's \<Rightarrow> 's" where
  "exec_review env (Submit i) s = snd (create_review env i s)"
| "exec_review env (Moderate i st m q) s = snd (moderate env i st m q s)"
| "exec_review env (Helpful i u) s = snd (markHelpful env i u s)"
| "exec_review env (Purchase u p o') s = snd (recordPurchase env u p o' s)"

definition run_reviews :: "'s review_env \<Rightarrow> review_op list \<Rightarrow> 's \<Rightarrow> 's" where
  "run_reviews env ops s = fold (exec_review env) ops s"

text \<open>A second moderator publishes review \<^verbatim>\<open>r1\<close> between the read and the write of the first.\<close>

definition racing_moderators :: "mem_db review_env" where
  "racing_moderators = mem_review_env\<lparr>re_others := \<lambda>s.
     (let s' = s\<lparr>md_tick := Suc (md_tick s)\<rparr>
      in if md_tick s = 1 then snd (moderate mem_review_env ''r1'' PUBLISHED (Some ''bob'') None s') else s')\<rparr>"

definition summary_of :: "int list \<Rightarrow> summary_doc" where
  "summary_of d = \<lparr>sd_average = Some (average (summarise d)), sd_count = Some (rs_count (summarise d)),
     sd_distribution = Some (DArr d), sd_verifiedCount = Some 0, sd_updatedAt = None\<rparr>"

text \<open>A client that follows the cursors from page to page.\<close>

fun walk :: "nat \<Rightarrow> nat \<Rightarrow> review list \<Rightarrow> millis option \<Rightarrow> review list" where
  "walk 0 n rs cur = []"
| "walk (Suc k) n rs cur =
     (let pg = page_of n (filter (\<lambda>r. case cur of None \<Rightarrow> True | Some c \<Rightarrow> rv_createdAt r < c) rs)
      in pg_items pg @ (case pg_nextCursor pg of None \<Rightarrow> [] | Some c \<Rightarrow> walk k n rs (Some c)))"

section \<open>One collection\<close>

locale collection =
  fixes c :: "('s, 'd) coll"
  assumes find_put: "c_find c i (c_put c j d s) = (if i = j then Some d else c_find c i s)"
    and ids_dom: "set (c_ids c s) = {i. c_find c i s \<noteq> None}"
    and ids_distinct: "distinct (c_ids c s)"
begin

lemma count_docs_card: "count_docs c p s = card {i. \<exists>d. c_find c i s = Some d \<and> p d}"
proof -
  let ?f = "\<lambda>i. case c_find c i s of None \<Rightarrow> False | Some d \<Rightarrow> p d"
  have "count_docs c p s = card (set (filter ?f (c_ids c s)))"
    using ids_distinct by (simp add: count_docs_def distinct_card [symmetric] del: set_filter)
  also have "set (filter ?f (c_ids c s)) = {i. \<exists>d. c_find c i s = Some d \<and> p d}"
    using ids_dom [of s] by (auto split: option.splits)
  finally show ?thesis .
qed

lemma finite_docs: "finite {i. \<exists>d. c_find c i s = Some d \<and> p d}"
proof (rule finite_subset)
  show "{i. \<exists>d. c_find c i s = Some d \<and> p d} \<subseteq> set (c_ids c s)"
    unfolding ids_dom by auto
qed simp

lemma count_docs_cong:
  "(\<And>i. c_find c i s' = c_find c i s) \<Longrightarrow> count_docs c p s' = count_docs c p s"
  by (simp add: count_docs_card)

text \<open>Replacing one document changes the count by that document alone.\<close>

lemma count_docs_put:
  assumes "c_find c i s = Some old"
  shows "int (count_docs c p (c_put c i d s)) =
    int (count_docs c p s) - (if p old then 1 else 0) + (if p d then 1 else 0)"
proof -
  let ?A = "{j. \<exists>x. c_find c j s = Some x \<and> p x}"
  have "{j. \<exists>x. c_find c j (c_put c i d s) = Some x \<and> p x} = (if p d then insert i ?A else ?A - {i})"
    by (auto simp: find_put)
  moreover have "i \<in> ?A \<longleftrightarrow> p old"
    using assms by simp
  moreover have "i \<in> ?A \<Longrightarrow> 1 \<le> card ?A"
    using finite_docs [of s p] by (auto simp: Suc_le_eq card_gt_0_iff)
  ultimately show ?thesis
    using finite_docs [of s p] by (auto simp: count_docs_card card_insert_if card_Diff_singleton of_nat_diff)
qed

lemma docs_iff: "d \<in> set (docs c s) \<longleftrightarrow> (\<exists>i. c_find c i s = Some d)"
  using ids_dom [of s] by (auto simp: docs_def List.map_filter_def image_iff)

lemma update_doc_find:
  "c_find c j (update_doc c i f s) = (if j = i then map_option f (c_find c i s) else c_find c j s)"
  by (auto simp: update_doc_def find_put split: option.splits)

lemma insert_if_absent_find:
  "c_find c j (snd (insert_if_absent c i d s)) =
     (if j = i then Some (nullish (c_find c i s) d) else c_find c j s)"
  by (auto simp: insert_if_absent_def find_put split: option.splits)

end

interpretation mem_reviews: collection "mem_coll md_reviews md_reviews_update"
  by unfold_locales (auto simp: mem_coll_def map_of_eq_None_iff image_iff)

interpretation mem_summaries: collection "mem_coll md_summaries md_summaries_update"
  by unfold_locales (auto simp: mem_coll_def map_of_eq_None_iff image_iff)

interpretation mem_purchases: collection "mem_coll md_purchases md_purchases_update"
  by unfold_locales (auto simp: mem_coll_def map_of_eq_None_iff image_iff)

interpretation mem_votes: collection "mem_coll md_votes md_votes_update"
  by unfold_locales (auto simp: mem_coll_def map_of_eq_None_iff image_iff)

section \<open>The four collections together\<close>

locale review_store =
  fixes env :: "'s review_env"
  assumes reviews_coll: "collection (re_reviews env)"
    and summaries_coll: "collection (re_summaries env)"
    and votes_coll: "collection (re_votes env)"
    and reviews_summaries: "c_find (re_reviews env) i (c_put (re_summaries env) j sd s) = c_find (re_reviews env) i s"
    and summaries_reviews: "c_find (re_summaries env) i (c_put (re_reviews env) j r s) = c_find (re_summaries env) i s"
    and reviews_votes: "c_find (re_reviews env) i (c_put (re_votes env) j u s) = c_find (re_reviews env) i s"
    and votes_reviews: "c_find (re_votes env) i (c_put (re_reviews env) j r s) = c_find (re_votes env) i s"
    and reviews_purchases: "c_find (re_reviews env) i (c_put (re_purchases env) j q s) = c_find (re_reviews env) i s"

sublocale review_store \<subseteq> reviews: collection "re_reviews env"
  by (rule reviews_coll)

sublocale review_store \<subseteq> summaries: collection "re_summaries env"
  by (rule summaries_coll)

sublocale review_store \<subseteq> votes: collection "re_votes env"
  by (rule votes_coll)

interpretation mem_store: review_store mem_review_env
proof (rule review_store.intro)
  show "collection (re_reviews mem_review_env)" "collection (re_summaries mem_review_env)"
    "collection (re_votes mem_review_env)"
    by (simp_all add: mem_review_env_def mem_reviews.collection_axioms mem_summaries.collection_axioms
        mem_votes.collection_axioms)
qed (simp_all add: mem_review_env_def mem_coll_def)

section \<open>Live reviews are unique\<close>

lemma keeps_await:
  assumes "\<And>s. P s \<Longrightarrow> P (re_others env s)" "\<And>s. P s \<Longrightarrow> P (snd (f s))"
  shows "keeps P (await env f) (\<lambda>a. \<exists>s. P s \<and> a = fst (f s))"
proof (rule keepsI)
  fix s assume P: "P s"
  then show "P (snd (await env f s))"
    using assms(2) [OF assms(1) [OF P]] by (cases "f (re_others env s)") (simp add: await_def)
  fix a assume "fst (await env f s) = Inr a"
  then show "\<exists>s. P s \<and> a = fst (f s)"
    using assms(1) [OF P] by (auto simp: await_def split: prod.splits)
qed

lemma keeps_await_any:
  assumes "\<And>s. P s \<Longrightarrow> P (re_others env s)" "\<And>s. P s \<Longrightarrow> P (snd (f s))"
  shows "keeps P (await env f) (\<lambda>_. True)"
  by (rule keeps_weaken [OF keeps_await [OF assms]]) (assumption | rule TrueI)+

context review_store
begin

lemma conflict_iff:
  "index_conflict env r s \<longleftrightarrow> counts_for_index (rv_status r) \<and>
     (\<exists>i d. c_find (re_reviews env) i s = Some d \<and> rv_id d \<noteq> rv_id r \<and> rv_productId d = rv_productId r \<and>
        rv_userId d = rv_userId r \<and> counts_for_index (rv_status d))"
  unfolding index_conflict_def list_ex_iff Bex_def reviews.docs_iff by blast

text \<open>Writing a review that violates no index keeps the reviews unique.\<close>

lemma put_inv:
  assumes "reviews_inv env s" "\<not> index_conflict env r s"
  shows "reviews_inv env (c_put (re_reviews env) (rv_id r) r s)"
proof -
  have ids: "rv_id d = i" if "c_find (re_reviews env) i s = Some d" for i d
    using assms(1) that by (simp add: reviews_inv_def)
  have other: "\<not> (counts_for_index (rv_status d) \<and> rv_productId d = rv_productId r \<and> rv_userId d = rv_userId r)"
    if "c_find (re_reviews env) i s = Some d" "i \<noteq> rv_id r" "counts_for_index (rv_status r)" for i d
    using assms(2) that ids [OF that(1)] by (auto simp: conflict_iff)
  show ?thesis
    unfolding reviews_inv_def reviews.find_put
  proof (intro conjI allI impI, goal_cases)
    case (1 i q)
    then show ?case using ids by (auto split: if_splits)
  next
    case (2 i j a b)
    then show ?case
      using assms(1) other by (auto simp: reviews_inv_def split: if_splits)
  qed
qed

lemma inv_cong: "(\<And>i. c_find (re_reviews env) i s' = c_find (re_reviews env) i s) \<Longrightarrow> reviews_inv env s' = reviews_inv env s"
  by (simp add: reviews_inv_def)

lemma insert_review_inv: "reviews_inv env s \<Longrightarrow> reviews_inv env (snd (insert_review env r s))"
  by (simp add: insert_review_def put_inv)

lemma set_decision_inv: "reviews_inv env s \<Longrightarrow> reviews_inv env (snd (set_decision env i st m q s))"
proof (cases "c_find (re_reviews env) i s")
  case (Some r)
  assume inv: "reviews_inv env s"
  with Some have "rv_id (decide env st m q r) = i"
    by (simp add: reviews_inv_def decide_def)
  with Some put_inv [OF inv, of "decide env st m q r"] inv show ?thesis
    by (auto simp: set_decision_def Let_def)
qed (simp add: set_decision_def)

lemma summaries_put_inv: "reviews_inv env (c_put (re_summaries env) p sd s) = reviews_inv env s"
  by (rule inv_cong) (rule reviews_summaries)

lemma update_summary_inv: "reviews_inv env (update_doc (re_summaries env) p f s) = reviews_inv env s"
  by (simp add: update_doc_def summaries_put_inv split: option.splits)

lemma helpful_inv:
  "reviews_inv env s \<Longrightarrow> reviews_inv env (update_doc (re_reviews env) i (\<lambda>r. r\<lparr>rv_helpfulCount := rv_helpfulCount r + 1\<rparr>) s)"
  by (force simp: reviews_inv_def reviews.update_doc_find split: if_splits)

lemma keeps_create_review:
  assumes "\<And>s. reviews_inv env s \<Longrightarrow> reviews_inv env (re_others env s)"
  shows "keeps (reviews_inv env) (create_review env i) (\<lambda>_. True)"
  unfolding create_review_def hasPurchased_def Let_def
  by (intro keeps_and_then [OF keeps_await_any] keeps_and_then [OF keeps_throw_if] keeps_ret assms TrueI)
    (simp_all add: insert_review_inv)

lemma keeps_rating_delta:
  assumes "\<And>s. reviews_inv env s \<Longrightarrow> reviews_inv env (re_others env s)"
  shows "keeps (reviews_inv env) (applyRatingDelta env p r d v) (\<lambda>_. True)"
  unfolding applyRatingDelta_def
  by (intro keeps_option keeps_raise keeps_and_then [OF keeps_await_any] keeps_ret
      keeps_and_then [OF keeps_lift_sum] keeps_await_any assms TrueI)
    (simp_all add: summaries_put_inv update_summary_inv)

lemma keeps_moderate:
  assumes "\<And>s. reviews_inv env s \<Longrightarrow> reviews_inv env (re_others env s)"
  shows "keeps (reviews_inv env) (moderate env i st m q) (\<lambda>_. True)"
  unfolding moderate_def
  by (intro keeps_option keeps_raise keeps_if keeps_ret keeps_and_then [OF keeps_await_any]
      keeps_and_then [OF keeps_throw_if] keeps_rating_delta assms TrueI)
    (simp_all add: set_decision_inv)

lemma keeps_markHelpful:
  assumes "\<And>s. reviews_inv env s \<Longrightarrow> reviews_inv env (re_others env s)"
  shows "keeps (reviews_inv env) (markHelpful env i u) (\<lambda>_. True)"
proof -
  have votes: "reviews_inv env (snd (insert_if_absent (re_votes env) v x s)) = reviews_inv env s" for v x s
    by (rule inv_cong) (simp add: insert_if_absent_def reviews_votes split: option.splits)
  show ?thesis
    unfolding markHelpful_def Let_def
    by (intro keeps_if keeps_and_then [OF keeps_await_any] keeps_await_any assms TrueI)
      (simp_all add: votes helpful_inv)
qed

lemma keeps_recordPurchase:
  assumes "\<And>s. reviews_inv env s \<Longrightarrow> reviews_inv env (re_others env s)"
  shows "keeps (reviews_inv env) (recordPurchase env u p o') (\<lambda>_. True)"
proof -
  have "reviews_inv env (snd (insert_if_absent (re_purchases env) k x s)) = reviews_inv env s" for k x s
    by (rule inv_cong) (simp add: insert_if_absent_def reviews_purchases split: option.splits)
  then show ?thesis
    unfolding recordPurchase_def by (intro keeps_await_any assms) simp_all
qed

text \<open>What a published review adds to, and a withdrawn one takes from, the histogram.\<close>

lemma histogram_cong:
  "(\<And>i. c_find (re_reviews env) i s' = c_find (re_reviews env) i s) \<Longrightarrow> histogram env p s' = histogram env p s"
proof -
  assume "\<And>i. c_find (re_reviews env) i s' = c_find (re_reviews env) i s"
  then have "count_docs (re_reviews env) q s' = count_docs (re_reviews env) q s" for q
    by (rule reviews.count_docs_cong)
  then show ?thesis by (simp add: histogram_def)
qed

lemma histogram_length [simp]: "length (histogram env p s) = 5"
  by (simp add: histogram_def)

lemma histogram_put:
  assumes "c_find (re_reviews env) i s = Some b" "rv_productId b = p" "rv_rating b = int k + 1" "k < 5"
    and "rv_productId r = p" "rv_rating r = rv_rating b"
  shows "histogram env p (c_put (re_reviews env) i r s) =
    (histogram env p s)[k := histogram env p s ! k +
       (if rv_status r = PUBLISHED then 1 else 0) - (if rv_status b = PUBLISHED then 1 else 0)]"
proof (rule nth_equalityI)
  fix j assume "j < length (histogram env p (c_put (re_reviews env) i r s))"
  then have j: "j < 5" by simp
  show "histogram env p (c_put (re_reviews env) i r s) ! j =
    (histogram env p s)[k := histogram env p s ! k +
       (if rv_status r = PUBLISHED then 1 else 0) - (if rv_status b = PUBLISHED then 1 else 0)] ! j"
    using j assms reviews.count_docs_put [OF assms(1)]
    by (cases "j = k") (auto simp: histogram_def)
qed simp

lemma rating_delta_run:
  assumes "\<And>s. re_others env s = s" "c_find (re_summaries env) p s = Some sd" "sd_distribution sd = Some (DArr d)"
    and "length d = 5" "bucketFor (of_int r) = Some k"
  shows "\<exists>s' sd'. applyRatingDelta env p r delta v s = (Inr (), s') \<and>
    (\<forall>i. c_find (re_reviews env) i s' = c_find (re_reviews env) i s) \<and>
    c_find (re_summaries env) p s' = Some sd' \<and> sd_distribution sd' = Some (DArr (d[k := d ! k + delta])) \<and>
    sd_average sd' = Some (average (summarise (d[k := d ! k + delta]))) \<and>
    sd_count sd' = Some (rs_count (summarise (d[k := d ! k + delta])))"
proof -
  have k: "k < 5"
    using bucketFor_SomeD [OF assms(5)] by simp
  let ?sd1 = "inc_summary env k delta v sd"
  let ?s1 = "c_put (re_summaries env) p ?sd1 s"
  let ?d = "d[k := d ! k + delta]"
  let ?s2 = "update_doc (re_summaries env) p
      (\<lambda>x. x\<lparr>sd_average := Some (average (summarise ?d)), sd_count := Some (rs_count (summarise ?d))\<rparr>) ?s1"
  have dist: "sd_distribution ?sd1 = Some (DArr ?d)"
    using assms(3,4) k by (simp add: inc_summary_def bump_def)
  have "applyRatingDelta env p r delta v s = (Inr (), ?s2)"
    using assms(1,2,5) dist
    by (simp add: applyRatingDelta_def await_def and_then_def summaries.find_put)
  moreover have "c_find (re_reviews env) i ?s2 = c_find (re_reviews env) i s" for i
    by (simp add: update_doc_def reviews_summaries split: option.splits)
  moreover have "c_find (re_summaries env) p ?s2 = Some (?sd1\<lparr>sd_average := Some (average (summarise ?d)),
      sd_count := Some (rs_count (summarise ?d))\<rparr>)"
    by (simp add: summaries.update_doc_find summaries.find_put)
  ultimately show ?thesis
    using dist by auto
qed

lemma histogram_nonneg: "list_all (\<lambda>n. 0 \<le> n) (histogram env p s)"
  by (simp add: histogram_def list_all_iff)

lemma histogram_ok: "sum_list (histogram env p s) \<le> 10 ^ 12 \<Longrightarrow> dist_ok (histogram env p s)"
  by (simp add: dist_ok_def histogram_nonneg)

lemma in_step_cong:
  assumes "\<And>i. c_find (re_reviews env) i s' = c_find (re_reviews env) i s"
    and "c_find (re_summaries env) p s' = c_find (re_summaries env) p s"
  shows "in_step env p s' = in_step env p s"
  by (simp add: in_step_def histogram_cong [OF assms(1)] assms(2))

lemma moderate_in_step:
  assumes quiet: "\<And>s. re_others env s = s" and step: "in_step env p s"
    and b: "c_find (re_reviews env) i s = Some b" "rv_productId b = p" "1 \<le> rv_rating b" "rv_rating b \<le> 5"
    and small: "sum_list (histogram env p s) < 10 ^ 12"
  shows "in_step env p (snd (moderate env i decision m q s))"
proof -
  let ?r = "decide env decision m q b"
  let ?s1 = "c_put (re_reviews env) i ?r s"
  let ?delta = "if decision = PUBLISHED then 1 else -1 :: int"
  have find: "await env (\<lambda>s. (c_find (re_reviews env) i s, s)) s = (Inr (Some b) :: review_error + review option, s)"
    using quiet b(1) by (simp add: await_def)
  consider (same) "rv_status b = decision" | (conflict) "rv_status b \<noteq> decision" "index_conflict env ?r s"
    | (put) "rv_status b \<noteq> decision" "\<not> index_conflict env ?r s"
    by blast
  then show ?thesis
  proof cases
    case same
    then show ?thesis using find step by (simp add: moderate_def and_then_def)
  next
    case conflict
    then have "await env (set_decision env i decision m q) s = (Inr False :: review_error + bool, s)"
      using quiet b(1) by (simp add: await_def set_decision_def)
    with conflict find step show ?thesis by (simp add: moderate_def and_then_def)
  next
    case put
    then have set: "await env (set_decision env i decision m q) s = (Inr True :: review_error + bool, ?s1)"
      using quiet b(1) by (simp add: await_def set_decision_def)
    define k where "k = nat (rv_rating b - 1)"
    have k: "k < 5" "rv_rating b = int k + 1" "bucketFor (of_int (rv_rating b)) = Some k"
      using b(3,4) by (simp_all add: k_def bucketFor_int)
    have hist: "histogram env p ?s1 = (histogram env p s)[k := histogram env p s ! k +
        (if decision = PUBLISHED then 1 else 0) - (if rv_status b = PUBLISHED then 1 else 0)]"
      using histogram_put [OF b(1,2) k(2,1), of ?r] b(2) by (simp add: decide_def)
    obtain sd where sd: "c_find (re_summaries env) p ?s1 = Some sd"
        "sd_distribution sd = Some (DArr (histogram env p s))" "sd_count sd = Some (sum_list (histogram env p s))"
        "sd_average sd = Some (average (summarise (histogram env p s)))"
      using step by (auto simp: in_step_def summaries_reviews)
    show ?thesis
    proof (cases "(rv_status b = PUBLISHED) = (decision = PUBLISHED)")
      case True
      then have "histogram env p ?s1 = histogram env p s"
        using hist by simp
      then have "in_step env p ?s1"
        using sd by (simp add: in_step_def)
      with True put find set show ?thesis by (simp add: moderate_def and_then_def)
    next
      case False
      then have new: "histogram env p ?s1 = (histogram env p s)[k := histogram env p s ! k + ?delta]"
        using hist put(1) by auto
      obtain s' sd' where run: "applyRatingDelta env p (rv_rating b) ?delta (rv_verifiedPurchase b) ?s1 = (Inr (), s')"
        and revs: "\<forall>i. c_find (re_reviews env) i s' = c_find (re_reviews env) i ?s1"
        and sd': "c_find (re_summaries env) p s' = Some sd'" "sd_distribution sd' = Some (DArr (histogram env p ?s1))"
          "sd_average sd' = Some (average (summarise (histogram env p ?s1)))"
          "sd_count sd' = Some (rs_count (summarise (histogram env p ?s1)))"
        using rating_delta_run [OF quiet sd(1,2) histogram_length k(3)] unfolding new by blast
      have "sum_list (histogram env p ?s1) \<le> 10 ^ 12"
        using new small k(1) by (simp add: sum_list_update_int)
      then have "rs_count (summarise (histogram env p ?s1)) = sum_list (histogram env p ?s1)"
        by (intro summarise_count histogram_ok)
      moreover have "histogram env p s' = histogram env p ?s1"
        using revs by (intro histogram_cong) simp
      ultimately have "in_step env p s'"
        using sd' by (simp add: in_step_def)
      with False put find set run b(2) show ?thesis
        by (simp add: moderate_def and_then_def)
    qed
  qed
qed

lemma rebuild_in_step:
  assumes "\<And>s. re_others env s = s" "sum_list (histogram env p s) \<le> 10 ^ 12"
  shows "in_step env p (snd (rebuildSummary env p s))"
proof -
  have "histogram env p (c_put (re_summaries env) p sd s) = histogram env p s" for sd
    by (rule histogram_cong) (rule reviews_summaries)
  moreover have "0 \<le> sum_list (histogram env p s)"
    using histogram_nonneg [of p s] by (auto simp: list_all_iff intro!: sum_list_nonneg)
  ultimately show ?thesis
    using assms(1) count_of_sum [OF histogram_ok [OF assms(2)]]
    by (auto simp: rebuildSummary_def await_def and_then_def in_step_def summaries.find_put summarise_def Let_def)
qed

end

section \<open>Following the cursors\<close>

abbreviation newest_first :: "review list \<Rightarrow> review list" where
  "newest_first rs \<equiv> sort_key (\<lambda>r. - rv_createdAt r) rs"

lemma filter_after:
  fixes f :: "'a \<Rightarrow> int"
  assumes "sorted_wrt (\<lambda>a b. f b < f a) xs" "0 < n" "n \<le> length xs"
  shows "filter (\<lambda>r. f r < f (xs ! (n - 1))) xs = drop n xs"
proof -
  have before: "\<not> f r < f (xs ! (n - 1))" if "r \<in> set (take n xs)" for r
  proof -
    obtain j where "j < n" "r = xs ! j"
      using \<open>r \<in> set (take n xs)\<close> assms(3) by (auto simp: in_set_conv_nth)
    moreover from this have "j = n - 1 \<or> j < n - 1" by linarith
    moreover have "n - 1 < length xs"
      using assms(2,3) by linarith
    ultimately show ?thesis
      using sorted_wrt_nth_less [OF assms(1), of j "n - 1"] by auto
  qed
  have after: "f r < f (xs ! (n - 1))" if mem: "r \<in> set (drop n xs)" for r
  proof -
    obtain j where "j < length xs - n" "r = xs ! (n + j)"
      using mem assms(3) by (auto simp: in_set_conv_nth)
    then show ?thesis
      using assms sorted_wrt_nth_less [OF assms(1), of "n - 1" "n + j"] by simp
  qed
  have "filter (\<lambda>r. f r < f (xs ! (n - 1))) (take n xs @ drop n xs) = drop n xs"
    unfolding filter_append using before after by (simp add: filter_empty_conv)
  then show ?thesis by simp
qed

lemma newest_first_strict:
  assumes "distinct (map rv_createdAt rs)"
  shows "sorted_wrt (\<lambda>a b. rv_createdAt b < rv_createdAt a) (newest_first rs)"
proof -
  let ?L = "newest_first rs"
  have sorted: "sorted (map (\<lambda>r. - rv_createdAt r) ?L)" by simp
  have "distinct (map rv_createdAt ?L)"
    using assms by (simp add: distinct_map)
  then have "distinct (map (\<lambda>r. - rv_createdAt r) ?L)"
    by (simp add: distinct_map inj_on_def)
  with sorted have "sorted_wrt (<) (map (\<lambda>r. - rv_createdAt r) ?L)"
    by (simp add: strict_sorted_iff)
  then show ?thesis
    by (simp add: sorted_wrt_map)
qed

lemma page_of_items:
  assumes "0 < n"
  shows "pg_items (page_of n rs) = take n (newest_first rs)"
    and "pg_nextCursor (page_of n rs) =
      (if n < length rs then Some (rv_createdAt (newest_first rs ! (n - 1))) else None)"
proof -
  let ?L = "newest_first rs"
  show items: "pg_items (page_of n rs) = take n ?L"
    by (auto simp: page_of_def Let_def butlast_take)
  show "pg_nextCursor (page_of n rs) =
      (if n < length rs then Some (rv_createdAt (?L ! (n - 1))) else None)"
  proof (cases "n < length rs")
    case True
    then have ne: "take n ?L \<noteq> []"
      using assms by (metis length_0_conv length_sort not_less0 take_eq_Nil less_numeral_extra(3))
    with True have "last (take n ?L) = ?L ! (n - 1)"
      using assms by (simp add: last_conv_nth min_absorb2)
    with True ne show ?thesis by (simp add: page_of_def Let_def butlast_take)
  next
    case False
    then show ?thesis by (simp add: page_of_def Let_def)
  qed
qed

lemma walk_from:
  assumes "0 < n" "distinct (map rv_createdAt rs)"
    and "length (filter (\<lambda>r. case cur of None \<Rightarrow> True | Some c \<Rightarrow> rv_createdAt r < c) rs) < k"
  shows "walk k n rs cur = newest_first (filter (\<lambda>r. case cur of None \<Rightarrow> True | Some c \<Rightarrow> rv_createdAt r < c) rs)"
  using assms(3)
proof (induction k arbitrary: cur)
  case (Suc k)
  let ?in = "\<lambda>cur r. case cur of None \<Rightarrow> True | Some c \<Rightarrow> rv_createdAt r < c"
  let ?F = "filter (?in cur) rs"
  let ?M = "newest_first ?F"
  show ?case
  proof (cases "n < length ?F")
    case False
    then show ?thesis
      using page_of_items [OF assms(1), of ?F] by (simp add: Let_def)
  next
    case True
    let ?c = "rv_createdAt (?M ! (n - 1))"
    have "distinct (map rv_createdAt ?F)"
      using assms(2) by (simp add: distinct_map inj_on_def)
    then have strict: "sorted_wrt (\<lambda>a b. rv_createdAt b < rv_createdAt a) ?M"
      by (rule newest_first_strict)
    have "?M ! (n - 1) \<in> set ?M"
      using True by (intro nth_mem) simp
    then have below: "?in (Some ?c) r \<Longrightarrow> ?in cur r" for r
      by (auto split: option.splits)
    have "filter (?in (Some ?c)) rs = filter (?in (Some ?c)) ?F"
      unfolding filter_filter by (rule filter_cong [OF refl]) (use below in blast)
    then have rest: "newest_first (filter (?in (Some ?c)) rs) = drop n ?M"
      using filter_after [OF strict assms(1)] True by (simp add: filter_sort)
    have "length (newest_first (filter (?in (Some ?c)) rs)) = length (drop n ?M)"
      by (simp only: rest)
    then have "length (filter (?in (Some ?c)) rs) = length ?F - n"
      by (simp only: length_sort length_drop)
    then have "walk k n rs (Some ?c) = drop n ?M"
      using Suc.IH [of "Some ?c"] Suc.prems True assms(1) rest by simp
    then show ?thesis
      using page_of_items [OF assms(1), of ?F] True by (simp add: Let_def)
  qed
qed simp

section \<open>Properties\<close>

text \<open>C5: However submissions, moderation decisions, votes and purchases follow one another, and whatever
  runs between their awaits, no user ever has two live (pending or published) reviews of one
  product.\<close>

theorem one_live_review_per_user:
  assumes "review_store env" "\<And>s. reviews_inv env s \<Longrightarrow> reviews_inv env (re_others env s)" "reviews_inv env s"
    and "c_find (re_reviews env) i (run_reviews env ops s) = Some a"
    and "c_find (re_reviews env) j (run_reviews env ops s) = Some b"
    and "rv_productId a = rv_productId b" "rv_userId a = rv_userId b" "rv_status a \<noteq> REJECTED" "rv_status b \<noteq> REJECTED"
  shows "i = j"
proof -
  have step: "reviews_inv env (exec_review env x s)" if "reviews_inv env s" for x s
    using that
      keeps_state [OF review_store.keeps_create_review [OF assms(1,2)]]
      keeps_state [OF review_store.keeps_moderate [OF assms(1,2)]]
      keeps_state [OF review_store.keeps_markHelpful [OF assms(1,2)]]
      keeps_state [OF review_store.keeps_recordPurchase [OF assms(1,2)]]
    by (cases x) simp_all
  have "reviews_inv env (run_reviews env ops s)"
    using assms(3) unfolding run_reviews_def
    by (induction ops arbitrary: s) (simp_all add: step)
  moreover have "counts_for_index (rv_status a)" "counts_for_index (rv_status b)"
    using assms(8,9) by (cases "rv_status a"; cases "rv_status b"; simp add: counts_for_index_def)+
  ultimately show ?thesis
    using assms(4-7) by (auto simp: reviews_inv_def)
qed

theorem one_live_review_per_user_witness:
  "c_find (re_reviews mem_review_env) ''r9'' (run_reviews mem_review_env [Submit sample_input]
       (mem_db_empty\<lparr>md_reviews := [(''r1'', sample_review ''r1'' ''u'' 4 10 PUBLISHED)]\<rparr>)) = None"
proof (rule ccontr)
  let ?s = "mem_db_empty\<lparr>md_reviews := [(''r1'', sample_review ''r1'' ''u'' 4 10 PUBLISHED)]\<rparr>"
  let ?e = mem_review_env
  let ?t = "run_reviews ?e [Submit sample_input] ?s"
  have inv: "reviews_inv ?e ?s"
    by (auto simp: reviews_inv_def mem_review_env_def mem_coll_def sample_review_def split: if_splits)
  assume "c_find (re_reviews ?e) ''r9'' ?t \<noteq> None"
  then obtain a where a: "c_find (re_reviews ?e) ''r9'' ?t = Some a" by blast
  have "map_option rv_status (c_find (re_reviews ?e) ''r9'' ?t) \<noteq> Some REJECTED"
    "map_option rv_productId (c_find (re_reviews ?e) ''r9'' ?t) \<in> {None, Some ''p''}"
    "map_option rv_userId (c_find (re_reviews ?e) ''r9'' ?t) \<in> {None, Some ''u''}"
    by code_simp+
  moreover obtain b where b: "c_find (re_reviews ?e) ''r1'' ?t = Some b" "rv_productId b = ''p''"
    "rv_userId b = ''u''" "rv_status b = PUBLISHED"
  proof -
    have "c_find (re_reviews ?e) ''r1'' ?t = Some (sample_review ''r1'' ''u'' 4 10 PUBLISHED)"
      by code_simp
    then show thesis by (rule that) (simp_all add: sample_review_def)
  qed
  ultimately have "''r9'' = ''r1''"
    using a by (intro one_live_review_per_user [OF mem_store.review_store_axioms _ inv a b(1)])
      (auto simp: mem_review_env_def)
  then show False by simp
qed



text \<open>C37: The first review of a product cannot be published cleanly: with no summary document yet, the
  increment creates the histogram as an embedded document, computing the average throws, and the
  request fails although the review is already public.\<close>

theorem first_publication_throws:
  assumes "review_store env" "\<And>s. re_others env s = s"
    and "c_find (re_reviews env) i s = Some b" "rv_status b \<noteq> PUBLISHED" "1 \<le> rv_rating b" "rv_rating b \<le> 5"
    and "c_find (re_summaries env) (rv_productId b) s = None"
    and "\<not> index_conflict env (decide env PUBLISHED moderatedBy reason b) s"
  shows "fst (moderate env i PUBLISHED moderatedBy reason s) = Inl NotAnArray \<and>
    map_option rv_status (c_find (re_reviews env) i (snd (moderate env i PUBLISHED moderatedBy reason s))) = Some PUBLISHED"
proof -
  let ?r = "decide env PUBLISHED moderatedBy reason b"
  let ?k = "nat (rv_rating b - 1)"
  have k: "bucketFor (of_int (rv_rating b)) = Some ?k"
    using assms(5,6) by (simp add: bucketFor_int)
  let ?s2 = "c_put (re_summaries env) (rv_productId b) (inc_summary env ?k 1 (rv_verifiedPurchase b) empty_summary)
      (c_put (re_reviews env) i ?r s)"
  have obj: "summarise_dist (sd_distribution (inc_summary env ?k 1 (rv_verifiedPurchase b) empty_summary)) = Inl NotAnArray"
    by (simp add: inc_summary_def empty_summary_def)
  have "moderate env i PUBLISHED moderatedBy reason s = (Inl NotAnArray, ?s2)"
    using assms(2-4,7,8) k obj collection.find_put [OF review_store.summaries_coll [OF assms(1)]]
    by (simp add: moderate_def await_def and_then_def set_decision_def applyRatingDelta_def
        review_store.summaries_reviews [OF assms(1)])
  moreover have "c_find (re_reviews env) i ?s2 = Some ?r"
    using collection.find_put [OF review_store.reviews_coll [OF assms(1)]]
    by (simp add: review_store.reviews_summaries [OF assms(1)])
  ultimately show ?thesis
    by (simp add: decide_def)
qed

theorem first_publication_throws_witness:
  "fst (moderate mem_review_env ''r1'' PUBLISHED (Some ''m'') None
     (mem_db_empty\<lparr>md_reviews := [(''r1'', sample_review ''r1'' ''u'' 4 10 PENDING_MODERATION)]\<rparr>)) = Inl NotAnArray"
  by (rule first_publication_throws [where b = "sample_review ''r1'' ''u'' 4 10 PENDING_MODERATION",
        OF mem_store.review_store_axioms, THEN conjunct1])
    (simp_all add: mem_review_env_def mem_coll_def sample_review_def mem_db_empty_def index_conflict_def
      decide_def docs_def map_filter_simps)

text \<open>Two moderators publishing the same review at the same moment count it twice: the histogram then
  holds two ratings for one published review.\<close>

theorem concurrent_publication_counts_twice:
  "let s' = snd (moderate racing_moderators ''r1'' PUBLISHED (Some ''ann'') None
        (mem_db_empty\<lparr>md_reviews := [(''r1'', sample_review ''r1'' ''u'' 4 10 PENDING_MODERATION)],
           md_summaries := [(''p'', summary_of [0, 0, 0, 0, 0])]\<rparr>))
   in histogram mem_review_env ''p'' s' = [0, 0, 0, 1, 0] \<and>
      map_option sd_distribution (c_find (re_summaries mem_review_env) ''p'' s') = Some (Some (DArr [0, 0, 0, 2, 0]))"
  by code_simp

text \<open>A vote counts once per person: voting again returns the same number and changes nothing.\<close>

theorem vote_counts_once:
  assumes "review_store env" "\<And>s. re_others env s = s"
    and "markHelpful env reviewId userId s = (Inr n, s')"
  shows "markHelpful env reviewId userId s' = (Inr n, s')"
proof -
  let ?v = "voteId env reviewId userId"
  let ?f = "\<lambda>r. r\<lparr>rv_helpfulCount := rv_helpfulCount r + 1\<rparr>"
  let ?n = "\<lambda>s. nullish (map_option rv_helpfulCount (c_find (re_reviews env) reviewId s)) 0"
  have again: "markHelpful env reviewId userId t = (Inr (?n t), t)"
    if "c_find (re_votes env) ?v t \<noteq> None" for t
    using that assms(2) by (auto simp: markHelpful_def await_def and_then_def insert_if_absent_def)
  show ?thesis
  proof (cases "c_find (re_votes env) ?v s")
    case None
    let ?t = "update_doc (re_reviews env) reviewId ?f (c_put (re_votes env) ?v () s)"
    have "markHelpful env reviewId userId s = (Inr (?n ?t), ?t)"
      using None assms(2) by (simp add: markHelpful_def await_def and_then_def insert_if_absent_def Let_def)
    moreover have "c_find (re_votes env) ?v ?t = Some ()"
      using collection.find_put [OF review_store.votes_coll [OF assms(1)], of ?v ?v "()" s]
      by (simp add: update_doc_def review_store.votes_reviews [OF assms(1)] split: option.splits)
    ultimately show ?thesis
      using again [of ?t] assms(3) by simp
  next
    case (Some u)
    then show ?thesis
      using again [of s] assms(3) by simp
  qed
qed

theorem vote_counts_once_witness:
  "let m = markHelpful mem_review_env ''r1'' ''w'';
       s1 = snd (m (mem_db_empty\<lparr>md_reviews := [(''r1'', sample_review ''r1'' ''u'' 4 10 PUBLISHED)]\<rparr>))
   in m s1 = (Inr 1, s1)"
proof -
  let ?s = "mem_db_empty\<lparr>md_reviews := [(''r1'', sample_review ''r1'' ''u'' 4 10 PUBLISHED)]\<rparr>"
  let ?m = "markHelpful mem_review_env ''r1'' ''w''"
  have "fst (?m ?s) = Inr 1"
    by code_simp
  then have "?m ?s = (Inr 1, snd (?m ?s))"
    by (simp add: prod_eq_iff)
  then have "?m (snd (?m ?s)) = (Inr 1, snd (?m ?s))"
    by (rule vote_counts_once [OF mem_store.review_store_axioms, rotated]) (simp add: mem_review_env_def)
  then show ?thesis by simp
qed

text \<open>As long as no two reviews carry the same time, a client that follows the cursors sees every
  review exactly once, newest first, whatever the page size.\<close>

theorem pages_cover_listing:
  assumes "0 < n" "distinct (map rv_createdAt rs)" "length rs < k"
  shows "walk k n rs None = sort_key (\<lambda>r. - rv_createdAt r) rs"
  using walk_from [OF assms(1,2), of None k] assms(3) by simp

theorem pages_cover_listing_witness:
  "map rv_id (walk 4 2 (map (\<lambda>t. sample_review (show_int t) ''u'' 5 t PUBLISHED) [3, 9, 5]) None) =
     map show_int [9, 5, 3]"
  by (subst pages_cover_listing) (simp_all add: sample_review_def)

text \<open>Reviews with the same time as the last one on a page are skipped by the next page: a client that
  follows the cursors never sees them.\<close>

theorem page_boundary_drops_ties:
  "map rv_id (walk 5 1 [sample_review ''r1'' ''u'' 5 7 PUBLISHED, sample_review ''r2'' ''v'' 5 7 PUBLISHED,
      sample_review ''r3'' ''w'' 5 3 PUBLISHED] None) = [''r1'', ''r3'']"
  by code_simp

end
