(* ===== verification/Review_Routes.thy ===== *)
theory Review_Routes
  imports Reviews_Properties Ulid Http
begin

text \<open>
  The edges of review-service (\<^verbatim>\<open>services/review-service/src/index.ts\<close>): the HTTP routes, the error
  handler and the Kafka consumer of order events. As in \<open>Cart_Routes\<close>, zod, its issues and the
  rendering of times are parameters; so are the decoding of a page cursor (base64url, then \<^verbatim>\<open>Date\<close>)
  and the rendering of a JSON value inside a template string.

  Not modelled: plugin registration (helmet, rate limiting), metrics, and start-up and shutdown.
\<close>

section \<open>Requests and replies\<close>

datatype review_route_error = BadReview "(string \<times> string) list" | RepoError review_error

datatype review_reply_body = PageBody review_page | SummaryBody string summary_doc | ReviewJson json

type_synonym review_reply = "nat \<times> review_reply_body"

record 's review_server =
  rs_env :: "'s review_env"
  rs_parse :: "schema \<Rightarrow> json option \<Rightarrow> zres"
  rs_issues :: "schema \<Rightarrow> json option \<Rightarrow> (string \<times> string) list"
  rs_iso :: "millis \<Rightarrow> string"
  rs_cursor :: "string \<Rightarrow> millis"
  rs_random :: "nat list"

type_synonym 's review_handler = "('s, review_route_error, review_reply) act"

section \<open>The error handler\<close>

fun review_problem :: "review_error \<Rightarrow> nat \<times> string \<times> string" where
  "review_problem (DuplicateReview p) = (409, ''REVIEW_ALREADY_EXISTS'', ''you have already reviewed '' @ p)"
| "review_problem (ReviewNotFound i) = (404, ''REVIEW_NOT_FOUND'', ''review '' @ i @ '' not found'')"
| "review_problem _ = (500, ''INTERNAL_ERROR'', ''The request could not be completed.'')"

definition problem_reply :: "'s review_server \<Rightarrow> http_request \<Rightarrow> nat \<Rightarrow> string \<Rightarrow> string \<Rightarrow> review_reply" where
  "problem_reply rs req status code detail =
     (status, ReviewJson (problem_json (rs_iso rs (re_now (rs_env rs))) (hr_id req) status code detail ''review''))"

definition review_error_handler :: "'s review_server \<Rightarrow> http_request \<Rightarrow> review_route_error \<Rightarrow> review_reply" where
  "review_error_handler rs req err =
     (case err of
        BadReview es \<Rightarrow>
          (422, ReviewJson (validation_json (rs_iso rs (re_now (rs_env rs))) (hr_id req) es ''review''))
      | RepoError e \<Rightarrow>
          (case review_problem e of (status, code, detail) \<Rightarrow> problem_reply rs req status code detail))"

section \<open>The schemas of the routes\<close>

definition product_params :: schema where
  "product_params = ZObject Strip [(''productId'', ProductId)]"

definition review_params :: schema where
  "review_params = ZObject Strip [(''reviewId'', ReviewId)]"

definition list_query :: schema where
  "list_query = ZObject Strip
     [(''limit'', ZDefault (ZCoerceNumber [IntOnly, AtLeast 1, AtMost 50]) (JNum 20)),
      (''cursor'', ZOptional z_string),
      (''verifiedOnly'', ZDefault ZCoerceBoolean (JBool False)),
      (''rating'', ZOptional (ZCoerceNumber [IntOnly, AtLeast 1, AtMost 5]))]"

definition moderate_body :: schema where
  "moderate_body = ZObject Strip
     [(''decision'', ZEnum [''PUBLISHED'', ''REJECTED'']), (''reason'', ZOptional (ZString [MaxLen 500]))]"

definition validated :: "'s review_server \<Rightarrow> schema \<Rightarrow> json option \<Rightarrow> ('s, review_route_error, json option) act" where
  "validated rs sch v =
     (case rs_parse rs sch v of Accept r \<Rightarrow> ret r | Reject \<Rightarrow> raise (BadReview (rs_issues rs sch v)))"

definition str_list_field :: "json option \<Rightarrow> string \<Rightarrow> string list" where
  "str_list_field v k =
     (case get_prop v k of
        Some (JArr xs) \<Rightarrow> List.map_filter (\<lambda>x. case x of JStr t \<Rightarrow> Some t | _ \<Rightarrow> None) xs
      | _ \<Rightarrow> [])"

section \<open>The handlers\<close>

definition list_options :: "'s review_server \<Rightarrow> json option \<Rightarrow> list_opts" where
  "list_options rs qs =
     \<lparr>lo_limit = nat (int_field qs ''limit''),
      lo_cursor = (if truthy (opt_str_field qs ''cursor'') then map_option (rs_cursor rs) (opt_str_field qs ''cursor'') else None),
      lo_verifiedOnly = (get_prop qs ''verifiedOnly'' = Some (JBool True)),
      lo_rating = (if get_prop qs ''rating'' = None then None else Some (int_field qs ''rating''))\<rparr>"

definition get_reviews :: "'s review_server \<Rightarrow> http_request \<Rightarrow> 's review_handler" where
  "get_reviews rs req =
     and_then (validated rs product_params (Some (hr_params req)))
       (\<lambda>ps. and_then (validated rs list_query (Some (hr_query req)))
          (\<lambda>qs. and_then
             (map_error RepoError (listForProduct (rs_env rs) (str_field ps ''productId'') (list_options rs qs)))
             (\<lambda>pg. ret (200, PageBody pg))))"

definition no_ratings_json :: "string \<Rightarrow> json" where
  "no_ratings_json productId =
     JObj [(''productId'', JStr productId), (''average'', JNum 0), (''count'', JNum 0),
           (''distribution'', JArr [JNum 0, JNum 0, JNum 0, JNum 0, JNum 0]), (''verifiedCount'', JNum 0)]"

definition get_rating :: "'s review_server \<Rightarrow> http_request \<Rightarrow> 's review_handler" where
  "get_rating rs req =
     and_then (validated rs product_params (Some (hr_params req)))
       (\<lambda>ps. and_then (map_error RepoError (summary (rs_env rs) (str_field ps ''productId'')))
          (\<lambda>found. ret (200, case found of
             None \<Rightarrow> ReviewJson (no_ratings_json (str_field ps ''productId''))
           | Some sd \<Rightarrow> SummaryBody (str_field ps ''productId'') sd)))"

definition review_request :: "'s review_server \<Rightarrow> http_request \<Rightarrow> string \<Rightarrow> json option \<Rightarrow> review_input" where
  "review_request rs req userId body =
     \<lparr>in_id = ''rev_'' @ ulid (nat (re_now (rs_env rs))) (rs_random rs),
      in_productId = str_field body ''productId'', in_userId = userId,
      in_authorName = nullish (header req ''x-user-name'') ''A customer'',
      in_rating = int_field body ''rating'', in_title = str_field body ''title'', in_body = str_field body ''body'',
      in_images = str_list_field body ''images'',
      in_locale = nullish (map_option (take 5) (header req ''accept-language'')) ''en-GB''\<rparr>"

fun status_text :: "review_status \<Rightarrow> string" where
  "status_text PENDING_MODERATION = ''PENDING_MODERATION''"
| "status_text PUBLISHED = ''PUBLISHED''"
| "status_text REJECTED = ''REJECTED''"

definition accepted_json :: "review \<Rightarrow> json" where
  "accepted_json r =
     JObj [(''reviewId'', JStr (rv_id r)), (''status'', JStr (status_text (rv_status r))),
           (''verifiedPurchase'', JBool (rv_verifiedPurchase r))]"

definition post_review :: "'s review_server \<Rightarrow> http_request \<Rightarrow> 's review_handler" where
  "post_review rs req =
     (if \<not> truthy (header req ''x-user-id'')
      then ret (problem_reply rs req 401 ''UNAUTHENTICATED'' ''Sign in to write a review.'')
      else and_then (validated rs CreateReviewRequest (hr_body req))
        (\<lambda>body. and_then
           (map_error RepoError (create_review (rs_env rs)
              (review_request rs req (nullish (header req ''x-user-id'') []) body)))
           (\<lambda>r. ret (202, ReviewJson (accepted_json r)))))"

definition post_helpful :: "'s review_server \<Rightarrow> http_request \<Rightarrow> 's review_handler" where
  "post_helpful rs req =
     and_then (validated rs review_params (Some (hr_params req)))
       (\<lambda>ps. let reviewId = str_field ps ''reviewId''
         in and_then (map_error RepoError (markHelpful (rs_env rs) reviewId (nullish (header req ''x-user-id'') (hr_ip req))))
              (\<lambda>n. ret (200, ReviewJson (JObj [(''reviewId'', JStr reviewId), (''helpfulCount'', JNum (of_int n))]))))"

definition may_moderate :: "http_request \<Rightarrow> bool" where
  "may_moderate req =
     (let roles = split_on CHR '','' (nullish (header req ''x-user-roles'') [])
      in ''ADMIN'' \<in> set roles \<or> ''SUPPORT'' \<in> set roles)"

definition decision_of :: "string \<Rightarrow> review_status" where
  "decision_of t = (if t = ''PUBLISHED'' then PUBLISHED else REJECTED)"

definition post_moderate :: "'s review_server \<Rightarrow> http_request \<Rightarrow> 's review_handler" where
  "post_moderate rs req =
     (if \<not> may_moderate req
      then ret (problem_reply rs req 403 ''FORBIDDEN'' ''Moderation requires the SUPPORT or ADMIN role.'')
      else and_then (validated rs review_params (Some (hr_params req)))
        (\<lambda>ps. and_then (validated rs moderate_body (hr_body req))
           (\<lambda>body. let reviewId = str_field ps ''reviewId''; decision = str_field body ''decision''
              in and_then
                (map_error RepoError (moderate (rs_env rs) reviewId (decision_of decision) (header req ''x-user-id'')
                   (opt_str_field body ''reason'')))
                (\<lambda>_. ret (200, ReviewJson (JObj [(''reviewId'', JStr reviewId), (''status'', JStr decision)]))))))"

datatype review_route = GetReviews | GetRating | PostReview | PostHelpful | PostModerate

fun review_handler_of :: "review_route \<Rightarrow> 's review_server \<Rightarrow> http_request \<Rightarrow> 's review_handler" where
  "review_handler_of GetReviews = get_reviews"
| "review_handler_of GetRating = get_rating"
| "review_handler_of PostReview = post_review"
| "review_handler_of PostHelpful = post_helpful"
| "review_handler_of PostModerate = post_moderate"

definition review_respond :: "'s review_server \<Rightarrow> review_route \<Rightarrow> http_request \<Rightarrow> 's \<Rightarrow> review_reply \<times> 's" where
  "review_respond rs rt req s =
     (case review_handler_of rt rs req s of
        (Inr r, s') \<Rightarrow> (r, s')
      | (Inl e, s') \<Rightarrow> (review_error_handler rs req e, s'))"

section \<open>The consumer\<close>

datatype message_error = SyntaxError | TypeError | PurchaseFailed review_error

text \<open>\<^verbatim>\<open>for (const line of x ?? [])\<close>: arrays and strings can be iterated.\<close>

fun iterated :: "json option \<Rightarrow> message_error + json list" where
  "iterated None = Inr []"
| "iterated (Some JNull) = Inr []"
| "iterated (Some (JArr xs)) = Inr xs"
| "iterated (Some (JStr t)) = Inr (map (\<lambda>c. JStr [c]) t)"
| "iterated (Some _) = Inl TypeError"

definition record_line ::
  "'s review_env \<Rightarrow> (json \<Rightarrow> string) \<Rightarrow> json option \<Rightarrow> json option \<Rightarrow> json \<Rightarrow> ('s, message_error, unit) act" where
  "record_line env render userId orderId line =
     (if line = JNull then raise TypeError
      else map_error PurchaseFailed (recordPurchase env (interpolated render userId)
             (interpolated render (get_prop (Some line) ''productId'')) (interpolated render orderId)))"

definition eachMessage ::
  "'s review_env \<Rightarrow> (json \<Rightarrow> string) \<Rightarrow> message_value \<Rightarrow> ('s, message_error, unit) act" where
  "eachMessage env render m =
     (case m of
        NoValue \<Rightarrow> ret ()
      | Malformed \<Rightarrow> attempt (raise SyntaxError) (\<lambda>_. ret ())
      | Parsed envelope \<Rightarrow>
          attempt
            (if envelope = JNull then raise TypeError
             else if get_prop (Some envelope) ''type'' \<noteq> Some (JStr ''souq.order.confirmed.v1'') then ret ()
             else let payload = get_prop (Some envelope) ''data''
                  in and_then (lift_sum (iterated (get_prop payload ''items'')))
                       (seq_acts (record_line env render (get_prop payload ''userId'') (get_prop payload ''orderId''))))
            (\<lambda>_. ret ()))"

text \<open>The body of \<^verbatim>\<open>GET /v1/products/:productId/rating\<close> as it is sent: a stored summary keeps its MongoDB
  identifier, and a field it does not have is left out.\<close>

definition opt_num :: "string \<Rightarrow> rat option \<Rightarrow> (string \<times> json) list" where
  "opt_num k x = (case x of None \<Rightarrow> [] | Some v \<Rightarrow> [(k, JNum v)])"

fun dist_json :: "dist \<Rightarrow> json" where
  "dist_json (DArr xs) = JArr (map (\<lambda>n. JNum (of_int n)) xs)"
| "dist_json (DObj fs) = JObj (map (\<lambda>(b, n). (show_nat b, JNum (of_int n))) fs)"

definition summary_json :: "(millis \<Rightarrow> string) \<Rightarrow> string \<Rightarrow> summary_doc \<Rightarrow> json" where
  "summary_json toISO productId sd = JObj (
     (''_id'', JStr productId) # opt_num ''average'' (sd_average sd) @ opt_num ''count'' (map_option of_int (sd_count sd)) @
     (case sd_distribution sd of None \<Rightarrow> [] | Some d \<Rightarrow> [(''distribution'', dist_json d)]) @
     opt_num ''verifiedCount'' (map_option of_int (sd_verifiedCount sd)) @
     (case sd_updatedAt sd of None \<Rightarrow> [] | Some t \<Rightarrow> [(''updatedAt'', JStr (toISO t))]))"

text \<open>A server over the in-memory database, and requests to it, for the witnesses.\<close>

definition sample_review_server :: "mem_db review_server" where
  "sample_review_server =
     \<lparr>rs_env = mem_review_env, rs_parse = zparse any_format, rs_issues = \<lambda>_ _. [],
      rs_iso = \<lambda>_. ''2023-11-14T22:13:20.000Z'', rs_cursor = \<lambda>_. 0, rs_random = replicate 16 0\<rparr>"

definition sample_product_id :: string where
  "sample_product_id = ''prd_00000000000000000000000000''"

definition status_of :: "'s review_env \<Rightarrow> string \<Rightarrow> 's \<Rightarrow> review_status option" where
  "status_of env i s = map_option rv_status (c_find (re_reviews env) i s)"

section \<open>Validation\<close>

lemma validated_cases:
  "validated rs sch v s = (Inr r, s') \<longleftrightarrow> rs_parse rs sch v = Accept r \<and> s' = s"
  by (auto simp: validated_def ret_def raise_def split: zres.splits)

context zod
begin

lemma number_field_range:
  assumes "parse (ZNumber [IntOnly, AtLeast (of_int a), AtMost (of_int b)]) (get_prop v k) = Accept (get_prop r k)"
  shows "a \<le> int_field r k" "int_field r k \<le> b"
proof -
  obtain x where "get_prop r k = Some (JNum x)" "of_int a \<le> x" "x \<le> of_int b"
    using assms by (cases "get_prop v k") (auto simp: parse_number split: json.splits if_splits dest: sym)
  then show "a \<le> int_field r k" "int_field r k \<le> b"
    by (simp_all add: int_field_def le_floor_iff floor_le_iff)
qed

end

lemma keeps_validated: "keeps P (validated rs sch v) (\<lambda>r. rs_parse rs sch v = Accept r)"
  by (cases "rs_parse rs sch v") (simp_all add: validated_def keeps_ret keeps_raise)

lemma respond_review_state: "snd (review_respond rs rt req s) = snd (review_handler_of rt rs req s)"
  by (simp add: review_respond_def split: prod.splits sum.splits)

section \<open>A status changes only by moderation\<close>

context review_store
begin

lemma status_insert:
  "status_of env i s = Some st \<Longrightarrow> status_of env i (snd (insert_review env r s)) = Some st"
  by (auto simp: status_of_def insert_review_def reviews.find_put)

lemma status_other_puts:
  "status_of env i (snd (insert_if_absent (re_votes env) v x s)) = status_of env i s"
  "status_of env i (snd (insert_if_absent (re_purchases env) v y s)) = status_of env i s"
  by (simp_all add: status_of_def insert_if_absent_def reviews_votes reviews_purchases split: option.splits)

lemma status_helpful:
  "status_of env i (update_doc (re_reviews env) j (\<lambda>r. r\<lparr>rv_helpfulCount := rv_helpfulCount r + 1\<rparr>) s) = status_of env i s"
  by (auto simp: status_of_def reviews.update_doc_find option.map_comp o_def)

lemma keeps_status:
  assumes "\<And>s. status_of env i (re_others env s) = status_of env i s" "rs_env rs = env"
    and "rt = PostModerate \<Longrightarrow> \<not> may_moderate req"
  shows "keeps (\<lambda>s. status_of env i s = Some st) (review_handler_of rt rs req) (\<lambda>_. True)"
proof (cases rt)
  case GetReviews
  then show ?thesis
    using assms by (auto simp: get_reviews_def listForProduct_def intro!: keeps_and_then [OF keeps_validated]
        keeps_and_then [OF keeps_map_error [OF keeps_await_any]] keeps_ret)
next
  case GetRating
  then show ?thesis
    using assms by (auto simp: get_rating_def summary_def intro!: keeps_and_then [OF keeps_validated]
        keeps_and_then [OF keeps_map_error [OF keeps_await_any]] keeps_ret)
next
  case PostReview
  have "keeps (\<lambda>s. status_of env i s = Some st) (create_review env x) (\<lambda>_. True)" for x
    unfolding create_review_def hasPurchased_def Let_def
    by (intro keeps_and_then [OF keeps_await_any] keeps_and_then [OF keeps_throw_if] keeps_ret TrueI)
      (simp_all add: assms(1) status_insert)
  with PostReview assms(2) show ?thesis
    by (auto simp: post_review_def intro!: keeps_ret keeps_and_then [OF keeps_validated]
        keeps_and_then [OF keeps_map_error])
next
  case PostHelpful
  have "keeps (\<lambda>s. status_of env i s = Some st) (markHelpful env j u) (\<lambda>_. True)" for j u
    unfolding markHelpful_def Let_def
    by (intro keeps_if keeps_and_then [OF keeps_await_any] keeps_await_any TrueI)
      (simp_all add: assms(1) status_other_puts status_helpful)
  with PostHelpful assms(2) show ?thesis
    by (auto simp: post_helpful_def Let_def intro!: keeps_ret keeps_and_then [OF keeps_validated]
        keeps_and_then [OF keeps_map_error])
next
  case PostModerate
  with assms(3) show ?thesis
    by (simp add: post_moderate_def keeps_ret)
qed

end

section \<open>Recording purchases\<close>

text \<open>The purchase that a list of lines would record under a key.\<close>

fun first_purchase ::
  "'s review_env \<Rightarrow> (json \<Rightarrow> string) \<Rightarrow> json option \<Rightarrow> json option \<Rightarrow> json list \<Rightarrow> string \<Rightarrow> purchase option" where
  "first_purchase env render u o' [] k = None"
| "first_purchase env render u o' (l # ls) k =
     (if l = JNull then None
      else let p = interpolated render (get_prop (Some l) ''productId'')
           in if purchaseKey env (interpolated render u) p = k
              then Some \<lparr>pu_userId = interpolated render u, pu_productId = p, pu_orderId = interpolated render o', pu_purchasedAt = re_now env\<rparr>
              else first_purchase env render u o' ls k)"

lemma record_line_find:
  assumes "collection (re_purchases env)" "re_others env = (\<lambda>s. s)" "l \<noteq> JNull"
  shows "c_find (re_purchases env) k (snd (record_line env render u o' l s)) =
    (case c_find (re_purchases env) k s of Some d \<Rightarrow> Some d | None \<Rightarrow> first_purchase env render u o' [l] k)"
    and "fst (record_line env render u o' l s) = Inr ()"
  using assms(2,3) collection.find_put [OF assms(1)]
  by (auto simp: record_line_def recordPurchase_def map_error_def await_def insert_if_absent_def Let_def split: option.splits)

lemma record_lines_find:
  assumes "collection (re_purchases env)" "re_others env = (\<lambda>s. s)"
  shows "c_find (re_purchases env) k (snd (seq_acts (record_line env render u o') ls s)) =
    (case c_find (re_purchases env) k s of Some d \<Rightarrow> Some d | None \<Rightarrow> first_purchase env render u o' ls k)"
proof (induction ls arbitrary: s)
  case (Cons l ls)
  show ?case
  proof (cases "l = JNull")
    case False
    obtain s' where s': "record_line env render u o' l s = (Inr (), s')"
      using record_line_find(2) [OF assms False, of render u o' s] by (cases "record_line env render u o' l s") simp
    with record_line_find(1) [OF assms False, of k render u o' s]
    have "c_find (re_purchases env) k s' =
        (case c_find (re_purchases env) k s of Some d \<Rightarrow> Some d | None \<Rightarrow> first_purchase env render u o' [l] k)"
      by simp
    with False Cons.IH [of s'] s' show ?thesis
      by (auto simp: and_then_def Let_def split: option.splits)
  qed (simp add: record_line_def and_then_def split: option.splits)
qed (simp split: option.splits)

text \<open>What one message records.\<close>

fun message_purchase :: "'s review_env \<Rightarrow> (json \<Rightarrow> string) \<Rightarrow> message_value \<Rightarrow> string \<Rightarrow> purchase option" where
  "message_purchase env render (Parsed e) k =
     (if get_prop (Some e) ''type'' = Some (JStr ''souq.order.confirmed.v1'')
      then let payload = get_prop (Some e) ''data''
           in case iterated (get_prop payload ''items'') of
                Inl _ \<Rightarrow> None
              | Inr ls \<Rightarrow> first_purchase env render (get_prop payload ''userId'') (get_prop payload ''orderId'') ls k
      else None)"
| "message_purchase env render _ k = None"

lemma attempt_state: "snd (attempt m (\<lambda>_. ret a) s) = snd (m s)"
  by (simp add: attempt_def split: prod.splits sum.splits)

lemma eachMessage_find:
  assumes "collection (re_purchases env)" "re_others env = (\<lambda>s. s)"
  shows "c_find (re_purchases env) k (snd (eachMessage env render m s)) =
    (case c_find (re_purchases env) k s of Some d \<Rightarrow> Some d | None \<Rightarrow> message_purchase env render m k)"
proof (cases m)
  case (Parsed e)
  show ?thesis
  proof (cases "get_prop (Some e) ''type'' = Some (JStr ''souq.order.confirmed.v1'')")
    case True
    then have "e \<noteq> JNull" by (auto simp: get_prop_def)
    with True Parsed record_lines_find [OF assms, of k] show ?thesis
      by (cases "iterated (get_prop (get_prop (Some e) ''data'') ''items'')")
        (simp_all add: eachMessage_def attempt_state Let_def and_then_def split: option.splits)
  qed (simp_all add: Parsed eachMessage_def attempt_state split: option.splits)
qed (simp_all add: eachMessage_def attempt_state split: option.splits)

lemma eachMessage_returns: "fst (eachMessage env render m s) = Inr ()"
  by (auto simp: eachMessage_def attempt_def split: message_value.splits prod.splits sum.splits)

lemma first_purchase_later:
  "(first_purchase (env\<lparr>re_now := t\<rparr>) render u o' ls k = None) = (first_purchase env render u o' ls k = None)"
  by (induction ls) (simp_all add: Let_def purchaseKey_def)

lemma message_purchase_later:
  "(message_purchase (env\<lparr>re_now := t\<rparr>) render m k = None) = (message_purchase env render m k = None)"
  by (cases m) (simp_all add: Let_def first_purchase_later split: sum.splits)

section \<open>Properties\<close>

text \<open>C21: Whatever a client sends, the status of a stored review changes only through the moderation
  route, and there only for a caller whose role header names ADMIN or SUPPORT.\<close>

theorem status_changes_need_role:
  assumes "review_store (rs_env rs)" "\<And>t. status_of (rs_env rs) i (re_others (rs_env rs) t) = status_of (rs_env rs) i t"
    and "status_of (rs_env rs) i s = Some st" "status_of (rs_env rs) i (snd (review_respond rs rt req s)) \<noteq> Some st"
  shows "rt = PostModerate \<and>
    (let roles = split_on CHR '','' (nullish (header req ''x-user-roles'') []) in ''ADMIN'' \<in> set roles \<or> ''SUPPORT'' \<in> set roles)"
proof (rule ccontr)
  assume "\<not> ?thesis"
  then have "rt = PostModerate \<Longrightarrow> \<not> may_moderate req"
    by (simp add: may_moderate_def)
  from keeps_state [OF review_store.keeps_status [OF assms(1,2) refl this]] assms(3,4)
  show False
    by (simp add: respond_review_state)
qed

theorem status_changes_need_role_witness:
  "status_of mem_review_env ''rev_00000000000000000000000000'' (snd (review_respond sample_review_server PostModerate
       (plain_request\<lparr>hr_params := JObj [(''reviewId'', JStr ''rev_00000000000000000000000000'')],
          hr_headers := [(''x-user-roles'', ''CUSTOMER'')], hr_body := Some (JObj [(''decision'', JStr ''PUBLISHED'')])\<rparr>)
       (mem_db_empty\<lparr>md_reviews := [(''rev_00000000000000000000000000'', sample_review ''r'' ''u'' 4 10 PENDING_MODERATION)]\<rparr>))) =
     Some PENDING_MODERATION"
proof (rule ccontr)
  let ?req = "plain_request\<lparr>hr_params := JObj [(''reviewId'', JStr ''rev_00000000000000000000000000'')],
     hr_headers := [(''x-user-roles'', ''CUSTOMER'')], hr_body := Some (JObj [(''decision'', JStr ''PUBLISHED'')])\<rparr>"
  let ?s = "mem_db_empty\<lparr>md_reviews := [(''rev_00000000000000000000000000'', sample_review ''r'' ''u'' 4 10 PENDING_MODERATION)]\<rparr>"
  have env: "rs_env sample_review_server = mem_review_env" by (simp add: sample_review_server_def)
  have quiet: "re_others mem_review_env t = t" for t by (simp add: mem_review_env_def)
  have start: "status_of mem_review_env ''rev_00000000000000000000000000'' ?s = Some PENDING_MODERATION"
    by code_simp
  have denied: "\<not> (''ADMIN'' \<in> set (split_on CHR '','' ''CUSTOMER'') \<or> ''SUPPORT'' \<in> set (split_on CHR '','' ''CUSTOMER''))"
    by code_simp
  assume changed: "\<not> ?thesis"
  from status_changes_need_role [of sample_review_server, unfolded env, OF mem_store.review_store_axioms _ start changed]
  show False
    using denied by (simp add: quiet header_def Let_def)
qed

text \<open>An accepted submission stores a review that waits for moderation, is signed with the caller's
  identity and carries between one and five stars; whether it counts as a verified purchase is decided by the
  recorded purchases alone, and a body that tries to say so itself is not accepted.\<close>

theorem submitted_review_is_derived:
  assumes "zod (rs_parse rs) fmt" "review_store (rs_env rs)" "review_respond rs PostReview req s = ((202, b), s')"
  shows "\<exists>r. c_find (re_reviews (rs_env rs)) (rv_id r) s' = Some r \<and> rv_status r = PENDING_MODERATION \<and>
    header req ''x-user-id'' = Some (rv_userId r) \<and> 1 \<le> rv_rating r \<and> rv_rating r \<le> 5 \<and>
    (rv_verifiedPurchase r \<longleftrightarrow>
       c_find (re_purchases (rs_env rs)) (purchaseKey (rs_env rs) (rv_userId r) (rv_productId r)) (re_others (rs_env rs) s) \<noteq> None) \<and>
    get_prop (hr_body req) ''verifiedPurchase'' = None"
proof -
  let ?env = "rs_env rs"
  have "fst (review_error_handler rs req e) \<noteq> 202" for e
    by (cases e) (auto simp: review_error_handler_def problem_reply_def split: prod.splits elim!: review_problem.elims)
  then have ok: "post_review rs req s = (Inr (202, b), s')"
    using assms(3) by (auto simp: review_respond_def split: prod.splits sum.splits dest!: arg_cong [where f = fst])
  then obtain u where u: "header req ''x-user-id'' = Some u"
    by (cases "header req ''x-user-id''") (simp_all add: post_review_def problem_reply_def)
  with ok obtain body r where body: "rs_parse rs CreateReviewRequest (hr_body req) = Accept body"
    and "create_review ?env (review_request rs req u body) s = (Inr r, s')"
    by (auto simp: post_review_def problem_reply_def validated_cases elim!: and_then_InrE dest!: map_error_InrD
        split: if_splits)
  then have r: "r = new_review ?env (review_request rs req u body)
      (c_find (re_purchases ?env) (purchaseKey ?env u (str_field body ''productId'')) (re_others ?env s) \<noteq> None)"
    and found: "c_find (re_reviews ?env) (rv_id r) s' = Some r"
    using collection.find_put [OF review_store.reviews_coll [OF assms(2)]]
    by (auto simp: create_review_def hasPurchased_def await_def insert_review_def review_request_def Let_def
        elim!: and_then_InrE split: if_splits)
  have "get_prop (hr_body req) ''verifiedPurchase'' = None"
    using zod.strict_no_other(1) [OF assms(1) body [unfolded CreateReviewRequest_def]] by simp
  moreover have "1 \<le> int_field body ''rating''" "int_field body ''rating'' \<le> 5"
    using zod.object_field [OF assms(1) _ body [unfolded CreateReviewRequest_def], of "''rating''"]
      zod.number_field_range [OF assms(1), of 1 5]
    by simp_all
  ultimately show ?thesis
    using found u r by (intro exI [of _ r]) (simp add: new_review_def review_request_def)
qed

text \<open>Order events may be delivered any number of times, at any time: a message always completes,
  never removes or changes a recorded purchase, and a second delivery records nothing that the first did not.\<close>

theorem redelivery_records_nothing_new:
  assumes "collection (re_purchases env)" "re_others env = (\<lambda>s. s)"
  shows "fst (eachMessage env render m s) = Inr () \<and>
    (\<forall>k d. c_find (re_purchases env) k s = Some d \<longrightarrow> c_find (re_purchases env) k (snd (eachMessage env render m s)) = Some d) \<and>
    (\<forall>k. c_find (re_purchases env) k (snd (eachMessage (env\<lparr>re_now := t\<rparr>) render m (snd (eachMessage env render m s)))) =
      c_find (re_purchases env) k (snd (eachMessage env render m s)))"
proof (intro conjI allI impI)
  let ?later = "env\<lparr>re_now := t\<rparr>"
  fix k
  have "c_find (re_purchases ?later) k (snd (eachMessage ?later render m (snd (eachMessage env render m s)))) =
      (case c_find (re_purchases ?later) k (snd (eachMessage env render m s)) of
         Some d \<Rightarrow> Some d | None \<Rightarrow> message_purchase ?later render m k)"
    using assms by (intro eachMessage_find) simp_all
  then show "c_find (re_purchases env) k (snd (eachMessage ?later render m (snd (eachMessage env render m s)))) =
      c_find (re_purchases env) k (snd (eachMessage env render m s))"
    using message_purchase_later [where env = env and t = t and render = render and m = m and k = k] eachMessage_find [OF assms, of k render m s]
    by (simp split: option.splits)
qed (simp_all add: eachMessage_returns eachMessage_find [OF assms])

theorem redelivery_records_nothing_new_witness:
  "c_find (re_purchases mem_review_env) ''u:p'' (snd (eachMessage (mem_review_env\<lparr>re_now := 2000\<rparr>) (\<lambda>_. [])
     (Parsed (JObj [(''type'', JStr ''souq.order.confirmed.v1''), (''data'', JObj [(''userId'', JStr ''u''), (''orderId'', JStr ''o''),
        (''items'', JArr [JObj [(''productId'', JStr ''p'')]])])]))
     (snd (eachMessage mem_review_env (\<lambda>_. [])
       (Parsed (JObj [(''type'', JStr ''souq.order.confirmed.v1''), (''data'', JObj [(''userId'', JStr ''u''), (''orderId'', JStr ''o''),
          (''items'', JArr [JObj [(''productId'', JStr ''p'')]])])])) mem_db_empty)))) =
   Some \<lparr>pu_userId = ''u'', pu_productId = ''p'', pu_orderId = ''o'', pu_purchasedAt = 1000\<rparr>"
proof -
  let ?m = "Parsed (JObj [(''type'', JStr ''souq.order.confirmed.v1''), (''data'', JObj [(''userId'', JStr ''u''), (''orderId'', JStr ''o''),
     (''items'', JArr [JObj [(''productId'', JStr ''p'')]])])])"
  have "c_find (re_purchases mem_review_env) ''u:p'' (snd (eachMessage mem_review_env (\<lambda>_. []) ?m mem_db_empty)) =
      Some \<lparr>pu_userId = ''u'', pu_productId = ''p'', pu_orderId = ''o'', pu_purchasedAt = 1000\<rparr>"
    by code_simp
  moreover have "collection (re_purchases mem_review_env)" "re_others mem_review_env = (\<lambda>s. s)"
    using mem_purchases.collection_axioms by (simp_all add: mem_review_env_def)
  from redelivery_records_nothing_new [OF this]
  have "c_find (re_purchases mem_review_env) ''u:p'' (snd (eachMessage (mem_review_env\<lparr>re_now := 2000\<rparr>) (\<lambda>_. []) ?m
      (snd (eachMessage mem_review_env (\<lambda>_. []) ?m mem_db_empty)))) =
    c_find (re_purchases mem_review_env) ''u:p'' (snd (eachMessage mem_review_env (\<lambda>_. []) ?m mem_db_empty))"
    by blast
  ultimately show ?thesis by (rule trans [rotated])
qed

text \<open>An order confirmation as the event contract defines it records no purchase at all: its payload has
  no \<^verbatim>\<open>items\<close>, which is what the consumer reads. No review is ever verified by such events.\<close>

theorem confirmed_order_records_no_purchase:
  assumes "zod parse fmt" "parse OrderConfirmed (Some event) = Accept r"
  shows "eachMessage env render (Parsed event) s = (Inr (), s)"
proof -
  have "get_prop (get_prop (Some event) ''data'') ''items'' = None"
    using zod.cloudEvent_data_missing [OF assms(1) assms(2) [unfolded OrderConfirmed_def]]
    by (simp add: OrderConfirmed_data_def)
  then show ?thesis
    by (simp add: eachMessage_def attempt_def and_then_def Let_def)
qed

text \<open>Every error of review-service reaches the client as a document that satisfies \<^verbatim>\<open>ProblemDetails\<close>,
  but two of its codes, for a duplicate and for an unknown review, are not in the platform's list of
  error codes, and those two only.\<close>

theorem review_errors_are_problems:
  assumes "zod (rs_parse rs) fmt"
    and "\<forall>t. rs_parse rs Timestamp (Some (JStr (rs_iso rs t))) = Accept (Some (JStr (rs_iso rs t)))"
  shows "\<exists>status j r code. review_error_handler rs req err = (status, ReviewJson j) \<and>
    rs_parse rs ProblemDetails (Some j) = Accept r \<and> get_prop (Some j) ''code'' = Some (JStr code) \<and>
    (isErrorCode code \<longleftrightarrow> (\<nexists>x. err = RepoError (DuplicateReview x) \<or> err = RepoError (ReviewNotFound x)))"
proof (cases err)
  case (BadReview es)
  have "get_prop (Some (validation_json t i es sv)) ''code'' = Some (JStr ''VALIDATION_FAILED'')" for t i sv
    by (simp add: validation_json_def get_prop_def lookup_def)
  moreover have "isErrorCode ''VALIDATION_FAILED''"
    by (simp add: isErrorCode_def ERROR_CODES_def)
  ultimately show ?thesis
    using BadReview zod.validation_accept [OF assms(1) assms(2) [THEN spec]]
    by (auto simp: review_error_handler_def)
next
  case (RepoError e)
  let ?rx = "rx_seq [RCls cls_upper, RStar (RCls [(CHR ''A'', CHR ''Z''), (CHR ''0'', CHR ''9''), (CHR ''_'', CHR ''_'')])]"
  obtain status code detail where p: "review_problem e = (status, code, detail)"
    by (cases "review_problem e")
  have shapes: "rx_test ?rx ''REVIEW_ALREADY_EXISTS''" "rx_test ?rx ''REVIEW_NOT_FOUND''" "rx_test ?rx ''INTERNAL_ERROR''"
    by code_simp+
  from p shapes have "rx_test ?rx code" "100 \<le> status" "status \<le> 599"
    and listed: "isErrorCode code \<longleftrightarrow> (\<nexists>x. e = DuplicateReview x \<or> e = ReviewNotFound x)"
    by (cases e; auto simp: isErrorCode_def ERROR_CODES_def)+
  then obtain r where "rs_parse rs ProblemDetails
      (Some (problem_json (rs_iso rs (re_now (rs_env rs))) (hr_id req) status code detail ''review'')) = Accept r"
    using zod.problem_accept_code [OF assms(1) assms(2) [THEN spec]] by blast
  with p listed RepoError show ?thesis
    by (auto simp: review_error_handler_def problem_reply_def problem_json_def get_prop_def lookup_def)
qed

theorem review_errors_are_problems_witness:
  "\<exists>j r. review_error_handler sample_review_server plain_request (RepoError (DuplicateReview ''p'')) = (409, ReviewJson j) \<and>
     zparse any_format ProblemDetails (Some j) = Accept r \<and> \<not> isErrorCode ''REVIEW_ALREADY_EXISTS''"
proof -
  have stamp: "zparse any_format Timestamp (Some (JStr ''2023-11-14T22:13:20.000Z'')) =
      Accept (Some (JStr ''2023-11-14T22:13:20.000Z''))"
    by code_simp
  have zod: "zod (rs_parse sample_review_server) any_format"
    "\<forall>t. rs_parse sample_review_server Timestamp (Some (JStr (rs_iso sample_review_server t))) =
       Accept (Some (JStr (rs_iso sample_review_server t)))"
    using zp.zod_axioms stamp by (simp_all add: sample_review_server_def)
  from review_errors_are_problems [OF zod, of plain_request "RepoError (DuplicateReview ''p'')"]
  show ?thesis
    by (auto simp: sample_review_server_def review_error_handler_def problem_reply_def problem_json_def get_prop_def lookup_def)
qed

text \<open>The query parameter \<^verbatim>\<open>verifiedOnly\<close> cannot be switched off by naming it: every non-empty text, the text
  \<^verbatim>\<open>false\<close> included, restricts the listing to verified purchases.\<close>

theorem verifiedOnly_text_is_true:
  assumes "zod (rs_parse rs) fmt" "get_prop (Some (hr_query req)) ''verifiedOnly'' = Some (JStr t)" "t \<noteq> []"
    and "rs_parse rs list_query (Some (hr_query req)) = Accept qs"
  shows "lo_verifiedOnly (list_options rs qs)"
proof -
  have "rs_parse rs (ZDefault ZCoerceBoolean (JBool False)) (get_prop (Some (hr_query req)) ''verifiedOnly'') =
      Accept (get_prop qs ''verifiedOnly'')"
    using zod.object_field [OF assms(1) _ assms(4) [unfolded list_query_def], of "''verifiedOnly''"] by simp
  then show ?thesis
    using assms(2,3) zod.parse_default [OF assms(1)] zod.parse_coerce_boolean [OF assms(1)]
    by (simp add: list_options_def)
qed

theorem verifiedOnly_text_is_true_witness:
  "\<exists>qs. zparse any_format list_query (Some (JObj [(''verifiedOnly'', JStr ''false'')])) = Accept qs \<and>
     lo_verifiedOnly (list_options sample_review_server qs)"
proof -
  let ?q = "JObj [(''verifiedOnly'', JStr ''false'')]"
  have "zparse any_format list_query (Some ?q) \<noteq> Reject" by code_simp
  then obtain qs where qs: "zparse any_format list_query (Some ?q) = Accept qs"
    by (cases "zparse any_format list_query (Some ?q)") simp_all
  have "lo_verifiedOnly (list_options sample_review_server qs)"
    by (rule verifiedOnly_text_is_true [of _ any_format "plain_request\<lparr>hr_query := ?q\<rparr>" "''false''"])
      (simp_all add: sample_review_server_def zp.zod_axioms qs get_prop_def lookup_def)
  with qs show ?thesis by blast
qed

text \<open>No successful reply of \<^verbatim>\<open>GET /v1/products/:productId/rating\<close> satisfies the contract \<^verbatim>\<open>RatingSummary\<close>: the zeroed
  summary carries a \<^verbatim>\<open>verifiedCount\<close> the contract does not allow, and a stored one names the product
  \<^verbatim>\<open>_id\<close> instead of \<^verbatim>\<open>productId\<close>.\<close>

theorem rating_reply_breaks_contract:
  assumes "zod parse fmt" "get_rating rs req s = (Inr (status, b), s')"
  shows "parse RatingSummary (Some (case b of ReviewJson j \<Rightarrow> j | SummaryBody p sd \<Rightarrow> summary_json toISO p sd | PageBody pg \<Rightarrow> JNull)) = Reject"
proof -
  have other: "parse RatingSummary v = Reject" if k: "get_prop v k \<noteq> None" "k \<in> {''verifiedCount'', ''_id''}" for v k
  proof (cases "parse RatingSummary v")
    case (Accept r)
    have "get_prop v k = None"
      by (rule zod.strict_no_other(1) [OF assms(1) Accept [unfolded RatingSummary_def]]) (use k in auto)
    with k show ?thesis by simp
  qed
  have "parse RatingSummary (Some (no_ratings_json p)) = Reject" for p
    by (rule other [of _ "''verifiedCount''"]) (simp_all add: no_ratings_json_def get_prop_def lookup_def)
  moreover have "parse RatingSummary (Some (summary_json toISO p sd)) = Reject" for p sd
    by (rule other [of _ "''_id''"]) (simp_all add: summary_json_def get_prop_def lookup_def)
  ultimately show ?thesis
    using assms(2) by (auto simp: get_rating_def elim!: and_then_InrE split: option.splits)
qed

theorem rating_reply_breaks_contract_witness:
  "zparse any_format RatingSummary (Some (no_ratings_json sample_product_id)) = Reject"
proof -
  have "get_rating sample_review_server (plain_request\<lparr>hr_params := JObj [(''productId'', JStr sample_product_id)]\<rparr>) mem_db_empty =
      (Inr (200, ReviewJson (no_ratings_json sample_product_id)), mem_db_empty)"
    by code_simp
  from rating_reply_breaks_contract [OF zp.zod_axioms this] show ?thesis by simp
qed

end
