(* ===== verification/Template_Texts.thy ===== *)
theory Template_Texts
  imports Prelude
begin

text \<open>
  The message texts of notification-service (the table \<^verbatim>\<open>TEMPLATES\<close> of
  \<^verbatim>\<open>services/notification-service/src/templates.ts\<close>), in English and Arabic. A text is held as its UTF-8
  bytes: ASCII directly, everything else through \<open>utf8\<close> from its code points.
\<close>

section \<open>Texts\<close>

text \<open>The UTF-8 encoding of code points of the basic multilingual plane.\<close>

fun utf8 :: "int list \<Rightarrow> string" where
  "utf8 [] = []"
| "utf8 (c # cs) =
     (if c < 0x80 then [char_of c]
      else if c < 0x800 then [char_of (0xC0 + c div 64), char_of (0x80 + c mod 64)]
      else [char_of (0xE0 + c div 4096), char_of (0x80 + c div 64 mod 64), char_of (0x80 + c mod 64)]) @ utf8 cs"

definition newline :: char where
  "newline = CHR 0x0A"

text \<open>Lines joined by line feeds.\<close>

fun text_lines :: "string list \<Rightarrow> string" where
  "text_lines [] = []"
| "text_lines [l] = l"
| "text_lines (l # ls) = l @ newline # text_lines ls"

type_synonym texts = "(string \<times> string) list"

record template =
  t_subject :: texts
  t_text :: texts
  t_html :: "texts option"

section \<open>The table\<close>

definition order_confirmed :: template where
  "order_confirmed = \<lparr>t_subject =
     [(''en-GB'',
       ''Order {{orderRef}} confirmed''),
      (''ar-EG'',
       utf8 [0x62A, 0x645, 0x20, 0x62A, 0x623, 0x643, 0x64A, 0x62F, 0x20, 0x637, 0x644, 0x628, 0x643] @ '' {{orderRef}}'')],
    t_text =
     [(''en-GB'',
       text_lines [''Hello {{name}},'',
        [],
        ''Your order {{orderRef}} is confirmed.'',
        [],
        ''Total: {{total}}'',
        ''Delivery: {{estimatedDelivery}}'',
        [],
        ''Track it any time: {{orderUrl}}'',
        [],
        ''SOUQ'']),
      (''ar-EG'',
       text_lines [utf8 [0x623, 0x647, 0x644, 0x627, 0x64B] @ '' {{name}}'' @ utf8 [0x60C],
        [],
        utf8 [0x62A, 0x645, 0x20, 0x62A, 0x623, 0x643, 0x64A, 0x62F, 0x20, 0x637, 0x644, 0x628, 0x643] @ '' {{orderRef}}.'',
        [],
        utf8 [0x627, 0x644, 0x625, 0x62C, 0x645, 0x627, 0x644, 0x64A] @ '': {{total}}'',
        utf8 [0x627, 0x644, 0x62A, 0x633, 0x644, 0x64A, 0x645, 0x20, 0x627, 0x644, 0x645, 0x62A, 0x648, 0x642, 0x639] @ '': {{estimatedDelivery}}'',
        [],
        utf8 [0x62A, 0x627, 0x628, 0x639, 0x20, 0x637, 0x644, 0x628, 0x643] @ '': {{orderUrl}}'',
        [],
        utf8 [0x633, 0x648, 0x642]])],
    t_html = None\<rparr>"

definition order_cancelled :: template where
  "order_cancelled = \<lparr>t_subject =
     [(''en-GB'',
       ''Order {{orderRef}} could not be completed''),
      (''ar-EG'',
       utf8 [0x62A, 0x639, 0x630, 0x651, 0x631, 0x20, 0x625, 0x62A, 0x645, 0x627, 0x645, 0x20, 0x637, 0x644, 0x628, 0x643] @ '' {{orderRef}}'')],
    t_text =
     [(''en-GB'',
       text_lines [''Hello {{name}},'',
        [],
        ''We could not complete order {{orderRef}}.'',
        [],
        ''Reason: {{reason}}'',
        [],
        ''You have not been charged.'',
        [],
        ''SOUQ'']),
      (''ar-EG'',
       text_lines [utf8 [0x623, 0x647, 0x644, 0x627, 0x64B] @ '' {{name}}'' @ utf8 [0x60C],
        [],
        utf8 [0x644, 0x645, 0x20, 0x646, 0x62A, 0x645, 0x643, 0x646, 0x20, 0x645, 0x646, 0x20, 0x625, 0x62A, 0x645, 0x627, 0x645, 0x20, 0x637, 0x644, 0x628, 0x643] @ '' {{orderRef}}.'',
        [],
        utf8 [0x627, 0x644, 0x633, 0x628, 0x628] @ '': {{reason}}'',
        [],
        utf8 [0x644, 0x645, 0x20, 0x64A, 0x62A, 0x645, 0x20, 0x62E, 0x635, 0x645, 0x20, 0x623, 0x64A, 0x20, 0x645, 0x628, 0x644, 0x63A] @ ''.'',
        [],
        utf8 [0x633, 0x648, 0x642]])],
    t_html = None\<rparr>"

definition order_shipped :: template where
  "order_shipped = \<lparr>t_subject =
     [(''en-GB'',
       ''Order {{orderRef}} is on its way''),
      (''ar-EG'',
       utf8 [0x637, 0x644, 0x628, 0x643] @ '' {{orderRef}} '' @ utf8 [0x641, 0x64A, 0x20, 0x627, 0x644, 0x637, 0x631, 0x64A, 0x642])],
    t_text =
     [(''en-GB'',
       text_lines [''Hello {{name}},'',
        [],
        ''Order {{orderRef}} has shipped with {{carrier}}.'',
        [],
        ''Tracking: {{trackingNumber}}'',
        ''{{trackingUrl}}'',
        [],
        ''SOUQ'']),
      (''ar-EG'',
       text_lines [utf8 [0x623, 0x647, 0x644, 0x627, 0x64B] @ '' {{name}}'' @ utf8 [0x60C],
        [],
        utf8 [0x62A, 0x645, 0x20, 0x634, 0x62D, 0x646, 0x20, 0x637, 0x644, 0x628, 0x643] @ '' {{orderRef}} '' @ utf8 [0x639, 0x628, 0x631] @ '' {{carrier}}.'',
        [],
        utf8 [0x631, 0x642, 0x645, 0x20, 0x627, 0x644, 0x62A, 0x62A, 0x628, 0x639] @ '': {{trackingNumber}}'',
        ''{{trackingUrl}}'',
        [],
        utf8 [0x633, 0x648, 0x642]])],
    t_html = None\<rparr>"

definition order_delivered :: template where
  "order_delivered = \<lparr>t_subject =
     [(''en-GB'',
       ''Order {{orderRef}} delivered''),
      (''ar-EG'',
       utf8 [0x62A, 0x645, 0x20, 0x62A, 0x633, 0x644, 0x64A, 0x645, 0x20, 0x637, 0x644, 0x628, 0x643] @ '' {{orderRef}}'')],
    t_text =
     [(''en-GB'',
       text_lines [''Hello {{name}},'',
        [],
        ''Order {{orderRef}} was delivered.'',
        [],
        ''Tell us how it went: {{reviewUrl}}'',
        [],
        ''SOUQ'']),
      (''ar-EG'',
       text_lines [utf8 [0x623, 0x647, 0x644, 0x627, 0x64B] @ '' {{name}}'' @ utf8 [0x60C],
        [],
        utf8 [0x62A, 0x645, 0x20, 0x62A, 0x633, 0x644, 0x64A, 0x645, 0x20, 0x637, 0x644, 0x628, 0x643] @ '' {{orderRef}}.'',
        [],
        utf8 [0x634, 0x627, 0x631, 0x643, 0x646, 0x627, 0x20, 0x631, 0x623, 0x64A, 0x643] @ '': {{reviewUrl}}'',
        [],
        utf8 [0x633, 0x648, 0x642]])],
    t_html = None\<rparr>"

definition payment_failed :: template where
  "payment_failed = \<lparr>t_subject =
     [(''en-GB'',
       ''Payment for {{orderRef}} was declined''),
      (''ar-EG'',
       utf8 [0x62A, 0x645, 0x20, 0x631, 0x641, 0x636, 0x20, 0x627, 0x644, 0x62F, 0x641, 0x639, 0x20, 0x644, 0x644, 0x637, 0x644, 0x628] @ '' {{orderRef}}'')],
    t_text =
     [(''en-GB'',
       text_lines [''Hello {{name}},'',
        [],
        ''Your bank declined the payment for order {{orderRef}}.'',
        [],
        ''Nothing has been charged. You can try another card here: {{retryUrl}}'',
        [],
        ''SOUQ'']),
      (''ar-EG'',
       text_lines [utf8 [0x623, 0x647, 0x644, 0x627, 0x64B] @ '' {{name}}'' @ utf8 [0x60C],
        [],
        utf8 [0x631, 0x641, 0x636, 0x20, 0x627, 0x644, 0x628, 0x646, 0x643, 0x20, 0x639, 0x645, 0x644, 0x64A, 0x629, 0x20, 0x627, 0x644, 0x62F, 0x641, 0x639, 0x20, 0x644, 0x644, 0x637, 0x644, 0x628] @ '' {{orderRef}}.'',
        [],
        utf8 [0x644, 0x645, 0x20, 0x64A, 0x62A, 0x645, 0x20, 0x62E, 0x635, 0x645, 0x20, 0x623, 0x64A, 0x20, 0x645, 0x628, 0x644, 0x63A] @ ''. '' @ utf8 [0x64A, 0x645, 0x643, 0x646, 0x643, 0x20, 0x627, 0x644, 0x645, 0x62D, 0x627, 0x648, 0x644, 0x629, 0x20, 0x628, 0x628, 0x637, 0x627, 0x642, 0x629, 0x20, 0x623, 0x62E, 0x631, 0x649] @ '': {{retryUrl}}'',
        [],
        utf8 [0x633, 0x648, 0x642]])],
    t_html = None\<rparr>"

definition payment_refunded :: template where
  "payment_refunded = \<lparr>t_subject =
     [(''en-GB'',
       ''Refund issued for {{orderRef}}''),
      (''ar-EG'',
       utf8 [0x62A, 0x645, 0x20, 0x627, 0x633, 0x62A, 0x631, 0x62F, 0x627, 0x62F, 0x20, 0x645, 0x628, 0x644, 0x63A, 0x20, 0x627, 0x644, 0x637, 0x644, 0x628] @ '' {{orderRef}}'')],
    t_text =
     [(''en-GB'',
       text_lines [''Hello {{name}},'',
        [],
        ''We have refunded {{amount}} for order {{orderRef}}.'',
        [],
        ''It usually reaches your account in 5-10 working days.'',
        [],
        ''SOUQ'']),
      (''ar-EG'',
       text_lines [utf8 [0x623, 0x647, 0x644, 0x627, 0x64B] @ '' {{name}}'' @ utf8 [0x60C],
        [],
        utf8 [0x62A, 0x645, 0x20, 0x627, 0x633, 0x62A, 0x631, 0x62F, 0x627, 0x62F] @ '' {{amount}} '' @ utf8 [0x644, 0x644, 0x637, 0x644, 0x628] @ '' {{orderRef}}.'',
        [],
        utf8 [0x639, 0x627, 0x62F, 0x629, 0x64B, 0x20, 0x64A, 0x635, 0x644, 0x20, 0x62E, 0x644, 0x627, 0x644] @ '' 5-10 '' @ utf8 [0x623, 0x64A, 0x627, 0x645, 0x20, 0x639, 0x645, 0x644] @ ''.'',
        [],
        utf8 [0x633, 0x648, 0x642]])],
    t_html = None\<rparr>"

definition password_reset :: template where
  "password_reset = \<lparr>t_subject =
     [(''en-GB'',
       ''Reset your SOUQ password''),
      (''ar-EG'',
       utf8 [0x625, 0x639, 0x627, 0x62F, 0x629, 0x20, 0x62A, 0x639, 0x64A, 0x64A, 0x646, 0x20, 0x643, 0x644, 0x645, 0x629, 0x20, 0x627, 0x644, 0x645, 0x631, 0x648, 0x631])],
    t_text =
     [(''en-GB'',
       text_lines [''Hello {{name}},'',
        [],
        ''Reset your password here '' @ utf8 [0x2014] @ '' the link expires in 30 minutes:'',
        ''{{resetUrl}}'',
        [],
        ''If you did not ask for this, ignore this email; nothing has changed.'',
        [],
        ''SOUQ'']),
      (''ar-EG'',
       text_lines [utf8 [0x623, 0x647, 0x644, 0x627, 0x64B] @ '' {{name}}'' @ utf8 [0x60C],
        [],
        utf8 [0x623, 0x639, 0x62F, 0x20, 0x62A, 0x639, 0x64A, 0x64A, 0x646, 0x20, 0x643, 0x644, 0x645, 0x629, 0x20, 0x627, 0x644, 0x645, 0x631, 0x648, 0x631, 0x20, 0x2014, 0x20, 0x627, 0x644, 0x631, 0x627, 0x628, 0x637, 0x20, 0x635, 0x627, 0x644, 0x62D] @ '' 30 '' @ utf8 [0x62F, 0x642, 0x64A, 0x642, 0x629] @ '':'',
        ''{{resetUrl}}'',
        [],
        utf8 [0x625, 0x630, 0x627, 0x20, 0x644, 0x645, 0x20, 0x62A, 0x637, 0x644, 0x628, 0x20, 0x630, 0x644, 0x643, 0x60C, 0x20, 0x62A, 0x62C, 0x627, 0x647, 0x644, 0x20, 0x627, 0x644, 0x631, 0x633, 0x627, 0x644, 0x629, 0x61B, 0x20, 0x644, 0x645, 0x20, 0x64A, 0x62A, 0x63A, 0x64A, 0x631, 0x20, 0x634, 0x64A, 0x621] @ ''.'',
        [],
        utf8 [0x633, 0x648, 0x642]])],
    t_html = None\<rparr>"

definition email_verification :: template where
  "email_verification = \<lparr>t_subject =
     [(''en-GB'',
       ''Confirm your email address''),
      (''ar-EG'',
       utf8 [0x62A, 0x623, 0x643, 0x64A, 0x62F, 0x20, 0x628, 0x631, 0x64A, 0x62F, 0x643, 0x20, 0x627, 0x644, 0x625, 0x644, 0x643, 0x62A, 0x631, 0x648, 0x646, 0x64A])],
    t_text =
     [(''en-GB'',
       text_lines [''Hello {{name}},'',
        [],
        ''Confirm your email:'',
        ''{{verifyUrl}}'',
        [],
        ''SOUQ'']),
      (''ar-EG'',
       text_lines [utf8 [0x623, 0x647, 0x644, 0x627, 0x64B] @ '' {{name}}'' @ utf8 [0x60C],
        [],
        utf8 [0x623, 0x643, 0x62F, 0x20, 0x628, 0x631, 0x64A, 0x62F, 0x643, 0x20, 0x627, 0x644, 0x625, 0x644, 0x643, 0x62A, 0x631, 0x648, 0x646, 0x64A] @ '':'',
        ''{{verifyUrl}}'',
        [],
        utf8 [0x633, 0x648, 0x642]])],
    t_html = None\<rparr>"

definition security_alert :: template where
  "security_alert = \<lparr>t_subject =
     [(''en-GB'',
       ''New sign-in to your SOUQ account''),
      (''ar-EG'',
       utf8 [0x62A, 0x633, 0x62C, 0x64A, 0x644, 0x20, 0x62F, 0x62E, 0x648, 0x644, 0x20, 0x62C, 0x62F, 0x64A, 0x62F, 0x20, 0x644, 0x62D, 0x633, 0x627, 0x628, 0x643])],
    t_text =
     [(''en-GB'',
       text_lines [''Hello {{name}},'',
        [],
        ''Someone signed in from {{location}} on {{device}} at {{when}}.'',
        [],
        ''If this was you, nothing to do. If not, change your password now: {{securityUrl}}'',
        [],
        ''SOUQ'']),
      (''ar-EG'',
       text_lines [utf8 [0x623, 0x647, 0x644, 0x627, 0x64B] @ '' {{name}}'' @ utf8 [0x60C],
        [],
        utf8 [0x62A, 0x645, 0x20, 0x62A, 0x633, 0x62C, 0x64A, 0x644, 0x20, 0x627, 0x644, 0x62F, 0x62E, 0x648, 0x644, 0x20, 0x645, 0x646] @ '' {{location}} '' @ utf8 [0x639, 0x628, 0x631] @ '' {{device}} '' @ utf8 [0x641, 0x64A] @ '' {{when}}.'',
        [],
        utf8 [0x625, 0x646, 0x20, 0x644, 0x645, 0x20, 0x62A, 0x643, 0x646, 0x20, 0x623, 0x646, 0x62A, 0x60C, 0x20, 0x63A, 0x64A, 0x651, 0x631, 0x20, 0x643, 0x644, 0x645, 0x629, 0x20, 0x627, 0x644, 0x645, 0x631, 0x648, 0x631, 0x20, 0x641, 0x648, 0x631, 0x627, 0x64B] @ '': {{securityUrl}}'',
        [],
        utf8 [0x633, 0x648, 0x642]])],
    t_html = None\<rparr>"

definition abandoned_cart :: template where
  "abandoned_cart = \<lparr>t_subject =
     [(''en-GB'',
       ''You left something behind''),
      (''ar-EG'',
       utf8 [0x646, 0x633, 0x64A, 0x62A, 0x20, 0x634, 0x64A, 0x626, 0x627, 0x64B, 0x20, 0x641, 0x64A, 0x20, 0x633, 0x644, 0x62A, 0x643])],
    t_text =
     [(''en-GB'',
       text_lines [''Hello {{name}},'',
        [],
        ''Your cart is still waiting: {{cartUrl}}'',
        [],
        ''Unsubscribe: {{unsubscribeUrl}}'',
        [],
        ''SOUQ'']),
      (''ar-EG'',
       text_lines [utf8 [0x623, 0x647, 0x644, 0x627, 0x64B] @ '' {{name}}'' @ utf8 [0x60C],
        [],
        utf8 [0x633, 0x644, 0x62A, 0x643, 0x20, 0x641, 0x64A, 0x20, 0x627, 0x646, 0x62A, 0x638, 0x627, 0x631, 0x643] @ '': {{cartUrl}}'',
        [],
        utf8 [0x625, 0x644, 0x63A, 0x627, 0x621, 0x20, 0x627, 0x644, 0x627, 0x634, 0x62A, 0x631, 0x627, 0x643] @ '': {{unsubscribeUrl}}'',
        [],
        utf8 [0x633, 0x648, 0x642]])],
    t_html = None\<rparr>"

definition back_in_stock :: template where
  "back_in_stock = \<lparr>t_subject =
     [(''en-GB'',
       ''{{productTitle}} is back''),
      (''ar-EG'',
       ''{{productTitle}} '' @ utf8 [0x645, 0x62A, 0x648, 0x641, 0x631, 0x20, 0x645, 0x62C, 0x62F, 0x62F, 0x627, 0x64B])],
    t_text =
     [(''en-GB'',
       text_lines [''Hello {{name}},'',
        [],
        ''{{productTitle}} is available again: {{productUrl}}'',
        [],
        ''Unsubscribe: {{unsubscribeUrl}}'',
        [],
        ''SOUQ'']),
      (''ar-EG'',
       text_lines [utf8 [0x623, 0x647, 0x644, 0x627, 0x64B] @ '' {{name}}'' @ utf8 [0x60C],
        [],
        ''{{productTitle}} '' @ utf8 [0x645, 0x62A, 0x648, 0x641, 0x631, 0x20, 0x645, 0x62C, 0x62F, 0x62F, 0x627, 0x64B] @ '': {{productUrl}}'',
        [],
        utf8 [0x625, 0x644, 0x63A, 0x627, 0x621, 0x20, 0x627, 0x644, 0x627, 0x634, 0x62A, 0x631, 0x627, 0x643] @ '': {{unsubscribeUrl}}'',
        [],
        utf8 [0x633, 0x648, 0x642]])],
    t_html = None\<rparr>"

definition TEMPLATES :: "(string \<times> template) list" where
  "TEMPLATES =
     [(''order_confirmed'', order_confirmed),
      (''order_cancelled'', order_cancelled),
      (''order_shipped'', order_shipped),
      (''order_delivered'', order_delivered),
      (''payment_failed'', payment_failed),
      (''payment_refunded'', payment_refunded),
      (''password_reset'', password_reset),
      (''email_verification'', email_verification),
      (''security_alert'', security_alert),
      (''abandoned_cart'', abandoned_cart),
      (''back_in_stock'', back_in_stock)]"

end
