(* ===== verification/Templates.thy ===== *)
theory Templates
  imports Template_Texts Zod_Schema
begin

text \<open>
  Rendering of messages (\<^verbatim>\<open>services/notification-service/src/templates.ts\<close>): the choice of language, the HTML
  wrapper and \<^verbatim>\<open>render\<close>. The package Mustache is the parameter \<open>mustache\<close>; the locale \<open>mustache_laws\<close> states what
  its documentation promises of templates that use variables only, and a small substitution
  engine interprets it.
\<close>

section \<open>Property lookup\<close>

text \<open>\<^verbatim>\<open>m[k]\<close> on an object literal: an own property, or a member inherited from \<^verbatim>\<open>Object.prototype\<close>.\<close>

datatype 'v member = Own 'v | Inherited

definition PROTOTYPE :: "string list" where
  "PROTOTYPE =
     [''constructor'', ''__defineGetter__'', ''__defineSetter__'', ''hasOwnProperty'', ''__lookupGetter__'',
      ''__lookupSetter__'', ''isPrototypeOf'', ''propertyIsEnumerable'', ''toString'', ''valueOf'', ''__proto__'',
      ''toLocaleString'']"

definition member :: "(string \<times> 'v) list \<Rightarrow> string \<Rightarrow> 'v member option" where
  "member m k =
     (case map_of m k of
        Some v \<Rightarrow> Some (Own v)
      | None \<Rightarrow> if k \<in> set PROTOTYPE then Some Inherited else None)"

section \<open>The wrapper\<close>

text \<open>\<^verbatim>\<open>s.replace(/c/g, r)\<close>\<close>

definition replace_all :: "char \<Rightarrow> string \<Rightarrow> string \<Rightarrow> string" where
  "replace_all c r s = concat (map (\<lambda>x. if x = c then r else [x]) s)"

definition escaped :: "string \<Rightarrow> string" where
  "escaped t =
     replace_all newline ''<br>'' (replace_all CHR ''>'' ''&gt;'' (replace_all CHR ''<'' ''&lt;''
       (replace_all CHR ''&'' ''&amp;'' t)))"

definition attr :: "string \<Rightarrow> string \<Rightarrow> string" where
  "attr name v = name @ ''='' @ [CHR 0x22] @ v @ [CHR 0x22]"

definition rtl :: "string \<Rightarrow> bool" where
  "rtl language = starts_with language ''ar''"

definition html_head :: "string \<Rightarrow> string" where
  "html_head language =
     ''<!doctype html><html '' @ attr ''lang'' language @ '' '' @ attr ''dir'' (if rtl language then ''rtl'' else ''ltr'') @
     ''><body '' @ attr ''style'' ''margin:0;padding:24px;background:#f6f6f6;font-family:-apple-system,Segoe UI,Roboto,Helvetica,Arial,sans-serif;color:#111'' @
     ''>'' @ [newline] @
     ''<div '' @ attr ''style'' (''max-width:560px;margin:0 auto;background:#fff;border-radius:8px;padding:32px;text-align:'' @
        (if rtl language then ''right'' else ''left'')) @ ''>'' @ [newline] @
     ''<div '' @ attr ''style'' ''font-size:20px;font-weight:600;margin-bottom:24px'' @ ''>SOUQ</div>'' @ [newline] @
     ''<div '' @ attr ''style'' ''font-size:15px;line-height:1.6'' @ ''>''"

definition html_foot :: string where
  "html_foot = ''</div>'' @ [newline] @ ''</div></body></html>''"

definition wrapHtml :: "string \<Rightarrow> string \<Rightarrow> string" where
  "wrapHtml t language = html_head language @ escaped t @ html_foot"

section \<open>Rendering\<close>

datatype render_error = UnknownTemplate string | NotATemplate | InvalidTemplate

record content =
  c_subject :: string
  c_text :: string
  c_html :: string

type_synonym params = "(string \<times> json) list"

text \<open>\<^verbatim>\<open>Mustache.render(template, view, {}, {escape})\<close>, \<^verbatim>\<open>String(v)\<close> and the default escape function.\<close>

record mustache =
  mu_render :: "(json \<Rightarrow> string) \<Rightarrow> string \<Rightarrow> params \<Rightarrow> string"
  mu_string :: "json \<Rightarrow> string"
  mu_escape :: "json \<Rightarrow> string"

text \<open>\<^verbatim>\<open>pick\<close>. An inherited member is not undefined, so it is handed to Mustache, which rejects a template
  that is not a string.\<close>

definition pick :: "string \<Rightarrow> texts \<Rightarrow> render_error + string" where
  "pick language m =
     (case member m language of
        Some (Own t) \<Rightarrow> Inr t
      | Some Inherited \<Rightarrow> Inl InvalidTemplate
      | None \<Rightarrow>
          (case find (\<lambda>(k, t). to_lower (take 2 k) = to_lower (take 2 language)) m of
             Some (k, t) \<Rightarrow> Inr t
           | None \<Rightarrow> (case map_of m ''en-GB'' of Some t \<Rightarrow> Inr t | None \<Rightarrow> Inl InvalidTemplate)))"

definition filled :: "mustache \<Rightarrow> (json \<Rightarrow> string) \<Rightarrow> string \<Rightarrow> params \<Rightarrow> texts \<Rightarrow> render_error + string" where
  "filled mu esc language ps m =
     (case pick language m of Inl e \<Rightarrow> Inl e | Inr t \<Rightarrow> Inr (mu_render mu esc t ps))"

definition render :: "mustache \<Rightarrow> string \<Rightarrow> string \<Rightarrow> params \<Rightarrow> render_error + content" where
  "render mu name language ps =
     (case member TEMPLATES name of
        None \<Rightarrow> Inl (UnknownTemplate name)
      | Some Inherited \<Rightarrow> Inl NotATemplate
      | Some (Own t) \<Rightarrow>
          (case filled mu (mu_string mu) language ps (t_text t) of
             Inl e \<Rightarrow> Inl e
           | Inr body \<Rightarrow>
               (case filled mu (mu_string mu) language ps (t_subject t) of
                  Inl e \<Rightarrow> Inl e
                | Inr subject \<Rightarrow>
                    (case t_html t of
                       None \<Rightarrow> Inr \<lparr>c_subject = subject, c_text = body, c_html = wrapHtml body language\<rparr>
                     | Some m \<Rightarrow>
                         (case filled mu (mu_escape mu) language ps m of
                            Inl e \<Rightarrow> Inl e
                          | Inr html \<Rightarrow> Inr \<lparr>c_subject = subject, c_text = body, c_html = html\<rparr>)))))"

definition templateExists :: "string \<Rightarrow> bool" where
  "templateExists name = (map_of TEMPLATES name \<noteq> None)"

section \<open>Mustache\<close>

text \<open>A template that uses variables only, as its parts: characters and tags.\<close>

datatype part = Ch char | Tag string

fun source :: "part list \<Rightarrow> string" where
  "source [] = []"
| "source (Ch c # ps) = c # source ps"
| "source (Tag k # ps) = ''{{'' @ k @ ''}}'' @ source ps"

definition is_name :: "string \<Rightarrow> bool" where
  "is_name k = (k \<noteq> [] \<and> list_all (\<lambda>c. is_lower c \<or> is_upper c \<or> is_digit c) k)"

fun part_ok :: "part \<Rightarrow> bool" where
  "part_ok (Ch c) = (c \<noteq> CHR ''{'' \<and> c \<noteq> CHR ''}'')"
| "part_ok (Tag k) = is_name k"

text \<open>A tag is replaced by the escaped value of the variable, and by nothing when there is none.\<close>

fun expand :: "(json \<Rightarrow> string) \<Rightarrow> params \<Rightarrow> part \<Rightarrow> string" where
  "expand esc ps (Ch c) = [c]"
| "expand esc ps (Tag k) =
     (case lookup ps k of None \<Rightarrow> [] | Some JNull \<Rightarrow> [] | Some v \<Rightarrow> esc v)"

text \<open>The parts of a template, for the interpretation and for reading the table.\<close>

fun parts :: "string \<Rightarrow> part list" where
  "parts [] = []"
| "parts (c # s) =
     (if c = CHR ''{'' \<and> starts_with s ''{''
      then let k = takeWhile (\<lambda>x. x \<noteq> CHR ''}'') (drop 1 s)
           in Tag k # parts (drop (length k + 3) s)
      else Ch c # parts s)"

definition simple_mustache :: mustache where
  "simple_mustache =
     \<lparr>mu_render = \<lambda>esc t ps. concat (map (expand esc ps) (parts t)),
      mu_string = \<lambda>v. case v of JStr t \<Rightarrow> t | JNum x \<Rightarrow> show_int \<lfloor>x\<rfloor> | _ \<Rightarrow> [],
      mu_escape = \<lambda>v. case v of JStr t \<Rightarrow> escaped t | JNum x \<Rightarrow> show_int \<lfloor>x\<rfloor> | _ \<Rightarrow> []\<rparr>"

text \<open>What a reader of the HTML sees of an escaped text: entities and breaks decoded.\<close>

fun displayed :: "string \<Rightarrow> string" where
  "displayed [] = []"
| "displayed (c # s) =
     (if c = CHR ''&'' \<and> starts_with s ''amp;'' then CHR ''&'' # displayed (drop 4 s)
      else if c = CHR ''&'' \<and> starts_with s ''lt;'' then CHR ''<'' # displayed (drop 3 s)
      else if c = CHR ''&'' \<and> starts_with s ''gt;'' then CHR ''>'' # displayed (drop 3 s)
      else if c = CHR ''<'' \<and> starts_with s ''br>'' then newline # displayed (drop 3 s)
      else c # displayed s)"

section \<open>Lemmas on escaping\<close>

lemma starts_with_more: "starts_with s p \<Longrightarrow> starts_with (s @ t) p"
  by (auto simp: starts_with_iff)

lemma str_includes_append: "str_includes s p \<Longrightarrow> str_includes (s @ t) p"
proof (induction s)
  case Nil
  then show ?case by (cases t) (simp_all add: starts_with_def)
next
  case (Cons c s)
  then show ?case
    using starts_with_more [of "c # s" p t] by auto
qed

lemma replace_all_simps [simp]:
  "replace_all c r [] = []"
  "replace_all c r (x # s) = (if x = c then r else [x]) @ replace_all c r s"
  by (simp_all add: replace_all_def)

lemma replace_all_append [simp]: "replace_all c r (s @ t) = replace_all c r s @ replace_all c r t"
  by (simp add: replace_all_def)

text \<open>The four passes together replace character by character: the ampersands a pass introduces are not
  seen by the later ones.\<close>

lemma escaped_Nil [simp]: "escaped [] = []"
  by (simp add: escaped_def)

lemma escaped_Cons:
  "escaped (c # t) =
     (if c = CHR ''&'' then ''&amp;'' else if c = CHR ''<'' then ''&lt;'' else if c = CHR ''>'' then ''&gt;''
      else if c = newline then ''<br>'' else [c]) @ escaped t"
  by (simp add: escaped_def newline_def)

lemma displayed_plain:
  "c \<noteq> CHR ''&'' \<Longrightarrow> c \<noteq> CHR ''<'' \<Longrightarrow> displayed (c # s) = c # displayed s"
  by simp

lemma displayed_escaped: "displayed (escaped t) = t"
proof (induction t)
  case (Cons c t)
  then show ?case
    by (cases "c = CHR ''&'' \<or> c = CHR ''<'' \<or> c = CHR ''>'' \<or> c = newline")
      (auto simp: escaped_Cons starts_with_def newline_def)
qed simp

lemma escaped_markup:
  assumes "escaped t = u @ CHR ''<'' # v"
  shows "\<exists>v'. v = ''br>'' @ v'"
  using assms
proof (induction t arbitrary: u)
  case (Cons c t)
  let ?e = "if c = CHR ''&'' then ''&amp;'' else if c = CHR ''<'' then ''&lt;'' else if c = CHR ''>'' then ''&gt;''
      else if c = newline then ''<br>'' else [c]"
  have eq: "?e @ escaped t = u @ CHR ''<'' # v"
    using Cons.prems by (simp only: escaped_Cons)
  have inside: "v = ''br>'' @ escaped t" if "?e = u @ CHR ''<'' # w" "v = w @ escaped t" for w
    using that by (auto simp: newline_def Cons_eq_append_conv split: if_splits)
  from eq obtain w where "?e = u @ w \<and> w @ escaped t = CHR ''<'' # v \<or> ?e @ w = u \<and> escaped t = w @ CHR ''<'' # v"
    unfolding append_eq_append_conv2 by blast
  then show ?case
  proof
    assume w: "?e = u @ w \<and> w @ escaped t = CHR ''<'' # v"
    then show ?thesis
      using inside Cons.IH [of "[]"] by (cases w) auto
  qed (use Cons.IH in blast)
qed simp

section \<open>The laws of Mustache\<close>

locale mustache_laws =
  fixes mu :: mustache
  assumes render_parts: "list_all part_ok ps \<Longrightarrow>
    mu_render mu esc (source ps) view = concat (map (expand esc view) ps)"
begin

lemma render_template:
  "source (parts t) = t \<Longrightarrow> list_all part_ok (parts t) \<Longrightarrow>
   mu_render mu esc t view = concat (map (expand esc view) (parts t))"
  using render_parts [of "parts t"] by simp

end

lemma name_no_brace: "is_name k \<Longrightarrow> c \<in> set k \<Longrightarrow> c \<noteq> CHR ''}''"
  by (auto simp: is_name_def list_all_iff is_lower_def is_upper_def is_digit_def in_range_def)

lemma parts_source: "list_all part_ok ps \<Longrightarrow> parts (source ps) = ps"
proof (induction ps rule: source.induct)
  case (3 k ps)
  then have "takeWhile (\<lambda>x. x \<noteq> CHR ''}'') (k @ ''}}'' @ source ps) = k"
    using name_no_brace [of k] by (subst takeWhile_append2) auto
  moreover have "drop (length k + 3) (CHR ''{'' # k @ ''}}'' @ source ps) = source ps"
    by (simp add: numeral_eq_Suc)
  ultimately show ?case
    using 3 by (simp add: starts_with_def Let_def)
qed simp_all

interpretation sm: mustache_laws simple_mustache
  by unfold_locales (simp add: simple_mustache_def parts_source)

section \<open>Lemmas on the table\<close>

lemma templates_bilingual:
  "list_all (\<lambda>(n, t). map fst (t_subject t) = [''en-GB'', ''ar-EG''] \<and> map fst (t_text t) = [''en-GB'', ''ar-EG''] \<and> t_html t = None) TEMPLATES"
  by code_simp

lemma template_bilingual:
  assumes "map_of TEMPLATES name = Some t"
  shows "map fst (t_subject t) = [''en-GB'', ''ar-EG'']" "map fst (t_text t) = [''en-GB'', ''ar-EG'']" "t_html t = None"
  using templates_bilingual map_of_SomeD [OF assms] by (auto simp: list_all_iff)

lemma templates_well_formed:
  "list_all (\<lambda>(n, t). list_all (\<lambda>(l, s). source (parts s) = s \<and> list_all part_ok (parts s)) (t_subject t @ t_text t)) TEMPLATES"
  by code_simp

lemma template_well_formed:
  assumes "map_of TEMPLATES name = Some t" "(l, s) \<in> set (t_subject t) \<union> set (t_text t)"
  shows "source (parts s) = s" "list_all part_ok (parts s)"
  using templates_well_formed map_of_SomeD [OF assms(1)] assms(2) by (fastforce simp: list_all_iff)+

definition language_of :: "string \<Rightarrow> string" where
  "language_of lang = (if to_lower (take 2 lang) = ''ar'' then ''ar-EG'' else ''en-GB'')"

lemma pick_language:
  assumes "map fst m = [''en-GB'', ''ar-EG'']" "lang \<notin> set PROTOTYPE"
  shows "\<exists>t. map_of m (language_of lang) = Some t \<and> pick lang m = Inr t"
proof -
  obtain e a where m: "m = [(''en-GB'', e), (''ar-EG'', a)]"
    using assms(1) by (cases m; cases "tl m") (auto simp: Cons_eq_map_conv)
  have lower: "to_lower ''en'' = ''en''" "to_lower ''ar'' = ''ar''"
    by code_simp+
  show ?thesis
    using assms(2) lower by (auto simp: m pick_def member_def language_of_def)
qed

lemma pick_inherited:
  assumes "map fst m = [''en-GB'', ''ar-EG'']" "lang \<in> set PROTOTYPE"
  shows "pick lang m = Inl InvalidTemplate"
proof -
  have "map_of m lang = None"
    using assms by (auto simp: map_of_eq_None_iff PROTOTYPE_def simp flip: set_map)
  with assms(2) show ?thesis by (simp add: pick_def member_def)
qed

lemma render_own:
  assumes "map_of TEMPLATES name = Some t"
  shows "render mu name lang ps =
    (case pick lang (t_text t) of Inl e \<Rightarrow> Inl e | Inr body \<Rightarrow>
      case pick lang (t_subject t) of Inl e \<Rightarrow> Inl e | Inr subject \<Rightarrow>
        Inr \<lparr>c_subject = mu_render mu (mu_string mu) subject ps, c_text = mu_render mu (mu_string mu) body ps,
             c_html = wrapHtml (mu_render mu (mu_string mu) body ps) lang\<rparr>)"
  using assms template_bilingual(3) [OF assms]
  by (simp add: render_def member_def filled_def split: sum.splits)

lemma template_names_own: "map_of TEMPLATES name = Some t \<Longrightarrow> name \<notin> set PROTOTYPE"
proof -
  have "list_all (\<lambda>(n, t). n \<notin> set PROTOTYPE) TEMPLATES"
    by code_simp
  then show "map_of TEMPLATES name = Some t \<Longrightarrow> name \<notin> set PROTOTYPE"
    by (auto simp: list_all_iff dest!: map_of_SomeD)
qed

lemma render_fails:
  assumes "lang \<in> set PROTOTYPE"
  shows "\<exists>e. render mu name lang ps = Inl e"
proof (cases "map_of TEMPLATES name")
  case (Some t)
  then show ?thesis
    using pick_inherited [OF template_bilingual(2) [OF Some] assms] by (simp add: render_own)
qed (simp add: render_def member_def)

lemma render_returns:
  assumes "map_of TEMPLATES name = Some t" "lang \<notin> set PROTOTYPE"
  obtains body c where "map_of (t_text t) (language_of lang) = Some body"
    "render mu name lang ps = Inr c" "c_text c = mu_render mu (mu_string mu) body ps"
proof -
  obtain body where body: "map_of (t_text t) (language_of lang) = Some body" "pick lang (t_text t) = Inr body"
    using pick_language [OF template_bilingual(2) [OF assms(1)] assms(2)] by blast
  moreover obtain subject where "pick lang (t_subject t) = Inr subject"
    using pick_language [OF template_bilingual(1) [OF assms(1)] assms(2)] by blast
  ultimately have "render mu name lang ps = Inr \<lparr>c_subject = mu_render mu (mu_string mu) subject ps,
      c_text = mu_render mu (mu_string mu) body ps, c_html = wrapHtml (mu_render mu (mu_string mu) body ps) lang\<rparr>"
    by (simp add: render_own [OF assms(1)])
  from that [OF body(1) this] show thesis by simp
qed

section \<open>Properties\<close>

text \<open>A message renders exactly when its template is one of the table's and its locale is not the name of an
  inherited object member; it is then in Arabic when the locale's language is Arabic, in whatever
  region or case, and in English otherwise, every placeholder replaced by its parameter.\<close>

theorem existing_templates_render:
  assumes "mustache_laws mu"
  shows "((\<exists>c. render mu name lang ps = Inr c) \<longleftrightarrow> templateExists name \<and> lang \<notin> set PROTOTYPE) \<and>
    (\<forall>c. render mu name lang ps = Inr c \<longrightarrow> (\<exists>t body. map_of TEMPLATES name = Some t \<and>
      map_of (t_text t) (if to_lower (take 2 lang) = ''ar'' then ''ar-EG'' else ''en-GB'') = Some body \<and>
      c_text c = concat (map (expand (mu_string mu) ps) (parts body))))"
proof (intro conjI allI impI)
  show "(\<exists>c. render mu name lang ps = Inr c) \<longleftrightarrow> templateExists name \<and> lang \<notin> set PROTOTYPE"
  proof (cases "map_of TEMPLATES name")
    case None
    then show ?thesis
      by (simp add: templateExists_def render_def member_def)
  next
    case (Some t)
    then show ?thesis
      using render_fails [of lang mu name ps] render_returns [OF Some, of lang mu ps]
      by (cases "lang \<in> set PROTOTYPE") (fastforce simp: templateExists_def)+
  qed
next
  fix c assume c: "render mu name lang ps = Inr c"
  then have ok: "lang \<notin> set PROTOTYPE"
    using render_fails [of lang mu name ps] by auto
  obtain t where t: "map_of TEMPLATES name = Some t"
    using c by (cases "map_of TEMPLATES name") (auto simp: render_def member_def split: if_splits)
  obtain body where body: "map_of (t_text t) (language_of lang) = Some body" "c_text c = mu_render mu (mu_string mu) body ps"
    using render_returns [OF t ok, of mu ps] c by (metis sum.inject(2))
  then have "c_text c = concat (map (expand (mu_string mu) ps) (parts body))"
    using mustache_laws.render_template [OF assms] template_well_formed [OF t, of "language_of lang" body]
    by (auto dest: map_of_SomeD)
  with t body show "\<exists>t body. map_of TEMPLATES name = Some t \<and>
      map_of (t_text t) (if to_lower (take 2 lang) = ''ar'' then ''ar-EG'' else ''en-GB'') = Some body \<and>
      c_text c = concat (map (expand (mu_string mu) ps) (parts body))"
    unfolding language_of_def by blast
qed

theorem existing_templates_render_witness:
  "\<exists>c. render simple_mustache ''order_delivered'' ''ar'' [(''orderRef'', JStr ''7'')] = Inr c"
proof -
  have "templateExists ''order_delivered''" "''ar'' \<notin> set PROTOTYPE"
    by code_simp+
  with existing_templates_render [OF sm.mustache_laws_axioms] show ?thesis by blast
qed



text \<open>The locale, unlike the text, reaches the HTML unescaped, inside the \<^verbatim>\<open>lang\<close> attribute: one with a quotation
  mark ends the attribute and adds markup of its own to the message, whatever the text.\<close>

theorem locale_injects_markup:
  "\<exists>lang. \<forall>t. str_includes (wrapHtml t lang) (''<html lang='' @ [CHR 0x22, CHR 0x22] @ ''><script>'')"
proof (intro exI allI)
  fix t
  let ?lang = "[CHR 0x22] @ ''><script>''"
  let ?p = "''<html lang='' @ [CHR 0x22, CHR 0x22] @ ''><script>''"
  have "str_includes (html_head ?lang) ?p"
    by code_simp
  then show "str_includes (wrapHtml t ?lang) ?p"
    unfolding wrapHtml_def by (rule str_includes_append)
qed

end
