(* ===== verification/Delivery.thy ===== *)
theory Delivery
  imports Templates Effects
begin

text \<open>
  Delivery of notifications (\<^verbatim>\<open>services/notification-service/src/delivery.ts\<close>, and \<^verbatim>\<open>loadRecipient\<close> of
  \<^verbatim>\<open>index.ts\<close>). Cassandra, SES, SNS and identity-service are parameters: operations on a world \<open>'w\<close> that
  may fail. Between two awaits of one delivery any other delivery may run; \<open>nv_others\<close> stands
  for that. The state carries, besides the world and the recipient cache, the history
  \<open>nt_attempts\<close> of all provider calls with the dedupe key they were made under. No code reads it.
\<close>

section \<open>Data\<close>

record command =
  nc_channel :: string
  nc_userId :: "string option"
  nc_to :: "string option"
  nc_template :: string
  nc_locale :: string
  nc_params :: params
  nc_dedupeKey :: "string option"
  nc_sendAfter :: "string option"

record recipient =
  r_userId :: string
  r_email :: "string option"
  r_phone :: "string option"
  r_locale :: string
  r_emailOptOut :: bool
  r_smsOptOut :: bool
  r_pushOptOut :: bool

datatype suppression = DUPLICATE | OPTED_OUT | NO_ADDRESS | HARD_BOUNCED | QUIET_HOURS | RATE_LIMITED

fun reason_text :: "suppression \<Rightarrow> string" where
  "reason_text DUPLICATE = ''DUPLICATE''"
| "reason_text OPTED_OUT = ''OPTED_OUT''"
| "reason_text NO_ADDRESS = ''NO_ADDRESS''"
| "reason_text HARD_BOUNCED = ''HARD_BOUNCED''"
| "reason_text QUIET_HOURS = ''QUIET_HOURS''"
| "reason_text RATE_LIMITED = ''RATE_LIMITED''"

text \<open>The provider's identifier is absent when the channel is none the switch of \<^verbatim>\<open>send\<close> knows.\<close>

datatype outcome = SENT "string option" | SUPPRESSED suppression | FAILED string bool

definition TRANSACTIONAL :: "string list" where
  "TRANSACTIONAL =
     [''order_confirmed'', ''order_cancelled'', ''payment_failed'', ''payment_refunded'', ''order_shipped'',
      ''order_delivered'', ''password_reset'', ''email_verification'', ''security_alert'']"

record log_row =
  lg_user :: string
  lg_channel :: string
  lg_template :: string
  lg_status :: string
  lg_key :: "string option"
  lg_provider :: "string option"
  lg_error :: "string option"

text \<open>What a provider's client throws: whether it is an \<^verbatim>\<open>Error\<close>, and what \<^verbatim>\<open>isRetriable\<close> reads of it.\<close>

record send_error =
  se_isError :: bool
  se_name :: "string option"
  se_message :: string
  se_status :: "nat option"

datatype delivery_error = DriverError | RenderFailed render_error

datatype identity_reply = IdentityDown | IdentityRefused | Contact recipient

section \<open>State and environment\<close>

type_synonym attempt_log = "(string option \<times> (send_error + string option)) list"

record 'w notify =
  nt_world :: 'w
  nt_cache :: "string \<Rightarrow> (recipient option \<times> millis) option"
  nt_attempts :: attempt_log

record 'w notify_env =
  nv_claim :: "string option \<Rightarrow> string \<Rightarrow> 'w \<Rightarrow> (unit + bool) \<times> 'w"
  nv_release :: "string option \<Rightarrow> 'w \<Rightarrow> (unit + unit) \<times> 'w"
  nv_log :: "log_row \<Rightarrow> 'w \<Rightarrow> (unit + unit) \<times> 'w"
  nv_bounced :: "string \<Rightarrow> 'w \<Rightarrow> (unit + bool) \<times> 'w"
  nv_suppress :: "string option \<Rightarrow> string \<Rightarrow> string \<Rightarrow> 'w \<Rightarrow> (unit + unit) \<times> 'w"
  nv_ses :: "string \<Rightarrow> string \<Rightarrow> content \<Rightarrow> 'w \<Rightarrow> (send_error + string option) \<times> 'w"
  nv_sns :: "string \<Rightarrow> string \<Rightarrow> 'w \<Rightarrow> (send_error + string option) \<times> 'w"
  nv_identity :: "string \<Rightarrow> identity_reply"
  nv_others :: "'w notify \<Rightarrow> 'w notify"
  nv_mustache :: mustache
  nv_from :: string
  nv_now :: millis
  nv_hour :: int

text \<open>One statement executed by Cassandra; the driver throws when the result is \<open>Inl\<close>.\<close>

definition execute :: "'w notify_env \<Rightarrow> ('w \<Rightarrow> (unit + 'a) \<times> 'w) \<Rightarrow> ('w notify, delivery_error, 'a) act" where
  "execute env f s =
     (let s1 = nv_others env s
      in case f (nt_world s1) of
           (Inl u, w) \<Rightarrow> (Inl DriverError, s1\<lparr>nt_world := w\<rparr>)
         | (Inr a, w) \<Rightarrow> (Inr a, s1\<lparr>nt_world := w\<rparr>))"

text \<open>One call of a provider, entered into the history.\<close>

definition provider_call ::
  "'w notify_env \<Rightarrow> string option \<Rightarrow> ('w \<Rightarrow> (send_error + string option) \<times> 'w) \<Rightarrow> ('w notify, send_error, string option) act" where
  "provider_call env k f s =
     (let s1 = nv_others env s
      in case f (nt_world s1) of
           (r, w) \<Rightarrow> (r, s1\<lparr>nt_world := w, nt_attempts := nt_attempts s1 @ [(k, r)]\<rparr>))"

section \<open>Recipients\<close>

definition loadRecipient :: "'w notify_env \<Rightarrow> string \<Rightarrow> ('w notify, 'e, recipient option) act" where
  "loadRecipient env userId s =
     (let hit = nt_cache s userId
      in case hit of
           Some (r, t) \<Rightarrow>
             if nv_now env - t < 60000 then (Inr r, s)
             else (let s1 = nv_others env s
                   in case nv_identity env userId of
                        IdentityDown \<Rightarrow> (Inr r, s1)
                      | IdentityRefused \<Rightarrow> (Inr None, s1\<lparr>nt_cache := (nt_cache s1)(userId \<mapsto> (None, nv_now env))\<rparr>)
                      | Contact c \<Rightarrow> (Inr (Some c), s1\<lparr>nt_cache := (nt_cache s1)(userId \<mapsto> (Some c, nv_now env))\<rparr>))
         | None \<Rightarrow>
             (let s1 = nv_others env s
              in case nv_identity env userId of
                   IdentityDown \<Rightarrow> (Inr None, s1)
                 | IdentityRefused \<Rightarrow> (Inr None, s1\<lparr>nt_cache := (nt_cache s1)(userId \<mapsto> (None, nv_now env))\<rparr>)
                 | Contact c \<Rightarrow> (Inr (Some c), s1\<lparr>nt_cache := (nt_cache s1)(userId \<mapsto> (Some c, nv_now env))\<rparr>)))"

definition addressFor :: "string \<Rightarrow> recipient option \<Rightarrow> string option" where
  "addressFor channel r =
     (case r of
        None \<Rightarrow> None
      | Some c \<Rightarrow> if channel = ''EMAIL'' then r_email c else if channel = ''SMS'' then r_phone c else None)"

definition optedOut :: "string \<Rightarrow> recipient \<Rightarrow> bool" where
  "optedOut channel r =
     (if channel = ''EMAIL'' then r_emailOptOut r
      else if channel = ''SMS'' then r_smsOptOut r
      else if channel = ''PUSH'' then r_pushOptOut r
      else False)"

definition inQuietHours :: "int \<Rightarrow> string \<Rightarrow> bool" where
  "inQuietHours utcHour lang =
     (let offsetHours = (if ends_with lang ''-EG'' \<or> lang = ''ar'' then 2 else 0);
          hour = (utcHour + offsetHours + 24) mod 24
      in 22 \<le> hour \<or> hour < 8)"

section \<open>Cassandra and the providers\<close>

definition claimDedupeKey :: "'w notify_env \<Rightarrow> string option \<Rightarrow> string \<Rightarrow> ('w notify, delivery_error, bool) act" where
  "claimDedupeKey env k channel = execute env (nv_claim env k channel)"

definition releaseDedupeKey :: "'w notify_env \<Rightarrow> string option \<Rightarrow> ('w notify, 'e, unit) act" where
  "releaseDedupeKey env k = attempt (execute env (nv_release env k)) (\<lambda>_. ret ())"

definition hasHardBounced :: "'w notify_env \<Rightarrow> string \<Rightarrow> ('w notify, delivery_error, bool) act" where
  "hasHardBounced env address = execute env (nv_bounced env address)"

definition log_delivery ::
  "'w notify_env \<Rightarrow> command \<Rightarrow> recipient option \<Rightarrow> string \<Rightarrow> string option \<Rightarrow> string option \<Rightarrow> ('w notify, 'e, unit) act" where
  "log_delivery env cmd recipient status providerId err =
     attempt (execute env (nv_log env
         \<lparr>lg_user = nullish (nullish2 (map_option r_userId recipient) (nc_userId cmd)) ''anonymous'',
          lg_channel = nc_channel cmd, lg_template = nc_template cmd, lg_status = status,
          lg_key = nc_dedupeKey cmd, lg_provider = providerId, lg_error = err\<rparr>))
       (\<lambda>_. ret ())"

definition not_implemented :: "string \<Rightarrow> send_error" where
  "not_implemented channel =
     \<lparr>se_isError = True, se_name = Some ''Error'', se_message = channel @ '' delivery is not implemented'', se_status = None\<rparr>"

definition message_id :: "string option \<Rightarrow> string" where
  "message_id x = nullish x ''unknown''"

definition send :: "'w notify_env \<Rightarrow> string option \<Rightarrow> string \<Rightarrow> string \<Rightarrow> content \<Rightarrow> ('w notify, send_error, string option) act" where
  "send env k channel address content =
     (if channel = ''EMAIL''
      then and_then (provider_call env k (nv_ses env (nv_from env) address content)) (\<lambda>i. ret (Some (message_id i)))
      else if channel = ''SMS''
      then and_then (provider_call env k (nv_sns env address (c_text content))) (\<lambda>i. ret (Some (message_id i)))
      else if channel = ''PUSH'' \<or> channel = ''WEBHOOK'' then raise (not_implemented channel)
      else ret None)"

definition isRetriable :: "send_error \<Rightarrow> bool" where
  "isRetriable err =
     (if \<not> se_isError err then False
      else let name = nullish (se_name err) []; message = to_lower (se_message err)
           in if name = ''ThrottlingException'' \<or> name = ''TooManyRequestsException'' then True
              else if str_includes message ''econnrefused'' \<or> str_includes message ''enotfound'' then True
              else if str_includes message ''timeout'' \<or> str_includes message ''etimedout'' then False
              else (case se_status err of None \<Rightarrow> False | Some st \<Rightarrow> 500 \<le> st))"

section \<open>Delivery\<close>

definition suppress ::
  "'w notify_env \<Rightarrow> command \<Rightarrow> recipient option \<Rightarrow> suppression \<Rightarrow> ('w notify, delivery_error, outcome) act" where
  "suppress env cmd recipient reason =
     and_then (log_delivery env cmd recipient ''SUPPRESSED'' None (Some (reason_text reason)))
       (\<lambda>_. ret (SUPPRESSED reason))"

definition send_and_log ::
  "'w notify_env \<Rightarrow> command \<Rightarrow> recipient option \<Rightarrow> string \<Rightarrow> content \<Rightarrow> ('w notify, delivery_error, outcome) act" where
  "send_and_log env cmd recipient address content =
     attempt
       (and_then (send env (nc_dedupeKey cmd) (nc_channel cmd) address content)
          (\<lambda>providerId. and_then (log_delivery env cmd recipient ''SENT'' providerId None) (\<lambda>_. ret (SENT providerId))))
       (\<lambda>err. and_then (log_delivery env cmd recipient ''FAILED'' None (Some (se_message err)))
          (\<lambda>_. and_then (if isRetriable err then releaseDedupeKey env (nc_dedupeKey cmd) else ret ())
             (\<lambda>_. ret (FAILED (se_message err) (isRetriable err)))))"

definition deliver_claimed ::
  "'w notify_env \<Rightarrow> command \<Rightarrow> recipient option \<Rightarrow> ('w notify, delivery_error, outcome) act" where
  "deliver_claimed env cmd recipient =
     (let transactional = nc_template cmd \<in> set TRANSACTIONAL;
          address = nullish2 (nc_to cmd) (addressFor (nc_channel cmd) recipient);
          lang = nullish (map_option r_locale recipient) (nc_locale cmd)
      in if \<not> truthy address then suppress env cmd recipient NO_ADDRESS
         else if \<not> transactional \<and> (case recipient of None \<Rightarrow> False | Some r \<Rightarrow> optedOut (nc_channel cmd) r)
         then suppress env cmd recipient OPTED_OUT
         else if \<not> transactional \<and> nc_channel cmd = ''SMS'' \<and> inQuietHours (nv_hour env) lang
         then suppress env cmd recipient QUIET_HOURS
         else and_then (hasHardBounced env (nullish address []))
           (\<lambda>bounced.
              if bounced then suppress env cmd recipient HARD_BOUNCED
              else (case render (nv_mustache env) (nc_template cmd) lang (nc_params cmd) of
                      Inl e \<Rightarrow> raise (RenderFailed e)
                    | Inr content \<Rightarrow> send_and_log env cmd recipient (nullish address []) content)))"

definition deliver :: "'w notify_env \<Rightarrow> command \<Rightarrow> ('w notify, delivery_error, outcome) act" where
  "deliver env cmd =
     and_then (claimDedupeKey env (nc_dedupeKey cmd) (nc_channel cmd))
       (\<lambda>claimed.
          if \<not> claimed then ret (SUPPRESSED DUPLICATE)
          else and_then
            (if truthy (nc_userId cmd) then loadRecipient env (nullish (nc_userId cmd) []) else ret None)
            (deliver_claimed env cmd))"

end
