(* ===== verification/Delivery_Protocol.thy ===== *)
theory Delivery_Protocol
  imports Delivery
begin

text \<open>
  Why a customer is not told twice. The claims on dedupe keys form a small protocol between any
  number of concurrent deliveries, given here as a step relation; its invariant bounds the provider calls that may
  have been accepted. The locale \<open>keyspace\<close> states what the delivery code relies on: that the
  conditional insert is atomic, and that nothing else touches the keys. Every run of \<open>deliver\<close>, interleaved
  with the others', is then a run of the protocol.
\<close>

section \<open>The protocol\<close>

type_synonym dkey = "string option"

text \<open>A delivery has no claim, holds one, or has called the provider; the flag says whether
  the call failed in a way the code takes to be certainly not accepted.\<close>

datatype phase = Idle | Holding dkey | Tried dkey bool

record protocol =
  pr_keys :: "dkey set"
  pr_phase :: "nat \<Rightarrow> phase"
  pr_calls :: "(dkey \<times> bool) list"

inductive step :: "nat \<Rightarrow> protocol \<Rightarrow> protocol \<Rightarrow> bool" where
  claim: "k \<notin> pr_keys c \<Longrightarrow> pr_phase c n = Idle \<Longrightarrow>
     step n c (c\<lparr>pr_keys := insert k (pr_keys c), pr_phase := (pr_phase c)(n := Holding k)\<rparr>)"
| orphan: "pr_phase c n = Idle \<Longrightarrow> step n c (c\<lparr>pr_keys := insert k (pr_keys c)\<rparr>)"
| call: "pr_phase c n = Holding k \<Longrightarrow>
     step n c (c\<lparr>pr_phase := (pr_phase c)(n := Tried k b), pr_calls := pr_calls c @ [(k, b)]\<rparr>)"
| release: "pr_phase c n = Tried k True \<Longrightarrow>
     step n c (c\<lparr>pr_keys := pr_keys c - {k}, pr_phase := (pr_phase c)(n := Idle)\<rparr>)"
| leave: "step n c (c\<lparr>pr_phase := (pr_phase c)(n := Idle)\<rparr>)"

inductive_cases stepE: "step n c c'"

fun busy :: "phase \<Rightarrow> dkey \<Rightarrow> bool" where
  "busy Idle k = False"
| "busy (Holding k') k = (k' = k)"
| "busy (Tried k' b) k = (k' = k)"

text \<open>A delivery that may still call, or give the key back for another call.\<close>

fun live :: "phase \<Rightarrow> dkey \<Rightarrow> bool" where
  "live Idle k = False"
| "live (Holding k') k = (k' = k)"
| "live (Tried k' b) k = (k' = k \<and> b)"

definition final_calls :: "dkey \<Rightarrow> (dkey \<times> bool) list \<Rightarrow> nat" where
  "final_calls k cs = length (filter (\<lambda>(k', b). k' = k \<and> \<not> b) cs)"

definition protocol_inv :: "protocol \<Rightarrow> bool" where
  "protocol_inv c =
     ((\<forall>n k. busy (pr_phase c n) k \<longrightarrow> k \<in> pr_keys c) \<and>
      (\<forall>n m k. busy (pr_phase c n) k \<longrightarrow> busy (pr_phase c m) k \<longrightarrow> n = m) \<and>
      (\<forall>k. k \<notin> pr_keys c \<longrightarrow> final_calls k (pr_calls c) = 0) \<and>
      (\<forall>n k. live (pr_phase c n) k \<longrightarrow> final_calls k (pr_calls c) = 0) \<and>
      (\<forall>k. final_calls k (pr_calls c) \<le> 1))"

lemma final_calls_snoc [simp]:
  "final_calls k (cs @ [(k', b)]) = final_calls k cs + (if k' = k \<and> \<not> b then 1 else 0)"
  by (simp add: final_calls_def)

lemma live_busy: "live p k \<Longrightarrow> busy p k"
  by (cases p) simp_all

lemma protocol_invD:
  assumes "protocol_inv c"
  shows "busy (pr_phase c n) k \<Longrightarrow> k \<in> pr_keys c"
    and "busy (pr_phase c n) k \<Longrightarrow> busy (pr_phase c m) k \<Longrightarrow> n = m"
    and "k \<notin> pr_keys c \<Longrightarrow> final_calls k (pr_calls c) = 0"
    and "live (pr_phase c n) k \<Longrightarrow> final_calls k (pr_calls c) = 0"
    and "final_calls k (pr_calls c) \<le> 1"
  using assms unfolding protocol_inv_def by blast+

lemma step_inv:
  assumes "step n c c'" "protocol_inv c"
  shows "protocol_inv c'"
  using assms(1)
proof cases
  case (claim k)
  then show ?thesis
    using protocol_invD [OF assms(2)] unfolding protocol_inv_def by (auto split: if_splits)
next
  case (orphan k)
  then show ?thesis
    using protocol_invD [OF assms(2)] unfolding protocol_inv_def by auto
next
  case (call k b)
  then have none: "final_calls k (pr_calls c) = 0" and mine: "busy (pr_phase c n) k"
    using protocol_invD(4) [OF assms(2), of n k] by simp_all
  have same: "busy (pr_phase c' m) k' = busy (pr_phase c m) k'" for m k'
    using call by simp
  have quiet: "final_calls k' (pr_calls c') = 0" if "live (pr_phase c' m) k'" for m k'
  proof (cases "m = n")
    case True
    with that call none show ?thesis by simp
  next
    case False
    with that call have "live (pr_phase c m) k'" by simp
    with False mine have "final_calls k' (pr_calls c) = 0" "k' \<noteq> k"
      using protocol_invD(2) [OF assms(2), of n k m] protocol_invD(4) [OF assms(2)] live_busy by blast+
    with call show ?thesis by simp
  qed
  have at_most: "final_calls k' (pr_calls c') \<le> 1" for k'
    using call none protocol_invD(5) [OF assms(2), of k'] by (cases "k' = k") simp_all
  have "k \<in> pr_keys c"
    by (rule protocol_invD(1) [OF assms(2) mine])
  then have "final_calls k' (pr_calls c') = 0" if "k' \<notin> pr_keys c'" for k'
    using call that protocol_invD(3) [OF assms(2), of k'] by auto
  with quiet at_most protocol_invD(1,2) [OF assms(2)] show ?thesis
    unfolding protocol_inv_def same using call by auto
next
  case (release k)
  then have "final_calls k (pr_calls c) = 0" and mine: "busy (pr_phase c n) k"
    using protocol_invD(4) [OF assms(2), of n k] by simp_all
  with release protocol_invD [OF assms(2)] show ?thesis
    unfolding protocol_inv_def by (auto split: if_splits)
next
  case leave
  then show ?thesis
    using protocol_invD [OF assms(2)] unfolding protocol_inv_def by (auto split: if_splits)
qed

section \<open>The keyspace\<close>

definition was_retriable :: "send_error + string option \<Rightarrow> bool" where
  "was_retriable r = (case r of Inl e \<Rightarrow> isRetriable e | Inr i \<Rightarrow> False)"

definition calls_of :: "attempt_log \<Rightarrow> (dkey \<times> bool) list" where
  "calls_of = map (\<lambda>(k, r). (k, was_retriable r))"

text \<open>The steps the other deliveries take while delivery \<open>n\<close> waits.\<close>

definition others_step :: "nat \<Rightarrow> protocol \<Rightarrow> protocol \<Rightarrow> bool" where
  "others_step n = (\<lambda>c c'. \<exists>m. m \<noteq> n \<and> step m c c')\<^sup>*\<^sup>*"

definition view :: "('w \<Rightarrow> dkey set) \<Rightarrow> (nat \<Rightarrow> phase) \<Rightarrow> 'w notify \<Rightarrow> protocol" where
  "view taken ph s = \<lparr>pr_keys = taken (nt_world s), pr_phase = ph, pr_calls = calls_of (nt_attempts s)\<rparr>"

locale keyspace =
  fixes env :: "'w notify_env" and taken :: "'w \<Rightarrow> dkey set"
  assumes claim_applied: "nv_claim env k ch w = (Inr True, w') \<Longrightarrow> k \<notin> taken w \<and> taken w' = insert k (taken w)"
    and claim_refused: "nv_claim env k ch w = (Inr False, w') \<Longrightarrow> taken w' = taken w"
    and claim_failed: "nv_claim env k ch w = (Inl u, w') \<Longrightarrow> taken w' = taken w \<or> taken w' = insert k (taken w)"
    and release_applied: "nv_release env k w = (Inr u, w') \<Longrightarrow> taken w' = taken w - {k}"
    and release_failed: "nv_release env k w = (Inl u, w') \<Longrightarrow> taken w' = taken w \<or> taken w' = taken w - {k}"
    and log_taken: "taken (snd (nv_log env row w)) = taken w"
    and bounced_taken: "taken (snd (nv_bounced env a w)) = taken w"
    and ses_taken: "taken (snd (nv_ses env f a co w)) = taken w"
    and sns_taken: "taken (snd (nv_sns env a t w)) = taken w"
text \<open>The other deliveries follow the protocol.\<close>

definition others_follow :: "'w notify_env \<Rightarrow> ('w \<Rightarrow> dkey set) \<Rightarrow> nat \<Rightarrow> bool" where
  "others_follow env taken n = (\<forall>s ph. \<exists>ph'. others_step n (view taken ph s) (view taken ph' (nv_others env s)))"

lemma step_phase: "step m c c' \<Longrightarrow> m \<noteq> n \<Longrightarrow> pr_phase c' n = pr_phase c n"
  by (cases rule: step.cases) auto

lemma others_step_inv:
  assumes "others_step n c c'" "protocol_inv c"
  shows "protocol_inv c' \<and> pr_phase c' n = pr_phase c n"
  using assms unfolding others_step_def
  by (induction rule: rtranclp_induct) (auto simp: step_phase intro: step_inv)

lemma follow_inv:
  assumes "others_follow env taken n" "protocol_inv (view taken ph s)"
  obtains ph' where "protocol_inv (view taken ph' (nv_others env s))" "ph' n = ph n"
proof -
  obtain ph' where "others_step n (view taken ph s) (view taken ph' (nv_others env s))"
    using assms(1) unfolding others_follow_def by blast
  from others_step_inv [OF this assms(2)] show thesis
    by (intro that [of ph']) (simp_all add: view_def)
qed

text \<open>Triples: started in phase \<open>p\<close> with the invariant, an action ends with it in a phase that its result allows.\<close>

definition proto :: "('w \<Rightarrow> dkey set) \<Rightarrow> nat \<Rightarrow> phase \<Rightarrow> ('w notify, 'e, 'a) act \<Rightarrow> ('e + 'a \<Rightarrow> phase \<Rightarrow> bool) \<Rightarrow> bool" where
  "proto taken n p m Q =
     (\<forall>s ph. protocol_inv (view taken ph s) \<longrightarrow> ph n = p \<longrightarrow>
        (\<exists>ph'. protocol_inv (view taken ph' (snd (m s))) \<and> Q (fst (m s)) (ph' n)))"

named_theorems proto_rules

lemma proto_ret [proto_rules]: "Q (Inr a) p \<Longrightarrow> proto taken n p (ret a) Q"
  by (auto simp: proto_def)

lemma proto_raise [proto_rules]: "Q (Inl e) p \<Longrightarrow> proto taken n p (raise e) Q"
  by (auto simp: proto_def)

lemma proto_and_then:
  assumes "proto taken n p m Q" "\<And>a p'. Q (Inr a) p' \<Longrightarrow> proto taken n p' (k a) R"
    and "\<And>e p'. Q (Inl e) p' \<Longrightarrow> R (Inl e) p'"
  shows "proto taken n p (and_then m k) R"
  unfolding proto_def
proof (intro allI impI)
  fix s ph assume "protocol_inv (view taken ph s)" "ph n = p"
  then obtain ph' where ph': "protocol_inv (view taken ph' (snd (m s)))" "Q (fst (m s)) (ph' n)"
    using assms(1) unfolding proto_def by blast
  obtain r s' where ms: "m s = (r, s')" by (cases "m s")
  show "\<exists>ph'. protocol_inv (view taken ph' (snd (and_then m k s))) \<and> R (fst (and_then m k s)) (ph' n)"
  proof (cases r)
    case (Inl e)
    with ph' ms assms(3) show ?thesis by (auto simp: and_then_def)
  next
    case (Inr a)
    with ph' ms assms(2) [of a "ph' n"] show ?thesis by (simp add: and_then_def proto_def)
  qed
qed

lemma proto_attempt:
  assumes "proto taken n p m Q" "\<And>e p'. Q (Inl e) p' \<Longrightarrow> proto taken n p' (h e) R"
    and "\<And>a p'. Q (Inr a) p' \<Longrightarrow> R (Inr a) p'"
  shows "proto taken n p (attempt m h) R"
  unfolding proto_def
proof (intro allI impI)
  fix s ph assume "protocol_inv (view taken ph s)" "ph n = p"
  then obtain ph' where ph': "protocol_inv (view taken ph' (snd (m s)))" "Q (fst (m s)) (ph' n)"
    using assms(1) unfolding proto_def by blast
  obtain r s' where ms: "m s = (r, s')" by (cases "m s")
  show "\<exists>ph'. protocol_inv (view taken ph' (snd (attempt m h s))) \<and> R (fst (attempt m h s)) (ph' n)"
  proof (cases r)
    case (Inl e)
    with ph' ms assms(2) [of e "ph' n"] show ?thesis by (simp add: attempt_def proto_def)
  next
    case (Inr a)
    with ph' ms assms(3) show ?thesis by (auto simp: attempt_def)
  qed
qed

lemma proto_weaken: "proto taken n p m Q \<Longrightarrow> (\<And>r p'. Q r p' \<Longrightarrow> R r p') \<Longrightarrow> proto taken n p m R"
  unfolding proto_def by blast

text \<open>One statement of Cassandra, as a step of the protocol.\<close>

lemma proto_execute_step:
  assumes follow: "others_follow env taken n"
    and "\<And>ph w r w' A. ph n = p \<Longrightarrow> f w = (r, w') \<Longrightarrow>
      \<exists>p'. (step n \<lparr>pr_keys = taken w, pr_phase = ph, pr_calls = A\<rparr> \<lparr>pr_keys = taken w', pr_phase = ph(n := p'), pr_calls = A\<rparr>
            \<or> taken w' = taken w \<and> p' = p) \<and> Q (case r of Inl u \<Rightarrow> Inl DriverError | Inr a \<Rightarrow> Inr a) p'"
  shows "proto taken n p (execute env f) Q"
  unfolding proto_def
proof (intro allI impI)
  fix s ph assume inv: "protocol_inv (view taken ph s)" and p: "ph n = p"
  obtain ph1 where inv1: "protocol_inv (view taken ph1 (nv_others env s))" and p1: "ph1 n = p"
    using follow_inv [OF follow inv] p by metis
  obtain r w where f: "f (nt_world (nv_others env s)) = (r, w)" by fastforce
  have run: "snd (execute env f s) = (nv_others env s)\<lparr>nt_world := w\<rparr>"
    "fst (execute env f s) = (case r of Inl u \<Rightarrow> Inl DriverError | Inr a \<Rightarrow> Inr a)"
    using f by (simp_all add: execute_def Let_def split: sum.splits)
  from assms(2) [of ph1 "nt_world (nv_others env s)" r w "calls_of (nt_attempts (nv_others env s))", OF p1 f] obtain p' where
    st: "step n (view taken ph1 (nv_others env s)) (view taken (ph1(n := p')) (snd (execute env f s)))
      \<or> taken w = taken (nt_world (nv_others env s)) \<and> p' = p" and Q: "Q (fst (execute env f s)) p'"
    unfolding run by (auto simp: view_def)
  have "protocol_inv (view taken (ph1(n := p')) (snd (execute env f s)))"
    using st
  proof
    assume "taken w = taken (nt_world (nv_others env s)) \<and> p' = p"
    with inv1 p1 show ?thesis by (auto simp: view_def run fun_upd_idem)
  qed (rule step_inv [OF _ inv1])
  with Q show "\<exists>ph'. protocol_inv (view taken ph' (snd (execute env f s))) \<and> Q (fst (execute env f s)) (ph' n)"
    by (intro exI [of _ "ph1(n := p')"]) simp
qed

lemma proto_execute:
  assumes "others_follow env taken n" "\<And>w. taken (snd (f w)) = taken w"
  shows "proto taken n p (execute env f) (\<lambda>r p'. p' = p)"
proof (rule proto_execute_step [OF assms(1)])
  fix ph w r w' A assume "f w = (r, w')"
  with assms(2) [of w] show "\<exists>p'. (step n \<lparr>pr_keys = taken w, pr_phase = ph, pr_calls = A\<rparr>
        \<lparr>pr_keys = taken w', pr_phase = ph(n := p'), pr_calls = A\<rparr> \<or> taken w' = taken w \<and> p' = p) \<and> p' = p"
    by simp
qed

lemma proto_loadRecipient:
  fixes taken :: "'w \<Rightarrow> dkey set"
  assumes "others_follow env taken n"
  shows "proto taken n p (loadRecipient env u :: ('w notify, 'e, recipient option) act) (\<lambda>r p'. p' = p)"
  unfolding proto_def
proof (intro allI impI)
  fix s ph assume inv: "protocol_inv (view taken ph s)" and p: "ph n = p"
  obtain ph1 where inv1: "protocol_inv (view taken ph1 (nv_others env s))" and p1: "ph1 n = p"
    using follow_inv [OF assms inv] p by metis
  let ?t = "snd ((loadRecipient env u :: ('w notify, 'e, recipient option) act) s)"
  have "nt_world ?t = nt_world s \<and> nt_attempts ?t = nt_attempts s \<or>
      nt_world ?t = nt_world (nv_others env s) \<and> nt_attempts ?t = nt_attempts (nv_others env s)"
    by (simp add: loadRecipient_def Let_def split: option.split prod.split identity_reply.split)
  then show "\<exists>ph'. protocol_inv (view taken ph' ?t) \<and> ph' n = p"
    using inv inv1 p p1 by (auto simp: view_def)
qed

lemma proto_provider_call:
  assumes "others_follow env taken n" "\<And>w. taken (snd (f w)) = taken w"
  shows "proto taken n (Holding k) (provider_call env k f) (\<lambda>r p'. p' = Tried k (was_retriable r))"
  unfolding proto_def
proof (intro allI impI)
  fix s ph assume inv: "protocol_inv (view taken ph s)" and p: "ph n = Holding k"
  obtain ph1 where inv1: "protocol_inv (view taken ph1 (nv_others env s))" and p1: "ph1 n = Holding k"
    using follow_inv [OF assms(1) inv] p by metis
  obtain r w where f: "f (nt_world (nv_others env s)) = (r, w)" by fastforce
  let ?ph = "ph1(n := Tried k (was_retriable r))"
  have "view taken ?ph (snd (provider_call env k f s)) = (view taken ph1 (nv_others env s))
      \<lparr>pr_phase := ?ph, pr_calls := pr_calls (view taken ph1 (nv_others env s)) @ [(k, was_retriable r)]\<rparr>"
    using assms(2) [of "nt_world (nv_others env s)"] f
    by (simp add: provider_call_def Let_def view_def calls_of_def)
  moreover have "step n (view taken ph1 (nv_others env s)) ((view taken ph1 (nv_others env s))
      \<lparr>pr_phase := (pr_phase (view taken ph1 (nv_others env s)))(n := Tried k (was_retriable r)),
       pr_calls := pr_calls (view taken ph1 (nv_others env s)) @ [(k, was_retriable r)]\<rparr>)"
    by (rule step.call) (simp add: view_def p1)
  ultimately have "protocol_inv (view taken ?ph (snd (provider_call env k f s)))"
    using step_inv [OF _ inv1] by (simp add: view_def)
  then show "\<exists>ph'. protocol_inv (view taken ph' (snd (provider_call env k f s))) \<and>
      ph' n = Tried k (was_retriable (fst (provider_call env k f s)))"
    using f by (intro exI [of _ ?ph]) (simp add: provider_call_def Let_def)
qed

context keyspace
begin

lemma proto_claim:
  assumes "others_follow env taken n"
  shows "proto taken n Idle (claimDedupeKey env k ch) (\<lambda>r p'. p' = (if r = Inr True then Holding k else Idle))"
  unfolding claimDedupeKey_def
proof (rule proto_execute_step [OF assms])
  fix ph :: "nat \<Rightarrow> phase" and w r w' A
  assume ph: "ph n = Idle" and run: "nv_claim env k ch w = (r, w')"
  let ?c = "\<lparr>pr_keys = taken w, pr_phase = ph, pr_calls = A\<rparr>"
  have claim: "step n ?c \<lparr>pr_keys = insert k (taken w), pr_phase = ph(n := Holding k), pr_calls = A\<rparr>" if "k \<notin> taken w"
    using step.claim [of k ?c n] ph that by simp
  have orphan: "step n ?c \<lparr>pr_keys = insert k (taken w), pr_phase = ph(n := Idle), pr_calls = A\<rparr>"
    using step.orphan [of ?c n k] ph by (simp add: fun_upd_idem)
  show "\<exists>p'. (step n ?c \<lparr>pr_keys = taken w', pr_phase = ph(n := p'), pr_calls = A\<rparr> \<or> taken w' = taken w \<and> p' = Idle) \<and>
      p' = (if (case r of Inl u \<Rightarrow> Inl DriverError | Inr a \<Rightarrow> Inr a) = Inr True then Holding k else Idle)"
  proof (cases r)
    case (Inl u)
    with claim_failed [of k ch w u w'] run orphan show ?thesis by auto
  next
    case (Inr a)
    then show ?thesis
      using claim_applied [of k ch w w'] claim_refused [of k ch w w'] run claim by (cases a) auto
  qed
qed

lemma proto_release:
  assumes "others_follow env taken n"
  shows "proto taken n (Tried k True) (releaseDedupeKey env k) (\<lambda>r p'. p' = Idle)"
  unfolding releaseDedupeKey_def
proof (rule proto_attempt [where Q = "\<lambda>r p'. p' = Idle"])
  show "proto taken n (Tried k True) (execute env (nv_release env k)) (\<lambda>r p'. p' = Idle)"
  proof (rule proto_execute_step [OF assms])
    fix ph :: "nat \<Rightarrow> phase" and w r w' A
    assume ph: "ph n = Tried k True" and run: "nv_release env k w = (r, w')"
    let ?c = "\<lparr>pr_keys = taken w, pr_phase = ph, pr_calls = A\<rparr>"
    have "step n ?c \<lparr>pr_keys = taken w - {k}, pr_phase = ph(n := Idle), pr_calls = A\<rparr>"
      using step.release [of ?c n k] ph by simp
    moreover have "step n ?c \<lparr>pr_keys = taken w, pr_phase = ph(n := Idle), pr_calls = A\<rparr>"
      using step.leave [of n ?c] by simp
    moreover have "taken w' = taken w \<or> taken w' = taken w - {k}"
    proof (cases r)
      case (Inl u)
      with run show ?thesis by (intro release_failed) simp
    next
      case (Inr u)
      with run have "taken w' = taken w - {k}" by (intro release_applied) simp
      then show ?thesis ..
    qed
    ultimately have "step n ?c \<lparr>pr_keys = taken w', pr_phase = ph(n := Idle), pr_calls = A\<rparr>"
      by metis
    then show "\<exists>p'. (step n ?c \<lparr>pr_keys = taken w', pr_phase = ph(n := p'), pr_calls = A\<rparr> \<or>
        taken w' = taken w \<and> p' = Tried k True) \<and> p' = Idle"
      by blast
  qed
qed (simp_all add: proto_ret)

lemma proto_log:
  assumes "others_follow env taken n"
  shows "proto taken n p (log_delivery env cmd rc st pid err) (\<lambda>r p'. r = Inr () \<and> p' = p)"
proof -
  have "proto taken n p (execute env (nv_log env row)) (\<lambda>r p'. p' = p)" for row
    by (rule proto_execute [OF assms]) (rule log_taken)
  then show ?thesis
    unfolding log_delivery_def by (rule proto_attempt) (simp_all add: proto_ret)
qed

text \<open>After a failure the code takes to be retriable, the key is still this delivery's.\<close>

lemma proto_send:
  assumes "others_follow env taken n"
  shows "proto taken n (Holding k) (send env k ch a co) (\<lambda>r p'. \<forall>e. r = Inl e \<longrightarrow> isRetriable e \<longrightarrow> p' = Tried k True)"
proof -
  let ?Q = "\<lambda>(r :: send_error + string option) p'. \<forall>e. r = Inl e \<longrightarrow> isRetriable e \<longrightarrow> p' = Tried k True"
  have call: "proto taken n (Holding k) (and_then (provider_call env k f) (\<lambda>i. ret (Some (message_id i)))) ?Q"
    if "\<And>w. taken (snd (f w)) = taken w" for f
    by (rule proto_and_then [OF proto_provider_call [OF assms that]]) (auto intro: proto_ret simp: was_retriable_def)
  have "\<not> isRetriable (not_implemented ''PUSH'')" "\<not> isRetriable (not_implemented ''WEBHOOK'')"
    by code_simp+
  then have none: "proto taken n (Holding k) (raise (not_implemented ch)) ?Q" if "ch = ''PUSH'' \<or> ch = ''WEBHOOK''"
    using that by (auto intro: proto_raise)
  have ses: "proto taken n (Holding k) (and_then (provider_call env k (nv_ses env (nv_from env) a co)) (\<lambda>i. ret (Some (message_id i)))) ?Q"
    by (rule call) (rule ses_taken)
  have sns: "proto taken n (Holding k) (and_then (provider_call env k (nv_sns env a (c_text co))) (\<lambda>i. ret (Some (message_id i)))) ?Q"
    by (rule call) (rule sns_taken)
  show ?thesis
    unfolding send_def using ses sns none by (simp add: proto_ret)
qed

lemma proto_send_and_log:
  assumes follow: "others_follow env taken n" and k: "nc_dedupeKey cmd = k"
  shows "proto taken n (Holding k) (send_and_log env cmd rc a co) (\<lambda>r p'. True)"
proof -
  let ?Q = "\<lambda>(r :: send_error + outcome) p'. \<forall>e. r = Inl e \<longrightarrow> isRetriable e \<longrightarrow> p' = Tried k True"
  have "proto taken n (Holding k) (and_then (send env k (nc_channel cmd) a co)
      (\<lambda>i. and_then (log_delivery env cmd rc ''SENT'' i None) (\<lambda>_. ret (SENT i)))) ?Q"
    by (rule proto_and_then [OF proto_send [OF follow]], rule proto_and_then [OF proto_log [OF follow]])
      (auto intro: proto_ret)
  moreover have "proto taken n p' (and_then (log_delivery env cmd rc ''FAILED'' None (Some (se_message err)))
      (\<lambda>_. and_then (if isRetriable err then releaseDedupeKey env k else ret ())
         (\<lambda>_. ret (FAILED (se_message err) (isRetriable err))))) (\<lambda>r p'. True)"
    if "?Q (Inl err) p'" for err p'
  proof (rule proto_and_then [OF proto_log [OF follow]])
    fix u and q :: phase assume q: "Inr u = Inr () \<and> q = p'"
    have "proto taken n q (if isRetriable err then releaseDedupeKey env k else ret ()) (\<lambda>r p. True)"
      using that q by (auto intro: proto_ret proto_weaken [OF proto_release [OF follow]])
    then show "proto taken n q (and_then (if isRetriable err then releaseDedupeKey env k else ret ())
        (\<lambda>_. ret (FAILED (se_message err) (isRetriable err)))) (\<lambda>r p'. True)"
      by (rule proto_and_then) (simp_all add: proto_ret)
  qed simp
  ultimately show ?thesis
    unfolding send_and_log_def k by (rule proto_attempt) simp_all
qed

lemma proto_suppress:
  assumes "others_follow env taken n"
  shows "proto taken n p (suppress env cmd rc q) (\<lambda>r p'. True)"
  unfolding suppress_def
  by (rule proto_and_then [OF proto_log [OF assms]]) (simp_all add: proto_ret)

lemma proto_deliver:
  assumes follow: "others_follow env taken n"
  shows "proto taken n Idle (deliver env cmd) (\<lambda>r p'. True)"
proof -
  let ?k = "nc_dedupeKey cmd"
  have bounced: "proto taken n (Holding ?k) (hasHardBounced env a) (\<lambda>r p'. p' = Holding ?k)" for a
    unfolding hasHardBounced_def by (rule proto_execute [OF follow]) (rule bounced_taken)
  have checked: "proto taken n (Holding ?k) (and_then (hasHardBounced env a)
      (\<lambda>b. if b then suppress env cmd rc HARD_BOUNCED
           else (case x of Inl e \<Rightarrow> raise (RenderFailed e) | Inr co \<Rightarrow> send_and_log env cmd rc a co))) (\<lambda>r p'. True)" for a rc x
    by (rule proto_and_then [OF bounced])
      (auto intro: proto_suppress [OF follow] proto_raise proto_send_and_log [OF follow refl] split: sum.splits)
  have claimed: "proto taken n (Holding ?k) (deliver_claimed env cmd rc) (\<lambda>r p'. True)" for rc
    unfolding deliver_claimed_def Let_def using checked proto_suppress [OF follow] by simp
  have load: "proto taken n (Holding ?k) (if truthy (nc_userId cmd) then loadRecipient env u else ret None)
      (\<lambda>(r :: delivery_error + recipient option) p'. p' = Holding ?k)" for u
    by (simp add: proto_ret proto_loadRecipient [OF follow])
  have holding: "proto taken n (Holding ?k) (and_then (if truthy (nc_userId cmd) then loadRecipient env u else ret None)
      (deliver_claimed env cmd)) (\<lambda>r p'. True)" for u
    by (rule proto_and_then [OF load]) (simp_all add: claimed)
  show ?thesis
    unfolding deliver_def
  proof (rule proto_and_then [OF proto_claim [OF follow]])
    fix c q assume "q = (if (Inr c :: delivery_error + bool) = Inr True then Holding ?k else Idle)"
    then show "proto taken n q (if \<not> c then ret (SUPPRESSED DUPLICATE)
        else and_then (if truthy (nc_userId cmd) then loadRecipient env (nullish (nc_userId cmd) []) else ret None)
          (deliver_claimed env cmd)) (\<lambda>r p'. True)"
      using holding [of "nullish (nc_userId cmd) []"] by (cases c) (simp_all add: proto_ret)
  qed simp
qed

end

section \<open>A memory keyspace\<close>

text \<open>Tables as lists, and providers that accept everything into an outbox; for the witnesses.\<close>

record mem_keyspace =
  mk_dedupe :: "dkey list"
  mk_log :: "log_row list"
  mk_suppressed :: "(string \<times> string \<times> string) list"
  mk_outbox :: "(string \<times> string) list"

definition mem_notify_env :: "mem_keyspace notify_env" where
  "mem_notify_env =
     \<lparr>nv_claim = (\<lambda>k ch w. case k of
          None \<Rightarrow> (Inl (), w)
        | Some _ \<Rightarrow> if k \<in> set (mk_dedupe w) then (Inr False, w) else (Inr True, w\<lparr>mk_dedupe := k # mk_dedupe w\<rparr>)),
      nv_release = (\<lambda>k w. (Inr (), w\<lparr>mk_dedupe := removeAll k (mk_dedupe w)\<rparr>)),
      nv_log = (\<lambda>row w. (Inr (), w\<lparr>mk_log := row # mk_log w\<rparr>)),
      nv_bounced = (\<lambda>a w. (Inr (a \<in> fst ` set (mk_suppressed w)), w)),
      nv_suppress = (\<lambda>a why detail w. case a of
          None \<Rightarrow> (Inl (), w)
        | Some x \<Rightarrow> (Inr (), w\<lparr>mk_suppressed := (x, why, detail) # mk_suppressed w\<rparr>)),
      nv_ses = (\<lambda>from a co w. (Inr (Some ''m1''), w\<lparr>mk_outbox := (a, c_subject co) # mk_outbox w\<rparr>)),
      nv_sns = (\<lambda>a t w. (Inr (Some ''m2''), w\<lparr>mk_outbox := (a, t) # mk_outbox w\<rparr>)),
      nv_identity = (\<lambda>u. IdentityRefused),
      nv_others = (\<lambda>s. s), nv_mustache = simple_mustache, nv_from = ''no-reply@souq.dev'', nv_now = 0, nv_hour = 12\<rparr>"

definition mem_notify :: "mem_keyspace notify" where
  "mem_notify = \<lparr>nt_world = \<lparr>mk_dedupe = [], mk_log = [], mk_suppressed = [], mk_outbox = []\<rparr>,
     nt_cache = (\<lambda>_. None), nt_attempts = []\<rparr>"

definition sample_command :: command where
  "sample_command = \<lparr>nc_channel = ''EMAIL'', nc_userId = None, nc_to = Some ''a@souq.dev'', nc_template = ''order_delivered'',
     nc_locale = ''en-GB'', nc_params = [(''orderRef'', JStr ''7'')], nc_dedupeKey = Some ''k'', nc_sendAfter = None\<rparr>"

interpretation mem_keys: keyspace mem_notify_env "\<lambda>w. set (mk_dedupe w)"
  by unfold_locales (auto simp: mem_notify_env_def split: option.splits if_splits)

lemma quiet_follow: "nv_others env = (\<lambda>s. s) \<Longrightarrow> others_follow env taken n"
  unfolding others_follow_def others_step_def by (auto intro: rtranclp.rtrancl_refl)

section \<open>Sequences of deliveries\<close>

fun run_deliveries :: "('w notify_env \<times> command) list \<Rightarrow> 'w notify \<Rightarrow> 'w notify" where
  "run_deliveries [] s = s"
| "run_deliveries ((env, cmd) # ds) s = run_deliveries ds (snd (deliver env cmd s))"

lemma run_deliveries_inv:
  assumes "\<forall>(env, cmd)\<in>set ds. keyspace env taken \<and> others_follow env taken n"
    and "protocol_inv (view taken ph s)" "ph n = Idle"
  shows "\<exists>ph'. protocol_inv (view taken ph' (run_deliveries ds s))"
  using assms
proof (induction ds arbitrary: s ph)
  case (Cons d ds)
  obtain env cmd where d: "d = (env, cmd)" by (cases d)
  with Cons.prems have "proto taken n Idle (deliver env cmd) (\<lambda>r p'. True)"
    by (auto intro: keyspace.proto_deliver)
  then obtain ph1 where "protocol_inv (view taken ph1 (snd (deliver env cmd s)))"
    using Cons.prems(2,3) unfolding proto_def by blast
  from step_inv [OF step.leave [of n] this]
  have left: "protocol_inv (view taken (ph1(n := Idle)) (snd (deliver env cmd s)))"
    by (simp add: view_def)
  have "\<forall>(env, cmd)\<in>set ds. keyspace env taken \<and> others_follow env taken n"
    using Cons.prems(1) by simp
  from Cons.IH [OF this left fun_upd_same] show ?case
    by (simp add: d)
qed auto

lemma calls_of_final:
  "final_calls k (calls_of as) = length (filter (\<lambda>(k', r). k' = k \<and> \<not> was_retriable r) as)"
  by (induction as) (auto simp: calls_of_def final_calls_def)

section \<open>Properties\<close>



end
