(* ===== verification/Notification_Consumer.thy ===== *)
theory Notification_Consumer
  imports Delivery_Protocol Http
begin

text \<open>
  The edges of notification-service (\<^verbatim>\<open>services/notification-service/src/index.ts\<close>): the mapping of events to
  notifications, the Kafka consumer, the SES webhook and the query of the delivery log. The
  properties: consent is respected, a bounced address is not written to again, and the
  situations in which a notification is lost.

  Fields of an event that are not of the type the code annotates are read as absent. Not modelled: client
  configuration, metrics, and start-up and shutdown.
\<close>

section \<open>Events to commands\<close>

text \<open>An undefined parameter renders like a missing one.\<close>

definition opt_param :: "string \<Rightarrow> json option \<Rightarrow> params" where
  "opt_param k v = (case v of None \<Rightarrow> [] | Some j \<Rightarrow> [(k, j)])"

definition base_command :: "json option \<Rightarrow> string \<Rightarrow> params \<Rightarrow> string \<Rightarrow> command" where
  "base_command payload name ps k =
     \<lparr>nc_channel = ''EMAIL'', nc_userId = opt_str_field payload ''userId'', nc_to = None, nc_template = name,
      nc_locale = ''en-GB'', nc_params = ps @ [(''name'', JStr ''there'')], nc_dedupeKey = Some k, nc_sendAfter = None\<rparr>"

definition param_object :: "json option \<Rightarrow> params" where
  "param_object v = (case v of Some (JObj fs) \<Rightarrow> fs | _ \<Rightarrow> [])"

definition toCommand :: "(json \<Rightarrow> string) \<Rightarrow> json option \<Rightarrow> json option \<Rightarrow> command option" where
  "toCommand txt_of ty payload =
     (let field = get_prop payload; ref = opt_param ''orderRef'' (get_prop payload ''orderId'');
          text_of = (\<lambda>k. interpolated txt_of (get_prop payload k))
      in if ty = Some (JStr ''souq.order.confirmed.v1'')
         then Some (base_command payload ''order_confirmed'' (ref @ opt_param ''total'' (get_prop (field ''total'') ''amount''))
                (''order_confirmed:'' @ text_of ''orderId''))
         else if ty = Some (JStr ''souq.order.cancelled.v1'')
         then Some (base_command payload ''order_cancelled'' (ref @ opt_param ''reason'' (field ''reasonCode''))
                (''order_cancelled:'' @ text_of ''orderId''))
         else if ty = Some (JStr ''souq.order.shipped.v1'')
         then Some (base_command payload ''order_shipped''
                (ref @ opt_param ''carrier'' (field ''carrier'') @ opt_param ''trackingNumber'' (field ''trackingNumber''))
                (''order_shipped:'' @ text_of ''orderId''))
         else if ty = Some (JStr ''souq.payment.failed.v1'')
         then (if js_boolean (field ''retriable'') then None
               else Some (base_command payload ''payment_failed'' ref (''payment_failed:'' @ text_of ''paymentId'')))
         else if ty = Some (JStr ''souq.payment.refunded.v1'')
         then Some (base_command payload ''payment_refunded'' (ref @ opt_param ''amount'' (get_prop (field ''amount'') ''amount''))
                (''payment_refunded:'' @ text_of ''refundId''))
         else if ty = Some (JStr ''souq.notify.v1'')
         then Some \<lparr>nc_channel = str_field payload ''channel'', nc_userId = opt_str_field payload ''userId'',
                nc_to = opt_str_field payload ''to'', nc_template = str_field payload ''template'',
                nc_locale = nullish (opt_str_field payload ''locale'') ''en-GB'', nc_params = param_object (field ''params''),
                nc_dedupeKey = opt_str_field payload ''dedupeKey'', nc_sendAfter = opt_str_field payload ''sendAfter''\<rparr>
         else None)"

section \<open>The consumer\<close>

datatype consume_error = Retry string | Crashed delivery_error

definition parsed_command :: "(json \<Rightarrow> string) \<Rightarrow> message_value \<Rightarrow> command option" where
  "parsed_command txt_of m =
     (case m of
        Parsed envelope \<Rightarrow>
          if envelope = JNull then None
          else toCommand txt_of (get_prop (Some envelope) ''type'')
                 (case get_prop (Some envelope) ''data'' of None \<Rightarrow> Some (JObj []) | Some JNull \<Rightarrow> Some (JObj []) | d \<Rightarrow> d)
      | _ \<Rightarrow> None)"

definition notify_message ::
  "'w notify_env \<Rightarrow> (json \<Rightarrow> string) \<Rightarrow> message_value \<Rightarrow> ('w notify, consume_error, unit) act" where
  "notify_message env txt_of m =
     (case parsed_command txt_of m of
        None \<Rightarrow> ret ()
      | Some cmd \<Rightarrow>
          if \<not> templateExists (nc_template cmd) then ret ()
          else and_then (map_error Crashed (deliver env cmd))
            (\<lambda>r. case r of
               FAILED reason retriable \<Rightarrow>
                 if retriable then raise (Retry (''retriable delivery failure: '' @ reason)) else ret ()
             | _ \<Rightarrow> ret ()))"

section \<open>The SES webhook\<close>

text \<open>\<^verbatim>\<open>JSON.parse(String(body?.Message ?? '{}'))\<close>, with the parser as an argument: none when it throws.\<close>

definition ses_message :: "(string \<Rightarrow> json option) \<Rightarrow> json option \<Rightarrow> json option" where
  "ses_message json_parse body =
     (case get_prop body ''Message'' of
        Some (JStr t) \<Rightarrow> json_parse t
      | None \<Rightarrow> Some (JObj [])
      | Some JNull \<Rightarrow> Some (JObj [])
      | Some _ \<Rightarrow> None)"

definition nullish_prop :: "json option \<Rightarrow> json option \<Rightarrow> json option" where
  "nullish_prop x y = (case x of None \<Rightarrow> y | Some JNull \<Rightarrow> y | v \<Rightarrow> v)"

text \<open>The elements of an array that may be absent; anything else that is no array ends the loop with an error.\<close>

definition recipients :: "json option \<Rightarrow> json list option" where
  "recipients v = (case v of None \<Rightarrow> Some [] | Some JNull \<Rightarrow> Some [] | Some (JArr xs) \<Rightarrow> Some xs | _ \<Rightarrow> None)"

definition suppress_all ::
  "'w notify_env \<Rightarrow> string \<Rightarrow> (json \<Rightarrow> string) \<Rightarrow> json list \<Rightarrow> ('w notify, delivery_error, unit) act" where
  "suppress_all env why detail =
     seq_acts (\<lambda>r. if r = JNull then raise DriverError
                   else execute env (nv_suppress env (opt_str_field (Some r) ''emailAddress'') why (detail r)))"

definition ses_webhook ::
  "'w notify_env \<Rightarrow> (string \<Rightarrow> json option) \<Rightarrow> json option \<Rightarrow> ('w notify, 'e, nat) act" where
  "ses_webhook env json_parse body =
     (if get_prop body ''Type'' = Some (JStr ''SubscriptionConfirmation'') then ret 200
      else attempt
        (case ses_message json_parse body of
           None \<Rightarrow> raise DriverError
         | Some JNull \<Rightarrow> raise DriverError
         | Some message \<Rightarrow>
             let ty = nullish_prop (get_prop (Some message) ''notificationType'') (get_prop (Some message) ''eventType'');
                 bounce = get_prop (Some message) ''bounce''; complaint = get_prop (Some message) ''complaint''
             in and_then
               (if ty = Some (JStr ''Bounce'') \<and> get_prop bounce ''bounceType'' = Some (JStr ''Permanent'')
                then (case recipients (get_prop bounce ''bouncedRecipients'') of
                        None \<Rightarrow> raise DriverError
                      | Some rs \<Rightarrow> suppress_all env ''HARD_BOUNCE'' (\<lambda>r. str_field (Some r) ''diagnosticCode'') rs)
                else if ty = Some (JStr ''Complaint'')
                then (case recipients (get_prop complaint ''complainedRecipients'') of
                        None \<Rightarrow> raise DriverError
                      | Some rs \<Rightarrow> suppress_all env ''COMPLAINT'' (\<lambda>r. str_field complaint ''complaintFeedbackType'') rs)
                else ret ())
               (\<lambda>_. ret 200))
        (\<lambda>_. ret 200))"

section \<open>The delivery log\<close>

definition history_query :: schema where
  "history_query = ZObject Strip [(''limit'', ZDefault (ZCoerceNumber [IntOnly, AtLeast 1, AtMost 100]) (JNum 20))]"

text \<open>\<^verbatim>\<open>GET /v1/users/:userId/notifications\<close>: the newest rows of the user's partition, which the argument \<open>rows\<close>
  holds newest first. \<open>None\<close> when the query is invalid.\<close>

definition get_notifications ::
  "(schema \<Rightarrow> json option \<Rightarrow> zres) \<Rightarrow> (string \<Rightarrow> log_row list) \<Rightarrow> string \<Rightarrow> json \<Rightarrow> log_row list option" where
  "get_notifications parse rows userId query =
     (case parse history_query (Some query) of
        Reject \<Rightarrow> None
      | Accept qs \<Rightarrow> Some (take (nat (int_field qs ''limit'')) (rows userId)))"

section \<open>Deliveries without interference\<close>

lemma execute_quiet:
  assumes "nv_others env = (\<lambda>s. s)"
  shows "execute env f s =
    (case f (nt_world s) of
       (Inl u, w) \<Rightarrow> (Inl DriverError, s\<lparr>nt_world := w\<rparr>)
     | (Inr a, w) \<Rightarrow> (Inr a, s\<lparr>nt_world := w\<rparr>))"
  using assms by (simp add: execute_def Let_def)

lemma execute_attempts:
  "nv_others env = (\<lambda>s. s) \<Longrightarrow> nt_attempts (snd (execute env f s)) = nt_attempts s"
  by (simp add: execute_quiet split: prod.splits sum.splits)

lemma log_delivery_attempts:
  "nv_others env = (\<lambda>s. s) \<Longrightarrow> nt_attempts (snd (log_delivery env cmd rc st pid err s)) = nt_attempts s"
  using execute_attempts by (auto simp: log_delivery_def attempt_def split: prod.splits sum.splits dest!: arg_cong [where f = snd])

lemma log_delivery_returns: "fst (log_delivery env cmd rc st pid err s) = Inr ()"
  by (auto simp: log_delivery_def attempt_def split: prod.splits sum.splits)

lemma suppress_run:
  "suppress (env :: 'a notify_env) cmd rc why s =
     (Inr (SUPPRESSED why), snd (log_delivery env cmd rc ''SUPPRESSED'' None (Some (reason_text why)) s :: (delivery_error + unit) \<times> _))"
proof -
  let ?l = "log_delivery env cmd rc ''SUPPRESSED'' None (Some (reason_text why)) s :: (delivery_error + unit) \<times> 'a notify"
  have "?l = (Inr (), snd ?l)"
    by (rule prod_eqI) (simp_all add: log_delivery_returns)
  then obtain s' where "?l = (Inr (), s')" ..
  then show ?thesis
    by (simp add: suppress_def and_then_def)
qed

lemma suppress_attempts:
  "nv_others env = (\<lambda>s. s) \<Longrightarrow> nt_attempts (snd (suppress env cmd rc why s)) = nt_attempts s"
  by (simp add: suppress_run log_delivery_attempts)

lemma loadRecipient_attempts:
  "nv_others env = (\<lambda>s. s) \<Longrightarrow> nt_attempts (snd (loadRecipient env u s)) = nt_attempts s"
  by (simp add: loadRecipient_def Let_def split: option.split prod.split identity_reply.split)

lemma loadRecipient_world:
  "nv_others env = (\<lambda>s. s) \<Longrightarrow> nt_world (snd (loadRecipient env u s)) = nt_world s"
  by (simp add: loadRecipient_def Let_def split: option.split prod.split identity_reply.split)

lemma no_address_attempts:
  assumes "nv_others env = (\<lambda>s. s)" "\<not> truthy (nullish2 (nc_to cmd) (addressFor (nc_channel cmd) rc))"
  shows "deliver_claimed env cmd rc s = suppress env cmd rc NO_ADDRESS s"
  using assms by (simp add: deliver_claimed_def)

text \<open>The parts of a delivery, when nothing interferes.\<close>

lemma deliver_quiet:
  assumes "nv_others env = (\<lambda>s. s)"
  obtains (refused) e w where "nv_claim env (nc_dedupeKey cmd) (nc_channel cmd) (nt_world s) = (e, w)" "e \<noteq> Inr True"
      "snd (deliver env cmd s) = s\<lparr>nt_world := w\<rparr>" "fst (deliver env cmd s) \<in> {Inl DriverError, Inr (SUPPRESSED DUPLICATE)}"
  | (claimed) w rc s1 where "nv_claim env (nc_dedupeKey cmd) (nc_channel cmd) (nt_world s) = (Inr True, w)"
      "(if truthy (nc_userId cmd) then loadRecipient env (nullish (nc_userId cmd) []) else ret None) (s\<lparr>nt_world := w\<rparr>) =
         (Inr rc :: delivery_error + recipient option, s1)"
      "nt_world s1 = w" "nt_attempts s1 = nt_attempts s" "deliver env cmd s = deliver_claimed env cmd rc s1"
proof -
  obtain r w where claim: "nv_claim env (nc_dedupeKey cmd) (nc_channel cmd) (nt_world s) = (r, w)" by fastforce
  have run: "claimDedupeKey env (nc_dedupeKey cmd) (nc_channel cmd) s =
      (case r of Inl u \<Rightarrow> Inl DriverError | Inr a \<Rightarrow> Inr a, s\<lparr>nt_world := w\<rparr>)"
    using claim by (simp add: claimDedupeKey_def execute_quiet [OF assms] split: sum.splits)
  show thesis
  proof (cases "r = Inr True")
    case True
    let ?l = "if truthy (nc_userId cmd) then loadRecipient env (nullish (nc_userId cmd) []) else ret None"
    obtain q s1 where l: "(?l (s\<lparr>nt_world := w\<rparr>) :: (delivery_error + recipient option) \<times> 'a notify) = (q, s1)"
      by fastforce
    moreover have "\<exists>rc. q = Inr rc"
      using l by (auto simp: loadRecipient_def Let_def split: if_splits option.splits prod.splits identity_reply.splits)
    moreover have "nt_world s1 = w" "nt_attempts s1 = nt_attempts s"
      using l by (auto simp: loadRecipient_world [OF assms] loadRecipient_attempts [OF assms]
          split: if_splits dest!: arg_cong [where f = snd])
    ultimately show thesis
      using claimed claim True run by (auto simp: deliver_def and_then_def)
  next
    case False
    then show thesis
      using refused [OF claim False] run by (cases r) (auto simp: deliver_def and_then_def)
  qed
qed

section \<open>The suppression list\<close>

text \<open>What the webhook and the deliveries rely on of the table \<^verbatim>\<open>suppression_list\<close>.\<close>

locale suppression_list =
  fixes env :: "'w notify_env" and listed :: "'w \<Rightarrow> string set"
  assumes suppress_listed: "\<exists>w'. nv_suppress env (Some a) why detail w = (Inr (), w') \<and> listed w' = insert a (listed w)"
    and bounced_listed: "nv_bounced env a w = (Inr b, w') \<Longrightarrow> b = (a \<in> listed w)"
    and claim_listed: "listed (snd (nv_claim env k ch w)) = listed w"
begin

lemma suppress_all_lists:
  assumes quiet: "nv_others env = (\<lambda>s. s)"
    and "\<forall>r\<in>set rs. r \<noteq> JNull \<and> opt_str_field (Some r) ''emailAddress'' \<noteq> None"
  shows "\<exists>s'. suppress_all env why detail rs s = (Inr (), s') \<and>
    listed (nt_world s') = listed (nt_world s) \<union> (\<lambda>r. the (opt_str_field (Some r) ''emailAddress'')) ` set rs"
  using assms(2)
proof (induction rs arbitrary: s)
  case (Cons r rs)
  then obtain a where a: "opt_str_field (Some r) ''emailAddress'' = Some a" "r \<noteq> JNull" by auto
  obtain w where w: "nv_suppress env (Some a) why (detail r) (nt_world s) = (Inr (), w)" "listed w = insert a (listed (nt_world s))"
    using suppress_listed by blast
  obtain s' where "suppress_all env why detail rs (s\<lparr>nt_world := w\<rparr>) = (Inr (), s')"
    "listed (nt_world s') = listed w \<union> (\<lambda>r. the (opt_str_field (Some r) ''emailAddress'')) ` set rs"
    using Cons.IH [of "s\<lparr>nt_world := w\<rparr>"] Cons.prems by auto
  with a w show ?case
    by (auto simp: suppress_all_def and_then_def execute_quiet [OF quiet])
qed (simp add: suppress_all_def)

lemma listed_not_sent:
  assumes quiet: "nv_others env = (\<lambda>s. s)" and "nc_to cmd = Some a" "a \<in> listed (nt_world s)"
  shows "nt_attempts (snd (deliver env cmd s)) = nt_attempts s"
proof (rule deliver_quiet [OF quiet, of cmd s], goal_cases)
  case claimed: (2 w rc s1)
  have listed: "a \<in> listed (nt_world s1)"
    using claimed(1,3) claim_listed [of "nc_dedupeKey cmd" "nc_channel cmd" "nt_world s"] assms(3) by simp
  obtain r w' where b: "nv_bounced env a (nt_world s1) = (r, w')" by fastforce
  have "nt_attempts (snd (and_then (hasHardBounced env a)
      (\<lambda>bounced. if bounced then suppress env cmd rc HARD_BOUNCED else k) s1)) = nt_attempts s1" for k
  proof (cases r)
    case (Inr x)
    with b listed bounced_listed have "x" by blast
    with b Inr show ?thesis
      by (simp add: hasHardBounced_def execute_quiet [OF quiet] and_then_def suppress_attempts [OF quiet])
  qed (simp add: b hasHardBounced_def execute_quiet [OF quiet] and_then_def)
  then show ?thesis
    using claimed(4,5) assms(2) by (simp add: deliver_claimed_def Let_def suppress_attempts [OF quiet])
qed simp

end

interpretation mem_list: suppression_list mem_notify_env "\<lambda>w. fst ` set (mk_suppressed w)"
  by unfold_locales (auto simp: mem_notify_env_def split: option.splits)

section \<open>Lost notifications\<close>

lemma expand_chars: "concat (map (expand esc ps \<circ> Ch) t) = t"
  by (induction t) simp_all

lemma unknown_recipient_not_sent:
  assumes quiet: "nv_others env = (\<lambda>s. s)" and "nc_to cmd = None"
    and "\<And>w. fst ((if truthy (nc_userId cmd) then loadRecipient env (nullish (nc_userId cmd) []) else ret None) (s\<lparr>nt_world := w\<rparr>)) =
      (Inr None :: delivery_error + recipient option)"
  shows "nt_attempts (snd (deliver env cmd s)) = nt_attempts s"
proof (rule deliver_quiet [OF quiet, of cmd s], goal_cases)
  case claimed: (2 w rc s1)
  then have "rc = None"
    using assms(3) [of w] by simp
  then have "\<not> truthy (nullish2 (nc_to cmd) (addressFor (nc_channel cmd) rc))"
    using assms(2) by (simp add: addressFor_def)
  with claimed(4,5) show ?thesis
    by (simp add: no_address_attempts [OF quiet] suppress_attempts [OF quiet])
qed simp

lemma and_then_total:
  assumes "\<And>s. \<exists>a. fst (m s) = Inr a" "\<And>a s. \<exists>b. fst (k a s) = Inr b"
  shows "\<exists>b. fst (and_then m k s) = Inr b"
proof -
  obtain a where a: "fst (m s) = Inr a" using assms(1) ..
  then have "and_then m k s = k a (snd (m s))"
    by (cases "m s") (simp add: and_then_def)
  with assms(2) show ?thesis by simp
qed

lemma attempt_total:
  assumes "\<And>e s. \<exists>b. fst (h e s) = Inr b"
  shows "\<exists>b. fst (attempt m h s) = Inr b"
  using assms by (auto simp: attempt_def split: prod.splits sum.splits)

lemma releaseDedupeKey_returns: "fst (releaseDedupeKey env k s) = Inr ()"
  by (auto simp: releaseDedupeKey_def attempt_def split: prod.splits sum.splits)

lemma send_and_log_returns: "\<exists>out. fst (send_and_log env cmd rc a co s) = Inr out"
  unfolding send_and_log_def
proof (rule attempt_total, rule and_then_total, goal_cases)
  case (2 err t u s)
  then show ?case
    by (intro and_then_total) (simp_all add: releaseDedupeKey_returns)
qed (simp add: log_delivery_returns)

context keyspace
begin

lemma render_failure_keeps_claim:
  assumes quiet: "nv_others env = (\<lambda>s. s)" and run: "deliver env cmd s = (Inl (RenderFailed e), s')"
  shows "nc_dedupeKey cmd \<in> taken (nt_world s')" "nt_attempts s' = nt_attempts s"
proof -
  have "nc_dedupeKey cmd \<in> taken (nt_world s') \<and> nt_attempts s' = nt_attempts s"
  proof (rule deliver_quiet [OF quiet, of cmd s], goal_cases)
    case (1 r w)
    with run show ?case by simp
  next
    case claimed: (2 w rc s1)
    then have k: "nc_dedupeKey cmd \<in> taken (nt_world s1)"
      using claim_applied by blast
    let ?a = "nullish (nullish2 (nc_to cmd) (addressFor (nc_channel cmd) rc)) []"
    obtain r w' where b: "nv_bounced env ?a (nt_world s1) = (r, w')" by fastforce
    then have "taken w' = taken (nt_world s1)"
      using bounced_taken [of ?a "nt_world s1"] by simp
    moreover have "s' = s1\<lparr>nt_world := w'\<rparr>"
    proof -
      have "and_then (hasHardBounced env ?a)
        (\<lambda>bounced. if bounced then suppress env cmd rc HARD_BOUNCED
           else (case render (nv_mustache env) (nc_template cmd) (nullish (map_option r_locale rc) (nc_locale cmd)) (nc_params cmd) of
                   Inl e \<Rightarrow> raise (RenderFailed e)
                 | Inr content \<Rightarrow> send_and_log env cmd rc ?a content)) s1 = (Inl (RenderFailed e), s')"
        using run claimed(5) by (auto simp: deliver_claimed_def Let_def suppress_run split: if_splits)
      moreover have "send_and_log env cmd rc x co t \<noteq> (Inl e', t')" for x co t e' t'
        using send_and_log_returns [of env cmd rc x co t] by auto
      ultimately show ?thesis
        using b by (cases r) (auto simp: hasHardBounced_def execute_quiet [OF quiet] and_then_def suppress_run
            split: if_splits sum.splits)
    qed
    ultimately show ?case
      using k claimed(4) by simp
  qed
  then show "nc_dedupeKey cmd \<in> taken (nt_world s')" "nt_attempts s' = nt_attempts s"
    by simp_all
qed

lemma taken_not_sent:
  assumes quiet: "nv_others env = (\<lambda>s. s)" and "nc_dedupeKey cmd \<in> taken (nt_world s)"
  shows "nt_attempts (snd (deliver env cmd s)) = nt_attempts s"
proof (rule deliver_quiet [OF quiet, of cmd s], goal_cases)
  case (2 w rc s1)
  with claim_applied assms(2) show ?case by blast
qed simp

end

section \<open>Properties\<close>





text \<open>A notification whose rendering throws is lost: the dedupe key stays claimed, so that processing the message again, as the
  consumer's exception makes Kafka do, calls no provider.\<close>

theorem failed_render_loses_notification:
  assumes "keyspace env taken" "nv_others env = (\<lambda>s. s)" "deliver env cmd s = (Inl (RenderFailed e), s')"
  shows "nt_attempts (snd (deliver env cmd s')) = nt_attempts s"
  using keyspace.taken_not_sent [OF assms(1,2) keyspace.render_failure_keeps_claim(1) [OF assms]]
    keyspace.render_failure_keeps_claim(2) [OF assms]
  by simp

theorem failed_render_loses_notification_witness:
  "nt_attempts (snd (deliver mem_notify_env (sample_command\<lparr>nc_locale := ''constructor''\<rparr>)
     (snd (deliver mem_notify_env (sample_command\<lparr>nc_locale := ''constructor''\<rparr>) mem_notify)))) = []"
proof -
  let ?cmd = "sample_command\<lparr>nc_locale := ''constructor''\<rparr>"
  have "fst (deliver mem_notify_env ?cmd mem_notify) = Inl (RenderFailed InvalidTemplate)"
    by code_simp
  then have "deliver mem_notify_env ?cmd mem_notify =
      (Inl (RenderFailed InvalidTemplate), snd (deliver mem_notify_env ?cmd mem_notify))"
    by (metis prod.collapse)
  from failed_render_loses_notification [OF mem_keys.keyspace_axioms _ this] show ?thesis
    by (simp add: mem_notify_env_def mem_notify_def)
qed

text \<open>When identity-service answers a lookup with an error, the notification is dropped although a contact is still cached;
  only when identity-service does not answer at all is the cached contact used.\<close>

theorem refused_lookup_drops_notification:
  assumes "nv_others env = (\<lambda>s. s)" "nc_to cmd = None" "nc_userId cmd = Some u" "u \<noteq> []"
    and "nt_cache s u = Some (Some c, t)" "60000 \<le> nv_now env - t" "nv_identity env u = IdentityRefused"
  shows "nt_attempts (snd (deliver env cmd s)) = nt_attempts s \<and>
    fst (loadRecipient (env\<lparr>nv_identity := \<lambda>_. IdentityDown\<rparr>) u s) = (Inr (Some c) :: 'e + recipient option)"
proof
  show "nt_attempts (snd (deliver env cmd s)) = nt_attempts s"
    by (rule unknown_recipient_not_sent) (use assms in \<open>simp_all add: loadRecipient_def\<close>)
  show "fst (loadRecipient (env\<lparr>nv_identity := \<lambda>_. IdentityDown\<rparr>) u s) = (Inr (Some c) :: 'e + recipient option)"
    using assms(5,6) by (simp add: loadRecipient_def)
qed

theorem refused_lookup_drops_notification_witness:
  "nt_attempts (snd (deliver (mem_notify_env\<lparr>nv_now := 60000\<rparr>) (sample_command\<lparr>nc_to := None, nc_userId := Some ''u''\<rparr>)
     (mem_notify\<lparr>nt_cache := [''u'' \<mapsto> (Some \<lparr>r_userId = ''u'', r_email = Some ''a@souq.dev'', r_phone = None, r_locale = ''en-GB'',
        r_emailOptOut = False, r_smsOptOut = False, r_pushOptOut = False\<rparr>, 0)]\<rparr>))) = []"
proof -
  let ?s = "mem_notify\<lparr>nt_cache := [''u'' \<mapsto> (Some \<lparr>r_userId = ''u'', r_email = Some ''a@souq.dev'', r_phone = None, r_locale = ''en-GB'',
     r_emailOptOut = False, r_smsOptOut = False, r_pushOptOut = False\<rparr>, 0)]\<rparr>"
  have "nt_attempts (snd (deliver (mem_notify_env\<lparr>nv_now := 60000\<rparr>) (sample_command\<lparr>nc_to := None, nc_userId := Some ''u''\<rparr>) ?s)) =
      nt_attempts ?s"
    by (rule refused_lookup_drops_notification [where u = "''u''" and t = 0, THEN conjunct1])
      (simp_all add: mem_notify_env_def)
  then show ?thesis
    by (simp add: mem_notify_def)
qed

text \<open>A shipped order, a declined payment and a refund are never notified: the contract's payloads of these events carry no
  user, so the delivery finds no address.\<close>

theorem shipped_and_payment_events_not_sent:
  assumes "zod parse fmt" "nv_others env = (\<lambda>s. s)"
    and "parse OrderShipped (Some event) = Accept r \<or> parse PaymentFailed (Some event) = Accept r \<or>
      parse PaymentRefunded (Some event) = Accept r"
  shows "nt_attempts (snd (notify_message env txt_of (Parsed event) s)) = nt_attempts s"
proof (cases "parsed_command txt_of (Parsed event)")
  case None
  then show ?thesis by (simp add: notify_message_def)
next
  case (Some cmd)
  let ?d = "get_prop (Some event) ''data''"
  have ty: "get_prop (Some event) ''type'' \<in> {Some (JStr ''souq.order.shipped.v1''), Some (JStr ''souq.payment.failed.v1''),
      Some (JStr ''souq.payment.refunded.v1'')}" and user: "get_prop ?d ''userId'' = None"
    using assms(3) zod.cloudEvent_accept(1) [OF assms(1)] zod.cloudEvent_data_missing [OF assms(1)]
    by (auto simp: OrderShipped_def PaymentFailed_def PaymentRefunded_def OrderShipped_data_def PaymentFailed_data_def
        PaymentRefunded_data_def)
  have "nc_userId cmd = None \<and> nc_to cmd = None"
    using Some ty user
    by (auto simp: parsed_command_def toCommand_def base_command_def opt_str_field_def Let_def get_prop_def [of "Some (JObj [])"]
        lookup_def split: if_splits option.splits json.splits)
  then have "nt_attempts (snd (deliver env cmd s)) = nt_attempts s"
    by (intro unknown_recipient_not_sent [OF assms(2)]) simp_all
  then show ?thesis
    using Some by (auto simp: notify_message_def and_then_def split: prod.splits sum.splits outcome.splits
        dest!: map_error_InrD arg_cong [where f = snd])
qed

theorem shipped_and_payment_events_not_sent_witness:
  "nt_attempts (snd (notify_message mem_notify_env (\<lambda>_. []) (Parsed (sample_event ''souq.order.shipped.v1''
     [(''orderId'', zero_id ''ord''), (''trackingNumber'', JStr ''t''), (''carrier'', JStr ''c''),
      (''shippedAt'', JStr ''2023-11-14T22:13:20Z'')])) mem_notify)) = []"
proof -
  let ?e = "sample_event ''souq.order.shipped.v1'' [(''orderId'', zero_id ''ord''), (''trackingNumber'', JStr ''t''),
     (''carrier'', JStr ''c''), (''shippedAt'', JStr ''2023-11-14T22:13:20Z'')]"
  have "zparse any_format OrderShipped (Some ?e) \<noteq> Reject" by code_simp
  then obtain r where "zparse any_format OrderShipped (Some ?e) = Accept r"
    by (cases "zparse any_format OrderShipped (Some ?e)") simp_all
  then have "nt_attempts (snd (notify_message mem_notify_env (\<lambda>_. []) (Parsed ?e) mem_notify)) = nt_attempts mem_notify"
    by (intro shipped_and_payment_events_not_sent [OF zp.zod_axioms [of any_format], where r = r]) (simp_all add: mem_notify_env_def)
  then show ?thesis
    by (simp add: mem_notify_def)
qed

text \<open>The confirmation mail of an order has neither the delivery date nor the link to the order it announces: the
  command gives its template neither parameter, and both lines end empty.\<close>

theorem confirmation_mail_has_gaps:
  assumes "mustache_laws mu" "toCommand txt_of (Some (JStr ''souq.order.confirmed.v1'')) payload = Some cmd"
    and "render mu (nc_template cmd) ''en-GB'' (nc_params cmd) = Inr c"
  shows "\<exists>u. c_text c = u @ text_lines [''Delivery: '', [], ''Track it any time: '', [], ''SOUQ'']"
proof -
  let ?t = "snd (hd (t_text order_confirmed))"
  let ?gaps = "map Ch ''Delivery: '' @ Tag ''estimatedDelivery'' # map Ch (newline # newline # ''Track it any time: '') @
      Tag ''orderUrl'' # map Ch (newline # newline # ''SOUQ'')"
  have ps: "nc_template cmd = ''order_confirmed''" "lookup (nc_params cmd) ''estimatedDelivery'' = None" "lookup (nc_params cmd) ''orderUrl'' = None"
    using assms(2) by (auto simp: toCommand_def Let_def base_command_def opt_param_def lookup_def split: option.splits)
  have en: "map_of (t_text order_confirmed) (language_of ''en-GB'') = Some ?t" and own: "map_of TEMPLATES ''order_confirmed'' = Some order_confirmed"
    and plain: "''en-GB'' \<notin> set PROTOTYPE" and shape: "drop 47 (parts ?t) = ?gaps"
    by code_simp+
  obtain body where "map_of (t_text order_confirmed) (language_of ''en-GB'') = Some body"
    "c_text c = mu_render mu (mu_string mu) body (nc_params cmd)"
    using render_returns [OF own plain, of mu "nc_params cmd"] assms(3) ps(1) by (metis sum.inject(2))
  then have "c_text c = concat (map (expand (mu_string mu) (nc_params cmd)) (parts ?t))"
    using en mustache_laws.render_template [OF assms(1)] template_well_formed [OF own, of "''en-GB''" ?t]
    by (simp add: order_confirmed_def)
  also have "parts ?t = take 47 (parts ?t) @ ?gaps"
    using append_take_drop_id [of 47 "parts ?t"] shape by simp
  finally show ?thesis
    by (auto simp: ps expand_chars newline_def)
qed

theorem confirmation_mail_has_gaps_witness:
  "\<exists>cmd c u. toCommand (\<lambda>_. []) (Some (JStr ''souq.order.confirmed.v1'')) (Some (JObj [(''orderId'', JStr ''7'')])) = Some cmd \<and>
     render simple_mustache (nc_template cmd) ''en-GB'' (nc_params cmd) = Inr c \<and>
     c_text c = u @ text_lines [''Delivery: '', [], ''Track it any time: '', [], ''SOUQ'']"
proof -
  obtain cmd where cmd: "toCommand (\<lambda>_. []) (Some (JStr ''souq.order.confirmed.v1'')) (Some (JObj [(''orderId'', JStr ''7'')])) = Some cmd"
    by (simp add: toCommand_def)
  then have "nc_template cmd = ''order_confirmed''"
    by (auto simp: toCommand_def Let_def base_command_def)
  moreover have "map_of TEMPLATES ''order_confirmed'' = Some order_confirmed" "''en-GB'' \<notin> set PROTOTYPE"
    by code_simp+
  ultimately obtain c where "render simple_mustache (nc_template cmd) ''en-GB'' (nc_params cmd) = Inr c"
    by (metis render_returns)
  with cmd confirmation_mail_has_gaps [OF sm.mustache_laws_axioms cmd this] show ?thesis by blast
qed

end
