(* ===== verification/Zod_Revalidate.thy ===== *)
theory Zod_Revalidate
  imports Http
begin

text \<open>
  Validated data validates again. The browser's client parses every reply with the schema the BFF
  used on the service's answer (\<^verbatim>\<open>apps/storefront/src/lib/api-client.ts\<close>); the second parse is harmless because a
  parse by a \<open>stable_schema\<close> is idempotent. A schema is stable when it is built from strings,
  numbers, booleans, literals, enums, arrays, records, objects with distinct keys, and optional,
  nullable and defaulted forms of those: all the reply contracts are. Coercions, unions and
  transforming schemas are not, and occur in requests only.
\<close>

section \<open>Stable schemas\<close>

fun stable_schema :: "schema \<Rightarrow> bool" where
  "stable_schema (ZString cs) = True"
| "stable_schema (ZNumber ns) = True"
| "stable_schema ZBoolean = True"
| "stable_schema (ZLiteral l) = True"
| "stable_schema (ZEnum ls) = True"
| "stable_schema (ZArray s lo hi) = stable_schema s"
| "stable_schema (ZRecord s) = stable_schema s"
| "stable_schema (ZObject u fs) = (distinct (map fst fs) \<and> list_all (\<lambda>(k, s). stable_schema s) fs)"
| "stable_schema (ZOptional s) = stable_schema s"
| "stable_schema (ZNullable s) = stable_schema s"
| "stable_schema (ZDefault s d) = stable_schema s"
| "stable_schema ZUnknown = True"
| "stable_schema ZUndefined = True"
| "stable_schema s = False"

section \<open>Lists of results\<close>

lemma collect_length: "collect rs = Some vs \<Longrightarrow> length vs = length rs"
  by (induction rs arbitrary: vs rule: collect.induct) auto

text \<open>Elements that were accepted as present values are accepted again.\<close>

lemma collect_again:
  assumes "\<And>x w. x \<in> set xs \<Longrightarrow> p x = Accept w \<Longrightarrow> \<exists>y. w = Some y \<and> p y = Accept (Some y)"
    and "collect (map p xs) = Some ys"
  shows "collect (map p ys) = Some ys"
  using assms
proof (induction xs arbitrary: ys)
  case (Cons x xs)
  obtain w ws where px: "p x = Accept w" and ws: "collect (map p xs) = Some ws"
    and ys: "ys = nullish w JNull # ws"
    using Cons.prems(2) by (cases "p x") auto
  from Cons.prems(1) [OF _ px] obtain y where "w = Some y" "p y = Accept (Some y)"
    by auto
  moreover have "collect (map p ws) = Some ws"
    by (rule Cons.IH [OF _ ws]) (auto intro: Cons.prems(1))
  ultimately show ?case
    using ys by simp
qed simp

lemma record_again:
  assumes "\<And>k x w. (k, x) \<in> set xs \<Longrightarrow> p x = Accept w \<Longrightarrow> \<exists>y. w = Some y \<and> p y = Accept (Some y)"
    and "collect_fields (map (\<lambda>(k, x). (k, p x)) xs) = Some ys"
  shows "collect_fields (map (\<lambda>(k, x). (k, p x)) ys) = Some ys"
  using assms
proof (induction xs arbitrary: ys)
  case (Cons f xs)
  obtain k x where f: "f = (k, x)" by (cases f)
  have "collect_fields ((k, p x) # map (\<lambda>(k, x). (k, p x)) xs) = Some ys"
    using Cons.prems(2) f by simp
  then obtain w ws where px: "p x = Accept w" and ws: "collect_fields (map (\<lambda>(k, x). (k, p x)) xs) = Some ws"
    and ys: "ys = (case w of None \<Rightarrow> ws | Some v \<Rightarrow> (k, v) # ws)"
    by (rule collect_fields_ConsD)
  from Cons.prems(1) [of k x w] px f obtain y where "w = Some y" "p y = Accept (Some y)"
    by auto
  moreover have "collect_fields (map (\<lambda>(k, x). (k, p x)) ws) = Some ws"
    by (rule Cons.IH [OF _ ws]) (auto intro: Cons.prems(1))
  ultimately show ?case
    using ys by simp
qed simp

text \<open>The fields of an accepted object, looked up in the result.\<close>

lemma fields_again:
  assumes "distinct (map fst fs)"
    and "\<And>k s. (k, s) \<in> set fs \<Longrightarrow> g s (m k) = Accept (m k)"
  shows "collect_fields (map (\<lambda>(k, s). (k, g s (m k))) fs) =
    Some (concat (map (\<lambda>(k, s). case m k of None \<Rightarrow> [] | Some v \<Rightarrow> [(k, v)]) fs))"
  using assms
proof (induction fs)
  case (Cons f fs)
  obtain k s where f: "f = (k, s)" by (cases f)
  then have "g s (m k) = Accept (m k)"
    using Cons.prems(2) by simp
  moreover have "collect_fields (map (\<lambda>(k, s). (k, g s (m k))) fs) =
      Some (concat (map (\<lambda>(k, s). case m k of None \<Rightarrow> [] | Some v \<Rightarrow> [(k, v)]) fs))"
    using Cons.IH Cons.prems by simp
  ultimately show ?case
    by (cases "m k") (simp_all add: f)
qed simp

lemma fields_listed:
  assumes "distinct (map fst fs)" "collect_fields (map (\<lambda>(k, s). (k, g k s)) fs) = Some out"
  shows "concat (map (\<lambda>(k, s). case map_of out k of None \<Rightarrow> [] | Some v \<Rightarrow> [(k, v)]) fs) = out"
  using assms
proof (induction fs arbitrary: out)
  case (Cons f fs)
  obtain k s where f: "f = (k, s)" by (cases f)
  have "collect_fields ((k, g k s) # map (\<lambda>(k, s). (k, g k s)) fs) = Some out"
    using Cons.prems(2) f by simp
  then obtain w out' where out': "collect_fields (map (\<lambda>(k, s). (k, g k s)) fs) = Some out'"
    and out: "out = (case w of None \<Rightarrow> out' | Some v \<Rightarrow> (k, v) # out')"
    by (rule collect_fields_ConsD)
  have fresh: "k \<notin> fst ` set fs"
    using Cons.prems(1) f by simp
  then have none: "map_of out' k = None"
    using collect_fields_keys [OF out'] by (auto simp: map_of_eq_None_iff)
  have same: "map_of out k' = map_of out' k'" if "(k', s') \<in> set fs" for k' s'
    using that fresh out by (force split: option.splits)
  have "concat (map (\<lambda>(k, s). case map_of out k of None \<Rightarrow> [] | Some v \<Rightarrow> [(k, v)]) fs) =
      concat (map (\<lambda>(k, s). case map_of out' k of None \<Rightarrow> [] | Some v \<Rightarrow> [(k, v)]) fs)"
    by (rule arg_cong [where f = concat], rule map_cong) (auto simp: same)
  also have "\<dots> = out'"
    using Cons.IH [OF _ out'] Cons.prems(1) f by simp
  finally show ?case
    using out none f by (cases w) simp_all
qed simp

section \<open>Idempotence\<close>

context zod
begin

lemma stable_present:
  "stable_schema s \<Longrightarrow> parse s (Some x) = Accept w \<Longrightarrow> \<exists>y. w = Some y"
proof (induction s arbitrary: x)
  case (ZObject u fs)
  then show ?case
    by (auto dest: object_is_object)
next
  case (ZArray s lo hi)
  then show ?case
    by (auto simp: parse_array array_result_def split: json.splits if_splits option.splits)
next
  case (ZRecord s)
  then show ?case
    by (auto simp: parse_record record_result_def split: json.splits if_splits option.splits)
qed (auto simp: parse_laws split: json.splits if_splits)

lemma object_again:
  assumes dist: "distinct (map fst fs)" and parsed: "parse (ZObject u fs) v = Accept r"
    and again: "\<And>k s w w'. (k, s) \<in> set fs \<Longrightarrow> parse s w = Accept w' \<Longrightarrow> parse s w' = Accept w'"
  shows "parse (ZObject u fs) r = Accept r"
proof -
  obtain os out where out: "collect_fields (map (\<lambda>(k, s). (k, parse s (lookup os k))) fs) = Some out"
    and r: "r = Some (JObj (out @ (if u = Passthrough
                                   then filter (\<lambda>(k, v). k \<notin> set (map fst fs)) os else [])))"
    by (rule object_acceptD [OF parsed])
  define rest where "rest = (if u = Passthrough then filter (\<lambda>(k, v). k \<notin> set (map fst fs)) os else [])"
  have rest: "\<And>k. k \<in> fst ` set fs \<Longrightarrow> map_of rest k = None"
    by (force simp: rest_def map_of_eq_None_iff)
  have look: "lookup (out @ rest) k = map_of out k" if "(k, s) \<in> set fs" for k s
    using rest [of k] that by (force simp: lookup_def map_add_def split: option.splits)
  have field: "parse s (map_of out k) = Accept (map_of out k)" if "(k, s) \<in> set fs" for k s
    using again [OF that] collect_fields_lookup [OF dist out that] by blast
  have keys: "fst ` set out \<subseteq> fst ` set fs"
    by (rule collect_fields_keys [OF out])
  have same: "map (\<lambda>(k, s). (k, parse s (lookup (out @ rest) k))) fs = map (\<lambda>(k, s). (k, parse s (map_of out k))) fs"
    using look by auto
  have "collect_fields (map (\<lambda>(k, s). (k, parse s (lookup (out @ rest) k))) fs) = Some out"
    unfolding same using fields_again [OF dist, of parse "map_of out"] field fields_listed [OF dist out] by simp
  moreover have "u = Strict \<Longrightarrow> known_keys (out @ rest) (map fst fs)"
    using keys by (force simp: known_keys_def list_all_iff rest_def)
  moreover have "filter (\<lambda>(k, v). k \<notin> set (map fst fs)) out = []"
    using keys by (force simp: filter_empty_conv)
  ultimately show ?thesis
    using r by (auto simp: parse_object object_result_def rest_def)
qed

lemma element_again:
  assumes "\<And>v r. stable_schema s \<Longrightarrow> parse s v = Accept r \<Longrightarrow> parse s r = Accept r"
    and "stable_schema s" "parse s (Some x) = Accept w"
  shows "\<exists>y. w = Some y \<and> parse s (Some y) = Accept (Some y)"
  using assms(1) [OF assms(2,3)] stable_present [OF assms(2,3)] by auto

theorem revalidates: "stable_schema s \<Longrightarrow> parse s v = Accept r \<Longrightarrow> parse s r = Accept r"
proof (induction s arbitrary: v r)
  case (ZObject u fs)
  show ?case
  proof (rule object_again [OF _ ZObject.prems(2)])
    show "distinct (map fst fs)" using ZObject.prems(1) by simp
    fix k s w w' assume mem: "(k, s) \<in> set fs" and "parse s w = Accept w'"
    moreover from mem ZObject.prems(1) have "stable_schema s" by (auto simp: list_all_iff)
    ultimately show "parse s w' = Accept w'" using ZObject.IH by fastforce
  qed
next
  case (ZArray s lo hi)
  then obtain xs ys where v: "v = Some (JArr xs)" and len: "length_ok lo hi (length xs)"
    and ys: "collect (map (\<lambda>x. parse s (Some x)) xs) = Some ys" and r: "r = Some (JArr ys)"
    by (auto simp: parse_array array_result_def split: option.splits json.splits if_splits)
  have "collect (map (\<lambda>x. parse s (Some x)) ys) = Some ys"
    using element_again [OF ZArray.IH] ZArray.prems(1) by (intro collect_again [OF _ ys]) simp
  then show ?case
    using r len collect_length [OF ys] by (simp add: parse_array array_result_def)
next
  case (ZRecord s)
  then obtain xs ys where v: "v = Some (JObj xs)"
    and ys: "collect_fields (map (\<lambda>(k, x). (k, parse s (Some x))) xs) = Some ys" and r: "r = Some (JObj ys)"
    by (auto simp: parse_record record_result_def split: option.splits json.splits)
  have "collect_fields (map (\<lambda>(k, x). (k, parse s (Some x))) ys) = Some ys"
    using element_again [OF ZRecord.IH] ZRecord.prems(1) by (intro record_again [OF _ ys]) simp
  then show ?case
    using r by (simp add: parse_record record_result_def)
next
  case (ZDefault s d)
  then have p: "parse s (Some (nullish v d)) = Accept r" by (simp add: parse_default)
  then obtain y where "r = Some y" using stable_present ZDefault.prems(1) by fastforce
  moreover have "parse s r = Accept r"
    by (rule ZDefault.IH [OF _ p]) (use ZDefault.prems(1) in simp)
  ultimately show ?case by (simp add: parse_default)
next
  case (ZOptional s)
  show ?case
  proof (cases v)
    case None
    then show ?thesis using ZOptional.prems(2) by (simp add: parse_optional)
  next
    case (Some x)
    then have "parse s v = Accept r" using ZOptional.prems(2) by (simp add: parse_optional)
    then have "parse s r = Accept r" using ZOptional.IH ZOptional.prems(1) by simp
    then show ?thesis by (simp add: parse_optional)
  qed
next
  case (ZNullable s)
  show ?case
  proof (cases "v = Some JNull")
    case True
    then show ?thesis using ZNullable.prems(2) by (simp add: parse_nullable)
  next
    case False
    then have "parse s v = Accept r" using ZNullable.prems(2) by (simp add: parse_nullable)
    then have "parse s r = Accept r" using ZNullable.IH ZNullable.prems(1) by simp
    then show ?thesis by (simp add: parse_nullable)
  qed
qed (auto simp: parse_string parse_number parse_boolean parse_literal parse_enum parse_unknown parse_undefined
    split: option.splits json.splits if_splits)

end

end
