(* ===== verification/Web.thy ===== *)
theory Web
  imports Zod_Revalidate Effects
begin

text \<open>
  What the two Next.js applications use of the web platform: percent-encoding, object spread,
  \<^verbatim>\<open>fetch\<close>, and the construction of a response.

  \<^item> \<open>fetch\<close> asks the environment for the answer to a request and appends the exchange to the log of
    the state, newest first: the properties say which requests were sent by what the log holds.
    \<^verbatim>\<open>JSON.stringify\<close> of a body is represented by the value itself.
  \<^item> The environment \<open>web_env\<close> holds the process's environment variables, the network, the timer,
    the clock (as its ISO rendering), the source of random identifiers and the zod parser. Its
    functions take and return a world of arbitrary type, so a service may answer differently each
    time.
  \<^item> \<open>json_response\<close> is \<^verbatim>\<open>NextResponse.json\<close>: as the Fetch standard says, it throws on a status
    outside 200 to 599, on a status that may not carry a body, and on an undefined value.
\<close>

section \<open>Percent-encoding\<close>

text \<open>Strings are lists of UTF-8 bytes here, so each byte outside the unreserved set becomes one escape.\<close>

definition uri_unreserved :: "char \<Rightarrow> bool" where
  "uri_unreserved c = (is_upper c \<or> is_lower c \<or> is_digit c \<or>
     c \<in> {CHR ''-'', CHR ''_'', CHR ''.'', CHR ''!'', CHR ''~'', CHR ''*'', CHR 0x27, CHR ''('', CHR '')''})"

definition hex_digit :: "nat \<Rightarrow> char" where
  "hex_digit n = char_of (if n < 10 then 48 + n else 55 + n)"

definition encode_char :: "char \<Rightarrow> string" where
  "encode_char c =
     (if uri_unreserved c then [c] else [CHR ''%'', hex_digit (code_unit c div 16), hex_digit (code_unit c mod 16)])"

definition encodeURIComponent :: "string \<Rightarrow> string" where
  "encodeURIComponent s = concat (map encode_char s)"

section \<open>Objects\<close>

text \<open>\<^verbatim>\<open>o.k = v\<close>: an existing property keeps its place.\<close>

definition js_set :: "string \<Rightarrow> json \<Rightarrow> (string \<times> json) list \<Rightarrow> (string \<times> json) list" where
  "js_set k v fs =
     (if k \<in> fst ` set fs then map (\<lambda>(k', v'). if k' = k then (k, v) else (k', v')) fs else fs @ [(k, v)])"

text \<open>\<^verbatim>\<open>{ ...fs, k: v, \<dots> }\<close>\<close>

fun js_spread :: "(string \<times> json) list \<Rightarrow> (string \<times> json) list \<Rightarrow> (string \<times> json) list" where
  "js_spread fs [] = fs"
| "js_spread fs ((k, v) # gs) = js_spread (js_set k v fs) gs"

text \<open>The properties of a value that is known to be an object.\<close>

definition fields_of :: "json option \<Rightarrow> (string \<times> json) list" where
  "fields_of v = (case v of Some (JObj fs) \<Rightarrow> fs | _ \<Rightarrow> [])"

section \<open>Fetch\<close>

datatype body = Unreadable | Json json

datatype fetch_reply = Aborted | NetworkError string | Response nat "string option" body

datatype cache_mode = DefaultCache | NoStore | Revalidate nat "string list option"

record sent =
  rq_url :: string
  rq_method :: string
  rq_headers :: "(string \<times> string) list"
  rq_body :: "json option"
  rq_cache :: cache_mode

record 'w web_env =
  web_variable :: "string \<Rightarrow> string option"
  web_fetch :: "sent \<Rightarrow> 'w \<Rightarrow> fetch_reply \<times> 'w"
  web_sleep :: "nat \<Rightarrow> 'w \<Rightarrow> 'w"
  web_uuid :: "'w \<Rightarrow> string \<times> 'w"
  web_iso :: "'w \<Rightarrow> string"
  web_parse :: "schema \<Rightarrow> json option \<Rightarrow> zres"
  web_request_id :: "string option"

record 'w net =
  net_world :: 'w
  net_log :: "(sent \<times> fetch_reply) list"
  net_waits :: "nat list"

definition fetch :: "'w web_env \<Rightarrow> sent \<Rightarrow> (('w, 'm) net_scheme, 'e, fetch_reply) act" where
  "fetch env rq s =
     (case web_fetch env rq (net_world s) of
        (r, w) \<Rightarrow> (Inr r, s\<lparr>net_world := w, net_log := (rq, r) # net_log s\<rparr>))"

definition randomUUID :: "'w web_env \<Rightarrow> (('w, 'm) net_scheme, 'e, string) act" where
  "randomUUID env s = (case web_uuid env (net_world s) of (u, w) \<Rightarrow> (Inr u, s\<lparr>net_world := w\<rparr>))"

text \<open>\<^verbatim>\<open>sleep(Math.random() * ceiling)\<close>: the world goes on for some time below the ceiling.\<close>

definition sleep_below :: "'w web_env \<Rightarrow> nat \<Rightarrow> (('w, 'm) net_scheme, 'e, unit) act" where
  "sleep_below env n s = (Inr (), s\<lparr>net_world := web_sleep env n (net_world s), net_waits := n # net_waits s\<rparr>)"

definition response_is_ok :: "nat \<Rightarrow> bool" where
  "response_is_ok status = (200 \<le> status \<and> status \<le> 299)"

section \<open>Requests and responses of a route handler\<close>

record web_request =
  wr_params :: "(string \<times> string) list"
  wr_query :: "(string \<times> string) list"
  wr_headers :: "(string \<times> string) list"
  wr_cookies :: "(string \<times> string) list"
  wr_body :: body

record response =
  rs_status :: nat
  rs_headers :: "(string \<times> string) list"
  rs_body :: "json option"

definition may_carry_body :: "nat \<Rightarrow> bool" where
  "may_carry_body status = (200 \<le> status \<and> status \<le> 599 \<and> status \<notin> {204, 205, 304})"

definition json_response :: "json option \<Rightarrow> nat \<Rightarrow> (string \<times> string) list \<Rightarrow> response option" where
  "json_response v status hs =
     (if v \<noteq> None \<and> may_carry_body status then Some \<lparr>rs_status = status, rs_headers = hs, rs_body = v\<rparr> else None)"

definition path_param :: "web_request \<Rightarrow> string \<Rightarrow> string" where
  "path_param req k = nullish (map_of (wr_params req) k) []"

section \<open>Lemmas\<close>

lemma below_16: "n < 16 \<Longrightarrow> n \<in> {0, 1, 2, 3, 4, 5, 6, 7, 8, 9, 10, 11, 12, 13, 14, 15 :: nat}"
  by (simp; arith)

lemma encoded_chars:
  assumes "c \<in> set (encodeURIComponent s)"
  shows "uri_unreserved c \<or> c = CHR ''%''"
proof -
  have hex: "uri_unreserved (hex_digit n)" if "n < 16" for n
    using below_16 [OF that] by (auto simp: hex_digit_def uri_unreserved_def is_digit_def is_upper_def in_range_def)
  from assms obtain x where "c \<in> set (encode_char x)" by (auto simp: encodeURIComponent_def)
  moreover have "code_unit x div 16 < 16"
    using nat_of_char_less_256 [of x] by linarith
  ultimately show ?thesis
    using hex [of "code_unit x div 16"] hex [of "code_unit x mod 16"] by (auto simp: encode_char_def split: if_splits)
qed

text \<open>An encoded identifier is a single path segment: it cannot leave its place in the path.\<close>

lemma encoded_no_separator:
  "CHR ''/'' \<notin> set (encodeURIComponent s)" "CHR ''?'' \<notin> set (encodeURIComponent s)"
  "CHR ''#'' \<notin> set (encodeURIComponent s)"
  by (auto dest!: encoded_chars simp: uri_unreserved_def is_upper_def is_lower_def is_digit_def in_range_def)

lemma map_of_js_set: "map_of (js_set k v fs) = (map_of fs)(k \<mapsto> v)"
proof (cases "k \<in> fst ` set fs")
  case True
  have others: "x \<noteq> k \<Longrightarrow> map_of (map (\<lambda>(k', v'). if k' = k then (k, v) else (k', v')) fs) x = map_of fs x" for x
    by (induction fs) auto
  from True have "map_of (map (\<lambda>(k', v'). if k' = k then (k, v) else (k', v')) fs) k = Some v"
    by (induction fs) (auto split: if_splits)
  with True others show ?thesis by (auto simp: js_set_def)
next
  case False
  then have "map_of fs k = None" by (simp add: map_of_eq_None_iff)
  with False show ?thesis by (auto simp: js_set_def fun_eq_iff map_add_def split: option.splits)
qed

lemma keys_js_set: "fst ` set (js_set k v fs) = insert k (fst ` set fs)"
  by (force simp: js_set_def)

lemma map_of_js_spread: "map_of (js_spread fs gs) = map_of fs ++ map_of (rev gs)"
  by (induction fs gs rule: js_spread.induct) (auto simp: map_of_js_set map_add_def fun_eq_iff split: option.splits)

lemma keys_js_spread: "fst ` set (js_spread fs gs) = fst ` set fs \<union> fst ` set gs"
  by (induction fs gs rule: js_spread.induct) (auto simp: keys_js_set)

lemma json_response_SomeD:
  "json_response v status hs = Some r \<Longrightarrow> rs_status r = status \<and> rs_body r = v \<and> rs_headers r = hs \<and> may_carry_body status"
  by (auto simp: json_response_def split: if_splits)

lemma fetch_run:
  "fetch env rq s = (Inr (fst (web_fetch env rq (net_world s))),
     s\<lparr>net_world := snd (web_fetch env rq (net_world s)),
       net_log := (rq, fst (web_fetch env rq (net_world s))) # net_log s\<rparr>)"
  by (simp add: fetch_def split: prod.splits)

context zod
begin

text \<open>An object is accepted when it has no unknown key and every declared field is accepted.\<close>

lemma object_accepts:
  assumes "known_keys os (map fst fs)" "\<And>k s. (k, s) \<in> set fs \<Longrightarrow> \<exists>w. parse s (map_of os k) = Accept w"
  shows "\<exists>r. parse (ZObject u fs) (Some (JObj os)) = Accept r"
proof -
  have "\<exists>out. collect_fields (map (\<lambda>(k, s). (k, parse s (lookup os k))) fs) = Some out"
    using assms(2)
  proof (induction fs)
    case (Cons f fs)
    obtain k s where f: "f = (k, s)" by (cases f)
    from Cons obtain out where "collect_fields (map (\<lambda>(k, s). (k, parse s (lookup os k))) fs) = Some out"
      by fastforce
    moreover from Cons.prems f obtain w where "parse s (lookup os k) = Accept w"
      by (auto simp: lookup_def)
    ultimately show ?case
      using f by (cases w) simp_all
  qed simp
  then show ?thesis
    using assms(1) by (auto simp: parse_object object_result_def)
qed

end

end
