(* ===== verification/Admin_App.thy ===== *)
theory Admin_App
  imports Web
begin

text \<open>
  The operations tool (\<^verbatim>\<open>apps/admin/src\<close>): its service client (\<^verbatim>\<open>lib/admin-api.ts\<close>), the session check
  (\<^verbatim>\<open>lib/session.ts\<close>), the guard every mutating route runs under (\<^verbatim>\<open>app/api/admin/_guard.ts\<close>) and those routes
  (\<^verbatim>\<open>app/api/admin/**/route.ts\<close>). The client sends one request per call and never repeats it.

  The lemmas follow the log of requests: \<open>requireAdmin\<close> sends at most two, both to identity-service, and
  a route goes on to act only when the profile it got back is privileged.
\<close>

section \<open>lib/admin-api.ts\<close>

record AdminApiError =
  ae_status :: nat
  ae_code :: string
  ae_requestId :: string
  ae_message :: string

datatype refusal = Unauthenticated | NoRole | NoMfa

fun refusal_text :: "refusal \<Rightarrow> string" where
  "refusal_text Unauthenticated = ''unauthenticated''"
| "refusal_text NoRole = ''no-role''"
| "refusal_text NoMfa = ''no-mfa''"

datatype admin_thrown = AdminApi AdminApiError | NotAuthorised refusal | AdminZodError | AdminSyntaxError | AdminTypeError

definition admin_error :: "nat \<Rightarrow> string \<Rightarrow> string \<Rightarrow> string \<Rightarrow> admin_thrown" where
  "admin_error status code rid msg =
     AdminApi \<lparr>ae_status = status, ae_code = code, ae_requestId = rid, ae_message = msg\<rparr>"

datatype AdminService = AdmIdentity | AdmCatalog | AdmOrder | AdmInventory | AdmPayment | AdmSearch | AdmReview

fun admin_service_text :: "AdminService \<Rightarrow> string" where
  "admin_service_text AdmIdentity = ''identity''"
| "admin_service_text AdmCatalog = ''catalog''"
| "admin_service_text AdmOrder = ''order''"
| "admin_service_text AdmInventory = ''inventory''"
| "admin_service_text AdmPayment = ''payment''"
| "admin_service_text AdmSearch = ''search''"
| "admin_service_text AdmReview = ''review''"

definition ADMIN_SERVICES :: "'w web_env \<Rightarrow> AdminService \<Rightarrow> string option" where
  "ADMIN_SERVICES env svc = web_variable env (''SOUQ_'' @ to_upper (admin_service_text svc) @ ''_URL'')"

definition TIMEOUT_MS :: nat where
  "TIMEOUT_MS = 10000"

record admin_options =
  ao_service :: AdminService
  ao_path :: string
  ao_schema :: schema
  ao_method :: "string option"
  ao_body :: "json option"
  ao_accessToken :: string
  ao_idempotencyKey :: "string option"

definition admin_request :: "'w web_env \<Rightarrow> admin_options \<Rightarrow> string \<Rightarrow> sent" where
  "admin_request env opts rid =
     \<lparr>rq_url = the (ADMIN_SERVICES env (ao_service opts)) @ ao_path opts,
      rq_method = nullish (ao_method opts) ''GET'',
      rq_headers =
        [(''Accept'', ''application/json''), (''Authorization'', ''Bearer '' @ ao_accessToken opts),
         (''X-Request-Id'', rid), (''X-Correlation-Id'', rid), (''X-Actor-Kind'', ''admin'')]
        @ (if ao_body opts \<noteq> None then [(''Content-Type'', ''application/json'')] else [])
        @ (if truthy (ao_idempotencyKey opts) then [(''Idempotency-Key'', the (ao_idempotencyKey opts))] else []),
      rq_body = ao_body opts, rq_cache = NoStore\<rparr>"

definition body_value :: "body \<Rightarrow> json option" where
  "body_value b = (case b of Unreadable \<Rightarrow> None | Json j \<Rightarrow> Some j)"

definition admin_received :: "'w web_env \<Rightarrow> admin_options \<Rightarrow> string \<Rightarrow> fetch_reply \<Rightarrow> admin_thrown + json option" where
  "admin_received env opts rid reply =
     (let svc = admin_service_text (ao_service opts)
      in case reply of
           Aborted \<Rightarrow>
             Inl (admin_error 504 ''UPSTREAM_TIMEOUT'' rid (svc @ '' did not respond within '' @ show_nat TIMEOUT_MS @ ''ms''))
         | NetworkError msg \<Rightarrow> Inl (admin_error 502 ''UPSTREAM_UNAVAILABLE'' rid (''could not reach '' @ svc))
         | Response status hdr b \<Rightarrow>
             (let urid = nullish hdr rid
              in if \<not> response_is_ok status
                 then (case web_parse env ProblemDetails (body_value b) of
                         Accept data \<Rightarrow>
                           Inl (admin_error status (str_field data ''code'') urid
                             (nullish (opt_str_field data ''detail'') (str_field data ''title'')))
                       | Reject \<Rightarrow> Inl (admin_error status ''INTERNAL_ERROR'' urid (''status '' @ show_nat status)))
                 else if status = 204
                 then (case web_parse env (ao_schema opts) None of Accept v \<Rightarrow> Inr v | Reject \<Rightarrow> Inl AdminZodError)
                 else case b of
                        Unreadable \<Rightarrow> Inl AdminSyntaxError
                      | Json j \<Rightarrow>
                          (case web_parse env (ao_schema opts) (Some j) of
                             Accept v \<Rightarrow> Inr v
                           | Reject \<Rightarrow>
                               Inl (admin_error 502 ''UPSTREAM_UNAVAILABLE'' urid
                                 (svc @ '' returned a response that does not match the contract'')))))"

definition admin_request_id :: "'w web_env \<Rightarrow> ('w net, admin_thrown, string) act" where
  "admin_request_id env = (case web_request_id env of Some rid \<Rightarrow> ret rid | None \<Rightarrow> randomUUID env)"

definition adminCall :: "'w web_env \<Rightarrow> admin_options \<Rightarrow> ('w net, admin_thrown, json option) act" where
  "adminCall env opts =
     (if \<not> truthy (ADMIN_SERVICES env (ao_service opts))
      then raise (admin_error 500 ''INTERNAL_ERROR'' []
        (''SOUQ_'' @ to_upper (admin_service_text (ao_service opts)) @ ''_URL is not configured''))
      else and_then (admin_request_id env) (\<lambda>rid.
           and_then (fetch env (admin_request env opts rid)) (\<lambda>reply.
           lift_sum (admin_received env opts rid reply))))"

definition gatherAdmin :: "(string \<times> ('e + 'a)) list \<Rightarrow> (string \<times> 'a option) list" where
  "gatherAdmin ps = map (\<lambda>(key, r). (key, case r of Inl e \<Rightarrow> None | Inr v \<Rightarrow> Some v)) ps"

section \<open>lib/session.ts\<close>

record AdminSession =
  as_accessToken :: string
  as_user :: "json option"

definition refresh_options :: "string \<Rightarrow> admin_options" where
  "refresh_options rt =
     \<lparr>ao_service = AdmIdentity, ao_path = ''/v1/auth/refresh'', ao_schema = TokenPair, ao_method = Some ''POST'',
      ao_body = Some (JObj [(''refreshToken'', JStr rt)]), ao_accessToken = [], ao_idempotencyKey = None\<rparr>"

definition me_options :: "string \<Rightarrow> admin_options" where
  "me_options token =
     \<lparr>ao_service = AdmIdentity, ao_path = ''/v1/me'', ao_schema = UserProfile, ao_method = None,
      ao_body = None, ao_accessToken = token, ao_idempotencyKey = None\<rparr>"

definition includes_role :: "json option \<Rightarrow> string \<Rightarrow> bool" where
  "includes_role user role = (case get_prop user ''roles'' of Some (JArr rs) \<Rightarrow> JStr role \<in> set rs | _ \<Rightarrow> False)"

definition privileged :: "json option \<Rightarrow> bool" where
  "privileged user = (includes_role user ''ADMIN'' \<or> includes_role user ''OPS'')"

definition exchange_refresh :: "'w web_env \<Rightarrow> string \<Rightarrow> ('w net, admin_thrown, string) act" where
  "exchange_refresh env rt =
     attempt (and_then (adminCall env (refresh_options rt)) (\<lambda>pair. ret (str_field pair ''accessToken'')))
       (\<lambda>err. case err of
          AdminApi e \<Rightarrow> if ae_status e = 401 then raise (NotAuthorised Unauthenticated) else raise err
        | _ \<Rightarrow> raise err)"

definition requireAdmin :: "'w web_env \<Rightarrow> web_request \<Rightarrow> ('w net, admin_thrown, AdminSession) act" where
  "requireAdmin env req =
     (case map_of (wr_cookies req) ''souq_rt'' of
        None \<Rightarrow> raise (NotAuthorised Unauthenticated)
      | Some rt \<Rightarrow>
          if rt = [] then raise (NotAuthorised Unauthenticated)
          else and_then (exchange_refresh env rt) (\<lambda>token.
               and_then (adminCall env (me_options token)) (\<lambda>user.
               and_then (throw_if (\<not> privileged user) (NotAuthorised NoRole)) (\<lambda>_.
               and_then (throw_if (\<not> js_boolean (get_prop user ''mfaEnabled'')) (NotAuthorised NoMfa)) (\<lambda>_.
               ret \<lparr>as_accessToken = token, as_user = user\<rparr>)))))"

section \<open>app/api/admin/\_guard.ts\<close>

definition ADMIN_HEADERS :: "(string \<times> string) list" where
  "ADMIN_HEADERS = [(''Content-Type'', ''application/problem+json''), (''Cache-Control'', ''no-store'')]"

definition admin_respond :: "json option \<Rightarrow> nat \<Rightarrow> (string \<times> string) list \<Rightarrow> ('s, admin_thrown, response) act" where
  "admin_respond v status hs = (case json_response v status hs of Some r \<Rightarrow> ret r | None \<Rightarrow> raise AdminTypeError)"

definition refusal_json :: "string \<Rightarrow> string \<Rightarrow> string \<Rightarrow> refusal \<Rightarrow> nat \<Rightarrow> json" where
  "refusal_json ts inst rid reason status = JObj
     [(''type'', JStr (''https://errors.souq.dev/admin/'' @ refusal_text reason)), (''title'', JStr ''Not permitted''),
      (''status'', JNum (of_nat status)),
      (''detail'', JStr (if reason = NoMfa then ''The admin API requires a session with multi-factor authentication.''
                        else ''The admin API requires the ADMIN or OPS role.'')),
      (''code'', JStr (if status = 401 then ''UNAUTHENTICATED'' else ''FORBIDDEN'')), (''instance'', JStr inst),
      (''requestId'', JStr rid), (''timestamp'', JStr ts)]"

definition upstream_json :: "string \<Rightarrow> string \<Rightarrow> string \<Rightarrow> AdminApiError \<Rightarrow> json" where
  "upstream_json ts inst rid e = JObj
     [(''type'', JStr (''https://errors.souq.dev/admin/'' @ replace_char CHR ''_'' CHR ''-'' (to_lower (ae_code e)))),
      (''title'', JStr ''Upstream rejected the request''), (''status'', JNum (of_nat (ae_status e))),
      (''detail'', JStr (ae_message e)), (''code'', JStr (ae_code e)), (''instance'', JStr inst),
      (''requestId'', JStr rid), (''timestamp'', JStr ts)]"

definition unhandled_json :: "string \<Rightarrow> string \<Rightarrow> string \<Rightarrow> json" where
  "unhandled_json ts inst rid = JObj
     [(''type'', JStr ''https://errors.souq.dev/admin/internal-error''), (''title'', JStr ''Internal error''),
      (''status'', JNum 500), (''detail'', JStr (''Request '' @ rid @ '' failed.'')), (''code'', JStr ''INTERNAL_ERROR''),
      (''instance'', JStr inst), (''requestId'', JStr rid), (''timestamp'', JStr ts)]"

definition adminProblem :: "'w web_env \<Rightarrow> string \<Rightarrow> admin_thrown \<Rightarrow> ('w net, admin_thrown, response) act" where
  "adminProblem env inst err =
     and_then (case err of AdminApi e \<Rightarrow> if ae_requestId e \<noteq> [] then ret (ae_requestId e) else randomUUID env
                         | _ \<Rightarrow> randomUUID env) (\<lambda>rid.
     and_then (asks (\<lambda>s. web_iso env (net_world s))) (\<lambda>ts.
       case err of
         NotAuthorised reason \<Rightarrow>
           (let status = (if reason = Unauthenticated then 401 else 403)
            in admin_respond (Some (refusal_json ts inst rid reason status)) status ADMIN_HEADERS)
       | AdminApi e \<Rightarrow> admin_respond (Some (upstream_json ts inst rid e)) (ae_status e) ADMIN_HEADERS
       | _ \<Rightarrow> admin_respond (Some (unhandled_json ts inst rid)) 500 ADMIN_HEADERS))"

definition or_ok :: "json option \<Rightarrow> json" where
  "or_ok v = (case v of None \<Rightarrow> JObj [(''ok'', JBool True)] | Some JNull \<Rightarrow> JObj [(''ok'', JBool True)] | Some j \<Rightarrow> j)"

definition withAdmin ::
  "'w web_env \<Rightarrow> web_request \<Rightarrow> string \<Rightarrow> (AdminSession \<Rightarrow> ('w net, admin_thrown, json option) act) \<Rightarrow>
   ('w net, admin_thrown, response) act" where
  "withAdmin env req inst handle =
     attempt (and_then (requireAdmin env req) (\<lambda>session.
              and_then (handle session) (\<lambda>result.
              admin_respond (Some (or_ok result)) 200 [(''Cache-Control'', ''no-store'')])))
       (adminProblem env inst)"

section \<open>The routes\<close>

definition admin_parse_body :: "'w web_env \<Rightarrow> schema \<Rightarrow> web_request \<Rightarrow> ('w net, admin_thrown, json option) act" where
  "admin_parse_body env sch req =
     (case wr_body req of
        Unreadable \<Rightarrow> raise AdminSyntaxError
      | Json j \<Rightarrow> (case web_parse env sch (Some j) of Accept v \<Rightarrow> ret v | Reject \<Rightarrow> raise AdminZodError))"

definition UpdateBody :: schema where
  "UpdateBody = z_strict
     [(''version'', z_int_min 0),
      (''title'', ZOptional (ZString [MaxLen 500])),
      (''description'', ZOptional (ZString [MaxLen 20000])),
      (''brand'', ZOptional (ZString [MaxLen 200])),
      (''categorySlug'', ZOptional (ZString [MaxLen 200])),
      (''status'', ZOptional (ZEnum [''DRAFT'', ''ACTIVE'', ''ARCHIVED'', ''DISCONTINUED'']))]"

definition act_options :: "AdminService \<Rightarrow> string \<Rightarrow> string \<Rightarrow> json option \<Rightarrow> string \<Rightarrow> string option \<Rightarrow> admin_options" where
  "act_options svc path meth body token key =
     \<lparr>ao_service = svc, ao_path = path, ao_schema = ZUnknown, ao_method = Some meth, ao_body = body,
      ao_accessToken = token, ao_idempotencyKey = key\<rparr>"

definition product_path :: "web_request \<Rightarrow> string" where
  "product_path req = ''/v1/admin/products/'' @ encodeURIComponent (path_param req ''id'')"

definition patch_product :: "'w web_env \<Rightarrow> web_request \<Rightarrow> ('w net, admin_thrown, response) act" where
  "patch_product env req = withAdmin env req (''/api/admin/catalog/'' @ path_param req ''id'') (\<lambda>session.
     and_then (admin_parse_body env UpdateBody req) (\<lambda>body.
     adminCall env (act_options AdmCatalog (product_path req) ''PATCH'' body (as_accessToken session) None)))"

definition delete_product :: "'w web_env \<Rightarrow> web_request \<Rightarrow> ('w net, admin_thrown, response) act" where
  "delete_product env req = withAdmin env req (''/api/admin/catalog/'' @ path_param req ''id'') (\<lambda>session.
     adminCall env (act_options AdmCatalog (product_path req) ''DELETE'' None (as_accessToken session) None))"

definition PriceBody :: schema where
  "PriceBody = z_strict
     [(''sku'', ZString [MinLen 1, MaxLen 64]),
      (''price'', z_int_min 0),
      (''listPrice'', ZNullable (z_int_min 0)),
      (''currency'', ZString [Pattern (rx_rep 3 (RCls cls_upper))]),
      (''reason'', ZString [MinLen 3, MaxLen 200])]"

text \<open>The body without \<^verbatim>\<open>sku\<close>; a property that is undefined is not serialised.\<close>

definition price_payload :: "json option \<Rightarrow> json" where
  "price_payload body = JObj (concat (map
     (\<lambda>k. case get_prop body k of None \<Rightarrow> [] | Some v \<Rightarrow> [(k, v)]) [''price'', ''listPrice'', ''currency'', ''reason'']))"

definition price_path :: "web_request \<Rightarrow> string \<Rightarrow> string" where
  "price_path req sku = product_path req @ ''/variants/'' @ encodeURIComponent sku @ ''/price''"

definition post_price :: "'w web_env \<Rightarrow> web_request \<Rightarrow> ('w net, admin_thrown, response) act" where
  "post_price env req = withAdmin env req (''/api/admin/catalog/'' @ path_param req ''id'' @ ''/price'') (\<lambda>session.
     and_then (admin_parse_body env PriceBody req) (\<lambda>body.
     adminCall env (act_options AdmCatalog (price_path req (str_field body ''sku'')) ''POST''
       (Some (price_payload body)) (as_accessToken session) None)))"

definition OrderAction :: schema where
  "OrderAction = ZEnum [''retry'', ''cancel'']"

definition RetryBody :: schema where
  "RetryBody = z_strict [(''step'', ZEnum [''RESERVE'', ''AUTHORIZE'', ''COMMIT'', ''CAPTURE'', ''RELEASE'', ''VOID''])]"

definition unknown_action :: "string \<Rightarrow> admin_thrown" where
  "unknown_action action =
     admin_error 400 ''VALIDATION_FAILED'' [] (''unknown action '' @ [CHR 0x27] @ action @ [CHR 0x27])"

definition no_step :: admin_thrown where
  "no_step = admin_error 400 ''VALIDATION_FAILED'' [] ''a retry must name a saga step''"

definition enum_value :: "json option \<Rightarrow> string" where
  "enum_value v = (case v of Some (JStr t) \<Rightarrow> t | _ \<Rightarrow> [])"

definition order_call :: "web_request \<Rightarrow> string \<Rightarrow> json option \<Rightarrow> string \<Rightarrow> AdminSession \<Rightarrow> admin_options" where
  "order_call req action body key session =
     act_options AdmOrder (''/v1/admin/orders/'' @ encodeURIComponent (path_param req ''id'') @ ''/'' @ action) ''POST'' body
       (as_accessToken session) (Some key)"

definition post_order_action :: "'w web_env \<Rightarrow> web_request \<Rightarrow> ('w net, admin_thrown, response) act" where
  "post_order_action env req =
     (let ident = path_param req ''id''; action = path_param req ''action''
      in case web_parse env OrderAction (Some (JStr action)) of
           Reject \<Rightarrow> adminProblem env (''/api/admin/orders/'' @ ident @ ''/'' @ action) (unknown_action action)
         | Accept data \<Rightarrow>
             (let inst = ''/api/admin/orders/'' @ ident @ ''/'' @ enum_value data
              in if enum_value data = ''retry''
                 then (case wr_body req of
                         Unreadable \<Rightarrow> adminProblem env inst no_step
                       | Json j \<Rightarrow>
                           (case web_parse env RetryBody (Some j) of
                              Reject \<Rightarrow> adminProblem env inst no_step
                            | Accept body \<Rightarrow>
                                withAdmin env req inst (\<lambda>session. adminCall env (order_call req ''retry'' body
                                  (''saga:retry:'' @ ident @ '':'' @ str_field body ''step'') session))))
                 else withAdmin env req inst (\<lambda>session. adminCall env (order_call req ''cancel''
                        (Some (JObj [(''reason'', JStr ''OPERATOR_CANCELLED'')])) (''saga:cancel:'' @ ident) session))))"

definition DlqAction :: schema where
  "DlqAction = ZEnum [''replay'', ''discard'']"

definition dlq_path :: "web_request \<Rightarrow> string \<Rightarrow> string" where
  "dlq_path req action = ''/v1/admin/dlq/'' @ encodeURIComponent (path_param req ''id'') @ ''/'' @ action"

definition post_dlq_action :: "'w web_env \<Rightarrow> web_request \<Rightarrow> ('w net, admin_thrown, response) act" where
  "post_dlq_action env req =
     (let ident = path_param req ''id''; action = path_param req ''action''
      in case web_parse env DlqAction (Some (JStr action)) of
           Reject \<Rightarrow> adminProblem env (''/api/admin/dlq/'' @ ident @ ''/'' @ action) (unknown_action action)
         | Accept data \<Rightarrow>
             withAdmin env req (''/api/admin/dlq/'' @ ident @ ''/'' @ enum_value data) (\<lambda>session. adminCall env
               (act_options AdmOrder (dlq_path req (enum_value data)) ''POST'' None
                  (as_accessToken session) (Some (''dlq:'' @ enum_value data @ '':'' @ ident)))))"

datatype admin_route = PatchProduct | DeleteProduct | PostPrice | PostOrderAction | PostDlqAction

fun admin_handler :: "admin_route \<Rightarrow> 'w web_env \<Rightarrow> web_request \<Rightarrow> ('w net, admin_thrown, response) act" where
  "admin_handler PatchProduct = patch_product"
| "admin_handler DeleteProduct = delete_product"
| "admin_handler PostPrice = post_price"
| "admin_handler PostOrderAction = post_order_action"
| "admin_handler PostDlqAction = post_dlq_action"

section \<open>app/api/health/ready\<close>

definition ADMIN_REQUIRED :: "string list" where
  "ADMIN_REQUIRED = [''SOUQ_IDENTITY_URL'', ''SOUQ_CATALOG_URL'', ''SOUQ_ORDER_URL'']"

definition admin_ready :: "'w web_env \<Rightarrow> nat \<times> string list" where
  "admin_ready env =
     (let missing = filter (\<lambda>n. \<not> truthy (web_variable env n)) ADMIN_REQUIRED
      in if missing \<noteq> [] then (503, missing) else (200, []))"

section \<open>What a call sends\<close>

lemma admin_request_id_run:
  obtains rid w where "admin_request_id env s = (Inr rid, s\<lparr>net_world := w\<rparr>)"
proof (cases "web_request_id env")
  case (Some rid)
  then have "admin_request_id env s = (Inr rid, s\<lparr>net_world := net_world s\<rparr>)"
    by (simp add: admin_request_id_def)
  then show thesis by (rule that)
next
  case None
  obtain rid w where "web_uuid env (net_world s) = (rid, w)" by (cases "web_uuid env (net_world s)")
  with None have "admin_request_id env s = (Inr rid, s\<lparr>net_world := w\<rparr>)"
    by (simp add: admin_request_id_def randomUUID_def)
  then show thesis by (rule that)
qed

text \<open>A call sends its request once, or throws before it sends anything.\<close>

lemma adminCall_cases:
  obtains (sent) rid reply where
    "net_log (snd (adminCall env opts s)) = (admin_request env opts rid, reply) # net_log s"
    "fst (adminCall env opts s) = admin_received env opts rid reply"
  | (unsent) err where "net_log (snd (adminCall env opts s)) = net_log s" "fst (adminCall env opts s) = Inl err"
proof (cases "truthy (ADMIN_SERVICES env (ao_service opts))")
  case True
  obtain rid w where "admin_request_id env s = (Inr rid, s\<lparr>net_world := w\<rparr>)"
    by (rule admin_request_id_run)
  with True have "adminCall env opts s = and_then (fetch env (admin_request env opts rid))
      (\<lambda>reply. lift_sum (admin_received env opts rid reply)) (s\<lparr>net_world := w\<rparr>)"
    by (simp add: adminCall_def and_then_def)
  then show thesis
    by (intro sent) (simp_all add: and_then_def fetch_run)
next
  case False
  then show thesis
    by (intro unsent) (simp_all add: adminCall_def)
qed

lemma adminProblem_log [simp]: "net_log (snd (adminProblem env inst err s)) = net_log s"
  by (simp add: adminProblem_def and_then_def randomUUID_def admin_respond_def Let_def
      split: admin_thrown.splits prod.splits option.splits)

lemma admin_respond_log [simp]: "net_log (snd (admin_respond v status hs s)) = net_log s"
  by (simp add: admin_respond_def split: option.splits)

text \<open>At most one request, and what is said of it.\<close>

definition acts_once :: "(sent \<Rightarrow> bool) \<Rightarrow> ('w net, admin_thrown, 'a) act \<Rightarrow> bool" where
  "acts_once good m =
     (\<forall>s. net_log (snd (m s)) = net_log s \<or>
          (\<exists>rq reply. good rq \<and> net_log (snd (m s)) = (rq, reply) # net_log s))"

lemma acts_once_adminCall:
  "(\<And>rid. good (admin_request env opts rid)) \<Longrightarrow> acts_once good (adminCall env opts)"
  unfolding acts_once_def by (metis adminCall_cases)

lemma acts_once_parse_body:
  assumes "\<And>body. acts_once good (k body)"
  shows "acts_once good (and_then (admin_parse_body env sch req) k)"
  using assms
  by (simp add: acts_once_def admin_parse_body_def and_then_def split: body.splits zres.splits)

section \<open>What the guard sends\<close>

definition identity_urls :: "'w web_env \<Rightarrow> string list" where
  "identity_urls env =
     [the (ADMIN_SERVICES env AdmIdentity) @ ''/v1/auth/refresh'', the (ADMIN_SERVICES env AdmIdentity) @ ''/v1/me'']"

definition asks_identity :: "'w web_env \<Rightarrow> (sent \<times> fetch_reply) list \<Rightarrow> bool" where
  "asks_identity env new = (length new \<le> 2 \<and> list_all (\<lambda>(rq, reply). rq_url rq \<in> set (identity_urls env)) new)"

text \<open>The answer of identity-service that vouches for an operator: a profile with the role and the
  second factor, asked for with the token that is then used.\<close>

definition vouches :: "'w web_env \<Rightarrow> string \<Rightarrow> json option \<Rightarrow> sent \<times> fetch_reply \<Rightarrow> bool" where
  "vouches env token user x =
     (\<exists>rid. fst x = admin_request env (me_options token) rid \<and>
        admin_received env (me_options token) rid (snd x) = Inr user \<and>
        privileged user \<and> js_boolean (get_prop user ''mfaEnabled''))"

lemma identity_requests:
  "rq_url (admin_request env (refresh_options rt) rid) \<in> set (identity_urls env)"
  "rq_url (admin_request env (me_options token) rid) \<in> set (identity_urls env)"
  by (simp_all add: admin_request_def refresh_options_def me_options_def identity_urls_def)

lemma exchange_refresh_cases:
  obtains (exchanged) token x where "exchange_refresh env rt s = (Inr token, snd (exchange_refresh env rt s))"
    "net_log (snd (exchange_refresh env rt s)) = x # net_log s" "rq_url (fst x) \<in> set (identity_urls env)"
  | (failed) err new where "fst (exchange_refresh env rt s) = Inl err"
    "net_log (snd (exchange_refresh env rt s)) = new @ net_log s" "length new \<le> 1"
    "list_all (\<lambda>(rq, reply). rq_url rq \<in> set (identity_urls env)) new"
proof -
  have snd: "snd (exchange_refresh env rt s) = snd (adminCall env (refresh_options rt) s)"
    by (simp add: exchange_refresh_def attempt_def and_then_def split: prod.splits sum.splits admin_thrown.splits)
  have returned: "\<exists>r. fst (adminCall env (refresh_options rt) s) = Inr r" if "fst (exchange_refresh env rt s) = Inr token" for token
    using that by (auto simp: exchange_refresh_def attempt_def and_then_def split: prod.splits sum.splits admin_thrown.splits if_splits)
  show thesis
  proof (cases "fst (exchange_refresh env rt s)")
    case (Inr token)
    show thesis
    proof (cases rule: adminCall_cases [of env "refresh_options rt" s])
      case (sent rid reply)
      then show thesis
        using Inr snd identity_requests
        by (intro exchanged [of token "(admin_request env (refresh_options rt) rid, reply)"]) (simp_all add: prod_eq_iff)
    next
      case (unsent err)
      with returned [OF Inr] show thesis by simp
    qed
  next
    case (Inl err)
    show thesis
    proof (cases rule: adminCall_cases [of env "refresh_options rt" s])
      case (sent rid reply)
      then show thesis
        using Inl snd identity_requests by (intro failed [of err "[(admin_request env (refresh_options rt) rid, reply)]"]) simp_all
    next
      case (unsent err')
      then show thesis
        using Inl snd by (intro failed [of err "[]"]) simp_all
    qed
  qed
qed

lemma requireAdmin_log:
  "\<exists>new. net_log (snd (requireAdmin env req s)) = new @ net_log s \<and>
     (case fst (requireAdmin env req s) of
        Inl err \<Rightarrow> asks_identity env new
      | Inr session \<Rightarrow> \<exists>me rf. new = [me, rf] \<and> rq_url (fst rf) \<in> set (identity_urls env) \<and>
          vouches env (as_accessToken session) (as_user session) me)"
proof (cases "truthy (map_of (wr_cookies req) ''souq_rt'')")
  case False
  then have "\<exists>err. requireAdmin env req s = (Inl err, s)"
    by (auto simp: requireAdmin_def truthy_def split: option.splits)
  then show ?thesis by (auto simp: asks_identity_def)
next
  case True
  then obtain rt where rt: "map_of (wr_cookies req) ''souq_rt'' = Some rt" "rt \<noteq> []"
    by (rule truthyE)
  show ?thesis
  proof (cases rule: exchange_refresh_cases [of env rt s])
    case (failed err new)
    moreover have "requireAdmin env req s = (Inl err, snd (exchange_refresh env rt s))"
    proof -
      have "exchange_refresh env rt s = (Inl err, snd (exchange_refresh env rt s))"
        using failed(1) by (simp add: prod_eq_iff)
      with rt show ?thesis by (simp add: requireAdmin_def and_then_Inl)
    qed
    ultimately show ?thesis by (auto simp: asks_identity_def)
  next
    case (exchanged token rf)
    let ?s1 = "snd (exchange_refresh env rt s)"
    let ?check = "\<lambda>user. and_then (throw_if (\<not> privileged user) (NotAuthorised NoRole)) (\<lambda>_.
               and_then (throw_if (\<not> js_boolean (get_prop user ''mfaEnabled'')) (NotAuthorised NoMfa)) (\<lambda>_.
               ret \<lparr>as_accessToken = token, as_user = user\<rparr>))"
    have run: "requireAdmin env req s = and_then (adminCall env (me_options token)) ?check ?s1"
      using rt and_then_Inr [of "exchange_refresh env rt", OF exchanged(1)] by (simp add: requireAdmin_def)
    have log: "net_log (snd (requireAdmin env req s)) = net_log (snd (adminCall env (me_options token) ?s1))"
      unfolding run by (simp add: and_then_def split: prod.splits sum.splits)
    have ok: "(\<exists>user. fst (adminCall env (me_options token) ?s1) = Inr user \<and> privileged user \<and>
        js_boolean (get_prop user ''mfaEnabled'') \<and> session = \<lparr>as_accessToken = token, as_user = user\<rparr>)"
      if "fst (requireAdmin env req s) = Inr session" for session
      using that unfolding run by (auto simp: and_then_def split: prod.splits sum.splits if_splits)
    show ?thesis
    proof (cases rule: adminCall_cases [of env "me_options token" ?s1])
      case (sent rid reply)
      have "net_log (snd (requireAdmin env req s)) = [(admin_request env (me_options token) rid, reply), rf] @ net_log s"
        using log sent(1) exchanged(2) by simp
      moreover have "vouches env (as_accessToken session) (as_user session) (admin_request env (me_options token) rid, reply)"
        if "fst (requireAdmin env req s) = Inr session" for session
        using ok [OF that] sent(2) unfolding vouches_def by fastforce
      ultimately show ?thesis
        using exchanged(3) identity_requests
        by (intro exI [of _ "[(admin_request env (me_options token) rid, reply), rf]"])
          (auto simp: asks_identity_def split: sum.split)
    next
      case (unsent err)
      then show ?thesis
        using log ok exchanged(2,3) by (intro exI [of _ "[rf]"]) (auto simp: asks_identity_def split: sum.split)
    qed
  qed
qed

text \<open>A guarded action: either identity-service alone was asked, or it vouched for the operator and one
  request followed.\<close>

definition guarded_log :: "'w web_env \<Rightarrow> (sent \<Rightarrow> bool) \<Rightarrow> (sent \<times> fetch_reply) list \<Rightarrow> bool" where
  "guarded_log env good new =
     (asks_identity env new \<or>
      (\<exists>x me rf token user. new = [x, me, rf] \<and> good (fst x) \<and> vouches env token user me \<and>
         rq_url (fst rf) \<in> set (identity_urls env) \<and>
         map_of (rq_headers (fst x)) ''Authorization'' = Some (''Bearer '' @ token)))"

lemma vouches_identity: "vouches env token user me \<Longrightarrow> rq_url (fst me) \<in> set (identity_urls env)"
  using identity_requests by (auto simp: vouches_def)

lemma withAdmin_log:
  assumes "\<And>session. acts_once (\<lambda>rq. good rq \<and>
    map_of (rq_headers rq) ''Authorization'' = Some (''Bearer '' @ as_accessToken session)) (handle session)"
  shows "\<exists>new. net_log (snd (withAdmin env req inst handle s)) = new @ net_log s \<and> guarded_log env good new"
proof -
  obtain x s1 where run: "requireAdmin env req s = (x, s1)" by (cases "requireAdmin env req s")
  from requireAdmin_log [of env req s] run obtain new where new: "net_log s1 = new @ net_log s"
    "case x of Inl err \<Rightarrow> asks_identity env new
      | Inr session \<Rightarrow> \<exists>me rf. new = [me, rf] \<and> rq_url (fst rf) \<in> set (identity_urls env) \<and>
          vouches env (as_accessToken session) (as_user session) me"
    by auto
  show ?thesis
  proof (cases x)
    case (Inl err)
    then have "net_log (snd (withAdmin env req inst handle s)) = net_log s1"
      using run by (simp add: withAdmin_def attempt_def and_then_def)
    with new Inl show ?thesis by (auto simp: guarded_log_def)
  next
    case (Inr session)
    then have "net_log (snd (withAdmin env req inst handle s)) = net_log (snd (handle session s1))"
      using run by (simp add: withAdmin_def attempt_def and_then_def split: prod.splits sum.splits)
        (metis admin_respond_log snd_conv)
    moreover from new(2) Inr obtain me rf where me: "new = [me, rf]" "rq_url (fst rf) \<in> set (identity_urls env)"
      "vouches env (as_accessToken session) (as_user session) me" by auto
    moreover have "asks_identity env new"
      using me vouches_identity by (cases me; cases rf) (auto simp: asks_identity_def)
    moreover note assms [unfolded acts_once_def, rule_format, of session s1]
    ultimately show ?thesis
      using new(1) unfolding guarded_log_def by fastforce
  qed
qed

lemma acts_once_options:
  "acts_once (\<lambda>rq. (\<exists>rid. rq = admin_request env opts rid) \<and>
     map_of (rq_headers rq) ''Authorization'' = Some (''Bearer '' @ ao_accessToken opts)) (adminCall env opts)"
  by (rule acts_once_adminCall) (auto simp: admin_request_def)

lemma guarded_log_nil [simp]: "guarded_log env good []"
  by (simp add: guarded_log_def asks_identity_def)

lemma acts_once_weaken: "acts_once good m \<Longrightarrow> (\<And>rq. good rq \<Longrightarrow> good' rq) \<Longrightarrow> acts_once good' m"
  unfolding acts_once_def by meson

text \<open>The requests a route may make on the operator's behalf.\<close>

definition made_by :: "'w web_env \<Rightarrow> admin_route \<Rightarrow> web_request \<Rightarrow> sent \<Rightarrow> bool" where
  "made_by env rt req rq =
     (\<exists>opts rid. rq = admin_request env opts rid \<and>
        (case rt of
           PatchProduct \<Rightarrow> ao_service opts = AdmCatalog \<and> ao_path opts = product_path req \<and> ao_method opts = Some ''PATCH''
         | DeleteProduct \<Rightarrow> ao_service opts = AdmCatalog \<and> ao_path opts = product_path req \<and> ao_method opts = Some ''DELETE''
         | PostPrice \<Rightarrow> ao_service opts = AdmCatalog \<and> ao_method opts = Some ''POST'' \<and>
             (\<exists>sku. ao_path opts = price_path req sku)
         | PostOrderAction \<Rightarrow> ao_service opts = AdmOrder \<and> ao_method opts = Some ''POST'' \<and>
             (\<exists>action\<in>{''retry'', ''cancel''}.
                ao_path opts = ''/v1/admin/orders/'' @ encodeURIComponent (path_param req ''id'') @ ''/'' @ action)
         | PostDlqAction \<Rightarrow> ao_service opts = AdmOrder \<and> ao_method opts = Some ''POST'' \<and>
             (\<exists>data. web_parse env DlqAction (Some (JStr (path_param req ''action''))) = Accept data \<and>
                ao_path opts = dlq_path req (enum_value data))))"

text \<open>The options of the one call each route makes.\<close>

lemma made_by_simps [simp]:
  "made_by env PatchProduct req (admin_request env (act_options AdmCatalog (product_path req) ''PATCH'' body token key) rid)"
  "made_by env DeleteProduct req (admin_request env (act_options AdmCatalog (product_path req) ''DELETE'' body token key) rid)"
  "made_by env PostPrice req (admin_request env
     (act_options AdmCatalog (price_path req sku) ''POST'' body token key) rid)"
  "action \<in> {''retry'', ''cancel''} \<Longrightarrow>
     made_by env PostOrderAction req (admin_request env (order_call req action body skey session) rid)"
  "web_parse env DlqAction (Some (JStr (path_param req ''action''))) = Accept data \<Longrightarrow>
     made_by env PostDlqAction req (admin_request env (act_options AdmOrder (dlq_path req (enum_value data)) ''POST'' body token key) rid)"
  unfolding made_by_def admin_route.case order_call_def
  by (rule exI, rule exI, rule conjI, rule refl, force simp: act_options_def)+

lemma act_token [simp]:
  "ao_accessToken (act_options svc path meth body token key) = token"
  "ao_accessToken (order_call req action body skey session) = as_accessToken session"
  by (simp_all add: act_options_def order_call_def)

lemma handler_log:
  "\<exists>new. net_log (snd (admin_handler rt env req s)) = new @ net_log s \<and> guarded_log env (made_by env rt req) new"
proof (cases rt)
  case PatchProduct
  then show ?thesis
    by (auto simp: patch_product_def intro!: withAdmin_log acts_once_parse_body acts_once_weaken [OF acts_once_options])
next
  case DeleteProduct
  then show ?thesis
    by (auto simp: delete_product_def intro!: withAdmin_log acts_once_weaken [OF acts_once_options])
next
  case PostPrice
  then show ?thesis
    by (auto simp: post_price_def intro!: withAdmin_log acts_once_parse_body acts_once_weaken [OF acts_once_options])
next
  case PostOrderAction
  then show ?thesis
    by (auto simp: post_order_action_def Let_def intro!: withAdmin_log
        acts_once_weaken [OF acts_once_options] split: zres.split body.split)
next
  case PostDlqAction
  then show ?thesis
    by (auto simp: post_dlq_action_def Let_def intro!: withAdmin_log
        acts_once_weaken [OF acts_once_options] split: zres.split)
qed

section \<open>Properties\<close>

text \<open>C7: No admin route acts for anyone but an operator. Whatever arrives, the requests of one call are
  either questions to identity-service alone, or exactly three: the exchange of the refresh token, the profile,
  which identity-service answered with the ADMIN or OPS role and a second factor, and one request of
  the route's own, sent with the token the profile was asked for with.\<close>

theorem admin_acts_only_for_operators:
  "\<exists>new. net_log (snd (admin_handler rt env req s)) = new @ net_log s \<and>
     (asks_identity env new \<or>
      (\<exists>x me rf token user. new = [x, me, rf] \<and> made_by env rt req (fst x) \<and>
         rq_url (fst rf) \<in> set (identity_urls env) \<and>
         (\<exists>rid. fst me = admin_request env (me_options token) rid \<and>
            admin_received env (me_options token) rid (snd me) = Inr user) \<and>
         (includes_role user ''ADMIN'' \<or> includes_role user ''OPS'') \<and> js_boolean (get_prop user ''mfaEnabled'') \<and>
         map_of (rq_headers (fst x)) ''Authorization'' = Some (''Bearer '' @ token)))"
proof -
  from handler_log [of rt env req s] obtain new where
    "net_log (snd (admin_handler rt env req s)) = new @ net_log s" "guarded_log env (made_by env rt req) new"
    by blast
  then show ?thesis
    unfolding guarded_log_def vouches_def privileged_def by metis
qed

text \<open>The dead-letter route cannot be talked into another path of order-service: a request it makes names
  \<^verbatim>\<open>replay\<close> or \<^verbatim>\<open>discard\<close> below one path segment, which holds no separator whatever the identifier is.\<close>

theorem dlq_path_confined:
  assumes "zod (web_parse env) fmt" "made_by env PostDlqAction req rq"
  shows "\<exists>seg action. rq_url rq = the (ADMIN_SERVICES env AdmOrder) @ ''/v1/admin/dlq/'' @ seg @ ''/'' @ action \<and>
    action \<in> {''replay'', ''discard''} \<and> CHR ''/'' \<notin> set seg \<and> CHR ''?'' \<notin> set seg \<and> CHR ''#'' \<notin> set seg"
proof -
  from assms(2) obtain opts rid data where rq: "rq = admin_request env opts rid" "ao_service opts = AdmOrder"
    "ao_path opts = dlq_path req (enum_value data)"
    and data: "web_parse env DlqAction (Some (JStr (path_param req ''action''))) = Accept data"
    by (auto simp: made_by_def)
  have "enum_value data \<in> {''replay'', ''discard''}"
    using data by (auto simp: DlqAction_def zod.parse_enum [OF assms(1)] enum_value_def split: if_splits)
  then show ?thesis
    using rq encoded_no_separator [of "path_param req ''id''"]
    by (intro exI [of _ "encodeURIComponent (path_param req ''id'')"] exI [of _ "enum_value data"])
      (simp add: admin_request_def dlq_path_def)
qed

text \<open>An operator's session, scripted.\<close>

definition admin_env :: "fetch_reply list web_env" where
  "admin_env = \<lparr>web_variable = \<lambda>n. Some ''http://svc'', web_fetch = \<lambda>rq w. case w of [] \<Rightarrow> (Aborted, []) | r # rs \<Rightarrow> (r, rs),
     web_sleep = \<lambda>_ w. w, web_uuid = \<lambda>w. (''uuid'', w), web_iso = \<lambda>_. ''2023-11-14T22:13:20.000Z'',
     web_parse = zparse any_format, web_request_id = None\<rparr>"

definition traversal_request :: web_request where
  "traversal_request =
     \<lparr>wr_params = [(''id'', ''../purge''), (''action'', ''replay'')], wr_query = [], wr_headers = [], wr_cookies = [], wr_body = Unreadable\<rparr>"

theorem dlq_path_confined_witness:
  "\<exists>rq seg action. made_by admin_env PostDlqAction traversal_request rq \<and>
     rq_url rq = ''http://svc/v1/admin/dlq/'' @ seg @ ''/'' @ action \<and> CHR ''/'' \<notin> set seg"
proof -
  let ?rq = "admin_request admin_env (act_options AdmOrder (dlq_path traversal_request ''replay'') ''POST'' None ''t'' None) ''r''"
  have "web_parse admin_env DlqAction (Some (JStr (path_param traversal_request ''action''))) = Accept (Some (JStr ''replay''))"
    by (simp add: admin_env_def DlqAction_def traversal_request_def path_param_def)
  from made_by_simps(5) [OF this, of None "''t''" None "''r''"] have made: "made_by admin_env PostDlqAction traversal_request ?rq"
    by (simp add: enum_value_def)
  have "zod (web_parse admin_env) any_format"
    using zp.zod_axioms by (simp add: admin_env_def)
  from dlq_path_confined [OF this made] show ?thesis
    using made by (auto simp: admin_env_def ADMIN_SERVICES_def)
qed

text \<open>The dashboard's panels fail one by one: \<^verbatim>\<open>gatherAdmin\<close> keeps every key in order, with null exactly
  where the call failed.\<close>

theorem gatherAdmin_tolerates:
  "map fst (gatherAdmin ps) = map fst ps \<and>
   (\<forall>i<length ps. snd (gatherAdmin ps ! i) = None \<longleftrightarrow> isl (snd (ps ! i)))"
  by (auto simp: gatherAdmin_def isl_def split: prod.splits sum.splits)

end
