(* ===== verification/Storefront_Catalog.thy ===== *)
theory Storefront_Catalog
  imports Web
begin

text \<open>
  The catalogue pages' own logic: \<^verbatim>\<open>lib/utils.ts\<close>, and of \<^verbatim>\<open>components/catalog/\<close> and \<^verbatim>\<open>components/cart/\<close> the variant
  picker, the stock indicator, the quantity stepper, the pagination and the facets (all under
  \<^verbatim>\<open>apps/storefront/src\<close>). A component's React state is an argument and its handlers are functions on it;
  markup is reduced to what it shows. \<^verbatim>\<open>URLSearchParams\<close> is a list of pairs with the serialisation and the parser
  of the URL standard.

  The lemmas: a query survives its own serialisation; every click on the picker lands on a variant that
  exists; the badge never claims more than was saved although it computes in binary64; the stepper commits quantities in
  range only; and the last page the pagination offers lies beyond what the index serves.
\<close>

section \<open>URLSearchParams\<close>

type_synonym search_params = "(string \<times> string) list"

definition params_getAll :: "search_params \<Rightarrow> string \<Rightarrow> string list" where
  "params_getAll ps k = map snd (filter (\<lambda>(k', v). k' = k) ps)"

definition params_get :: "search_params \<Rightarrow> string \<Rightarrow> string option" where
  "params_get ps k = map_of ps k"

definition params_delete :: "string \<Rightarrow> search_params \<Rightarrow> search_params" where
  "params_delete k ps = filter (\<lambda>(k', v). k' \<noteq> k) ps"

definition params_append :: "string \<Rightarrow> string \<Rightarrow> search_params \<Rightarrow> search_params" where
  "params_append k v ps = ps @ [(k, v)]"

text \<open>\<^verbatim>\<open>set\<close> replaces the first pair of the name and removes the others.\<close>

fun params_set :: "string \<Rightarrow> string \<Rightarrow> search_params \<Rightarrow> search_params" where
  "params_set k v [] = [(k, v)]"
| "params_set k v ((k', v') # ps) =
     (if k' = k then (k, v) # params_delete k ps else (k', v') # params_set k v ps)"

text \<open>The form-urlencoded serialiser.\<close>

definition form_plain :: "char \<Rightarrow> bool" where
  "form_plain c = (is_upper c \<or> is_lower c \<or> is_digit c \<or> c \<in> {CHR ''*'', CHR ''-'', CHR ''.'', CHR ''_''})"

definition form_char :: "char \<Rightarrow> string" where
  "form_char c =
     (if form_plain c then [c] else if c = CHR '' '' then ''+''
      else [CHR ''%'', hex_digit (code_unit c div 16), hex_digit (code_unit c mod 16)])"

definition form_encode :: "string \<Rightarrow> string" where
  "form_encode s = concat (map form_char s)"

fun params_toString :: "search_params \<Rightarrow> string" where
  "params_toString [] = []"
| "params_toString [(k, v)] = form_encode k @ ''='' @ form_encode v"
| "params_toString ((k, v) # p # ps) = form_encode k @ ''='' @ form_encode v @ ''&'' @ params_toString (p # ps)"

text \<open>The parser: split at the ampersands, then at the first equals sign, then decode.\<close>

definition is_hex :: "char \<Rightarrow> bool" where
  "is_hex c = (is_digit c \<or> in_range (CHR ''A'') (CHR ''F'') c \<or> in_range (CHR ''a'') (CHR ''f'') c)"

definition hex_value :: "char \<Rightarrow> nat" where
  "hex_value c = (let n = code_unit c in if n < 58 then n - 48 else if n < 97 then n - 55 else n - 87)"

fun form_decode :: "string \<Rightarrow> string" where
  "form_decode [] = []"
| "form_decode [c] = [if c = CHR ''+'' then CHR '' '' else c]"
| "form_decode [c, d] = (if c = CHR ''+'' then CHR '' '' else c) # form_decode [d]"
| "form_decode (c # a # b # s) =
     (if c = CHR ''+'' then CHR '' '' # form_decode (a # b # s)
      else if c = CHR ''%'' \<and> is_hex a \<and> is_hex b then char_of (16 * hex_value a + hex_value b) # form_decode s
      else c # form_decode (a # b # s))"

definition parse_pair :: "string \<Rightarrow> string \<times> string" where
  "parse_pair w =
     (form_decode (takeWhile (\<lambda>c. c \<noteq> CHR ''='') w), form_decode (tl (dropWhile (\<lambda>c. c \<noteq> CHR ''='') w)))"

definition params_parse :: "string \<Rightarrow> search_params" where
  "params_parse s = map parse_pair (filter (\<lambda>w. w \<noteq> []) (split_on CHR ''&'' s))"

section \<open>lib/utils.ts\<close>

definition discountPercent :: "int \<Rightarrow> int option \<Rightarrow> int option" where
  "discountPercent price listPrice =
     (case listPrice of
        None \<Rightarrow> None
      | Some l \<Rightarrow>
          if l \<le> price then None
          else let saved = \<lfloor>js_times (js_div (of_int (num (l - price))) (of_int l)) 100\<rfloor>
               in if 0 < saved then Some saved else None)"

definition TIME_UNITS :: "(string \<times> int) list" where
  "TIME_UNITS = [(''year'', 31536000), (''month'', 2592000), (''day'', 86400), (''hour'', 3600), (''minute'', 60)]"

fun relative_unit :: "(string \<times> int) list \<Rightarrow> int \<Rightarrow> int \<times> string" where
  "relative_unit [] seconds = (seconds, ''second'')"
| "relative_unit ((unit, sz) # us) seconds =
     (if sz \<le> \<bar>seconds\<bar> then (math_round (js_div (of_int seconds) (of_int sz)), unit) else relative_unit us seconds)"

text \<open>The date parser and \<^verbatim>\<open>Intl.RelativeTimeFormat\<close> are parameters.\<close>

definition relativeTime :: "(string \<Rightarrow> int option) \<Rightarrow> (int \<Rightarrow> string \<Rightarrow> string) \<Rightarrow> int \<Rightarrow> string \<Rightarrow> string" where
  "relativeTime get_time format now_ms iso_text =
     (case get_time iso_text of
        None \<Rightarrow> []
      | Some then_ms \<Rightarrow>
          (case relative_unit TIME_UNITS (math_round (js_div (of_int (then_ms - now_ms)) 1000)) of
             (n, unit) \<Rightarrow> format n unit))"

datatype query_value = QAbsent | QText string | QInt int | QBool bool | QList "string list"

fun query_text :: "query_value \<Rightarrow> string" where
  "query_text (QText s) = s"
| "query_text (QInt i) = show_int i"
| "query_text (QBool b) = (if b then ''true'' else ''false'')"
| "query_text _ = []"

fun add_query :: "string \<times> query_value \<Rightarrow> search_params \<Rightarrow> search_params" where
  "add_query (key, QAbsent) ps = ps"
| "add_query (key, QList vs) ps = fold (params_append key) (filter (\<lambda>v. v \<noteq> []) vs) ps"
| "add_query (key, v) ps = (if v = QText [] then ps else params_set key (query_text v) ps)"

definition toQuery :: "(string \<times> query_value) list \<Rightarrow> string" where
  "toQuery params =
     (let query = params_toString (fold add_query params [])
      in if query \<noteq> [] then ''?'' @ query else [])"

section \<open>variant-picker.tsx\<close>

record product_variant =
  pv_sku :: string
  pv_attributes :: "(string \<times> string) list"
  pv_available :: "int option"
  pv_price :: int

definition selectable :: "product_variant list \<Rightarrow> product_variant list" where
  "selectable variants = filter (\<lambda>v. pv_attributes v \<noteq> []) variants"

fun add_axis :: "string \<times> string \<Rightarrow> (string \<times> string list) list \<Rightarrow> (string \<times> string list) list" where
  "add_axis (k, v) [] = [(k, [v])]"
| "add_axis (k, v) ((k', vs) # axs) =
     (if k' = k then (k', if v \<in> set vs then vs else vs @ [v]) # axs else (k', vs) # add_axis (k, v) axs)"

definition axes :: "product_variant list \<Rightarrow> (string \<times> string list) list" where
  "axes variants = fold (\<lambda>v. fold add_axis (pv_attributes v)) (selectable variants) []"

definition maybe_in_stock :: "product_variant \<Rightarrow> bool" where
  "maybe_in_stock v = (pv_available v = None \<or> 0 < nullish (pv_available v) 0)"

definition initial_variant :: "product_variant list \<Rightarrow> product_variant option" where
  "initial_variant variants =
     (case sort_key pv_price (filter maybe_in_stock (selectable variants)) of
        v # _ \<Rightarrow> Some v
      | [] \<Rightarrow> (case selectable variants of v # _ \<Rightarrow> Some v | [] \<Rightarrow> None))"

definition initial_selected :: "product_variant list \<Rightarrow> (string \<times> string) list" where
  "initial_selected variants = (case initial_variant variants of Some v \<Rightarrow> pv_attributes v | None \<Rightarrow> [])"

definition agrees :: "(string \<times> string) list \<Rightarrow> product_variant \<Rightarrow> bool" where
  "agrees selected v = list_all (\<lambda>(k, x). map_of (pv_attributes v) k = Some x) selected"

definition current_variant :: "product_variant list \<Rightarrow> (string \<times> string) list \<Rightarrow> product_variant option" where
  "current_variant variants selected = find (agrees selected) (selectable variants)"

definition score :: "(string \<times> string) list \<Rightarrow> string \<Rightarrow> product_variant \<Rightarrow> nat" where
  "score selected axis v =
     length (filter (\<lambda>(k, x). k \<noteq> axis \<and> map_of (pv_attributes v) k = Some x) selected)"

definition choose_value ::
  "product_variant list \<Rightarrow> string \<Rightarrow> string \<Rightarrow> (string \<times> string) list \<Rightarrow> (string \<times> string) list" where
  "choose_value variants axis v selected =
     (case filter (\<lambda>x. map_of (pv_attributes x) axis = Some v) (selectable variants) of
        [] \<Rightarrow> selected
      | c # cs \<Rightarrow>
          pv_attributes (foldl (\<lambda>a b. if score selected axis a < score selected axis b then b else a) c cs))"

section \<open>stock-indicator.tsx\<close>

definition LOW_STOCK_THRESHOLD :: int where
  "LOW_STOCK_THRESHOLD = 5"

definition StockIndicator :: "int option \<Rightarrow> string option" where
  "StockIndicator available =
     (case available of
        None \<Rightarrow> None
      | Some n \<Rightarrow>
          if n \<le> 0 then Some ''Out of stock''
          else if n \<le> LOW_STOCK_THRESHOLD then Some (''Only '' @ show_int n @ '' left'')
          else Some ''In stock'')"

definition canAttemptPurchase :: "int option \<Rightarrow> bool" where
  "canAttemptPurchase available = (case available of None \<Rightarrow> True | Some n \<Rightarrow> 0 < n)"

section \<open>quantity-stepper.tsx\<close>

text \<open>\<^verbatim>\<open>Number.parseInt\<close> in base ten: the leading digits, which are all the field admits.\<close>

definition parse_int :: "string \<Rightarrow> int option" where
  "parse_int s =
     (let ds = takeWhile is_digit s
      in if ds = [] then None else Some (digits_value ds))"

definition draft_changed :: "string \<Rightarrow> string" where
  "draft_changed typed = filter is_digit typed"

text \<open>The new draft, and the quantity passed to \<^verbatim>\<open>onCommit\<close> if it is called.\<close>

definition commit_draft :: "int \<Rightarrow> int \<Rightarrow> int \<Rightarrow> string \<Rightarrow> string \<times> int option" where
  "commit_draft lo hi v draft =
     (case parse_int draft of
        None \<Rightarrow> (show_int v, None)
      | Some parsed \<Rightarrow>
          let clamped = max lo (min hi parsed)
          in (show_int clamped, if clamped \<noteq> v then Some clamped else None))"

definition decrease :: "int \<Rightarrow> bool \<Rightarrow> int \<Rightarrow> int option" where
  "decrease lo disabled v = (if disabled \<or> v \<le> lo then None else Some (v - 1))"

definition increase :: "int \<Rightarrow> bool \<Rightarrow> int \<Rightarrow> int option" where
  "increase hi disabled v = (if disabled \<or> hi \<le> v then None else Some (v + 1))"

section \<open>pagination.tsx\<close>

definition MAX_RESULT_WINDOW :: int where
  "MAX_RESULT_WINDOW = 10000"

definition lastPage :: "int \<Rightarrow> int \<Rightarrow> int" where
  "lastPage sz count = max 1 \<lceil>js_div (of_int (min count MAX_RESULT_WINDOW)) (of_int sz)\<rceil>"

definition page_href :: "string \<Rightarrow> search_params \<Rightarrow> int \<Rightarrow> string" where
  "page_href pathname searchParams target =
     (let params = params_parse (params_toString searchParams);
          params' = (if target \<le> 1 then params_delete ''page'' params else params_set ''page'' (show_int target) params);
          query = params_toString params'
      in if query \<noteq> [] then pathname @ ''?'' @ query else pathname)"

text \<open>The pages its links lead to.\<close>

definition offered_pages :: "int \<Rightarrow> int \<Rightarrow> int \<Rightarrow> int list" where
  "offered_pages page sz count =
     (let l = lastPage sz count
      in if l \<le> 1 then [] else (if page \<le> 1 then [] else [page - 1]) @ (if l \<le> page then [] else [page + 1]))"

section \<open>facets.tsx\<close>

definition facet_toggle :: "search_params \<Rightarrow> string \<Rightarrow> string \<Rightarrow> bool \<Rightarrow> search_params" where
  "facet_toggle searchParams field v on =
     (let params = params_parse (params_toString searchParams);
          current = params_getAll params field;
          updated = (if on then current @ [v] else filter (\<lambda>x. x \<noteq> v) current)
      in params_delete ''page'' (fold (params_append field) updated (params_delete field params)))"

definition facet_clearAll :: "search_params \<Rightarrow> search_params" where
  "facet_clearAll searchParams =
     (case params_get searchParams ''q'' of
        Some q \<Rightarrow> if q \<noteq> [] then params_set ''q'' q [] else []
      | None \<Rightarrow> [])"

definition facet_remove :: "search_params \<Rightarrow> string \<Rightarrow> string \<Rightarrow> search_params" where
  "facet_remove searchParams field v =
     (let params = params_parse (params_toString searchParams);
          remaining = filter (\<lambda>x. x \<noteq> v) (params_getAll params field)
      in params_delete ''page'' (fold (params_append field) remaining (params_delete field params)))"


section \<open>A query survives its serialisation\<close>

lemma form_decode_plain: "c \<noteq> CHR ''+'' \<Longrightarrow> c \<noteq> CHR ''%'' \<Longrightarrow> form_decode (c # s) = c # form_decode s"
  by (cases s rule: form_decode.cases) auto

lemma form_decode_plus: "form_decode (CHR ''+'' # s) = CHR '' '' # form_decode s"
  by (cases s rule: form_decode.cases) auto

lemma hex_digit_facts:
  assumes "n < 16"
  shows "is_hex (hex_digit n)" "hex_value (hex_digit n) = n"
  using below_16 [OF assms]
  by (auto simp: hex_digit_def is_hex_def is_digit_def in_range_def hex_value_def Let_def)

lemma nibbles: "code_unit c div 16 < 16" "code_unit c mod 16 < 16"
  using nat_of_char_less_256 [of c] by (linarith, simp)

lemma form_decode_char: "form_decode (form_char c @ s) = c # form_decode s"
proof -
  have "16 * (code_unit c div 16) + code_unit c mod 16 = code_unit c" by simp
  with hex_digit_facts [OF nibbles(1) [of c]] hex_digit_facts [OF nibbles(2) [of c]]
  have "form_decode (CHR ''%'' # hex_digit (code_unit c div 16) # hex_digit (code_unit c mod 16) # s) = c # form_decode s"
    by simp
  moreover have "form_plain c \<Longrightarrow> c \<noteq> CHR ''+'' \<and> c \<noteq> CHR ''%''"
    by (auto simp: form_plain_def is_upper_def is_lower_def is_digit_def in_range_def)
  ultimately show ?thesis
    by (auto simp: form_char_def form_decode_plain form_decode_plus)
qed

lemma form_decode_encode: "form_decode (form_encode s) = s"
  by (induction s) (simp_all add: form_encode_def form_decode_char)

lemma form_char_separators: "x \<in> set (form_char c) \<Longrightarrow> x \<noteq> CHR ''&'' \<and> x \<noteq> CHR ''=''"
proof -
  have hex: "hex_digit n \<noteq> CHR ''&'' \<and> hex_digit n \<noteq> CHR ''=''" if "n < 16" for n
    using hex_digit_facts(1) [OF that] by (auto simp: is_hex_def is_digit_def in_range_def)
  assume "x \<in> set (form_char c)"
  then show ?thesis
    using hex [OF nibbles(1) [of c]] hex [OF nibbles(2) [of c]] by (auto simp: form_char_def form_plain_def is_upper_def is_lower_def is_digit_def in_range_def split: if_splits)
qed

lemma form_encode_separators: "CHR ''&'' \<notin> set (form_encode s)" "CHR ''='' \<notin> set (form_encode s)"
  by (auto simp: form_encode_def dest: form_char_separators)

lemma split_on_word: "c \<notin> set w \<Longrightarrow> split_on c (w @ c # s) = w # split_on c s"
  by (induction w) auto

lemma split_on_last: "c \<notin> set w \<Longrightarrow> split_on c w = [w]"
  by (induction w) auto

lemma parse_pair_encoded: "parse_pair (form_encode k @ ''='' @ form_encode v) = (k, v)"
proof -
  have "\<forall>c\<in>set (form_encode k). c \<noteq> CHR ''=''" using form_encode_separators(2) by auto
  then show ?thesis
    by (simp add: parse_pair_def takeWhile_append2 dropWhile_append2 form_decode_encode)
qed

lemma params_parse_toString: "params_parse (params_toString ps) = ps"
proof (induction ps rule: params_toString.induct)
  case (2 k v)
  have "CHR ''&'' \<notin> set (form_encode k @ ''='' @ form_encode v)"
    using form_encode_separators(1) by simp
  from split_on_last [OF this] parse_pair_encoded [of k v] show ?case
    by (simp add: params_parse_def)
next
  case (3 k v p ps)
  let ?w = "form_encode k @ ''='' @ form_encode v"
  have "CHR ''&'' \<notin> set ?w"
    using form_encode_separators(1) by simp
  from split_on_word [OF this] have "split_on CHR ''&'' (params_toString ((k, v) # p # ps)) = ?w # split_on CHR ''&'' (params_toString (p # ps))"
    by simp
  with 3 parse_pair_encoded [of k v] show ?case
    by (simp add: params_parse_def)
qed (simp add: params_parse_def)

section \<open>Facets\<close>

lemma fold_append: "fold (params_append k) vs ps = ps @ map (Pair k) vs"
  by (induction vs arbitrary: ps) (simp_all add: params_append_def)

lemma getAll_append: "params_getAll (ps @ qs) k = params_getAll ps k @ params_getAll qs k"
  by (simp add: params_getAll_def)

lemma getAll_Nil [simp]: "params_getAll [] k = []"
  by (simp add: params_getAll_def)

lemma getAll_pairs: "params_getAll (map (Pair k) vs) k' = (if k = k' then vs else [])"
  by (induction vs) (auto simp: params_getAll_def)

lemma getAll_delete: "params_getAll (params_delete k ps) k' = (if k = k' then [] else params_getAll ps k')"
  by (induction ps) (auto simp: params_getAll_def params_delete_def)

lemmas facet_simps = params_parse_toString fold_append getAll_append getAll_pairs getAll_delete

lemma facet_toggled:
  assumes "field \<noteq> ''page''"
  shows "params_getAll (facet_toggle searchParams field v on) k =
    (if k = ''page'' then []
     else if k = field then (if on then params_getAll searchParams k @ [v] else filter (\<lambda>x. x \<noteq> v) (params_getAll searchParams k))
     else params_getAll searchParams k)"
  using assms by (auto simp: facet_toggle_def Let_def facet_simps)

text \<open>Ticking a box adds its value to the filter and unticking it removes every copy; the other
  parameters keep their values and order, and the listing goes back to its first page.\<close>

theorem facet_toggle_getAll:
  assumes "field \<noteq> ''page''"
  shows "params_getAll (facet_toggle searchParams field v on) k =
    (if k = ''page'' then []
     else if k = field then (if on then params_getAll searchParams k @ [v] else filter (\<lambda>x. x \<noteq> v) (params_getAll searchParams k))
     else params_getAll searchParams k)"
  by (rule facet_toggled [OF assms])

theorem facet_toggle_getAll_witness:
  "params_getAll (facet_toggle [(''q'', ''tea & cups''), (''colour'', ''red''), (''page'', ''7'')] ''colour'' ''dark blue'' True) ''colour''
     = [''red'', ''dark blue'']"
  using facet_toggle_getAll [of "''colour''" "[(''q'', ''tea & cups''), (''colour'', ''red''), (''page'', ''7'')]" "''dark blue''" True "''colour''"]
  by (simp add: params_getAll_def)

section \<open>toQuery\<close>

lemma getAll_set: "params_getAll (params_set k v ps) k' = (if k = k' then [v] else params_getAll ps k')"
proof (induction ps)
  case (Cons p ps)
  then show ?case
    using getAll_delete [of k ps k'] by (cases p) (auto simp: params_getAll_def)
qed (simp add: params_getAll_def)

fun query_values :: "query_value \<Rightarrow> string list" where
  "query_values QAbsent = []"
| "query_values (QList vs) = filter (\<lambda>v. v \<noteq> []) vs"
| "query_values v = (if v = QText [] then [] else [query_text v])"

lemma getAll_add_query:
  "k \<noteq> k' \<Longrightarrow> params_getAll (add_query (k, v) ps) k' = params_getAll ps k'"
  "params_getAll ps k = [] \<Longrightarrow> params_getAll (add_query (k, v) ps) k = query_values v"
  by (cases v; simp add: facet_simps getAll_set)+

lemma getAll_fold_query:
  assumes "distinct (map fst params)" "\<forall>x\<in>set params. params_getAll ps (fst x) = []"
  shows "params_getAll (fold add_query params ps) k =
    (case map_of params k of None \<Rightarrow> params_getAll ps k | Some v \<Rightarrow> query_values v)"
  using assms
proof (induction params arbitrary: ps)
  case (Cons x params)
  obtain j v where x: "x = (j, v)" by (cases x)
  have fresh: "j \<notin> fst ` set params" using Cons.prems(1) x by simp
  have "\<forall>y\<in>set params. params_getAll (add_query x ps) (fst y) = []"
  proof
    fix y assume y: "y \<in> set params"
    with fresh have "j \<noteq> fst y" by auto
    with Cons.prems(2) y show "params_getAll (add_query x ps) (fst y) = []"
      by (simp add: x getAll_add_query(1))
  qed
  with Cons.IH [of "add_query x ps"] Cons.prems(1)
  have "params_getAll (fold add_query (x # params) ps) k =
      (case map_of params k of None \<Rightarrow> params_getAll (add_query x ps) k | Some v \<Rightarrow> query_values v)"
    by simp
  moreover have "map_of params j = None" using fresh by (simp add: map_of_eq_None_iff)
  ultimately show ?case
    using Cons.prems(2) by (cases "k = j") (auto simp: x getAll_add_query split: option.splits)
qed simp

lemma toQuery_entries:
  assumes "distinct (map fst params)"
  shows "params_getAll (params_parse (drop 1 (toQuery params))) k =
    (case map_of params k of None \<Rightarrow> [] | Some v \<Rightarrow> query_values v)"
proof -
  have "params_parse (drop 1 (toQuery params)) = params_parse (params_toString (fold add_query params []))"
    by (simp add: toQuery_def Let_def)
  then show ?thesis
    using getAll_fold_query [OF assms, of "[]" k] by (simp add: params_parse_toString cong: option.case_cong)
qed

text \<open>What a listing puts into its query is what the reader of the query gets back, key by key: the
  non-empty entries of a list in order, the text of any other value, nothing for an absent or empty one. No
  character of a facet value can break the parse.\<close>

theorem toQuery_round_trip:
  assumes "distinct (map fst params)"
  shows "params_getAll (params_parse (drop 1 (toQuery params))) k =
    (case map_of params k of None \<Rightarrow> [] | Some v \<Rightarrow> query_values v)"
  by (rule toQuery_entries [OF assms])

theorem toQuery_round_trip_witness:
  "params_getAll (params_parse (drop 1 (toQuery [(''q'', QText ''a&b=c''), (''size'', QInt 24), (''colour'', QList [''red, dark'', [], ''blue''])]))) ''colour''
     = [''red, dark'', ''blue'']"
  using toQuery_round_trip [of "[(''q'', QText ''a&b=c''), (''size'', QInt 24), (''colour'', QList [''red, dark'', [], ''blue''])]" "''colour''"]
  by simp


section \<open>The variant picker\<close>

definition plain_attributes :: "product_variant list \<Rightarrow> bool" where
  "plain_attributes variants = list_all (\<lambda>v. distinct (map fst (pv_attributes v))) variants"

text \<open>A selection is good when it is the attribute map of a variant that can be selected.\<close>

definition on_variant :: "product_variant list \<Rightarrow> (string \<times> string) list \<Rightarrow> bool" where
  "on_variant variants selected = (\<exists>v\<in>set (selectable variants). selected = pv_attributes v)"

lemma agrees_self: "distinct (map fst (pv_attributes v)) \<Longrightarrow> agrees (pv_attributes v) v"
  by (auto simp: agrees_def list_all_iff)

lemma foldl_pick: "foldl (\<lambda>a b. if P a b then b else a) c cs \<in> set (c # cs)"
  by (induction cs arbitrary: c) force+

lemma find_SomeI: "x \<in> set xs \<Longrightarrow> P x \<Longrightarrow> \<exists>y. find P xs = Some y \<and> y \<in> set xs \<and> P y"
  by (induction xs) auto

lemma current_of_on_variant:
  assumes "plain_attributes variants" "on_variant variants selected"
  shows "\<exists>v. current_variant variants selected = Some v \<and> v \<in> set (selectable variants) \<and> agrees selected v"
proof -
  from assms(2) obtain u where u: "u \<in> set (selectable variants)" "selected = pv_attributes u"
    by (auto simp: on_variant_def)
  then have "agrees selected u"
    using assms(1) by (auto simp: plain_attributes_def list_all_iff selectable_def intro: agrees_self)
  with u(1) show ?thesis
    unfolding current_variant_def by (rule find_SomeI)
qed

lemma choose_on_variant:
  assumes "v \<in> set (selectable variants)" "map_of (pv_attributes v) axis = Some x"
  shows "\<exists>u\<in>set (selectable variants). map_of (pv_attributes u) axis = Some x \<and>
    choose_value variants axis x selected = pv_attributes u"
proof -
  let ?cs = "filter (\<lambda>u. map_of (pv_attributes u) axis = Some x) (selectable variants)"
  from assms have "?cs \<noteq> []" by (auto simp: filter_empty_conv)
  then obtain c cs where cs: "?cs = c # cs" by (cases ?cs) auto
  define best where "best = foldl (\<lambda>a b. if score selected axis a < score selected axis b then b else a) c cs"
  have "best \<in> set ?cs"
    unfolding cs best_def by (rule foldl_pick)
  moreover have "choose_value variants axis x selected = pv_attributes best"
    using cs by (simp add: choose_value_def best_def)
  ultimately show ?thesis by auto
qed

lemma choose_keeps_on_variant:
  assumes "on_variant variants selected"
  shows "on_variant variants (choose_value variants axis x selected)"
proof (cases "filter (\<lambda>u. map_of (pv_attributes u) axis = Some x) (selectable variants)")
  case Nil
  with assms show ?thesis by (simp add: choose_value_def)
next
  case (Cons c cs)
  then have "c \<in> set (filter (\<lambda>u. map_of (pv_attributes u) axis = Some x) (selectable variants))" by simp
  with choose_on_variant [of c variants axis x selected] show ?thesis by (auto simp: on_variant_def)
qed

lemma initial_on_variant: "selectable variants \<noteq> [] \<Longrightarrow> on_variant variants (initial_selected variants)"
proof -
  assume ne: "selectable variants \<noteq> []"
  have "\<exists>v\<in>set (selectable variants). initial_variant variants = Some v"
  proof (cases "sort_key pv_price (filter maybe_in_stock (selectable variants))")
    case Nil
    with ne show ?thesis by (cases "selectable variants") (simp_all add: initial_variant_def)
  next
    case (Cons v vs)
    then have "v \<in> set (filter maybe_in_stock (selectable variants))"
      by (metis list.set_intros(1) set_sort)
    with Cons show ?thesis by (simp add: initial_variant_def)
  qed
  then show ?thesis by (auto simp: on_variant_def initial_selected_def)
qed

text \<open>The values an axis offers occur in some variant.\<close>

lemma add_axis_values:
  "(k, vs) \<in> set (add_axis (j, x) axs) \<Longrightarrow> y \<in> set vs \<Longrightarrow> (k, y) = (j, x) \<or> (\<exists>ws. (k, ws) \<in> set axs \<and> y \<in> set ws)"
  by (induction axs rule: add_axis.induct) (auto split: if_splits)

lemma fold_axis_values:
  "(k, vs) \<in> set (fold add_axis xs axs) \<Longrightarrow> y \<in> set vs \<Longrightarrow> (k, y) \<in> set xs \<or> (\<exists>ws. (k, ws) \<in> set axs \<and> y \<in> set ws)"
proof (induction xs arbitrary: axs)
  case (Cons x xs)
  obtain j z where x: "x = (j, z)" by (cases x)
  from Cons.IH [of "add_axis x axs"] Cons.prems
  have "(k, y) \<in> set xs \<or> (\<exists>ws. (k, ws) \<in> set (add_axis x axs) \<and> y \<in> set ws)" by simp
  then show ?case
    using add_axis_values [of k _ j z axs y] x by auto
qed auto

lemma axes_values:
  assumes "(k, vs) \<in> set (axes variants)" "y \<in> set vs"
  shows "\<exists>v\<in>set (selectable variants). (k, y) \<in> set (pv_attributes v)"
proof -
  have "(k, vs) \<in> set (fold (\<lambda>v. fold add_axis (pv_attributes v)) us axs) \<Longrightarrow>
      (\<exists>v\<in>set us. (k, y) \<in> set (pv_attributes v)) \<or> (\<exists>ws. (k, ws) \<in> set axs \<and> y \<in> set ws)" for us axs
  proof (induction us arbitrary: axs)
    case (Cons u us)
    then show ?case
      using fold_axis_values [of k _ "pv_attributes u" axs y] assms(2) by fastforce
  qed (use assms(2) in auto)
  from this [of "selectable variants" "[]"] assms(1) show ?thesis by (simp add: axes_def)
qed

text \<open>C33: After any clicks the picker shows a variant, and clicking a value it offers shows one that has
  the value: no combination of clicks leads to an empty buy box.\<close>

theorem picker_never_empty:
  assumes "plain_attributes variants" "selectable variants \<noteq> []"
    and "(axis, vs) \<in> set (axes variants)" "x \<in> set vs"
  shows "\<exists>v\<in>set variants. current_variant variants (choose_value variants axis x
      (fold (\<lambda>(a, y). choose_value variants a y) clicks (initial_selected variants))) = Some v \<and>
    map_of (pv_attributes v) axis = Some x"
proof -
  let ?sel = "fold (\<lambda>(a, y). choose_value variants a y) clicks (initial_selected variants)"
  from axes_values [OF assms(3,4)] obtain w where w: "w \<in> set (selectable variants)" "(axis, x) \<in> set (pv_attributes w)"
    by blast
  then have "map_of (pv_attributes w) axis = Some x"
    using assms(1) by (auto simp: plain_attributes_def list_all_iff selectable_def)
  from choose_on_variant [OF w(1) this, of ?sel] obtain u where u: "u \<in> set (selectable variants)"
    "map_of (pv_attributes u) axis = Some x" "choose_value variants axis x ?sel = pv_attributes u"
    by blast
  then have "on_variant variants (choose_value variants axis x ?sel)" by (auto simp: on_variant_def)
  from current_of_on_variant [OF assms(1) this] obtain v where v: "v \<in> set (selectable variants)"
    "current_variant variants (choose_value variants axis x ?sel) = Some v" "agrees (pv_attributes u) v"
    using u(3) by auto
  moreover have "map_of (pv_attributes v) axis = Some x"
    using v(3) map_of_SomeD [OF u(2)] by (auto simp: agrees_def list_all_iff)
  ultimately show ?thesis by (auto simp: selectable_def)
qed

definition sample_variants :: "product_variant list" where
  "sample_variants =
     [\<lparr>pv_sku = ''S1'', pv_attributes = [(''colour'', ''red''), (''size'', ''S'')], pv_available = Some 0, pv_price = 900\<rparr>,
      \<lparr>pv_sku = ''S2'', pv_attributes = [(''colour'', ''blue''), (''size'', ''L'')], pv_available = None, pv_price = 1200\<rparr>]"

theorem picker_never_empty_witness:
  "\<exists>v\<in>set sample_variants. current_variant sample_variants (choose_value sample_variants ''colour'' ''red''
      (initial_selected sample_variants)) = Some v \<and> map_of (pv_attributes v) ''colour'' = Some ''red''"
proof -
  have "plain_attributes sample_variants" "selectable sample_variants \<noteq> []"
    "(''colour'', [''red'', ''blue'']) \<in> set (axes sample_variants)"
    by code_simp+
  from picker_never_empty [OF this, of "''red''" "[]"] show ?thesis by simp
qed

section \<open>The quantity stepper\<close>

text \<open>Whatever is typed, the quantity committed lies between the bounds and differs from the one
  shown; a field without a number commits nothing.\<close>

theorem stepper_commits_in_range:
  assumes "lo \<le> hi" "commit_draft lo hi v (draft_changed typed) = (draft', Some q)"
  shows "lo \<le> q \<and> q \<le> hi \<and> q \<noteq> v \<and> draft' = show_int q \<and> draft_changed typed \<noteq> []"
  using assms by (auto simp: commit_draft_def parse_int_def Let_def split: option.splits if_splits)

theorem stepper_commits_in_range_witness:
  "fst (commit_draft 1 99 2 (draft_changed ''1x20'')) = ''99'' \<and> (99::int) \<le> 99"
proof -
  have "commit_draft 1 99 2 (draft_changed ''1x20'') = (''99'', Some 99)"
    by code_simp
  with stepper_commits_in_range [of 1 99 2 "''1x20''" "''99''" 99] show ?thesis by simp
qed


section \<open>The discount badge\<close>

lemma percentage_near:
  assumes "0 < x" "x \<le> 1"
  shows "\<bar>js_times (fl64 x) 100 - 100 * x\<bar> \<le> 300 / 2 ^ 53"
proof -
  let ?a = "fl64 x"
  have a: "\<bar>?a - x\<bar> \<le> x / 2 ^ 53" by (rule fl64_near [OF assms(1)])
  have "0 < x - x / 2 ^ 53" using assms(1) by simp
  with a have pos: "0 < ?a" by linarith
  have "x + x / 2 ^ 53 \<le> 1 + 1 / 2 ^ 53" using assms(2) by simp
  with a have hi: "?a \<le> 1 + 1 / 2 ^ 53" by linarith
  have "\<bar>js_times ?a 100 - ?a * 100\<bar> \<le> ?a * 100 / 2 ^ 53"
    unfolding js_times_def by (rule fl64_near) (use pos in simp)
  moreover have "\<bar>?a * 100 - 100 * x\<bar> \<le> 100 / 2 ^ 53"
  proof -
    have "x / 2 ^ 53 \<le> 1 / 2 ^ 53" using assms(2) by (simp add: divide_right_mono)
    with a have "\<bar>?a - x\<bar> \<le> 1 / 2 ^ 53" by linarith
    moreover have "\<bar>?a * 100 - 100 * x\<bar> = 100 * \<bar>?a - x\<bar>"
      by (simp add: abs_if)
    ultimately show ?thesis by simp
  qed
  moreover have "?a * 100 / 2 ^ 53 \<le> 200 / 2 ^ 53"
    using hi by (simp add: divide_right_mono)
  ultimately show ?thesis by linarith
qed

text \<open>C34: The badge never claims a larger saving than there is, for prices up to ten thousand billion
  minor units, and is less than two points below it. The multiplication in binary64 can cost the
  second point: at 71 instead of 100 the badge says 28.\<close>

theorem discount_not_overstated:
  assumes "0 \<le> price" "l \<le> 10 ^ 13" "discountPercent price (Some l) = Some n"
  shows "0 < n \<and> n * l \<le> 100 * (l - price) \<and> 100 * (l - price) < (n + 2) * l"
proof -
  let ?x = "of_int (l - price) / of_int l :: rat"
  have l: "price < l" "0 < l" using assms(1,3) by (auto simp: discountPercent_def split: if_splits)
  have "num (l - price) = l - price"
    using assms(1,2) l by (intro num_safe) (simp add: is_safe_def MAX_SAFE_INTEGER_def)
  then have n: "n = \<lfloor>js_times (fl64 ?x) 100\<rfloor>" "0 < n"
    using assms(3) l by (auto simp: discountPercent_def Let_def js_div_def split: if_splits)
  have x: "0 < ?x" "?x \<le> 1" using l assms(1) by simp_all
  have near: "\<bar>js_times (fl64 ?x) 100 - 100 * ?x\<bar> \<le> 300 / 2 ^ 53" by (rule percentage_near [OF x])
  have small: "300 / 2 ^ 53 * of_int l < (1::rat)"
  proof -
    have "(of_int l :: rat) \<le> 10 ^ 13" using assms(2) by (metis of_int_le_iff of_int_numeral of_int_power)
    then show ?thesis by simp
  qed
  obtain X e :: rat where X: "X = ?x" and e: "e = 300 / 2 ^ 53" by blast
  have xl: "X * of_int l = of_int (l - price)" using l by (simp add: X)
  have near': "of_int n \<le> 100 * X + e" "100 * X < of_int n + 1 + e"
    using near n(1) unfolding X e by linarith+
  have "of_int n * of_int l \<le> (100 * X + e) * of_int l"
    using near'(1) l by (intro mult_right_mono) simp_all
  also have "\<dots> = 100 * of_int (l - price) + e * of_int l" by (simp only: distrib_right mult.assoc xl)
  finally have "(of_int (n * l) :: rat) < of_int (100 * (l - price) + 1)"
    using small unfolding e [symmetric] by simp
  then have upper: "n * l \<le> 100 * (l - price)" by (simp only: of_int_less_iff)
  have "100 * (X * of_int l) < (of_int n + 1 + e) * of_int l"
    unfolding mult.assoc [symmetric] using near'(2) l by (intro mult_strict_right_mono) simp_all
  also have "\<dots> = (of_int n + 1) * of_int l + e * of_int l" by (rule distrib_right)
  finally have "(of_int (100 * (l - price)) :: rat) < of_int ((n + 1) * l + 1)"
    using small unfolding e [symmetric] xl by simp
  then have "100 * (l - price) < (n + 1) * l + 1" by (simp only: of_int_less_iff)
  with upper n(2) l show ?thesis by (simp add: algebra_simps)
qed

theorem discount_not_overstated_witness:
  "discountPercent 71 (Some 100) = Some 28 \<and> 28 * 100 \<le> 100 * (100 - 71 :: int) \<and> 100 * (100 - 71) < (28 + 2) * (100 :: int)"
proof -
  have "discountPercent 71 (Some 100) = Some 28" by code_simp
  with discount_not_overstated [of 71 100 28] show ?thesis by simp
qed

section \<open>Pagination\<close>

text \<open>The results a page shows start inside the window of ten thousand, but the window does not end at a page
  boundary. The search page shows 24 results, and the last page it links to needs results up to 10008.\<close>

theorem last_page_leaves_window:
  assumes "10000 \<le> count"
  shows "417 \<in> set (offered_pages 416 24 count) \<and> MAX_RESULT_WINDOW < 417 * 24"
proof -
  have "lastPage 24 10000 = 417"
    by code_simp
  with assms have "lastPage 24 count = 417"
    by (simp add: lastPage_def MAX_RESULT_WINDOW_def min_def)
  then show ?thesis
    by (simp add: offered_pages_def MAX_RESULT_WINDOW_def)
qed

theorem last_page_leaves_window_witness: "417 \<in> set (offered_pages 416 24 10000) \<and> MAX_RESULT_WINDOW < 417 * 24"
  by (rule last_page_leaves_window) simp

end
