(* ===== verification/Event_Machine.thy ===== *)
theory Event_Machine
  imports Main
begin

text \<open>
  Components that react to events one at a time: the callbacks of a page run to completion, in an order nobody controls.
  \<open>event_machine\<close> is the contract of an invariant every event preserves; \<open>quiet_machine\<close> adds that no event changes
  what is observed in such a state. What holds after one event then holds after any sequence of them.
\<close>

locale event_machine =
  fixes step :: "'e \<Rightarrow> 's \<Rightarrow> 's" and inv :: "'s \<Rightarrow> bool"
  assumes step_inv: "inv s \<Longrightarrow> inv (step e s)"
begin

lemma run_inv: "inv s \<Longrightarrow> inv (fold step es s)"
  by (induction es arbitrary: s) (simp_all add: step_inv)

end

locale quiet_machine = event_machine +
  fixes view :: "'s \<Rightarrow> 'v"
  assumes step_view: "inv s \<Longrightarrow> view (step e s) = view s"
begin

lemma run_view: "inv s \<Longrightarrow> view (fold step es s) = view s"
  by (induction es arbitrary: s) (simp_all add: step_inv step_view)

end

end
