(* ===== verification/Admin_Controls.thy ===== *)
theory Admin_Controls
  imports Admin_App Storefront_Catalog Event_Machine
begin

text \<open>
  The admin console's controls (\<^verbatim>\<open>apps/admin/src/components/\<close>): the saga inspector with the panel that wires its
  actions, the dead-letter actions, the status control and the price control. The inspector is a function from a trace to
  what it shows. The controls are state machines whose events are clicks, keystrokes and the answers of
  \<^verbatim>\<open>fetch\<close>; a button that is disabled or not rendered cannot be clicked.

  The lemmas say when the cancel control is offered, that a message is discarded only after part of its identifier was
  typed, that a stale version is never resent, and that a price saved as it is shown is unchanged although it passes
  through binary64.
\<close>

section \<open>saga-inspector.tsx\<close>

record saga_step =
  ss_step :: string
  ss_state :: string
  ss_attempts :: int
  ss_sentAt :: "string option"
  ss_ackedAt :: "string option"
  ss_deadlineAt :: "string option"
  ss_error :: "string option"
  ss_eventId :: "string option"

record saga_trace =
  sg_orderId :: string
  sg_status :: string
  sg_rollbackForbidden :: bool
  sg_steps :: "saga_step list"

definition FORWARD_STEPS :: "string list" where
  "FORWARD_STEPS = [''RESERVE'', ''AUTHORIZE'', ''COMMIT'', ''CAPTURE'']"

definition COMPENSATION_STEPS :: "string list" where
  "COMPENSATION_STEPS = [''RELEASE'', ''VOID'']"

text \<open>Owner, what the step does, and whether it can be undone.\<close>

definition STEP_DETAIL :: "(string \<times> string \<times> string \<times> bool) list" where
  "STEP_DETAIL =
     [(''RESERVE'', ''inventory-service'', ''Hold the stock'', True),
      (''AUTHORIZE'', ''payment-service'', ''Ring-fence the funds'', True),
      (''COMMIT'', ''inventory-service'', ''Deduct the stock'', False),
      (''CAPTURE'', ''payment-service'', ''Take the money'', False),
      (''RELEASE'', ''inventory-service'', ''Return the stock'', True),
      (''VOID'', ''payment-service'', ''Release the funds'', True)]"

definition PAST_NO_RETURN :: "string list" where
  "PAST_NO_RETURN = [''PAID'', ''STOCK_COMMITTED'', ''CONFIRMED'']"

text \<open>\<^verbatim>\<open>new Date(text).getTime()\<close> is a parameter; an invalid date is before nothing.\<close>

definition is_overdue :: "(string \<Rightarrow> int option) \<Rightarrow> int \<Rightarrow> saga_step \<Rightarrow> bool" where
  "is_overdue get_time now s =
     (ss_state s = ''SENT'' \<and>
      (case ss_deadlineAt s of None \<Rightarrow> False | Some d \<Rightarrow> (case get_time d of None \<Rightarrow> False | Some t \<Rightarrow> t < now)))"

definition byStep :: "saga_trace \<Rightarrow> string \<rightharpoonup> saga_step" where
  "byStep t = map_of (rev (map (\<lambda>s. (ss_step s, s)) (sg_steps t)))"

definition pastNoReturn :: "saga_trace \<Rightarrow> bool" where
  "pastNoReturn t = (sg_rollbackForbidden t \<or> sg_status t \<in> set PAST_NO_RETURN)"

definition cancel_offered :: "bool \<Rightarrow> saga_trace \<Rightarrow> bool" where
  "cancel_offered canAct t = (canAct \<and> \<not> pastNoReturn t \<and> sg_status t \<noteq> ''CANCELLED'')"

definition overdue_title :: "(string \<Rightarrow> int option) \<Rightarrow> int \<Rightarrow> saga_trace \<Rightarrow> string option" where
  "overdue_title get_time now t =
     (let overdue = filter (is_overdue get_time now) (sg_steps t)
      in if overdue \<noteq> [] \<and> \<not> pastNoReturn t
         then Some (if length overdue = 1 then ''Waiting on '' @ ss_step (hd overdue)
                    else show_nat (length overdue) @ '' steps are overdue'')
         else None)"

definition StepIcon :: "string \<Rightarrow> bool \<Rightarrow> string" where
  "StepIcon state overdue =
     (if state = ''ACKED'' then ''acknowledged''
      else if state = ''FAILED'' then ''failed''
      else if state = ''TIMED_OUT'' \<or> overdue then ''overdue''
      else if state = ''SENT'' then ''in flight''
      else if state = ''SKIPPED'' then ''skipped''
      else ''not started'')"

record step_row =
  sr_name :: string
  sr_owner :: string
  sr_what :: string
  sr_irreversible :: bool
  sr_icon :: string
  sr_attempts :: "int option"
  sr_retry :: bool

definition StepRow ::
  "(string \<Rightarrow> int option) \<Rightarrow> int \<Rightarrow> bool \<Rightarrow> string \<Rightarrow> saga_step option \<Rightarrow> step_row" where
  "StepRow get_time now canAct name step =
     (case nullish (map_of STEP_DETAIL name) ([], [], True) of
        (owner, what, reversible) \<Rightarrow>
          \<lparr>sr_name = name, sr_owner = owner, sr_what = what, sr_irreversible = (\<not> reversible),
           sr_icon = StepIcon (nullish (map_option ss_state step) ''PENDING'')
             (case step of None \<Rightarrow> False | Some s \<Rightarrow> is_overdue get_time now s),
           sr_attempts = (case step of Some s \<Rightarrow> if 1 < ss_attempts s then Some (ss_attempts s) else None | None \<Rightarrow> None),
           sr_retry = (canAct \<and> map_option ss_state step = Some ''FAILED'')\<rparr>)"

definition forward_rows :: "(string \<Rightarrow> int option) \<Rightarrow> int \<Rightarrow> bool \<Rightarrow> saga_trace \<Rightarrow> step_row list" where
  "forward_rows get_time now canAct t = map (\<lambda>n. StepRow get_time now canAct n (byStep t n)) FORWARD_STEPS"

definition compensation_rows :: "(string \<Rightarrow> int option) \<Rightarrow> int \<Rightarrow> bool \<Rightarrow> saga_trace \<Rightarrow> step_row list" where
  "compensation_rows get_time now canAct t =
     map (\<lambda>n. StepRow get_time now canAct n (byStep t n)) (filter (\<lambda>n. byStep t n \<noteq> None) COMPENSATION_STEPS)"

definition formatRelative :: "int \<Rightarrow> int \<Rightarrow> string" where
  "formatRelative now then_ms =
     (let seconds = \<lfloor>js_div (of_int (now - then_ms)) 1000\<rfloor>
      in if seconds < 5 then ''just now''
         else if seconds < 60 then show_int seconds @ ''s ago''
         else if seconds < 3600 then show_int \<lfloor>js_div (of_int seconds) 60\<rfloor> @ ''m ago''
         else if seconds < 86400 then show_int \<lfloor>js_div (of_int seconds) 3600\<rfloor> @ ''h ago''
         else show_int \<lfloor>js_div (of_int seconds) 86400\<rfloor> @ ''d ago'')"

section \<open>saga-inspector-panel.tsx\<close>

definition console_post :: "string \<Rightarrow> json option \<Rightarrow> sent" where
  "console_post path body =
     \<lparr>rq_url = path, rq_method = ''POST'', rq_headers = [(''Content-Type'', ''application/json'')], rq_body = body,
      rq_cache = DefaultCache\<rparr>"

definition retry_request :: "saga_trace \<Rightarrow> string \<Rightarrow> sent" where
  "retry_request t step = console_post (''/api/admin/orders/'' @ encodeURIComponent (sg_orderId t) @ ''/retry'')
     (Some (JObj [(''step'', JStr step)]))"

definition cancel_request :: "saga_trace \<Rightarrow> sent" where
  "cancel_request t = console_post (''/api/admin/orders/'' @ encodeURIComponent (sg_orderId t) @ ''/cancel'') None"

section \<open>dlq-actions.tsx\<close>

record dlq_row =
  dq_confirming :: bool
  dq_typed :: string
  dq_busy :: "string option"
  dq_pending :: bool
  dq_sent :: "(string \<times> string) list"
  dq_alerts :: nat

datatype dlq_event = ClickReplay | ClickTrash | TypeText string | ClickDiscard | ClickCancel | Answered fetch_reply | Refreshed

text \<open>The request of an action, with what was typed when it was sent.\<close>

definition dlq_act :: "string \<Rightarrow> dlq_row \<Rightarrow> dlq_row" where
  "dlq_act action d = d\<lparr>dq_busy := Some action, dq_sent := (action, dq_typed d) # dq_sent d\<rparr>"

definition reply_ok :: "fetch_reply \<Rightarrow> bool" where
  "reply_ok r = (case r of Response status hdr b \<Rightarrow> response_is_ok status | _ \<Rightarrow> False)"

definition discard_enabled :: "string \<Rightarrow> dlq_row \<Rightarrow> bool" where
  "discard_enabled eventId d = (starts_with eventId (dq_typed d) \<and> 8 \<le> length (dq_typed d) \<and> dq_busy d = None)"

fun dlq_step :: "string \<Rightarrow> dlq_event \<Rightarrow> dlq_row \<Rightarrow> dlq_row" where
  "dlq_step eventId ClickReplay d =
     (if \<not> dq_confirming d \<and> dq_busy d = None \<and> \<not> dq_pending d then dlq_act ''replay'' d else d)"
| "dlq_step eventId ClickTrash d =
     (if \<not> dq_confirming d \<and> dq_busy d = None \<and> \<not> dq_pending d then d\<lparr>dq_confirming := True\<rparr> else d)"
| "dlq_step eventId (TypeText t) d = (if dq_confirming d then d\<lparr>dq_typed := t\<rparr> else d)"
| "dlq_step eventId ClickDiscard d =
     (if dq_confirming d \<and> discard_enabled eventId d then dlq_act ''discard'' d else d)"
| "dlq_step eventId ClickCancel d = (if dq_confirming d then d\<lparr>dq_confirming := False, dq_typed := []\<rparr> else d)"
| "dlq_step eventId (Answered r) d =
     (if dq_busy d = None then d
      else if reply_ok r then d\<lparr>dq_busy := None, dq_confirming := False, dq_typed := [], dq_pending := True\<rparr>
      else d\<lparr>dq_busy := None, dq_alerts := Suc (dq_alerts d)\<rparr>)"
| "dlq_step eventId Refreshed d = d\<lparr>dq_pending := False\<rparr>"

definition fresh_row :: dlq_row where
  "fresh_row = \<lparr>dq_confirming = False, dq_typed = [], dq_busy = None, dq_pending = False, dq_sent = [], dq_alerts = 0\<rparr>"

definition dlq_run :: "string \<Rightarrow> dlq_event list \<Rightarrow> dlq_row" where
  "dlq_run eventId es = fold (dlq_step eventId) es fresh_row"

section \<open>product-status-control.tsx\<close>

datatype status_outcome = Unchanged | ChangedElsewhere | StatusChanged | ChangeFailed

definition status_change_request :: "string \<Rightarrow> int \<Rightarrow> string \<Rightarrow> sent" where
  "status_change_request productId version status =
     \<lparr>rq_url = ''/api/admin/catalog/'' @ encodeURIComponent productId, rq_method = ''PATCH'',
      rq_headers = [(''Content-Type'', ''application/json'')],
      rq_body = Some (JObj [(''status'', JStr status), (''version'', JNum (of_int version))]), rq_cache = DefaultCache\<rparr>"

definition change_status ::
  "'w web_env \<Rightarrow> string \<Rightarrow> string \<Rightarrow> int \<Rightarrow> string \<Rightarrow> (('w, 'm) net_scheme, 'e, status_outcome) act" where
  "change_status env productId status version target =
     (if target = status then ret Unchanged
      else and_then (fetch env (status_change_request productId version target)) (\<lambda>r.
        ret (case r of
               Response st hdr b \<Rightarrow>
                 if st = 409 then ChangedElsewhere else if response_is_ok st then StatusChanged else ChangeFailed
             | _ \<Rightarrow> ChangeFailed)))"

section \<open>price-control.tsx\<close>

text \<open>\<^verbatim>\<open>toFixed(2)\<close>: the nearest multiple of a hundredth to the number itself, a tie upwards.\<close>

definition two_digits :: "nat \<Rightarrow> string" where
  "two_digits n = [char_of (48 + n div 10), char_of (48 + n mod 10)]"

definition toFixed2 :: "rat \<Rightarrow> string" where
  "toFixed2 x = (let n = nat (math_round (100 * x)) in show_nat (n div 100) @ ''.'' @ two_digits (n mod 100))"

text \<open>\<^verbatim>\<open>Number.parseFloat\<close> on unsigned decimals with an optional fraction, the number nearest to the text; other
  notations the field may hold (signs, exponents) are not modelled and read as far as the digits go.\<close>

definition parse_float :: "string \<Rightarrow> rat option" where
  "parse_float s =
     (let t = dropWhile is_space s; whole = takeWhile is_digit t; rest = dropWhile is_digit t;
          frac = (case rest of c # cs \<Rightarrow> if c = CHR ''.'' then takeWhile is_digit cs else [] | [] \<Rightarrow> [])
      in if whole = [] \<and> frac = [] then None
         else Some (fl64 (of_int (digits_value (whole @ frac)) / 10 ^ length frac)))"

definition initial_amount :: "int \<Rightarrow> string" where
  "initial_amount price = toFixed2 (js_div (of_int price) 100)"

definition minor_units :: "string \<Rightarrow> int option" where
  "minor_units typed =
     (case parse_float typed of
        None \<Rightarrow> None
      | Some parsed \<Rightarrow> if parsed < 0 then None else Some (math_round (js_times parsed 100)))"

definition price_request :: "string \<Rightarrow> string \<Rightarrow> int \<Rightarrow> int option \<Rightarrow> string \<Rightarrow> string \<Rightarrow> sent" where
  "price_request productId sku units listPrice cur reason =
     console_post (''/api/admin/catalog/'' @ encodeURIComponent productId @ ''/price'')
       (Some (JObj [(''sku'', JStr sku), (''price'', JNum (of_int units)),
          (''listPrice'', case listPrice of None \<Rightarrow> JNull | Some l \<Rightarrow> JNum (of_int l)),
          (''currency'', JStr cur), (''reason'', JStr reason)]))"

text \<open>The Save button asks for a reason of three characters; \<^verbatim>\<open>save\<close> then decides what to send.\<close>

definition save_price ::
  "string \<Rightarrow> string \<Rightarrow> int option \<Rightarrow> string \<Rightarrow> string \<Rightarrow> string \<Rightarrow> sent option" where
  "save_price productId sku listPrice cur typed reason =
     (if length (trim reason) < 3 then None
      else case minor_units typed of
             None \<Rightarrow> None
           | Some units \<Rightarrow>
               if (case listPrice of None \<Rightarrow> False | Some l \<Rightarrow> l < units) then None
               else Some (price_request productId sku units listPrice cur reason))"


section \<open>Properties of the inspector and the row\<close>

text \<open>With the flag as order-service sets it, the cancel control is absent exactly from the payment to the
  confirmation and on a cancelled order. An order that was shipped, delivered or refunded is past the same boundary and
  still offers it.\<close>

theorem cancel_offered_iff:
  assumes "sg_rollbackForbidden t = (sg_status t \<in> set POINT_OF_NO_RETURN)"
  shows "cancel_offered True t \<longleftrightarrow> sg_status t \<notin> {''PAID'', ''STOCK_COMMITTED'', ''CONFIRMED'', ''CANCELLED''}"
  using assms by (auto simp: cancel_offered_def pastNoReturn_def PAST_NO_RETURN_def POINT_OF_NO_RETURN_def)

definition shipped_trace :: saga_trace where
  "shipped_trace = \<lparr>sg_orderId = ''ord_1'', sg_status = ''SHIPPED'', sg_rollbackForbidden = False, sg_steps = []\<rparr>"

theorem cancel_offered_iff_witness: "cancel_offered True shipped_trace"
  using cancel_offered_iff [of shipped_trace] by (simp add: shipped_trace_def POINT_OF_NO_RETURN_def)

definition discards_confirmed :: "string \<Rightarrow> dlq_row \<Rightarrow> bool" where
  "discards_confirmed eventId d =
     (\<forall>(action, typed)\<in>set (dq_sent d). action = ''discard'' \<longrightarrow> starts_with eventId typed \<and> 8 \<le> length typed)"

lemma discards_confirmed_step: "discards_confirmed eventId d \<Longrightarrow> discards_confirmed eventId (dlq_step eventId e d)"
  by (cases e) (auto simp: discards_confirmed_def dlq_act_def discard_enabled_def)

interpretation dlq: event_machine "dlq_step eventId" "discards_confirmed eventId" for eventId
  by unfold_locales (rule discards_confirmed_step)

text \<open>A dead-lettered message is discarded only when the operator had typed at least eight characters that
  begin its event identifier, however clicks, keystrokes and answers are ordered.\<close>

theorem discard_needs_typed_prefix:
  "\<forall>(action, typed)\<in>set (dq_sent (dlq_run eventId es)). action = ''discard'' \<longrightarrow> starts_with eventId typed \<and> 8 \<le> length typed"
proof -
  have "discards_confirmed eventId fresh_row" by (simp add: discards_confirmed_def fresh_row_def)
  then have "discards_confirmed eventId (dlq_run eventId es)"
    unfolding dlq_run_def by (rule dlq.run_inv)
  then show ?thesis by (simp add: discards_confirmed_def)
qed

theorem discard_needs_typed_prefix_witness:
  "dq_sent (dlq_run ''01HZYGX4AB'' [ClickTrash, TypeText ''01HZ'', ClickDiscard, TypeText ''01HZYGX4'', ClickDiscard]) = [(''discard'', ''01HZYGX4'')] \<and>
   starts_with ''01HZYGX4AB'' ''01HZYGX4''"
proof -
  let ?es = "[ClickTrash, TypeText ''01HZ'', ClickDiscard, TypeText ''01HZYGX4'', ClickDiscard]"
  have sent: "dq_sent (dlq_run ''01HZYGX4AB'' ?es) = [(''discard'', ''01HZYGX4'')]"
    by code_simp
  with discard_needs_typed_prefix [of "''01HZYGX4AB''" ?es] show ?thesis by simp
qed

text \<open>A status change is sent once, with the version the operator saw, and a conflict ends it.\<close>

theorem status_change_sent_once:
  "net_log (snd (change_status env productId status version target s)) =
     (if target = status then [] else [(status_change_request productId version target,
        fst (web_fetch env (status_change_request productId version target) (net_world s)))]) @ net_log s"
  by (simp add: change_status_def and_then_def fetch_run)

section \<open>The price round trip\<close>

lemma takeWhile_digits:
  "list_all is_digit ds \<Longrightarrow> \<not> is_digit c \<Longrightarrow> takeWhile is_digit (ds @ c # cs) = ds \<and> dropWhile is_digit (ds @ c # cs) = c # cs"
  by (induction ds) auto

lemma two_digits_facts:
  assumes "n < 100"
  shows "list_all is_digit (two_digits n)" "digits_value (ds @ two_digits n) = 100 * digits_value ds + int n"
proof -
  have d: "n div 10 < 10" "n mod 10 < 10" using assms by auto
  then show "list_all is_digit (two_digits n)" by (simp add: two_digits_def is_digit_char)
  have "digits_value (ds @ [a, b]) = 10 * digits_value (ds @ [a]) + int (code_unit b) - 48" for a b
    using digits_value_snoc [of "ds @ [a]" b] by simp
  moreover have "10 * int (n div 10) + int (n mod 10) = int n" by presburger
  ultimately show "digits_value (ds @ two_digits n) = 100 * digits_value ds + int n"
    using d by (simp add: two_digits_def digits_value_snoc is_digit_char)
qed


lemma math_round_near: "\<bar>x - of_int n\<bar> < 1 / 2 \<Longrightarrow> math_round x = n"
  unfolding math_round_def by (rule floor_unique) (simp_all add: abs_if split: if_splits)

text \<open>Two roundings of a quotient by a hundred do not move it by half a unit.\<close>

lemma hundredth_near:
  assumes "0 \<le> p" "p \<le> 10 ^ 13"
  shows "\<bar>100 * fl64 (of_int p / 100) - of_int p\<bar> < 1 / 2" "\<bar>js_times (fl64 (of_int p / 100)) 100 - of_int p\<bar> < 1 / 2"
proof -
  let ?x = "of_int p / 100 :: rat"
  let ?a = "fl64 ?x"
  have p: "(of_int p :: rat) \<le> 10 ^ 13" using assms(2) by (metis of_int_le_iff of_int_numeral of_int_power)
  have a: "\<bar>?a - ?x\<bar> \<le> ?x / 2 ^ 53"
    using assms(1) fl64_near [of ?x] by (cases "p = 0") simp_all
  then show near: "\<bar>100 * ?a - of_int p\<bar> < 1 / 2" using p by (simp add: abs_if split: if_splits)
  have nonneg: "0 \<le> ?a" using assms(1) by (intro fl64_nonneg) simp
  have "\<bar>js_times ?a 100 - ?a * 100\<bar> \<le> ?a * 100 / 2 ^ 53"
    unfolding js_times_def using nonneg fl64_near [of "?a * 100"] by (cases "?a = 0") simp_all
  moreover have "\<bar>?a * 100 - of_int p\<bar> \<le> of_int p / 2 ^ 53"
    using a by (simp add: abs_if split: if_splits)
  moreover have "?a * 100 / 2 ^ 53 \<le> (of_int p + 1) / 2 ^ 53"
    using near by (intro divide_right_mono) (simp_all add: abs_if split: if_splits)
  moreover have "q \<le> 10 ^ 13 \<Longrightarrow> (q + 1) / 2 ^ 53 + q / 2 ^ 53 < 1 / 2" for q :: rat
    by (simp add: field_simps)
  note this [OF p]
  ultimately show "\<bar>js_times ?a 100 - of_int p\<bar> < 1 / 2" by linarith
qed

lemma parse_float_fixed:
  assumes "n < 100"
  shows "parse_float (show_nat m @ ''.'' @ two_digits n) = Some (fl64 (of_int (100 * int m + int n) / 100))"
proof -
  have ds: "list_all is_digit (show_nat m)" "show_nat m \<noteq> []" "digits_value (show_nat m) = int m"
    using show_nat_digits by auto
  then obtain d rest where d: "show_nat m = d # rest" "is_digit d" by (cases "show_nat m") auto
  then have "\<not> is_space d" by (auto simp: is_digit_def in_range_def is_space_def)
  then have spaces: "dropWhile is_space (show_nat m @ CHR ''.'' # two_digits n) = show_nat m @ CHR ''.'' # two_digits n"
    using d by simp
  have dot: "\<not> is_digit CHR ''.''" by (simp add: is_digit_def in_range_def)
  note split = takeWhile_digits [OF ds(1) dot, of "two_digits n"]
  have frac: "takeWhile is_digit (two_digits n) = two_digits n"
    using two_digits_facts(1) [OF assms] by (simp add: takeWhile_eq_all_conv list_all_iff)
  have "length (two_digits n) = 2" by (simp add: two_digits_def)
  then show ?thesis
    using ds two_digits_facts(2) [OF assms, of "show_nat m"] split
    by (simp add: parse_float_def spaces frac Let_def)
qed

text \<open>C32: A price saved as the form shows it is the price it was, for amounts up to ten thousand billion minor units:
  the detour over a decimal text and two binary64 operations loses nothing.\<close>

theorem price_round_trip:
  assumes "0 \<le> price" "price \<le> 10 ^ 13"
  shows "minor_units (initial_amount price) = Some price"
proof -
  note near = hundredth_near [OF assms]
  have shown: "nat (math_round (100 * fl64 (of_int price / 100))) = nat price"
    using math_round_near [OF near(1)] by simp
  have "initial_amount price = show_nat (nat price div 100) @ ''.'' @ two_digits (nat price mod 100)"
    by (simp add: initial_amount_def toFixed2_def js_div_def shown Let_def)
  moreover have "100 * int (nat price div 100) + int (nat price mod 100) = price"
  proof -
    have "int (100 * (nat price div 100) + nat price mod 100) = price" using assms(1) by simp
    then show ?thesis by (simp only: of_nat_add of_nat_mult of_nat_numeral)
  qed
  ultimately have parsed: "parse_float (initial_amount price) = Some (fl64 (of_int price / 100))"
    using parse_float_fixed [of "nat price mod 100" "nat price div 100"] by simp
  have "0 \<le> fl64 (of_int price / 100)" using assms(1) by (intro fl64_nonneg) simp
  then show ?thesis
    using math_round_near [OF near(2)] by (simp add: minor_units_def parsed)
qed

theorem price_round_trip_witness: "initial_amount 1299 = ''12.99'' \<and> minor_units ''12.99'' = Some 1299"
proof -
  have "initial_amount 1299 = ''12.99''" by code_simp
  with price_round_trip [of 1299] show ?thesis by simp
qed

end
