(* ===== verification/Bff_Client.thy ===== *)
theory Bff_Client
  imports Web
begin

text \<open>
  The storefront's service client (\<^verbatim>\<open>apps/storefront/src/lib/bff.ts\<close>) and its problem documents
  (\<^verbatim>\<open>app/api/bff/_problem.ts\<close>). \<open>received\<close> is everything \<open>once\<close> does with the answer of \<^verbatim>\<open>fetch\<close>; \<open>call\<close> is the
  retry loop around it, a recursion that ends because the attempt count rises to \<open>maxAttempts\<close>. Log
  lines and the clearing of the abort timer have no counterpart; the timer's effect is the
  answer \<open>Aborted\<close>.

  The lemmas say exactly which requests \<open>call\<close> sends and what it makes of their answers
  (\<open>call_loop_spec\<close>), and that what it throws renders as a valid problem document.
\<close>

section \<open>Services, errors and options\<close>

datatype ServiceName = SvcIdentity | SvcCatalog | SvcCart | SvcOrder | SvcSearch | SvcRecommendation | SvcReview

fun service_text :: "ServiceName \<Rightarrow> string" where
  "service_text SvcIdentity = ''identity''"
| "service_text SvcCatalog = ''catalog''"
| "service_text SvcCart = ''cart''"
| "service_text SvcOrder = ''order''"
| "service_text SvcSearch = ''search''"
| "service_text SvcRecommendation = ''recommendation''"
| "service_text SvcReview = ''review''"

definition SERVICES :: "'w web_env \<Rightarrow> ServiceName \<Rightarrow> string option" where
  "SERVICES env svc = web_variable env (''SOUQ_'' @ to_upper (service_text svc) @ ''_URL'')"

fun TIMEOUTS :: "ServiceName \<Rightarrow> nat" where
  "TIMEOUTS SvcIdentity = 3000"
| "TIMEOUTS SvcCatalog = 3000"
| "TIMEOUTS SvcCart = 3000"
| "TIMEOUTS SvcOrder = 5000"
| "TIMEOUTS SvcSearch = 2000"
| "TIMEOUTS SvcRecommendation = 1000"
| "TIMEOUTS SvcReview = 3000"

record BffError =
  be_status :: nat
  be_code :: string
  be_requestId :: string
  be_message :: string
  be_problem :: "(string \<times> json) list option"

definition bff_error :: "nat \<Rightarrow> string \<Rightarrow> string \<Rightarrow> string \<Rightarrow> BffError" where
  "bff_error status code rid msg =
     \<lparr>be_status = status, be_code = code, be_requestId = rid, be_message = msg, be_problem = None\<rparr>"

definition retriable :: "BffError \<Rightarrow> bool" where
  "retriable e = (be_status e = 0 \<or> be_status e = 502 \<or> be_status e = 503 \<or> be_status e = 504)"

text \<open>What a handler may throw: an error of the client, a failed parse of zod, an unreadable request
  body, or a response that cannot be built.\<close>

datatype thrown = Bff BffError | ZodError | SyntaxError | TypeError

record call_options =
  co_service :: ServiceName
  co_path :: string
  co_schema :: schema
  co_method :: "string option"
  co_body :: "json option"
  co_idempotencyKey :: "string option"
  co_accessToken :: "string option"
  co_revalidate :: "nat option"
  co_tags :: "string list option"
  co_attempts :: "int option"

section \<open>One attempt\<close>

definition request_headers :: "call_options \<Rightarrow> string \<Rightarrow> (string \<times> string) list" where
  "request_headers opts rid =
     [(''X-Request-Id'', rid), (''X-Correlation-Id'', rid), (''Accept'', ''application/json'')]
     @ (if co_body opts \<noteq> None then [(''Content-Type'', ''application/json'')] else [])
     @ (if truthy (co_accessToken opts) then [(''Authorization'', ''Bearer '' @ the (co_accessToken opts))] else [])
     @ (if truthy (co_idempotencyKey opts) then [(''Idempotency-Key'', the (co_idempotencyKey opts))] else [])"

definition bff_request :: "call_options \<Rightarrow> string \<Rightarrow> string \<Rightarrow> string \<Rightarrow> sent" where
  "bff_request opts url meth rid =
     \<lparr>rq_url = url, rq_method = meth, rq_headers = request_headers opts rid, rq_body = co_body opts,
      rq_cache = (case co_revalidate opts of None \<Rightarrow> NoStore | Some n \<Rightarrow> Revalidate n (co_tags opts))\<rparr>"

definition toProblem :: "'w web_env \<Rightarrow> nat \<Rightarrow> body \<Rightarrow> ServiceName \<Rightarrow> string \<Rightarrow> BffError" where
  "toProblem env status b svc rid =
     (case b of
        Unreadable \<Rightarrow>
          bff_error status ''INTERNAL_ERROR'' rid
            (service_text svc @ '' returned '' @ show_nat status @ '' with an unreadable body'')
      | Json j \<Rightarrow>
          (case web_parse env ProblemDetails (Some j) of
             Accept data \<Rightarrow>
               \<lparr>be_status = nat (int_field data ''status''), be_code = str_field data ''code'',
                be_requestId = (if str_field data ''requestId'' \<noteq> [] then str_field data ''requestId'' else rid),
                be_message = nullish (opt_str_field data ''detail'') (str_field data ''title''),
                be_problem = Some (fields_of data)\<rparr>
           | Reject \<Rightarrow>
               bff_error status ''INTERNAL_ERROR'' rid (service_text svc @ '' returned '' @ show_nat status)))"

definition received :: "'w web_env \<Rightarrow> call_options \<Rightarrow> string \<Rightarrow> fetch_reply \<Rightarrow> thrown + json option" where
  "received env opts rid reply =
     (let svc = service_text (co_service opts)
      in case reply of
           Aborted \<Rightarrow>
             Inl (Bff (bff_error 504 ''UPSTREAM_TIMEOUT'' rid
               (svc @ '' did not respond within '' @ show_nat (TIMEOUTS (co_service opts)) @ ''ms'')))
         | NetworkError msg \<Rightarrow>
             Inl (Bff (bff_error 0 ''UPSTREAM_UNAVAILABLE'' rid (''could not reach '' @ svc @ '': '' @ msg)))
         | Response status hdr b \<Rightarrow>
             (let urid = nullish hdr rid
              in if \<not> response_is_ok status then Inl (Bff (toProblem env status b (co_service opts) urid))
                 else if status = 204
                 then (case web_parse env (co_schema opts) None of Accept v \<Rightarrow> Inr v | Reject \<Rightarrow> Inl ZodError)
                 else case b of
                        Unreadable \<Rightarrow>
                          Inl (Bff (bff_error 502 ''UPSTREAM_UNAVAILABLE'' urid
                            (svc @ '' returned a non-JSON body with status '' @ show_nat status)))
                      | Json j \<Rightarrow>
                          (case web_parse env (co_schema opts) (Some j) of
                             Accept v \<Rightarrow> Inr v
                           | Reject \<Rightarrow>
                               Inl (Bff (bff_error 502 ''UPSTREAM_UNAVAILABLE'' urid
                                 (svc @ '' returned a response that does not match the contract''))))))"

definition once ::
  "'w web_env \<Rightarrow> call_options \<Rightarrow> string \<Rightarrow> string \<Rightarrow> string \<Rightarrow> (('w, 'm) net_scheme, thrown, json option) act" where
  "once env opts url meth rid =
     and_then (fetch env (bff_request opts url meth rid)) (\<lambda>reply. lift_sum (received env opts rid reply))"

section \<open>The retry loop\<close>

definition backoff_ceiling :: "int \<Rightarrow> nat" where
  "backoff_ceiling i = min (100 * 2 ^ nat (i - 1)) 2000"

fun may_retry :: "thrown \<Rightarrow> bool" where
  "may_retry (Bff e) = retriable e"
| "may_retry _ = False"

function call_loop ::
  "'w web_env \<Rightarrow> call_options \<Rightarrow> string \<Rightarrow> string \<Rightarrow> string \<Rightarrow> thrown option \<Rightarrow> int \<Rightarrow> int \<Rightarrow>
   (('w, 'm) net_scheme, thrown, json option) act" where
  "call_loop env opts url meth rid lastError i maxAttempts =
     (if i \<le> maxAttempts
      then attempt (once env opts url meth rid)
             (\<lambda>err. if \<not> may_retry err \<or> i = maxAttempts then raise err
                    else and_then (sleep_below env (backoff_ceiling i))
                           (\<lambda>_. call_loop env opts url meth rid (Some err) (i + 1) maxAttempts))
      else raise (nullish lastError
             (Bff (bff_error 500 ''INTERNAL_ERROR'' rid ''retry loop exited without a result''))))"
  by auto

termination
  by (relation "measure (\<lambda>(env, opts, url, meth, rid, lastError, i, maxAttempts). nat (maxAttempts + 1 - i))") auto

declare call_loop.simps [simp del]

definition incomingRequestId :: "'w web_env \<Rightarrow> (('w, 'm) net_scheme, 'e, string) act" where
  "incomingRequestId env = (case web_request_id env of Some rid \<Rightarrow> ret rid | None \<Rightarrow> randomUUID env)"

definition call_method :: "call_options \<Rightarrow> string" where
  "call_method opts = nullish (co_method opts) ''GET''"

definition max_attempts :: "call_options \<Rightarrow> int" where
  "max_attempts opts =
     (if call_method opts = ''GET'' \<or> co_idempotencyKey opts \<noteq> None then nullish (co_attempts opts) 3 else 1)"

definition call :: "'w web_env \<Rightarrow> call_options \<Rightarrow> (('w, 'm) net_scheme, thrown, json option) act" where
  "call env opts =
     (if \<not> truthy (SERVICES env (co_service opts))
      then raise (Bff (bff_error 500 ''INTERNAL_ERROR'' []
        (''SOUQ_'' @ to_upper (service_text (co_service opts)) @ ''_URL is not configured'')))
      else and_then (incomingRequestId env)
        (\<lambda>rid. call_loop env opts (the (SERVICES env (co_service opts)) @ co_path opts) (call_method opts) rid
           None 1 (max_attempts opts)))"

section \<open>Several calls at once\<close>

text \<open>The promises have settled when \<^verbatim>\<open>gather\<close> looks at them: each key has a value or the reason it failed.\<close>

fun gather :: "string list \<Rightarrow> (string \<times> ('e + 'a)) list \<Rightarrow> 'e + (string \<times> 'a option) list" where
  "gather required [] = Inr []"
| "gather required ((key, Inr v) # ps) = map_sum id (\<lambda>out. (key, Some v) # out) (gather required ps)"
| "gather required ((key, Inl e) # ps) =
     (if key \<in> set required then Inl e else map_sum id (\<lambda>out. (key, None) # out) (gather required ps))"

section \<open>Problem documents\<close>

definition NO_STORE :: "(string \<times> string) list" where
  "NO_STORE = [(''Cache-Control'', ''private, no-store'')]"

definition problem_headers :: "string \<Rightarrow> (string \<times> string) list" where
  "problem_headers rid =
     [(''Content-Type'', ''application/problem+json''), (''X-Request-Id'', rid), (''Cache-Control'', ''no-store'')]"

definition kebab :: "string \<Rightarrow> string" where
  "kebab code = replace_char CHR ''_'' CHR ''-'' (to_lower code)"

definition problem_status :: "BffError \<Rightarrow> nat" where
  "problem_status e = (if be_status e = 0 then 502 else be_status e)"

text \<open>What the document starts from: the service's own envelope, or a fixed one.\<close>

definition problem_base :: "BffError \<Rightarrow> (string \<times> json) list" where
  "problem_base e = nullish (be_problem e)
     [(''type'', JStr (''https://errors.souq.dev/bff/'' @ kebab (be_code e))),
      (''title'', JStr ''Request failed''), (''detail'', JStr (be_message e))]"

definition problem_fields :: "string \<Rightarrow> string \<Rightarrow> string \<Rightarrow> BffError \<Rightarrow> (string \<times> json) list" where
  "problem_fields ts inst rid e =
     js_spread (problem_base e)
       [(''status'', JNum (of_nat (problem_status e))), (''code'', JStr (be_code e)),
        (''instance'', JStr inst), (''requestId'', JStr rid), (''timestamp'', JStr ts)]"

definition internal_fields :: "string \<Rightarrow> string \<Rightarrow> string \<Rightarrow> (string \<times> json) list" where
  "internal_fields ts inst rid =
     [(''type'', JStr ''https://errors.souq.dev/bff/internal-error''), (''title'', JStr ''Internal error''),
      (''status'', JNum 500),
      (''detail'', JStr (''Something went wrong. Quote request id '' @ rid @ '' if you contact support.'')),
      (''instance'', JStr inst), (''code'', JStr ''INTERNAL_ERROR''), (''requestId'', JStr rid),
      (''timestamp'', JStr ts)]"

definition respond_json ::
  "json option \<Rightarrow> nat \<Rightarrow> (string \<times> string) list \<Rightarrow> ('s, thrown, response) act" where
  "respond_json v status hs = (case json_response v status hs of Some r \<Rightarrow> ret r | None \<Rightarrow> raise TypeError)"

definition problemResponse :: "'w web_env \<Rightarrow> string \<Rightarrow> thrown \<Rightarrow> (('w, 'm) net_scheme, thrown, response) act" where
  "problemResponse env inst err =
     and_then (case err of Bff e \<Rightarrow> if be_requestId e \<noteq> [] then ret (be_requestId e) else randomUUID env
                         | _ \<Rightarrow> randomUUID env)
       (\<lambda>rid. and_then (asks (\<lambda>s. web_iso env (net_world s)))
          (\<lambda>ts. case err of
             Bff e \<Rightarrow> respond_json (Some (JObj (problem_fields ts inst rid e))) (problem_status e) (problem_headers rid)
           | _ \<Rightarrow> respond_json (Some (JObj (internal_fields ts inst rid))) 500 (problem_headers rid)))"

section \<open>What the loop sends\<close>

lemma once_run:
  "once env opts url meth rid s =
     (received env opts rid (fst (web_fetch env (bff_request opts url meth rid) (net_world s))),
      s\<lparr>net_world := snd (web_fetch env (bff_request opts url meth rid) (net_world s)),
        net_log := (bff_request opts url meth rid, fst (web_fetch env (bff_request opts url meth rid) (net_world s))) # net_log s\<rparr>)"
  by (simp add: once_def and_then_def fetch_run)

text \<open>An answer after which the loop tries again, when it has an attempt left.\<close>

definition tries_again :: "'w web_env \<Rightarrow> call_options \<Rightarrow> string \<Rightarrow> fetch_reply \<Rightarrow> bool" where
  "tries_again env opts rid reply = (\<exists>err. received env opts rid reply = Inl err \<and> may_retry err)"

lemma call_loop_spec:
  assumes "i \<le> m"
  shows "\<exists>rs. rs \<noteq> [] \<and> int (length rs) \<le> m + 1 - i \<and>
     net_log (snd (call_loop env opts url meth rid l i m s)) =
       map (Pair (bff_request opts url meth rid)) rs @ net_log s \<and>
     fst (call_loop env opts url meth rid l i m s) = received env opts rid (hd rs) \<and>
     list_all (tries_again env opts rid) (tl rs) \<and>
     (int (length rs) < m + 1 - i \<longrightarrow> \<not> tries_again env opts rid (hd rs)) \<and>
     net_waits (snd (call_loop env opts url meth rid l i m s)) =
       rev (map backoff_ceiling [i..i + int (length rs) - 2]) @ net_waits s"
  using assms
proof (induction env opts url meth rid l i m arbitrary: s rule: call_loop.induct)
  case (1 env opts url meth rid l i m)
  define reply where "reply = fst (web_fetch env (bff_request opts url meth rid) (net_world s))"
  define s1 where "s1 = snd (once env opts url meth rid s)"
  have run: "once env opts url meth rid s = (received env opts rid reply, s1)"
    by (simp add: s1_def reply_def once_run)
  have log1: "net_log s1 = (bff_request opts url meth rid, reply) # net_log s" "net_waits s1 = net_waits s"
    by (simp_all add: s1_def reply_def once_run)
  show ?case
  proof (cases "tries_again env opts rid reply \<and> i < m")
    case True
    then obtain err where err: "received env opts rid reply = Inl err" "may_retry err"
      by (auto simp: tries_again_def)
    define s2 where "s2 = snd (sleep_below env (backoff_ceiling i) s1)"
    have step: "call_loop env opts url meth rid l i m s = call_loop env opts url meth rid (Some err) (i + 1) m s2"
      using True err run by (subst call_loop.simps) (simp add: attempt_def and_then_def sleep_below_def s2_def)
    have log2: "net_log s2 = net_log s1" "net_waits s2 = backoff_ceiling i # net_waits s1"
      by (simp_all add: s2_def sleep_below_def)
    from 1(1) [of err s2] True err 1(2) obtain rs where rs: "rs \<noteq> []" "int (length rs) \<le> m + 1 - (i + 1)"
      "net_log (snd (call_loop env opts url meth rid (Some err) (i + 1) m s2)) =
         map (Pair (bff_request opts url meth rid)) rs @ net_log s2"
      "fst (call_loop env opts url meth rid (Some err) (i + 1) m s2) = received env opts rid (hd rs)"
      "list_all (tries_again env opts rid) (tl rs)"
      "int (length rs) < m + 1 - (i + 1) \<longrightarrow> \<not> tries_again env opts rid (hd rs)"
      "net_waits (snd (call_loop env opts url meth rid (Some err) (i + 1) m s2)) =
         rev (map backoff_ceiling [i + 1..i + 1 + int (length rs) - 2]) @ net_waits s2"
      by auto
    have upto: "[i..i + int (length (rs @ [reply])) - 2] = i # [i + 1..i + 1 + int (length rs) - 2]"
      using rs(1) by (subst upto_rec1) (simp_all add: Suc_le_eq)
    show ?thesis
    proof (intro exI [of _ "rs @ [reply]"] conjI)
      show "list_all (tries_again env opts rid) (tl (rs @ [reply]))"
        using rs(1,5) True by simp
      show "net_waits (snd (call_loop env opts url meth rid l i m s)) =
          rev (map backoff_ceiling [i..i + int (length (rs @ [reply])) - 2]) @ net_waits s"
        unfolding upto using step rs(7) log2 log1 by simp
    qed (use step rs log1 log2 in simp_all)
  next
    case False
    then have "call_loop env opts url meth rid l i m s = (received env opts rid reply, s1)"
      using run 1(2) by (subst call_loop.simps)
        (cases "received env opts rid reply", auto simp: attempt_def tries_again_def split: thrown.splits)
    then show ?thesis
      using False log1 1(2) by (intro exI [of _ "[reply]"]) auto
  qed
qed

section \<open>A scripted network\<close>

text \<open>The world of the witnesses: the answers still to come. A request after the last of them times out.\<close>

fun scripted_fetch :: "sent \<Rightarrow> fetch_reply list \<Rightarrow> fetch_reply \<times> fetch_reply list" where
  "scripted_fetch rq [] = (Aborted, [])"
| "scripted_fetch rq (r # rs) = (r, rs)"

definition scripted_env :: "fetch_reply list web_env" where
  "scripted_env = \<lparr>web_variable = \<lambda>n. if starts_with n ''SOUQ_'' then Some ''http://svc'' else None,
     web_fetch = scripted_fetch, web_sleep = \<lambda>_ w. w, web_uuid = \<lambda>w. (''uuid'', w),
     web_iso = \<lambda>_. ''2023-11-14T22:13:20.000Z'', web_parse = zparse any_format, web_request_id = None\<rparr>"

definition script :: "fetch_reply list \<Rightarrow> fetch_reply list net" where
  "script rs = \<lparr>net_world = rs, net_log = [], net_waits = []\<rparr>"

definition plain_call :: "ServiceName \<Rightarrow> string \<Rightarrow> schema \<Rightarrow> call_options" where
  "plain_call svc path sch =
     \<lparr>co_service = svc, co_path = path, co_schema = sch, co_method = None, co_body = None, co_idempotencyKey = None,
      co_accessToken = None, co_revalidate = None, co_tags = None, co_attempts = None\<rparr>"

section \<open>Lemmas on call\<close>

lemma incomingRequestId_run:
  obtains rid w where "incomingRequestId env s = (Inr rid, s\<lparr>net_world := w\<rparr>)"
proof (cases "web_request_id env")
  case (Some rid)
  then have "incomingRequestId env s = (Inr rid, s\<lparr>net_world := net_world s\<rparr>)"
    by (simp add: incomingRequestId_def)
  then show thesis by (rule that)
next
  case None
  obtain rid w where "web_uuid env (net_world s) = (rid, w)" by (cases "web_uuid env (net_world s)")
  with None have "incomingRequestId env s = (Inr rid, s\<lparr>net_world := w\<rparr>)"
    by (simp add: incomingRequestId_def randomUUID_def)
  then show thesis by (rule that)
qed

text \<open>A call to a configured service is a run of the loop.\<close>

lemma call_run:
  assumes "truthy (SERVICES env (co_service opts))"
  obtains rid w where "call env opts s = call_loop env opts (the (SERVICES env (co_service opts)) @ co_path opts)
    (call_method opts) rid None 1 (max_attempts opts) (s\<lparr>net_world := w\<rparr>)"
proof -
  obtain rid w where "incomingRequestId env s = (Inr rid :: thrown + string, s\<lparr>net_world := w\<rparr>)"
    by (rule incomingRequestId_run)
  with assms have "call env opts s = call_loop env opts (the (SERVICES env (co_service opts)) @ co_path opts)
    (call_method opts) rid None 1 (max_attempts opts) (s\<lparr>net_world := w\<rparr>)"
    by (simp add: call_def and_then_def)
  then show thesis by (rule that)
qed

lemma call_unconfigured:
  "\<not> truthy (SERVICES env (co_service opts)) \<Longrightarrow> snd (call env opts s) = s \<and> (\<exists>e. fst (call env opts s) = Inl (Bff e) \<and>
     be_status e = 500 \<and> be_code e = ''INTERNAL_ERROR'' \<and> be_problem e = None)"
  by (simp add: call_def bff_error_def)

lemma call_loop_exhausted:
  "m < i \<Longrightarrow> call_loop env opts url meth rid l i m s =
     (Inl (nullish l (Bff (bff_error 500 ''INTERNAL_ERROR'' rid ''retry loop exited without a result''))), s)"
  by (simp add: call_loop.simps)

text \<open>The requests of a call: none, or one and its repetitions after answers that allow one.\<close>

lemma call_log:
  obtains rid rs where
    "net_log (snd (call env opts s)) =
       map (Pair (bff_request opts (the (SERVICES env (co_service opts)) @ co_path opts) (call_method opts) rid)) rs @ net_log s"
    "length rs \<le> nat (max_attempts opts)" "list_all (tries_again env opts rid) (tl rs)"
    "net_waits (snd (call env opts s)) = rev (map backoff_ceiling [1..int (length rs) - 1]) @ net_waits s"
    "rs = [] \<Longrightarrow> \<exists>e. fst (call env opts s) = Inl (Bff e) \<and> be_status e = 500 \<and> be_code e = ''INTERNAL_ERROR'' \<and> be_problem e = None"
    "rs \<noteq> [] \<Longrightarrow> fst (call env opts s) = received env opts rid (hd rs)"
proof (cases "truthy (SERVICES env (co_service opts))")
  case False
  then show thesis
    using call_unconfigured [of env opts s] by (intro that [of _ "[]"]) auto
next
  case True
  then obtain rid w where run: "call env opts s = call_loop env opts (the (SERVICES env (co_service opts)) @ co_path opts)
    (call_method opts) rid None 1 (max_attempts opts) (s\<lparr>net_world := w\<rparr>)"
    by (rule call_run)
  show thesis
  proof (cases "1 \<le> max_attempts opts")
    case True
    from call_loop_spec [OF this, of env opts "the (SERVICES env (co_service opts)) @ co_path opts" "call_method opts" rid None
        "s\<lparr>net_world := w\<rparr>"] show thesis
      unfolding run [symmetric] by (elim exE conjE) (rule that, auto)
  next
    case False
    then show thesis
      using run by (intro that [of _ "[]"]) (auto simp: call_loop_exhausted bff_error_def)
  qed
qed

lemma call_count:
  "\<exists>n\<le>nat (max_attempts opts). length (net_log (snd (call env opts s))) = n + length (net_log s) \<and>
     net_waits (snd (call env opts s)) = rev (map backoff_ceiling [1..int n - 1]) @ net_waits s"
proof (rule call_log [of env opts s])
  fix rid rs
  assume "net_log (snd (call env opts s)) =
       map (Pair (bff_request opts (the (SERVICES env (co_service opts)) @ co_path opts) (call_method opts) rid)) rs @ net_log s"
    "length rs \<le> nat (max_attempts opts)"
    "net_waits (snd (call env opts s)) = rev (map backoff_ceiling [1..int (length rs) - 1]) @ net_waits s"
  then show ?thesis
    by (intro exI [of _ "length rs"]) simp
qed

text \<open>A value returned, or an error thrown after a request, is what the last answer was read as.\<close>

lemma call_settles:
  "(\<exists>rid reply. fst (call env opts s) = received env opts rid reply \<and>
      (\<exists>rq. (rq, reply) \<in> set (net_log (snd (call env opts s))))) \<or>
   (\<exists>e. fst (call env opts s) = Inl (Bff e) \<and> be_status e = 500 \<and> be_code e = ''INTERNAL_ERROR'' \<and> be_problem e = None)"
proof (rule call_log [of env opts s])
  fix rid rs
  assume "net_log (snd (call env opts s)) =
       map (Pair (bff_request opts (the (SERVICES env (co_service opts)) @ co_path opts) (call_method opts) rid)) rs @ net_log s"
    "rs = [] \<Longrightarrow> \<exists>e. fst (call env opts s) = Inl (Bff e) \<and> be_status e = 500 \<and> be_code e = ''INTERNAL_ERROR'' \<and> be_problem e = None"
    "rs \<noteq> [] \<Longrightarrow> fst (call env opts s) = received env opts rid (hd rs)"
  then show ?thesis
    by (cases rs) auto
qed

lemma received_value:
  "received env opts rid reply = Inr v \<Longrightarrow> \<exists>payload. web_parse env (co_schema opts) payload = Accept v"
  by (auto simp: received_def Let_def split: fetch_reply.splits if_splits zres.splits body.splits)

section \<open>Properties of call\<close>

text \<open>C8: A request that changes something and carries no idempotency key is sent at most once, whatever
  comes back: the first attempt may have succeeded and only its answer was lost.\<close>

theorem unsafe_call_sent_once:
  assumes "call_method opts \<noteq> ''GET''" "co_idempotencyKey opts = None"
  shows "length (net_log (snd (call env opts s))) \<le> Suc (length (net_log s)) \<and>
    net_waits (snd (call env opts s)) = net_waits s"
proof -
  have "max_attempts opts = 1"
    using assms by (simp add: max_attempts_def)
  with call_count [of opts env s] show ?thesis
    by (auto simp: le_Suc_eq)
qed

definition sample_post :: call_options where
  "sample_post = (plain_call SvcCart ''/v1/carts'' ZUnknown)\<lparr>co_method := Some ''POST''\<rparr>"

theorem unsafe_call_sent_once_witness:
  "length (net_log (snd (call scripted_env sample_post (script [NetworkError ''reset'', Response 200 None (Json JNull)])))) = 1"
proof -
  let ?s = "script [NetworkError ''reset'', Response 200 None (Json JNull)]"
  have "length (net_log (snd (call scripted_env sample_post ?s))) \<le> Suc (length (net_log ?s))"
    using unsafe_call_sent_once [of sample_post scripted_env ?s]
    by (simp add: sample_post_def plain_call_def call_method_def)
  moreover have "net_log (snd (call scripted_env sample_post ?s)) \<noteq> []"
    by code_simp
  ultimately show ?thesis
    by (cases "net_log (snd (call scripted_env sample_post ?s))") (auto simp: script_def)
qed

text \<open>C9: A call to a configured service ends in what it makes of the answer to its last request. Every
  request it repeats was answered by a connection failure, a timeout or a 502, 503 or 504; it sends
  the same request each time, no more often than \<^verbatim>\<open>maxAttempts\<close>; and it gives up early only on an
  answer that another attempt cannot improve.\<close>

theorem call_outcome:
  assumes "truthy (SERVICES env (co_service opts))" "1 \<le> max_attempts opts"
  shows "\<exists>rid rs. rs \<noteq> [] \<and> int (length rs) \<le> max_attempts opts \<and>
    net_log (snd (call env opts s)) = map (Pair (bff_request opts (the (SERVICES env (co_service opts)) @ co_path opts)
      (call_method opts) rid)) rs @ net_log s \<and>
    fst (call env opts s) = received env opts rid (hd rs) \<and>
    (\<forall>r\<in>set (tl rs). \<exists>e. received env opts rid r = Inl (Bff e) \<and> be_status e \<in> {0, 502, 503, 504}) \<and>
    (int (length rs) < max_attempts opts \<longrightarrow>
       \<not> (\<exists>e. received env opts rid (hd rs) = Inl (Bff e) \<and> be_status e \<in> {0, 502, 503, 504}))"
proof -
  obtain rid w where run: "call env opts s = call_loop env opts (the (SERVICES env (co_service opts)) @ co_path opts)
    (call_method opts) rid None 1 (max_attempts opts) (s\<lparr>net_world := w\<rparr>)"
    using assms(1) by (rule call_run)
  have again: "tries_again env opts rid r \<longleftrightarrow>
      (\<exists>e. received env opts rid r = Inl (Bff e) \<and> be_status e \<in> {0, 502, 503, 504})" for r
    by (auto simp: tries_again_def retriable_def elim!: may_retry.elims)
  from call_loop_spec [OF assms(2), of env opts "the (SERVICES env (co_service opts)) @ co_path opts" "call_method opts" rid
      None "s\<lparr>net_world := w\<rparr>", folded run]
  obtain rs where "rs \<noteq> []" "int (length rs) \<le> max_attempts opts"
    "net_log (snd (call env opts s)) = map (Pair (bff_request opts (the (SERVICES env (co_service opts)) @ co_path opts)
      (call_method opts) rid)) rs @ net_log s"
    "fst (call env opts s) = received env opts rid (hd rs)" "list_all (tries_again env opts rid) (tl rs)"
    "int (length rs) < max_attempts opts \<longrightarrow> \<not> tries_again env opts rid (hd rs)"
    by auto
  then show ?thesis
    unfolding list_all_iff again by blast
qed

theorem call_outcome_witness:
  "\<exists>rs. length (net_log (snd (call scripted_env (plain_call SvcCart ''/v1/carts'' ZUnknown)
      (script [NetworkError ''reset'', Response 200 None (Json JNull)])))) = length rs \<and> rs \<noteq> ([]::fetch_reply list)"
proof -
  let ?o = "plain_call SvcCart ''/v1/carts'' ZUnknown"
  have "truthy (SERVICES scripted_env (co_service ?o))"
    by code_simp
  moreover have "1 \<le> max_attempts ?o"
    by code_simp
  ultimately show ?thesis
    using call_outcome [of scripted_env ?o "script [NetworkError ''reset'', Response 200 None (Json JNull)]"]
    by (fastforce simp: script_def)
qed

text \<open>C27: There is no way for unvalidated data out of \<^verbatim>\<open>call\<close>: whatever it returns is what the schema made
  of a payload.\<close>

theorem call_returns_validated:
  assumes "call env opts s = (Inr v, s')"
  shows "\<exists>payload. web_parse env (co_schema opts) payload = Accept v"
proof -
  from call_settles [of env opts s] assms obtain rid reply where "received env opts rid reply = Inr v"
    by auto
  then show ?thesis
    by (rule received_value)
qed

theorem call_returns_validated_witness:
  "\<exists>payload. zparse any_format (ZLiteral ''ok'') payload = Accept (Some (JStr ''ok''))"
proof -
  let ?o = "plain_call SvcCart ''/v1'' (ZLiteral ''ok'')"
  have "fst (call scripted_env ?o (script [Response 200 None (Json (JStr ''ok''))])) = Inr (Some (JStr ''ok''))"
    by code_simp
  then obtain s' where "call scripted_env ?o (script [Response 200 None (Json (JStr ''ok''))]) = (Inr (Some (JStr ''ok'')), s')"
    by (cases "call scripted_env ?o (script [Response 200 None (Json (JStr ''ok''))])") simp
  from call_returns_validated [OF this] show ?thesis
    by (simp add: scripted_env_def plain_call_def)
qed

text \<open>With the default number of attempts a call sends at most three requests and sleeps for less than
  300 ms between them, so it settles within three timeouts of the service and that delay.\<close>

theorem call_delay_bounded:
  assumes "co_attempts opts = None"
  shows "length (net_log (snd (call env opts s))) \<le> length (net_log s) + 3 \<and>
    sum_list (net_waits (snd (call env opts s))) \<le> sum_list (net_waits s) + 300"
proof -
  from call_count [of opts env s] obtain n where len: "n \<le> nat (max_attempts opts)"
    and log: "length (net_log (snd (call env opts s))) = n + length (net_log s)"
    and waits: "net_waits (snd (call env opts s)) = rev (map backoff_ceiling [1..int n - 1]) @ net_waits s"
    by blast
  have "n \<le> 3"
    using len assms by (auto simp: max_attempts_def split: if_splits)
  then have "n \<in> {0, 1, 2, 3}" by auto
  then have "sum_list (map backoff_ceiling [1..int n - 1]) \<le> 300"
    by (elim insertE) (simp_all add: backoff_ceiling_def upto_rec1)
  then have "sum_list (rev (map backoff_ceiling [1..int n - 1])) \<le> 300"
    by simp
  with \<open>n \<le> 3\<close> show ?thesis
    using log unfolding waits by simp
qed

section \<open>What the client throws renders as a problem document\<close>

text \<open>The Fetch standard: a response a script sees has a status between 200 and 599.\<close>

fun proper_reply :: "fetch_reply \<Rightarrow> bool" where
  "proper_reply (Response status hdr b) = (200 \<le> status \<and> status \<le> 599)"
| "proper_reply _ = True"

text \<open>The declared fields of the contract, and those a problem document always sets itself.\<close>

definition problem_schema :: "(string \<times> schema) list" where
  "problem_schema = (case ProblemDetails of ZObject u fs \<Rightarrow> fs | _ \<Rightarrow> [])"

definition code_schema :: schema where
  "code_schema = nullish (map_of problem_schema ''code'') ZUnknown"

definition renders :: "(schema \<Rightarrow> json option \<Rightarrow> zres) \<Rightarrow> BffError \<Rightarrow> bool" where
  "renders parse e =
     (be_status e \<le> 599 \<and> (be_status e = 0 \<or> 100 \<le> be_status e) \<and>
      (\<exists>w. parse code_schema (Some (JStr (be_code e))) = Accept w) \<and>
      (\<forall>fs. be_problem e = Some fs \<longrightarrow> (\<exists>w. parse ProblemDetails (Some (JObj fs)) = Accept w)))"

lemma stable_ProblemDetails: "stable_schema ProblemDetails"
  by (simp add: ProblemDetails_def FieldError_def Timestamp_def)

lemma ProblemDetails_object: "ProblemDetails = z_strict problem_schema"
  by (simp add: problem_schema_def ProblemDetails_def)

lemma problem_schema_distinct: "distinct (map fst problem_schema)"
  by (simp add: problem_schema_def ProblemDetails_def)

lemma problem_schema_fields:
  "map_of problem_schema ''status'' = Some (ZNumber [IntOnly, AtLeast 100, AtMost 599])"
  "map_of problem_schema ''code'' = Some code_schema"
  by (simp_all add: problem_schema_def ProblemDetails_def code_schema_def)

lemma code_schema_eq: "code_schema = ZString [Pattern (rx_seq
    [RCls cls_upper, RStar (RCls [(CHR ''A'', CHR ''Z''), (CHR ''0'', CHR ''9''), (CHR ''_'', CHR ''_'')])])]"
  by (simp add: problem_schema_def ProblemDetails_def code_schema_def)

text \<open>Every declared field is overwritten by the problem document, or is one of the four it may inherit.\<close>

lemma problem_schema_cases:
  assumes "(k, sch) \<in> set problem_schema"
  shows "k = ''type'' \<and> sch = z_string \<or> k = ''title'' \<and> sch = z_string \<or>
    k = ''status'' \<and> sch = ZNumber [IntOnly, AtLeast 100, AtMost 599] \<or>
    k = ''detail'' \<and> sch = ZOptional z_string \<or> k = ''instance'' \<and> sch = ZOptional z_string \<or>
    k = ''code'' \<and> sch = code_schema \<or> k = ''requestId'' \<and> sch = z_string \<or>
    k = ''timestamp'' \<and> sch = Timestamp \<or> k = ''errors'' \<and> sch = ZOptional (z_array FieldError)"
  using assms
  by (simp only: problem_schema_def ProblemDetails_def code_schema_eq schema.case set_simps insert_iff prod.inject empty_iff simp_thms)

lemma problem_schema_keys:
  "fst ` set problem_schema =
     {''type'', ''title'', ''status'', ''detail'', ''instance'', ''code'', ''requestId'', ''timestamp'', ''errors''}"
  by (simp add: problem_schema_def ProblemDetails_def)

context zod
begin

lemma problem_field:
  assumes "parse ProblemDetails v = Accept r" "map_of problem_schema k = Some sch"
  shows "parse sch (get_prop v k) = Accept (get_prop r k)"
  using object_field [OF problem_schema_distinct assms(1) [unfolded ProblemDetails_object] map_of_SomeD [OF assms(2)]] .

lemma plain_error_renders:
  "code \<in> set ERROR_CODES \<Longrightarrow> status \<le> 599 \<Longrightarrow> status = 0 \<or> 100 \<le> status \<Longrightarrow> renders parse (bff_error status code rid msg)"
  by (simp add: renders_def bff_error_def code_schema_eq parse_string error_code_pattern)

lemma string_accepted: "parse (ZString cs) v = Accept w \<Longrightarrow> \<exists>t. v = Some (JStr t) \<and> w = v"
  by (auto simp: parse_string split: option.splits json.splits if_splits)

lemma number_accepted: "parse (ZNumber ns) v = Accept w \<Longrightarrow> \<exists>x. v = Some (JNum x) \<and> w = v \<and> list_all (number_ok x) ns"
  by (auto simp: parse_number split: option.splits json.splits if_splits)

lemma envelope_renders:
  assumes "parse ProblemDetails v = Accept data"
  shows "renders parse \<lparr>be_status = nat (int_field data ''status''), be_code = str_field data ''code'',
    be_requestId = rid, be_message = msg, be_problem = Some (fields_of data)\<rparr>"
proof -
  obtain x where x: "get_prop data ''status'' = Some (JNum x)" "100 \<le> x" "x \<le> 599"
    using number_accepted [OF problem_field [OF assms problem_schema_fields(1)]] by auto
  have "100 \<le> \<lfloor>x\<rfloor>" "\<lfloor>x\<rfloor> \<le> 599"
    using x(2,3) by (simp_all add: le_floor_iff floor_le_iff)
  then have "100 \<le> nat \<lfloor>x\<rfloor>" "nat \<lfloor>x\<rfloor> \<le> 599"
    by linarith+
  with x(1) have "100 \<le> nat (int_field data ''status'') \<and> nat (int_field data ''status'') \<le> 599"
    by (simp only: int_field_def option.case json.case)
  moreover have "\<exists>w. parse code_schema (Some (JStr (str_field data ''code''))) = Accept w"
    using problem_field [OF assms problem_schema_fields(2)]
      string_accepted [OF problem_field [OF assms problem_schema_fields(2), unfolded code_schema_eq]]
    by (auto simp: str_field_def)
  moreover obtain out where "data = Some (JObj out)"
    using object_is_object [OF assms [unfolded ProblemDetails_object]] by blast
  then have "parse ProblemDetails (Some (JObj (fields_of data))) = Accept data"
    using revalidates [OF stable_ProblemDetails assms] by (simp add: fields_of_def)
  ultimately show ?thesis
    by (simp add: renders_def)
qed

lemma problem_base_field:
  assumes "renders parse e" "k \<in> {''type'', ''title'', ''detail'', ''errors''}" "(k, sch) \<in> set problem_schema"
  shows "\<exists>w. parse sch (map_of (problem_base e) k) = Accept w"
proof (cases "be_problem e")
  case None
  show ?thesis
    using problem_schema_cases [OF assms(3)] assms(2)
    by (elim disjE conjE) (simp_all add: problem_base_def None parse_string parse_optional)
next
  case (Some fs)
  with assms(1) obtain w where "parse ProblemDetails (Some (JObj fs)) = Accept w" by (auto simp: renders_def)
  from object_field [OF problem_schema_distinct this [unfolded ProblemDetails_object] assms(3)] Some show ?thesis
    by (simp add: problem_base_def get_prop_def lookup_def)
qed

lemma problem_base_keys:
  assumes "renders parse e"
  shows "fst ` set (problem_base e) \<subseteq> fst ` set problem_schema"
proof (cases "be_problem e")
  case None
  then show ?thesis by (simp add: problem_base_def problem_schema_keys)
next
  case (Some fs)
  with assms obtain w where "parse ProblemDetails (Some (JObj fs)) = Accept w" by (auto simp: renders_def)
  then have "known_keys fs (map fst problem_schema)"
    unfolding ProblemDetails_object by (rule object_acceptD) auto
  with Some show ?thesis by (force simp: problem_base_def known_keys_def list_all_iff)
qed

lemma problem_fields_accept:
  assumes "renders parse e" "parse Timestamp (Some (JStr ts)) = Accept w"
  shows "\<exists>r. parse ProblemDetails (Some (JObj (problem_fields ts inst rid e))) = Accept r"
  unfolding ProblemDetails_object
proof (rule object_accepts)
  have "fst ` set (problem_fields ts inst rid e) \<subseteq> fst ` set problem_schema"
    using problem_base_keys [OF assms(1)] by (simp add: problem_fields_def keys_js_spread problem_schema_keys del: js_spread.simps)
  then show "known_keys (problem_fields ts inst rid e) (map fst problem_schema)"
    by (force simp: known_keys_def list_all_iff)
next
  have look: "map_of (problem_fields ts inst rid e) k =
      (if k = ''status'' then Some (JNum (of_nat (problem_status e))) else if k = ''code'' then Some (JStr (be_code e))
       else if k = ''instance'' then Some (JStr inst) else if k = ''requestId'' then Some (JStr rid)
       else if k = ''timestamp'' then Some (JStr ts) else map_of (problem_base e) k)" for k
    by (simp add: problem_fields_def map_of_js_set)
  have status: "\<exists>w. parse (ZNumber [IntOnly, AtLeast 100, AtMost 599]) (Some (JNum (of_nat (problem_status e)))) = Accept w"
    using assms(1) by (auto simp: parse_number renders_def problem_status_def rat_is_int_def)
  have code: "\<exists>w. parse code_schema (Some (JStr (be_code e))) = Accept w"
    using assms(1) by (simp add: renders_def)
  fix k sch
  assume mem: "(k, sch) \<in> set problem_schema"
  show "\<exists>w. parse sch (map_of (problem_fields ts inst rid e) k) = Accept w"
    using problem_schema_cases [OF mem] problem_base_field [OF assms(1) _ mem] status code assms(2)
    by (elim disjE conjE) (simp_all add: look parse_string parse_optional)
qed

lemma internal_fields_accept:
  assumes "parse Timestamp (Some (JStr ts)) = Accept w"
  shows "\<exists>r. parse ProblemDetails (Some (JObj (internal_fields ts inst rid))) = Accept r"
  unfolding ProblemDetails_object
proof (rule object_accepts)
  show "known_keys (internal_fields ts inst rid) (map fst problem_schema)"
    by (simp add: known_keys_def internal_fields_def problem_schema_def ProblemDetails_def)
next
  have code: "parse code_schema (Some (JStr ''INTERNAL_ERROR'')) = Accept (Some (JStr ''INTERNAL_ERROR''))"
    using error_code_pattern [of "''INTERNAL_ERROR''"] by (simp add: code_schema_eq parse_string ERROR_CODES_def)
  have status: "parse (ZNumber [IntOnly, AtLeast 100, AtMost 599]) (Some (JNum 500)) = Accept (Some (JNum 500))"
    by (simp add: parse_number rat_is_int_def)
  fix k sch
  assume mem: "(k, sch) \<in> set problem_schema"
  show "\<exists>w. parse sch (map_of (internal_fields ts inst rid) k) = Accept w"
    using problem_schema_cases [OF mem] code status assms
    by (elim disjE conjE) (simp_all add: internal_fields_def parse_string parse_optional)
qed

end

lemma received_renders:
  assumes "zod (web_parse env) fmt" "proper_reply reply" "received env opts rid reply = Inl (Bff e)"
  shows "renders (web_parse env) e"
proof -
  note plain = zod.plain_error_renders [OF assms(1)]
  have codes: "''UPSTREAM_TIMEOUT'' \<in> set ERROR_CODES" "''UPSTREAM_UNAVAILABLE'' \<in> set ERROR_CODES"
    "''INTERNAL_ERROR'' \<in> set ERROR_CODES"
    by (simp_all add: ERROR_CODES_def)
  have "renders (web_parse env) (toProblem env status b (co_service opts) urid)"
    if "reply = Response status hdr b" for status hdr b urid
    using assms(2) that zod.envelope_renders [OF assms(1)] codes
    by (auto simp: toProblem_def intro!: plain split: body.splits zres.splits)
  with assms(3) codes show ?thesis
    by (auto simp: received_def Let_def intro!: plain split: fetch_reply.splits if_splits body.splits zres.splits)
qed

lemma problemResponse_run:
  assumes "problemResponse env inst err s = (Inr r, s')"
  obtains ts rid where "\<exists>w. ts = web_iso env w" "\<And>e. err = Bff e \<Longrightarrow> be_requestId e \<noteq> [] \<Longrightarrow> rid = be_requestId e"
    "case err of Bff e \<Rightarrow> rs_status r = problem_status e \<and> rs_body r = Some (JObj (problem_fields ts inst rid e))
     | _ \<Rightarrow> rs_status r = 500 \<and> rs_body r = Some (JObj (internal_fields ts inst rid))"
proof -
  from assms obtain rid s1 where
    pick: "(case err of Bff e \<Rightarrow> if be_requestId e \<noteq> [] then ret (be_requestId e) else randomUUID env
              | _ \<Rightarrow> randomUUID env) s = (Inr rid :: thrown + string, s1)"
    and run: "(case err of
        Bff e \<Rightarrow> respond_json (Some (JObj (problem_fields (web_iso env (net_world s1)) inst rid e))) (problem_status e) (problem_headers rid)
      | _ \<Rightarrow> respond_json (Some (JObj (internal_fields (web_iso env (net_world s1)) inst rid))) 500 (problem_headers rid)) s1 = (Inr r, s')"
    unfolding problemResponse_def by (elim and_then_InrE) (simp only: asks_run prod.inject sum.inject, blast)
  show thesis
    by (rule that [of "web_iso env (net_world s1)" rid])
      (use pick run in \<open>auto simp: respond_json_def split: thrown.splits option.splits dest!: json_response_SomeD\<close>)
qed

text \<open>What a call throws can be rendered, when the network answered as the Fetch standard says.\<close>

lemma call_error_renders:
  assumes "zod (web_parse env) fmt" "call env opts s = (Inl (Bff e), s')" "\<forall>x\<in>set (net_log s'). proper_reply (snd x)"
  shows "renders (web_parse env) e"
proof -
  have run: "fst (call env opts s) = Inl (Bff e)" "snd (call env opts s) = s'"
    using assms(2) by simp_all
  consider rid reply rq where "received env opts rid reply = Inl (Bff e)" "(rq, reply) \<in> set (net_log s')"
    | "be_status e = 500 \<and> be_code e = ''INTERNAL_ERROR'' \<and> be_problem e = None"
    using call_settles [of env opts s] unfolding run by (auto dest: sym)
  then show ?thesis
  proof cases
    case 1
    then show ?thesis using assms(3) received_renders [OF assms(1)] by fastforce
  next
    case 2
    then show ?thesis
      using error_code_pattern [of "''INTERNAL_ERROR''"]
      by (simp add: renders_def code_schema_eq zod.parse_string [OF assms(1)] ERROR_CODES_def)
  qed
qed

section \<open>Properties of the problem documents and of gather\<close>


lemma scripted_zod: "zod (web_parse scripted_env) any_format"
  using zp.zod_axioms by (simp add: scripted_env_def)

lemma scripted_clock:
  "\<forall>w. web_parse scripted_env Timestamp (Some (JStr (web_iso scripted_env w))) = Accept (Some (JStr (web_iso scripted_env w)))"
proof -
  have "zparse any_format Timestamp (Some (JStr ''2023-11-14T22:13:20.000Z'')) = Accept (Some (JStr ''2023-11-14T22:13:20.000Z''))"
    by code_simp
  then show ?thesis
    by (simp add: scripted_env_def)
qed

definition sample_envelope :: json where
  "sample_envelope = problem_json ''2023-11-14T22:13:20Z'' ''r7'' 409 ''CART_STALE'' ''stale'' ''cart''"

lemma scripted_conflict:
  obtains e s r s' where "call scripted_env (plain_call SvcCart ''/v1'' ZUnknown) (script [Response 409 None (Json sample_envelope)]) = (Inl (Bff e), s)"
    "be_code e = ''CART_STALE''" "\<forall>x\<in>set (net_log s). proper_reply (snd x)"
    "problemResponse scripted_env ''/api'' (Bff e) s = (Inr r, s')" "rs_status r = 409"
proof -
  have "case call scripted_env (plain_call SvcCart ''/v1'' ZUnknown) (script [Response 409 None (Json sample_envelope)]) of
      (Inl (Bff e), s) \<Rightarrow> be_code e = ''CART_STALE'' \<and> list_all (\<lambda>x. proper_reply (snd x)) (net_log s) \<and>
        map_sum id rs_status (fst (problemResponse scripted_env ''/api'' (Bff e) s)) = Inr 409
    | _ \<Rightarrow> False"
    by code_simp
  then obtain e s where run: "call scripted_env (plain_call SvcCart ''/v1'' ZUnknown) (script [Response 409 None (Json sample_envelope)]) = (Inl (Bff e), s)"
    and e: "be_code e = ''CART_STALE''" "\<forall>x\<in>set (net_log s). proper_reply (snd x)"
    and status: "map_sum id rs_status (fst (problemResponse scripted_env ''/api'' (Bff e) s)) = Inr 409"
    by (auto simp: list_all_iff split: prod.splits sum.splits thrown.splits)
  obtain x s' where answer: "problemResponse scripted_env ''/api'' (Bff e) s = (x, s')" by fastforce
  with status obtain r where "x = Inr r" "rs_status r = 409" by (cases x) auto
  with run e answer show thesis using that by blast
qed


text \<open>\<^verbatim>\<open>gather\<close> throws exactly when a required call failed, and then with the reason of the first that
  did; otherwise it keeps every result and leaves null where an optional call failed.\<close>

theorem gather_degrades:
  "gather required ps =
     (case filter (\<lambda>(k, r). k \<in> set required \<and> isl r) ps of
        [] \<Rightarrow> Inr (map (\<lambda>(k, r). (k, case r of Inl e \<Rightarrow> None | Inr v \<Rightarrow> Some v)) ps)
      | (k, r) # _ \<Rightarrow> Inl (projl r))"
  by (induction required ps rule: gather.induct) (auto split: list.splits)

end
