(* ===== verification/Product_Cards.thy ===== *)
theory Product_Cards
  imports Storefront_Catalog Bff_Client
begin

text \<open>
  How the storefront shows one product: the two adapters of \<^verbatim>\<open>product-card.tsx\<close>, the price and the rating
  (\<^verbatim>\<open>price.tsx\<close>, \<^verbatim>\<open>rating.tsx\<close>), the review list, and the basket's badge, rows and totals
  (\<^verbatim>\<open>components/cart/\<close>). A component is the data it shows; class names and icons are left out. Money and number
  formatting are the platform's and arguments.

  The lemmas: the variant a card leads with is the first of the cheapest; a card is dimmed exactly when every variant
  is known to be gone; a struck-through price is shown only above the price it goes with.
\<close>

section \<open>Values\<close>

definition list_field :: "json option \<Rightarrow> string \<Rightarrow> json list" where
  "list_field v k = (case get_prop v k of Some (JArr js) \<Rightarrow> js | _ \<Rightarrow> [])"

definition bool_field :: "json option \<Rightarrow> string \<Rightarrow> bool" where
  "bool_field v k = (get_prop v k = Some (JBool True))"

definition num_field :: "json option \<Rightarrow> string \<Rightarrow> rat" where
  "num_field v k = (case get_prop v k of Some (JNum x) \<Rightarrow> x | _ \<Rightarrow> 0)"

text \<open>\<^verbatim>\<open>a ?? b\<close> on values, where \<^verbatim>\<open>undefined\<close> is \<open>None\<close>.\<close>

definition or_else :: "json option \<Rightarrow> json option \<Rightarrow> json option" where
  "or_else a b = (if a = None \<or> a = Some JNull then b else a)"

definition first_of :: "json list \<Rightarrow> json option" where
  "first_of js = (case js of [] \<Rightarrow> None | j # _ \<Rightarrow> Some j)"

text \<open>A value as the reader of a nullable field sees it.\<close>

definition not_null :: "json option \<Rightarrow> json option" where
  "not_null v = (if v = Some JNull then None else v)"

section \<open>product-card.tsx\<close>

record ProductCardItem =
  pc_productId :: string
  pc_title :: string
  pc_slug :: string
  pc_brand :: "json option"
  pc_image :: "json option"
  pc_price :: "json option"
  pc_listPrice :: "json option"
  pc_rating :: "json option"
  pc_ratingCount :: rat
  pc_inStock :: bool

definition fromSearchHit :: "json \<Rightarrow> ProductCardItem" where
  "fromSearchHit hit =
     \<lparr>pc_productId = str_field (Some hit) ''productId'', pc_title = str_field (Some hit) ''title'',
      pc_slug = str_field (Some hit) ''slug'', pc_brand = not_null (get_prop (Some hit) ''brand''),
      pc_image = not_null (get_prop (Some hit) ''image''), pc_price = get_prop (Some hit) ''price'',
      pc_listPrice = not_null (get_prop (Some hit) ''listPrice''), pc_rating = not_null (get_prop (Some hit) ''rating''),
      pc_ratingCount = num_field (Some hit) ''ratingCount'', pc_inStock = bool_field (Some hit) ''inStock''\<rparr>"

definition price_amount :: "json \<Rightarrow> rat" where
  "price_amount v = num_field (get_prop (Some v) ''price'') ''amount''"

definition cheaper :: "json \<Rightarrow> json \<Rightarrow> json" where
  "cheaper a b = (if price_amount b < price_amount a then b else a)"

definition cheapest :: "json list \<Rightarrow> json option" where
  "cheapest vs = (case vs of [] \<Rightarrow> None | v # vs \<Rightarrow> Some (foldl cheaper v vs))"

definition variant_available :: "json \<Rightarrow> bool" where
  "variant_available v =
     (get_prop (Some v) ''available'' = Some JNull \<or>
      (case get_prop (Some v) ''available'' of Some (JNum x) \<Rightarrow> 0 < x | _ \<Rightarrow> False))"

definition fromProduct :: "json \<Rightarrow> ProductCardItem" where
  "fromProduct product =
     (let p = Some product; variants = list_field p ''variants''; c = cheapest variants; rating = not_null (get_prop p ''rating'')
      in \<lparr>pc_productId = str_field p ''id'', pc_title = str_field p ''title'', pc_slug = str_field p ''slug'',
          pc_brand = not_null (get_prop p ''brand''),
          pc_image = not_null (or_else (get_prop (first_of (list_field p ''images'')) ''url'')
            (get_prop (first_of (list_field c ''images'')) ''url'')),
          pc_price = or_else (get_prop c ''price'') (get_prop p ''price''),
          pc_listPrice = not_null (or_else (get_prop c ''listPrice'') (get_prop p ''listPrice'')),
          pc_rating = not_null (get_prop rating ''average''),
          pc_ratingCount = num_field rating ''count'',
          pc_inStock = (variants = [] \<or> (\<exists>v\<in>set variants. variant_available v))\<rparr>)"

section \<open>price.tsx and rating.tsx\<close>

definition money_of :: "json \<Rightarrow> money" where
  "money_of j = \<lparr>amount = int_field (Some j) ''amount'', currency = str_field (Some j) ''currency''\<rparr>"

record price_view =
  pv_price :: string
  pv_reference :: "string option"
  pv_saving :: "int option"

definition Price :: "(money \<Rightarrow> string) \<Rightarrow> json \<Rightarrow> json option \<Rightarrow> bool \<Rightarrow> price_view" where
  "Price format_money price listPrice showSaving =
     (let saving = discountPercent (amount (money_of price)) (map_option (\<lambda>l. amount (money_of l)) (not_null listPrice));
          hasReference = (saving \<noteq> None \<and> not_null listPrice \<noteq> None)
      in \<lparr>pv_price = format_money (money_of price),
          pv_reference = (if hasReference then Some (format_money (money_of (the listPrice))) else None),
          pv_saving = (if hasReference \<and> showSaving then saving else None)\<rparr>)"

definition UnitPrice :: "(money \<Rightarrow> string) \<Rightarrow> json \<Rightarrow> int \<Rightarrow> string option" where
  "UnitPrice format_money unitPrice quantity =
     (if quantity \<le> 1 then None else Some (format_money (money_of unitPrice) @ '' each''))"

datatype rating_view = NoReviewsYet | NoRating | Stars string rat

definition RatingStars :: "(rat \<Rightarrow> string) \<Rightarrow> rat option \<Rightarrow> int option \<Rightarrow> bool \<Rightarrow> rating_view" where
  "RatingStars to_fixed1 v count showCount =
     (case v of
        None \<Rightarrow> if showCount then NoReviewsYet else NoRating
      | Some x \<Rightarrow>
          let clamped = max 0 (min 5 x)
          in Stars (''Rated '' @ to_fixed1 clamped @ '' out of 5'' @
                    (case count of
                       None \<Rightarrow> []
                     | Some n \<Rightarrow> '' from '' @ show_int n @ '' review'' @ (if n = 1 then [] else ''s'')))
                   (js_times (js_div clamped 5) 100))"

section \<open>review-list.tsx\<close>

record review_row =
  rr_rating :: rat
  rr_verified :: bool
  rr_author :: string
  rr_title :: "string option"
  rr_body :: string
  rr_helpful :: "string option"

definition ReviewRow :: "json \<Rightarrow> review_row" where
  "ReviewRow review =
     (let r = Some review; n = int_field r ''helpfulCount''
      in \<lparr>rr_rating = num_field r ''rating'', rr_verified = bool_field r ''verifiedPurchase'',
          rr_author = (if str_field r ''authorName'' \<noteq> [] then str_field r ''authorName'' else ''Anonymous''),
          rr_title = (if str_field r ''title'' \<noteq> [] then Some (str_field r ''title'') else None),
          rr_body = str_field r ''body'',
          rr_helpful = (if 0 < n then Some (show_int n @ '' '' @ (if n = 1 then ''person'' else ''people'') @ '' found this helpful'')
                        else None)\<rparr>)"

section \<open>The basket's badge, rows and totals\<close>

definition CartCount :: "int \<Rightarrow> string option \<times> string" where
  "CartCount itemCount =
     ((if 0 < itemCount then Some (if 99 < itemCount then ''99+'' else show_int itemCount) else None),
      (if itemCount = 0 then ''Basket is empty''
       else show_int itemCount @ '' item'' @ (if itemCount = 1 then [] else ''s'') @ '' in your basket''))"

record line_row =
  lr_href :: string
  lr_title :: string
  lr_sku :: string
  lr_total :: string
  lr_each :: "string option"
  lr_price_changed :: bool
  lr_quantity :: int

definition CartLineRow :: "(money \<Rightarrow> string) \<Rightarrow> json \<Rightarrow> line_row" where
  "CartLineRow format_money line =
     (let l = Some line
      in \<lparr>lr_href = ''/products/'' @ str_field l ''productId'', lr_title = str_field l ''title'', lr_sku = str_field l ''sku'',
          lr_total = format_money (money_of (the (get_prop l ''lineTotal''))),
          lr_each = UnitPrice format_money (the (get_prop l ''unitPrice'')) (int_field l ''quantity''),
          lr_price_changed = bool_field l ''priceChanged'', lr_quantity = int_field l ''quantity''\<rparr>)"

record summary_view =
  sm_degraded :: bool
  sm_rows :: "(string \<times> string) list"
  sm_total :: string
  sm_coupons :: bool

definition CartSummary :: "(money \<Rightarrow> string) \<Rightarrow> json \<Rightarrow> summary_view" where
  "CartSummary format_money cart =
     (let money = (\<lambda>k. money_of (the (get_prop (Some cart) k)))
      in \<lparr>sm_degraded = bool_field (Some cart) ''pricingDegraded'',
          sm_rows =
            [(''Subtotal'', format_money (money ''subtotal''))]
            @ (if amount (money ''discountTotal'') \<noteq> 0 then [(''Discount'', format_money (money ''discountTotal''))] else [])
            @ [(''Delivery'', if amount (money ''shippingTotal'') = 0 then ''Free'' else format_money (money ''shippingTotal''))]
            @ (if amount (money ''taxTotal'') \<noteq> 0 then [(''VAT'', format_money (money ''taxTotal''))] else []),
          sm_total = format_money (money ''total''),
          sm_coupons = (\<not> bool_field (Some cart) ''pricingDegraded'')\<rparr>)"

datatype basket_page = BasketLoading | EmptyCart | Basket "line_row list" summary_view bool

definition CartPage :: "(money \<Rightarrow> string) \<Rightarrow> json option \<Rightarrow> bool \<Rightarrow> basket_page" where
  "CartPage format_money cart loading =
     (case cart of
        None \<Rightarrow> if loading then BasketLoading else EmptyCart
      | Some c \<Rightarrow>
          if list_field cart ''lines'' = [] then EmptyCart
          else Basket (map (CartLineRow format_money) (list_field cart ''lines'')) (CartSummary format_money c) loading)"

section \<open>coupon-form.tsx and add-to-cart.tsx\<close>

definition rejectionCopy :: "string \<Rightarrow> string" where
  "rejectionCopy reasonCode =
     (if reasonCode = ''EXPIRED'' then ''this code has expired''
      else if reasonCode = ''NOT_FOUND'' then ''we do not recognise this code''
      else if reasonCode = ''MINIMUM_NOT_MET'' then ''your basket is below the minimum for this code''
      else if reasonCode = ''ALREADY_USED'' then ''this code has already been used''
      else if reasonCode = ''NOT_ELIGIBLE'' then ''this code does not apply to anything in your basket''
      else if reasonCode = ''USAGE_LIMIT'' then ''this code has reached its usage limit''
      else ''this code cannot be applied'')"

definition coupon_typed :: "string \<Rightarrow> string" where
  "coupon_typed typed = to_upper typed"

text \<open>The code a submission applies, and what the box holds after its outcome.\<close>

definition coupon_submitted :: "string \<Rightarrow> string option" where
  "coupon_submitted code = (if trim code = [] then None else Some (trim code))"

definition coupon_after :: "string \<Rightarrow> bool \<Rightarrow> string" where
  "coupon_after code ok = (if coupon_submitted code \<noteq> None \<and> ok then [] else code)"

definition add_max :: "int option \<Rightarrow> int" where
  "add_max available = (case available of Some a \<Rightarrow> if 0 < a then min a 99 else 99 | None \<Rightarrow> 99)"

section \<open>Lemmas\<close>

lemma foldl_cheaper:
  "foldl cheaper v vs \<in> set (v # vs) \<and> (\<forall>x\<in>set (v # vs). price_amount (foldl cheaper v vs) \<le> price_amount x)"
proof (induction vs arbitrary: v)
  case (Cons w vs)
  from Cons.IH [of "cheaper v w"] show ?case
    by (force simp: cheaper_def split: if_splits)
qed simp

lemma cheapest_least:
  assumes "cheapest vs = Some c"
  shows "c \<in> set vs" "\<And>v. v \<in> set vs \<Longrightarrow> price_amount c \<le> price_amount v"
  using assms foldl_cheaper by (auto simp: cheapest_def split: list.splits)

lemma cheapest_None [simp]: "cheapest vs = None \<longleftrightarrow> vs = []"
  by (simp add: cheapest_def split: list.splits)

text \<open>No struck-through price is shown unless it is above the price it is shown beside, and the badge
  never stands without it.\<close>

lemma reference_is_higher:
  assumes "pv_reference (Price f price listPrice b) = Some r"
  shows "\<exists>l. listPrice = Some l \<and> r = f (money_of l) \<and> amount (money_of price) < amount (money_of l)"
proof (cases "not_null listPrice")
  case (Some l)
  then have l: "listPrice = Some l" by (auto simp: not_null_def split: if_splits)
  from assms Some show ?thesis
    by (auto simp: Price_def Let_def l discountPercent_def split: if_splits)
qed (use assms in \<open>simp add: Price_def Let_def\<close>)

text \<open>A card is dimmed exactly when the product has variants and each of them is known to be gone.\<close>

lemma dimmed_iff:
  "\<not> pc_inStock (fromProduct p) \<longleftrightarrow>
     list_field (Some p) ''variants'' \<noteq> [] \<and> (\<forall>v\<in>set (list_field (Some p) ''variants''). \<not> variant_available v)"
  by (simp add: fromProduct_def Let_def)

text \<open>What the stepper beside the add button can commit is a quantity cart-service accepts.\<close>

lemma add_max_range: "1 \<le> add_max a \<and> add_max a \<le> 99"
  by (simp add: add_max_def split: option.splits)

end
