(* ===== verification/Search_Page.thy ===== *)
theory Search_Page
  imports Product_Cards "HOL-Library.Multiset"
begin

text \<open>
  The product listing (\<^verbatim>\<open>app/search/page.tsx\<close>) and its sort control (\<^verbatim>\<open>sort-select.tsx\<close>). The page is a function
  of its URL: \<open>page_params\<close> is the record Next.js makes of the query, \<open>search_query\<close> what the page asks
  search-service in turn, and \<open>Results\<close> what it shows of the answer.

  What Next.js does between a link and the page is not part of the sources; \<open>record_of\<close> states what its
  documentation says of it: a key that occurs once is a string, one that occurs several times an array. With it the
  lemmas follow a click on a filter from the facet panel to the request of the page it leads to: the
  filter arrives, on the first page, with every value that was ticked before; and they show that this is not so
  for the category, which the page takes for a single string.
\<close>

section \<open>Parameters\<close>

datatype param_value = One string | Many "string list"

type_synonym page_params = "(string \<times> param_value) list"

definition RESERVED_PARAMS :: "string list" where
  "RESERVED_PARAMS = [''q'', ''page'', ''size'', ''sort'', ''category'', ''priceMin'', ''priceMax'', ''inStockOnly'']"

text \<open>\<^verbatim>\<open>typeof params.k === 'string' ? params.k : undefined\<close>\<close>

definition text_param :: "page_params \<Rightarrow> string \<Rightarrow> string option" where
  "text_param params k = (case map_of params k of Some (One s) \<Rightarrow> Some s | _ \<Rightarrow> None)"

fun join_commas :: "string list \<Rightarrow> string" where
  "join_commas [] = []"
| "join_commas [v] = v"
| "join_commas (v # w # vs) = v @ '','' @ join_commas (w # vs)"

fun param_text :: "param_value \<Rightarrow> string" where
  "param_text (One s) = s"
| "param_text (Many vs) = join_commas vs"

section \<open>Metadata\<close>

definition metadata_title :: "page_params \<Rightarrow> string" where
  "metadata_title params =
     (let q = nullish (text_param params ''q'') []; category = nullish (text_param params ''category'') []
      in if q \<noteq> [] then [CHR 34] @ q @ [CHR 34]
         else if category \<noteq> [] then replace_char CHR ''-'' CHR '' '' category
         else ''All products'')"

definition metadata_index :: "page_params \<Rightarrow> bool" where
  "metadata_index params = (\<not> (\<exists>k\<in>set (map fst params). k \<notin> set RESERVED_PARAMS \<or> k = ''page''))"

section \<open>The request\<close>

text \<open>\<^verbatim>\<open>Number.parseInt(s, 10)\<close>: blanks, a sign, then digits.\<close>

definition parseInt10 :: "string \<Rightarrow> int option" where
  "parseInt10 s =
     (let t = dropWhile is_space s
      in case t of
           [] \<Rightarrow> None
         | c # u \<Rightarrow>
             if c = CHR ''-'' then map_option (\<lambda>n. num (- n)) (parse_int u)
             else if c = CHR ''+'' then map_option num (parse_int u)
             else map_option num (parse_int t))"

definition page_number :: "page_params \<Rightarrow> int" where
  "page_number params =
     (case parseInt10 (case map_of params ''page'' of Some v \<Rightarrow> param_text v | None \<Rightarrow> ''1'') of
        None \<Rightarrow> 1
      | Some n \<Rightarrow> max 1 (if n = 0 then 1 else n))"

definition search_sort :: "page_params \<Rightarrow> string" where
  "search_sort params = nullish (text_param params ''sort'') ''relevance''"

definition PAGE_SIZE :: int where
  "PAGE_SIZE = 24"

fun filter_values :: "param_value \<Rightarrow> string list" where
  "filter_values (One s) = [s]"
| "filter_values (Many vs) = vs"

text \<open>Everything that is not reserved is a filter. An assignment to \<^verbatim>\<open>filters.__proto__\<close> makes no property.\<close>

definition search_filters :: "page_params \<Rightarrow> (string \<times> string list) list" where
  "search_filters params =
     map (\<lambda>(k, v). (k, filter_values v)) (filter (\<lambda>(k, v). k \<notin> set RESERVED_PARAMS \<and> k \<noteq> ''__proto__'') params)"

definition text_value :: "string option \<Rightarrow> query_value" where
  "text_value v = (case v of Some s \<Rightarrow> QText s | None \<Rightarrow> QAbsent)"

definition search_properties :: "page_params \<Rightarrow> (string \<times> query_value) list" where
  "search_properties params =
     [(''q'', QText (nullish (text_param params ''q'') [])), (''sort'', QText (search_sort params)),
      (''page'', QInt (page_number params)), (''size'', QInt PAGE_SIZE), (''category'', text_value (text_param params ''category'')),
      (''inStockOnly'', if map_of params ''inStockOnly'' = Some (One ''true'') then QText ''true'' else QAbsent),
      (''priceMin'', text_value (text_param params ''priceMin'')), (''priceMax'', text_value (text_param params ''priceMax''))]
     @ map (\<lambda>(k, vs). (k, QList vs)) (search_filters params)"

text \<open>The order in which \<^verbatim>\<open>Object.entries\<close> lists the properties: array indices first, by value, then the others
  as they were added.\<close>

definition index_key :: "string \<Rightarrow> bool" where
  "index_key k = (k \<noteq> [] \<and> (\<forall>c\<in>set k. is_digit c) \<and> (k = ''0'' \<or> hd k \<noteq> CHR ''0'') \<and> digits_value k < 4294967295)"

definition object_entries :: "(string \<times> 'a) list \<Rightarrow> (string \<times> 'a) list" where
  "object_entries fs =
     sort_key (\<lambda>(k, v). digits_value k) (filter (\<lambda>(k, v). index_key k) fs) @ filter (\<lambda>(k, v). \<not> index_key k) fs"

definition search_query :: "page_params \<Rightarrow> string" where
  "search_query params = toQuery (object_entries (search_properties params))"

definition search_options :: "page_params \<Rightarrow> call_options" where
  "search_options params = plain_call SvcSearch (''/v1/search'' @ search_query params) SearchResponse"

section \<open>The listing\<close>

datatype empty_hint = DidYouMean string string | Advice string

definition EmptyResults :: "string \<Rightarrow> string option \<Rightarrow> empty_hint" where
  "EmptyResults query didYouMean =
     (if truthy didYouMean then DidYouMean (the didYouMean) (''/search?q='' @ encodeURIComponent (the didYouMean))
      else Advice (if query \<noteq> [] then ''Try fewer words, or check the spelling.'' else ''Try removing a filter or two.''))"

datatype listing = NothingFound empty_hint | Grid "(ProductCardItem \<times> bool) list" int int int bool

record search_view =
  sv_heading :: string
  sv_count :: string
  sv_degraded :: bool
  sv_facets :: "json list"
  sv_sort :: string
  sv_listing :: listing

definition search_view_of :: "(rat \<Rightarrow> string) \<Rightarrow> page_params \<Rightarrow> json option \<Rightarrow> search_view" where
  "search_view_of to_locale params results =
     (let q = nullish (text_param params ''q'') []; hits = list_field results ''hits''
      in \<lparr>sv_heading = (if q \<noteq> [] then ''Results for '' @ [CHR 34] @ q @ [CHR 34] else ''All products''),
          sv_count = (if bool_field results ''totalIsLowerBound'' then ''More than '' else [])
            @ to_locale (num_field results ''total'') @ '' '' @ (if num_field results ''total'' = 1 then ''result'' else ''results''),
          sv_degraded = bool_field results ''degraded'',
          sv_facets = list_field results ''facets'',
          sv_sort = search_sort params,
          sv_listing =
            (if hits = [] then NothingFound (EmptyResults q (opt_str_field results ''didYouMean''))
             else Grid (map (\<lambda>(i, hit). (fromSearchHit hit, i < 5)) (enumerate 0 hits))
                    (int_field results ''page'') (int_field results ''size'') (int_field results ''total'')
                    (bool_field results ''totalIsLowerBound''))\<rparr>)"

definition Results ::
  "'w web_env \<Rightarrow> (rat \<Rightarrow> string) \<Rightarrow> page_params \<Rightarrow> (('w, 'm) net_scheme, thrown, search_view) act" where
  "Results env to_locale params =
     and_then (call env (search_options params)) (\<lambda>results. ret (search_view_of to_locale params results))"

section \<open>sort-select.tsx\<close>

definition SORT_OPTIONS :: "(string \<times> string) list" where
  "SORT_OPTIONS =
     [(''relevance'', ''Most relevant''), (''price_asc'', ''Price: low to high''), (''price_desc'', ''Price: high to low''),
      (''rating'', ''Best rated''), (''newest'', ''Newest'')]"

definition sort_changed :: "search_params \<Rightarrow> string \<Rightarrow> search_params" where
  "sort_changed searchParams chosen =
     params_delete ''page'' (params_set ''sort'' chosen (params_parse (params_toString searchParams)))"

section \<open>From a link to the page\<close>

definition record_of :: "search_params \<Rightarrow> page_params \<Rightarrow> bool" where
  "record_of ps params =
     (distinct (map fst params) \<and>
      (\<forall>k. map_of params k =
         (case params_getAll ps k of [] \<Rightarrow> None | [v] \<Rightarrow> Some (One v) | v # w # vs \<Rightarrow> Some (Many (v # w # vs)))))"

text \<open>What search-service reads from the query the page sends.\<close>

definition asked :: "page_params \<Rightarrow> string \<Rightarrow> string list" where
  "asked params k = params_getAll (params_parse (drop 1 (search_query params))) k"


section \<open>What the page asks\<close>

lemma parseInt10_one: "parseInt10 ''1'' = Some 1"
  by code_simp

lemma set_object_entries [simp]: "set (object_entries fs) = set fs"
  by (auto simp: object_entries_def)

lemma distinct_object_entries: "distinct (map fst fs) \<Longrightarrow> distinct (map fst (object_entries fs))"
proof -
  assume d: "distinct (map fst fs)"
  have "mset (object_entries fs) = mset fs"
    by (simp add: object_entries_def case_prod_unfold multiset_partition [symmetric])
  then have "mset (map fst (object_entries fs)) = mset (map fst fs)" by simp
  with d show ?thesis by (metis mset_eq_imp_distinct_iff)
qed

lemma map_of_object_entries: "distinct (map fst fs) \<Longrightarrow> map_of (object_entries fs) = map_of fs"
  using map_of_inject_set [OF distinct_object_entries [of fs], of fs] by simp

lemma search_filters_keys: "set (map fst (search_filters params)) = set (map fst params) - set RESERVED_PARAMS - {''__proto__''}"
  by (force simp: search_filters_def)

lemma distinct_search_filters: "distinct (map fst params) \<Longrightarrow> distinct (map fst (search_filters params))"
  by (induction params) (force simp: search_filters_def)+

lemma map_of_search_filters:
  "map_of (search_filters params) k =
     (if k \<in> set RESERVED_PARAMS \<or> k = ''__proto__'' then None else map_option filter_values (map_of params k))"
  by (induction params) (auto simp: search_filters_def)

lemma map_of_lists: "map_of (map (\<lambda>(k, vs). (k, QList vs)) fs) k = map_option QList (map_of fs k)"
  by (induction fs) auto

lemma distinct_search_properties:
  assumes "distinct (map fst params)"
  shows "distinct (map fst (search_properties params))"
proof -
  have "map fst (map (\<lambda>(k, vs). (k, QList vs)) (search_filters params)) = map fst (search_filters params)"
    by (simp add: case_prod_unfold comp_def)
  then have "map fst (search_properties params) =
      [''q'', ''sort'', ''page'', ''size'', ''category'', ''inStockOnly'', ''priceMin'', ''priceMax''] @ map fst (search_filters params)"
    by (simp add: search_properties_def)
  with distinct_search_filters [OF assms] search_filters_keys [of params] show ?thesis
    by (auto simp: RESERVED_PARAMS_def)
qed

lemma asked_properties:
  assumes "distinct (map fst params)"
  shows "asked params k = (case map_of (search_properties params) k of None \<Rightarrow> [] | Some v \<Rightarrow> query_values v)"
  using toQuery_entries [OF distinct_object_entries [OF distinct_search_properties [OF assms]], of k]
    map_of_object_entries [OF distinct_search_properties [OF assms]]
  by (simp add: asked_def search_query_def)

lemma asked_page: "distinct (map fst params) \<Longrightarrow> asked params ''page'' = [show_int (page_number params)]"
  by (simp add: asked_properties search_properties_def)

lemma asked_category:
  "distinct (map fst params) \<Longrightarrow> asked params ''category'' =
     (case text_param params ''category'' of Some s \<Rightarrow> if s = [] then [] else [s] | None \<Rightarrow> [])"
  by (simp add: asked_properties search_properties_def text_value_def split: option.split)

lemma asked_filter:
  assumes "distinct (map fst params)" "k \<notin> set RESERVED_PARAMS" "k \<noteq> ''__proto__''"
  shows "asked params k = (case map_of params k of None \<Rightarrow> [] | Some v \<Rightarrow> filter (\<lambda>s. s \<noteq> []) (filter_values v))"
proof -
  have "map_of (search_properties params) k = map_option QList (map_of (search_filters params) k)"
    using assms(2) by (auto simp: search_properties_def RESERVED_PARAMS_def map_of_lists)
  with assms show ?thesis
    by (auto simp: asked_properties map_of_search_filters split: option.split)
qed

lemma asked_of_record:
  assumes "record_of ps params" "k \<notin> set RESERVED_PARAMS" "k \<noteq> ''__proto__''"
  shows "asked params k = filter (\<lambda>s. s \<noteq> []) (params_getAll ps k)"
proof -
  from assms(1) have "map_of params k =
      (case params_getAll ps k of [] \<Rightarrow> None | [v] \<Rightarrow> Some (One v) | v # w # vs \<Rightarrow> Some (Many (v # w # vs)))"
    by (simp add: record_of_def)
  with assms show ?thesis
    by (cases "params_getAll ps k" rule: remdups_adj.cases) (simp_all add: asked_filter record_of_def)
qed

lemma asked_first_page:
  assumes "record_of ps params" "params_getAll ps ''page'' = []"
  shows "asked params ''page'' = [''1'']"
proof -
  from assms have "distinct (map fst params)" "map_of params ''page'' = None"
    by (simp_all add: record_of_def)
  moreover have "map_of params ''page'' = None \<Longrightarrow> page_number params = 1"
    by (simp add: page_number_def parseInt10_one)
  moreover have "show_int 1 = ''1''" by code_simp
  ultimately show ?thesis by (simp add: asked_page)
qed

section \<open>A click on a filter\<close>


definition tea_search :: search_params where
  "tea_search = [(''q'', ''tea''), (''colour'', ''red''), (''page'', ''3'')]"

definition tea_page :: page_params where
  "tea_page = [(''q'', One ''tea''), (''colour'', Many [''red'', ''dark blue''])]"

lemma tea_toggled: "facet_toggle tea_search ''colour'' ''dark blue'' True = [(''q'', ''tea''), (''colour'', ''red''), (''colour'', ''dark blue'')]"
  unfolding facet_toggle_def tea_search_def params_parse_toString
  by (simp add: params_getAll_def params_delete_def params_append_def)


text \<open>The category is reserved and read as one string: when a category is in force and a second one is ticked,
  the page asks for none, and the listing widens to the whole catalogue.\<close>

theorem second_category_lifts_filter:
  assumes "record_of (params_parse (params_toString (facet_toggle searchParams ''category'' v True))) params"
    and "params_getAll searchParams ''category'' \<noteq> []"
  shows "asked params ''category'' = []"
proof -
  let ?ps = "facet_toggle searchParams ''category'' v True"
  have r: "record_of ?ps params" using assms(1) by (simp add: params_parse_toString)
  obtain a b cs where "params_getAll ?ps ''category'' = a # b # cs"
    using assms(2) facet_toggled [of "''category''" searchParams v True "''category''"]
    by (cases "params_getAll searchParams ''category''" rule: remdups_adj.cases) auto
  with r have "map_of params ''category'' = Some (Many (a # b # cs))" "distinct (map fst params)"
    by (simp_all add: record_of_def)
  then show ?thesis
    by (simp add: asked_category text_param_def)
qed

theorem second_category_lifts_filter_witness:
  "asked [(''category'', Many [''tea'', ''coffee''])] ''category'' = []"
proof -
  have "facet_toggle [(''category'', ''tea'')] ''category'' ''coffee'' True = [(''category'', ''tea''), (''category'', ''coffee'')]"
    unfolding facet_toggle_def params_parse_toString
    by (simp add: params_getAll_def params_delete_def params_append_def)
  then have "record_of (params_parse (params_toString (facet_toggle [(''category'', ''tea'')] ''category'' ''coffee'' True)))
      [(''category'', Many [''tea'', ''coffee''])]"
    unfolding params_parse_toString by (simp add: record_of_def params_getAll_def)
  from second_category_lifts_filter [OF this] show ?thesis
    by (simp add: params_getAll_def)
qed

end
