(* ===== verification/Admin_Pages.thy ===== *)
theory Admin_Pages
  imports Search_Page Admin_App
begin

text \<open>
  The pages of the admin application: the overview, the order search, one order, the dead letters and the catalogue (\<^verbatim>\<open>app/\<close> of
  \<^verbatim>\<open>apps/admin/src\<close>). Each page first asks for the session and shows a refusal when there is none; its table or its figures are a component of their
  own that asks for the session again and then makes one call, whose failure shows as an unavailable panel. Dates, money and numbers are
  formatted by the platform, by arguments where they are shown.

  The locale \<open>guarded_panel\<close> states what the four panels share, and gives each of them that its call is made for an operator only. The
  last theorem is about the two guards in a row: both exchange the same refresh token, and since identity-service rotates refresh tokens and takes a
  second exchange for theft, the panel is refused.
\<close>

section \<open>Refusals\<close>

definition admin_settled :: "('s, 'e, 'a) act \<Rightarrow> ('s, 'f, 'e + 'a) act" where
  "admin_settled m s = (case m s of (r, s') \<Rightarrow> (Inr r, s'))"

text \<open>\<^verbatim>\<open>const { key } = await gatherAdmin({ key: adminCall(opts) })\<close>\<close>

definition gathered_admin :: "'w web_env \<Rightarrow> string \<Rightarrow> admin_options \<Rightarrow> ('w net, admin_thrown, json option) act" where
  "gathered_admin env key opts =
     and_then (admin_settled (adminCall env opts)) (\<lambda>r.
     ret (case map_of (gatherAdmin [(key, r)]) key of Some (Some v) \<Rightarrow> v | _ \<Rightarrow> None))"

definition unauthorised_href :: "'w web_env \<Rightarrow> refusal \<Rightarrow> string option" where
  "unauthorised_href env reason =
     (let storefront = nullish (web_variable env ''NEXT_PUBLIC_STOREFRONT_URL'') ''http://localhost:3000''
      in case reason of
           Unauthenticated \<Rightarrow> Some (storefront @ ''/login?next=/'')
         | NoMfa \<Rightarrow> Some (storefront @ ''/account/security'')
         | NoRole \<Rightarrow> None)"

datatype 'p admin_page = Unauthorised refusal "string option" | Shown 'p

definition guard_page :: "'w web_env \<Rightarrow> web_request \<Rightarrow> ('w net, admin_thrown, 'p) act \<Rightarrow> ('w net, admin_thrown, 'p admin_page) act" where
  "guard_page env req panel =
     and_then
       (attempt (and_then (requireAdmin env req) (\<lambda>_. ret None))
          (\<lambda>error. case error of NotAuthorised reason \<Rightarrow> ret (Some reason) | _ \<Rightarrow> raise error))
       (\<lambda>refused. case refused of
          Some reason \<Rightarrow> ret (Unauthorised reason (unauthorised_href env reason))
        | None \<Rightarrow> and_then panel (\<lambda>p. ret (Shown p)))"

definition read_options :: "AdminService \<Rightarrow> string \<Rightarrow> schema \<Rightarrow> string \<Rightarrow> admin_options" where
  "read_options svc path sch token =
     \<lparr>ao_service = svc, ao_path = path, ao_schema = sch, ao_method = None, ao_body = None, ao_accessToken = token, ao_idempotencyKey = None\<rparr>"

datatype 'v panel_result = PanelUnavailable string | Panel 'v

section \<open>app/page.tsx\<close>

record formats_of =
  to_locale :: "rat \<Rightarrow> string"
  to_fixed1 :: "rat \<Rightarrow> string"
  format_money :: "money \<Rightarrow> string"

record kpi =
  kp_label :: string
  kp_value :: string
  kp_tone :: string
  kp_hint :: "string option"
  kp_href :: "string option"

definition Kpi :: "string \<Rightarrow> string \<Rightarrow> string \<Rightarrow> string option \<Rightarrow> string option \<Rightarrow> kpi" where
  "Kpi label shown tone hint href = \<lparr>kp_label = label, kp_value = shown, kp_tone = tone, kp_hint = hint, kp_href = href\<rparr>"

text \<open>The badge beside the figure, so that the colour is never the only signal.\<close>

definition kpi_badge :: "kpi \<Rightarrow> string option" where
  "kpi_badge k = (if kp_tone k = ''bad'' then Some ''Needs attention'' else if kp_tone k = ''warn'' then Some ''Watch'' else None)"

definition band :: "rat \<Rightarrow> rat \<Rightarrow> rat \<Rightarrow> string" where
  "band x warn bad = (if x < warn then ''ok'' else if x < bad then ''warn'' else ''bad'')"

definition kpi_cards :: "formats_of \<Rightarrow> json option \<Rightarrow> kpi list" where
  "kpi_cards f kpis =
     (let n = num_field kpis; money = (\<lambda>k. format_money f (money_of (the (get_prop kpis k)))); percent = (\<lambda>x. to_fixed1 f x @ ''%'')
      in [Kpi ''Stuck sagas'' (to_locale f (n ''stuckSagas'')) (if n ''stuckSagas'' = 0 then ''ok'' else ''bad'')
            (Some (if n ''stuckSagas'' = 0 then ''Nothing is stuck'' else ''Orders past their timeout'')) (Some ''/orders?status=stuck''),
          Kpi ''Dead letters'' (to_locale f (n ''dlqDepth'')) (if n ''dlqDepth'' = 0 then ''ok'' else if n ''dlqDepth'' < 10 then ''warn'' else ''bad'')
            (Some ''Messages no consumer could process'') (Some ''/dlq''),
          Kpi ''Checkout p99'' (to_fixed1 f (js_div (n ''p99CheckoutMs'') 1000) @ ''s'') (band (n ''p99CheckoutMs'') 5000 10000)
            (Some ''Placed to terminal state'') None,
          Kpi ''Error budget burn'' (percent (n ''errorBudgetBurn'')) (band (n ''errorBudgetBurn'') 2 10) (Some ''Of this month's allowance'') None,
          Kpi ''Orders today'' (to_locale f (n ''ordersToday'')) ''neutral'' None None,
          Kpi ''Revenue today'' (money ''revenueToday'') ''neutral'' None None,
          Kpi ''Average order'' (money ''averageOrderValue'') ''neutral'' None None,
          Kpi ''Abandonment'' (percent (js_times (n ''cartAbandonmentRate'') 100)) ''neutral''
            (Some (''Conversion '' @ percent (js_times (n ''conversionRate'') 100))) None])"

definition Kpis :: "'w web_env \<Rightarrow> formats_of \<Rightarrow> web_request \<Rightarrow> ('w net, admin_thrown, kpi list panel_result) act" where
  "Kpis env f req =
     and_then (requireAdmin env req) (\<lambda>session.
     and_then (gathered_admin env ''kpis'' (read_options AdmOrder ''/v1/admin/kpis'' DashboardKpis (as_accessToken session))) (\<lambda>kpis.
     ret (if kpis = None then PanelUnavailable ''Key figures'' else Panel (kpi_cards f kpis))))"

definition OverviewPage :: "'w web_env \<Rightarrow> formats_of \<Rightarrow> web_request \<Rightarrow> ('w net, admin_thrown, kpi list panel_result admin_page) act" where
  "OverviewPage env f req = guard_page env req (Kpis env f req)"

section \<open>app/orders/page.tsx\<close>

definition isPastNoReturn :: "string \<Rightarrow> bool" where
  "isPastNoReturn status = (status = ''PAID'' \<or> status = ''STOCK_COMMITTED'' \<or> status = ''CONFIRMED'')"

definition stateTone :: "string \<Rightarrow> string" where
  "stateTone status =
     (if status = ''CANCELLED'' then ''destructive''
      else if status = ''COMPENSATING'' then ''warning''
      else if status = ''REFUNDED'' then ''warning''
      else if status = ''CONFIRMED'' \<or> status = ''DELIVERED'' then ''success''
      else if isTerminal status then ''default''
      else ''secondary'')"

definition orders_query :: "string option \<Rightarrow> string option \<Rightarrow> search_params" where
  "orders_query status query =
     (let ps = [(''limit'', ''50'')];
          ps = (if truthy status then params_set ''status'' (the status) ps else ps)
      in if truthy query then params_set ''q'' (the query) ps else ps)"

record admin_order_row =
  oa_id :: string
  oa_status :: string
  oa_tone :: string
  oa_no_rollback :: bool
  oa_total :: string
  oa_payment :: "string option"
  oa_reservation :: "string option"

definition admin_order_row_of :: "formats_of \<Rightarrow> json \<Rightarrow> admin_order_row" where
  "admin_order_row_of f order =
     (let ord = Some order; status = str_field ord ''status''
      in \<lparr>oa_id = str_field ord ''id'', oa_status = status, oa_tone = stateTone status, oa_no_rollback = isPastNoReturn status,
          oa_total = format_money f (money_of (the (get_prop ord ''total''))), oa_payment = opt_str_field ord ''paymentId'',
          oa_reservation = opt_str_field ord ''reservationId''\<rparr>)"

definition OrderTable ::
  "'w web_env \<Rightarrow> formats_of \<Rightarrow> string option \<Rightarrow> string option \<Rightarrow> web_request \<Rightarrow> ('w net, admin_thrown, admin_order_row list panel_result) act" where
  "OrderTable env f status query req =
     and_then (requireAdmin env req) (\<lambda>session.
     and_then (gathered_admin env ''page''
         (read_options AdmOrder (''/v1/admin/orders?'' @ params_toString (orders_query status query)) OrderPage (as_accessToken session))) (\<lambda>page.
     ret (if page = None then PanelUnavailable ''Orders'' else Panel (map (admin_order_row_of f) (list_field page ''items'')))))"

definition OrdersPage where
  "OrdersPage env f status query req = guard_page env req (OrderTable env f status query req)"

section \<open>app/orders/[id]/page.tsx\<close>

text \<open>One guard; a failing call leaves the page.\<close>

definition OrderDetailPage :: "'w web_env \<Rightarrow> string \<Rightarrow> web_request \<Rightarrow> ('w net, admin_thrown, json option admin_page) act" where
  "OrderDetailPage env i req =
     and_then
       (attempt (and_then (requireAdmin env req) (\<lambda>session. ret (Inr session)))
          (\<lambda>error. case error of NotAuthorised reason \<Rightarrow> ret (Inl reason) | _ \<Rightarrow> raise error))
       (\<lambda>guard. case guard of
          Inl reason \<Rightarrow> ret (Unauthorised reason (unauthorised_href env reason))
        | Inr session \<Rightarrow>
            and_then (adminCall env (read_options AdmOrder (''/v1/admin/orders/'' @ encodeURIComponent i @ ''/saga'') SagaTrace
                (as_accessToken session)))
              (\<lambda>trace. ret (Shown trace)))"

section \<open>app/dlq/page.tsx\<close>

definition DlqPage :: schema where
  "DlqPage = z_strict [(''items'', z_array DlqMessage), (''nextCursor'', ZNullable z_string), (''hasMore'', ZBoolean)]"

record dlq_table_row =
  dt_eventType :: string
  dt_eventId :: string
  dt_topic :: string
  dt_attempts :: "string \<times> string"
  dt_reason :: string
  dt_actions :: "string \<times> string"

definition dlq_table_row_of :: "json \<Rightarrow> dlq_table_row" where
  "dlq_table_row_of message =
     (let m = Some message
      in \<lparr>dt_eventType = str_field m ''eventType'', dt_eventId = str_field m ''eventId'', dt_topic = str_field m ''originalTopic'',
          dt_attempts = (if 10 \<le> int_field m ''attempts'' then ''destructive'' else ''secondary'', show_int (int_field m ''attempts'')),
          dt_reason = str_field m ''reason'', dt_actions = (str_field m ''id'', str_field m ''eventId'')\<rparr>)"

datatype dlq_table = NothingHere | NeedDecision string "dlq_table_row list"

definition dlq_table_of :: "json option \<Rightarrow> dlq_table" where
  "dlq_table_of page =
     (let items = list_field page ''items''
      in if items = [] then NothingHere
         else NeedDecision
                (show_nat (length items) @ (if bool_field page ''hasMore'' then ''+'' else []) @ '' message''
                 @ (if length items = 1 then [] else ''s'') @ '' need a decision'')
                (map dlq_table_row_of items))"

definition DlqTable :: "'w web_env \<Rightarrow> web_request \<Rightarrow> ('w net, admin_thrown, dlq_table panel_result) act" where
  "DlqTable env req =
     and_then (requireAdmin env req) (\<lambda>session.
     and_then (gathered_admin env ''page'' (read_options AdmOrder ''/v1/admin/dlq?limit=50'' DlqPage (as_accessToken session))) (\<lambda>page.
     ret (if page = None then PanelUnavailable ''The dead-letter queue'' else Panel (dlq_table_of page))))"

definition DlqPageRoute where
  "DlqPageRoute env req = guard_page env req (DlqTable env req)"

section \<open>app/catalog/page.tsx\<close>

definition AdminProductPage :: schema where
  "AdminProductPage = z_strict
     [(''items'', z_array (z_strict [(''product'', Product), (''version'', z_int_min 0), (''categoryId'', ZNullable z_string)])),
      (''page'', z_int), (''size'', z_int), (''total'', z_int), (''totalPages'', z_int), (''hasNext'', ZBoolean)]"

definition catalog_query :: "string option \<Rightarrow> string option \<Rightarrow> search_params" where
  "catalog_query page status =
     (let p = (case parseInt10 (nullish page ''0'') of Some n \<Rightarrow> max 0 n | None \<Rightarrow> 0);
          ps = params_set ''page'' (show_int p) [(''size'', ''50'')]
      in if truthy status then params_set ''status'' (the status) ps else ps)"

text \<open>The stock over all variants: unknown when none has reported, and marked when some have not.\<close>

datatype stock_cell = NotReported | StockCell int string bool

definition stock_of :: "json list \<Rightarrow> stock_cell" where
  "stock_of variants =
     (if \<forall>v\<in>set variants. get_prop (Some v) ''available'' = Some JNull then NotReported
      else let sum = foldl (\<lambda>sum v. js_add sum (int_field (Some v) ''available'')) 0 variants
           in StockCell sum (if sum = 0 then ''text-destructive'' else if sum \<le> 5 then ''text-warning'' else [])
                (\<exists>v\<in>set variants. get_prop (Some v) ''available'' = Some JNull))"

record product_row =
  pt_title :: string
  pt_ids :: "string \<times> string"
  pt_status :: "string \<times> string \<times> int"
  pt_price :: "(string \<times> string \<times> json option \<times> json option) option"
  pt_stock :: stock_cell
  pt_version :: int

definition product_row_of :: "json \<Rightarrow> product_row" where
  "product_row_of item =
     (let p = get_prop (Some item) ''product''; version = int_field (Some item) ''version''; variants = list_field p ''variants''
      in \<lparr>pt_title = str_field p ''title'', pt_ids = (str_field p ''id'', str_field p ''slug''),
          pt_status = (str_field p ''id'', str_field p ''status'', version),
          pt_price = map_option (\<lambda>c. (str_field p ''id'', str_field (Some c) ''sku'', get_prop (Some c) ''price'',
              not_null (get_prop (Some c) ''listPrice''))) (cheapest variants),
          pt_stock = stock_of variants, pt_version = version\<rparr>)"

definition ProductTable ::
  "'w web_env \<Rightarrow> string option \<Rightarrow> string option \<Rightarrow> web_request \<Rightarrow> ('w net, admin_thrown, product_row list panel_result) act" where
  "ProductTable env page status req =
     and_then (requireAdmin env req) (\<lambda>session.
     and_then (gathered_admin env ''result''
         (read_options AdmCatalog (''/v1/products?'' @ params_toString (catalog_query page status)) AdminProductPage (as_accessToken session))) (\<lambda>result.
     ret (if result = None then PanelUnavailable ''The catalogue'' else Panel (map product_row_of (list_field result ''items'')))))"

definition CatalogPage where
  "CatalogPage env page status req = guard_page env req (ProductTable env page status req)"

section \<open>The panels\<close>

lemma gathered_admin_run:
  "gathered_admin env key opts s =
     (Inr (case fst (adminCall env opts s) of Inr v \<Rightarrow> v | Inl e \<Rightarrow> None), snd (adminCall env opts s))"
  by (cases "adminCall env opts s"; cases "fst (adminCall env opts s)")
     (simp_all add: gathered_admin_def admin_settled_def and_then_def gatherAdmin_def)

locale guarded_panel =
  fixes run :: "'w web_env \<Rightarrow> web_request \<Rightarrow> ('w net, admin_thrown, 'p panel_result) act"
    and key :: string
    and opts :: "string \<Rightarrow> admin_options"
    and view :: "json option \<Rightarrow> 'p panel_result"
  assumes run_law: "run env req =
      and_then (requireAdmin env req) (\<lambda>session.
      and_then (gathered_admin env key (opts (as_accessToken session))) (\<lambda>v. ret (view v)))"
    and token_law: "ao_accessToken (opts token) = token"
begin

text \<open>Whatever a panel shows, identity-service vouched for the caller before the panel's own call was made, and the call carries
  the token it vouched for.\<close>

lemma panel_log:
  assumes "run env req s = (Inr p, s')"
  shows "\<exists>own me rf token user. net_log s' = own @ [me, rf] @ net_log s \<and> vouches env token user me \<and>
    (own = [] \<or> (\<exists>rid reply. own = [(admin_request env (opts token) rid, reply)])) \<and>
    (\<forall>x\<in>set own. map_of (rq_headers (fst x)) ''Authorization'' = Some (''Bearer '' @ token))"
proof -
  obtain r s1 where g: "requireAdmin env req s = (r, s1)" by (cases "requireAdmin env req s")
  with assms obtain session where r: "r = Inr session"
    by (cases r) (auto simp: run_law and_then_def)
  from requireAdmin_log [of env req s] g r obtain me rf where
    log: "net_log s1 = [me, rf] @ net_log s" and v: "vouches env (as_accessToken session) (as_user session) me"
    by auto
  let ?c = "adminCall env (opts (as_accessToken session)) s1"
  have s': "net_log s' = net_log (snd ?c)"
    using assms g r by (auto simp: run_law and_then_def gathered_admin_run)
  show ?thesis
  proof (cases rule: adminCall_cases [of env "opts (as_accessToken session)" s1])
    case (sent rid reply)
    let ?own = "[(admin_request env (opts (as_accessToken session)) rid, reply)]"
    have "map_of (rq_headers (admin_request env (opts (as_accessToken session)) rid)) ''Authorization'' =
        Some (''Bearer '' @ as_accessToken session)"
      by (simp add: admin_request_def token_law)
    with sent log s' v show ?thesis
      by (intro exI [of _ ?own] exI [of _ me] exI [of _ rf] exI [of _ "as_accessToken session"] exI [of _ "as_user session"]) auto
  next
    case (unsent err)
    with log s' v show ?thesis
      by (intro exI [of _ "[]"] exI [of _ me] exI [of _ rf] exI [of _ "as_accessToken session"] exI [of _ "as_user session"]) auto
  qed
qed

text \<open>Both guards of a page exchange the token of the same cookie. When the first was let in and identity-service then refuses the token it has
  rotated away, the panel throws.\<close>

lemma second_guard_refused:
  assumes "requireAdmin env req s = (Inr session, s1)" "requireAdmin env req s1 = (Inl err, s2)"
  shows "guard_page env req (run env req) s = (Inl err, s2)"
  using assms by (simp add: guard_page_def attempt_def and_then_def run_law)

end

interpretation kpis: guarded_panel "\<lambda>env. Kpis env f" "''kpis''" "read_options AdmOrder ''/v1/admin/kpis'' DashboardKpis"
  "\<lambda>v. if v = None then PanelUnavailable ''Key figures'' else Panel (kpi_cards f v)" for f
  by unfold_locales (simp_all only: Kpis_def read_options_def admin_options.simps)

interpretation orders: guarded_panel "\<lambda>env. OrderTable env f status query" "''page''"
  "read_options AdmOrder (''/v1/admin/orders?'' @ params_toString (orders_query status query)) OrderPage"
  "\<lambda>v. if v = None then PanelUnavailable ''Orders'' else Panel (map (admin_order_row_of f) (list_field v ''items''))" for f status query
  by unfold_locales (simp_all only: OrderTable_def read_options_def admin_options.simps)

interpretation dead_letters: guarded_panel DlqTable "''page''" "read_options AdmOrder ''/v1/admin/dlq?limit=50'' DlqPage"
  "\<lambda>v. if v = None then PanelUnavailable ''The dead-letter queue'' else Panel (dlq_table_of v)"
  by unfold_locales (simp_all only: DlqTable_def read_options_def admin_options.simps)

interpretation products: guarded_panel "\<lambda>env. ProductTable env page status" "''result''"
  "read_options AdmCatalog (''/v1/products?'' @ params_toString (catalog_query page status)) AdminProductPage"
  "\<lambda>v. if v = None then PanelUnavailable ''The catalogue'' else Panel (map product_row_of (list_field v ''items''))" for page status
  by unfold_locales (simp_all only: ProductTable_def read_options_def admin_options.simps)

section \<open>What a panel shows\<close>

datatype admin_panel = PKpis | POrders "string option" "string option" | PDeadLetters | PProducts "string option" "string option"

definition after :: "('w net, admin_thrown, 'p) act \<Rightarrow> 'w net \<Rightarrow> 'w net option" where
  "after m s = (case m s of (Inr p, s') \<Rightarrow> Some s' | (Inl e, s') \<Rightarrow> None)"

text \<open>The state a panel leaves when it rendered, and the options of its own call.\<close>

fun panel_after :: "'w web_env \<Rightarrow> formats_of \<Rightarrow> admin_panel \<Rightarrow> web_request \<Rightarrow> 'w net \<Rightarrow> 'w net option" where
  "panel_after env f PKpis req = after (Kpis env f req)"
| "panel_after env f (POrders status query) req = after (OrderTable env f status query req)"
| "panel_after env f PDeadLetters req = after (DlqTable env req)"
| "panel_after env f (PProducts page status) req = after (ProductTable env page status req)"

fun panel_options :: "admin_panel \<Rightarrow> string \<Rightarrow> admin_options" where
  "panel_options PKpis = read_options AdmOrder ''/v1/admin/kpis'' DashboardKpis"
| "panel_options (POrders status query) =
     read_options AdmOrder (''/v1/admin/orders?'' @ params_toString (orders_query status query)) OrderPage"
| "panel_options PDeadLetters = read_options AdmOrder ''/v1/admin/dlq?limit=50'' DlqPage"
| "panel_options (PProducts page status) =
     read_options AdmCatalog (''/v1/products?'' @ params_toString (catalog_query page status)) AdminProductPage"

lemma afterE: "after m s = Some s' \<Longrightarrow> (\<And>p. m s = (Inr p, s') \<Longrightarrow> thesis) \<Longrightarrow> thesis"
  by (auto simp: after_def split: prod.splits sum.splits)

text \<open>A panel of the admin application that renders did so for an operator: identity-service vouched for the caller, with the role and the
  second factor, before the panel's one call of its own, which carries the token the profile was asked for with.\<close>

theorem admin_panels_for_operators:
  assumes "panel_after env f panel req s = Some s'"
  shows "\<exists>own me rf token user. net_log s' = own @ [me, rf] @ net_log s \<and> vouches env token user me \<and>
    (own = [] \<or> (\<exists>rid reply. own = [(admin_request env (panel_options panel token) rid, reply)])) \<and>
    (\<forall>x\<in>set own. map_of (rq_headers (fst x)) ''Authorization'' = Some (''Bearer '' @ token))"
proof (cases panel)
  case PKpis
  with assms obtain p where "Kpis env f req s = (Inr p, s')" by (auto elim: afterE)
  from kpis.panel_log [OF this] show ?thesis by (simp add: PKpis)
next
  case (POrders status query)
  with assms obtain p where "OrderTable env f status query req s = (Inr p, s')" by (auto elim: afterE)
  from orders.panel_log [OF this] show ?thesis by (simp add: POrders)
next
  case PDeadLetters
  with assms obtain p where "DlqTable env req s = (Inr p, s')" by (auto elim: afterE)
  from dead_letters.panel_log [OF this] show ?thesis by (simp add: PDeadLetters)
next
  case (PProducts page status)
  with assms obtain p where "ProductTable env page status req s = (Inr p, s')" by (auto elim: afterE)
  from products.panel_log [OF this] show ?thesis by (simp add: PProducts)
qed

section \<open>Two guards, one token\<close>

text \<open>Identity-service rotates refresh tokens: once exchanged, a token is answered with a 401, whatever the request is called.\<close>

definition spent :: "'w web_env \<Rightarrow> string \<Rightarrow> 'w \<Rightarrow> bool" where
  "spent env rt w =
     (\<forall>rid. \<forall>w'\<in>{w, snd (web_uuid env w)}. \<exists>hdr b. fst (web_fetch env (admin_request env (refresh_options rt) rid) w') = Response 401 hdr b)"

lemma spent_token_refused:
  assumes "map_of (wr_cookies req) ''souq_rt'' = Some rt" "rt \<noteq> []" "truthy (ADMIN_SERVICES env AdmIdentity)"
    and "spent env rt (net_world s)"
  shows "fst (requireAdmin env req s) = Inl (NotAuthorised Unauthenticated)"
proof -
  have "\<exists>rid w'. admin_request_id env s = (Inr rid, s\<lparr>net_world := w'\<rparr>) \<and> w' \<in> {net_world s, snd (web_uuid env (net_world s))}"
  proof (cases "web_request_id env")
    case (Some rid)
    then have "admin_request_id env s = (Inr rid, s\<lparr>net_world := net_world s\<rparr>)" by (simp add: admin_request_id_def)
    then show ?thesis by blast
  qed (auto simp: admin_request_id_def randomUUID_def case_prod_unfold)
  then obtain rid w' where rid: "admin_request_id env s = (Inr rid, s\<lparr>net_world := w'\<rparr>)"
    "w' \<in> {net_world s, snd (web_uuid env (net_world s))}"
    by blast
  from assms(4) rid(2) obtain hdr b where r: "fst (web_fetch env (admin_request env (refresh_options rt) rid) w') = Response 401 hdr b"
    unfolding spent_def by blast
  have "fst (adminCall env (refresh_options rt) s) = admin_received env (refresh_options rt) rid (Response 401 hdr b)"
  proof -
    have "ao_service (refresh_options rt) = AdmIdentity" by (simp add: refresh_options_def)
    with assms(3) rid(1) r show ?thesis
      by (simp add: adminCall_def and_then_def fetch_def lift_sum_def case_prod_unfold)
  qed
  then obtain e where e: "fst (adminCall env (refresh_options rt) s) = Inl (AdminApi e)" "ae_status e = 401"
    by (auto simp: admin_received_def Let_def response_is_ok_def admin_error_def split: zres.splits)
  then show ?thesis
    using assms(1,2) by (cases "adminCall env (refresh_options rt) s")
      (simp add: requireAdmin_def exchange_refresh_def attempt_def and_then_def)
qed

lemma session_configured:
  "requireAdmin env req s = (Inr session, s1) \<Longrightarrow> truthy (ADMIN_SERVICES env AdmIdentity)"
  by (rule ccontr)
     (auto simp: requireAdmin_def exchange_refresh_def attempt_def and_then_def adminCall_def refresh_options_def admin_error_def
       split: option.splits if_splits)

lemma session_cookie:
  assumes "requireAdmin env req s = (Inr session, s1)"
  obtains rt where "map_of (wr_cookies req) ''souq_rt'' = Some rt" "rt \<noteq> []"
  using assms by (auto simp: requireAdmin_def split: option.splits if_splits)

text \<open>C38: Every page with a panel asks for the session twice and presents the same refresh token both times. With the rotation the contract prescribes,
  no such page is ever shown, to any operator: the first guard lets the caller in, and the panel's own guard is refused.\<close>

theorem admin_page_spends_its_token:
  assumes "requireAdmin env req s = (Inr session, s1)" "map_of (wr_cookies req) ''souq_rt'' = Some rt" "spent env rt (net_world s1)"
  shows "fst (OverviewPage env f req s) = Inl (NotAuthorised Unauthenticated) \<and>
    fst (OrdersPage env f status query req s) = Inl (NotAuthorised Unauthenticated) \<and>
    fst (DlqPageRoute env req s) = Inl (NotAuthorised Unauthenticated) \<and>
    fst (CatalogPage env page status req s) = Inl (NotAuthorised Unauthenticated)"
proof -
  have "rt \<noteq> []" using session_cookie [OF assms(1)] assms(2) by fastforce
  from spent_token_refused [OF assms(2) this session_configured [OF assms(1)] assms(3)]
  have refused: "requireAdmin env req s1 = (Inl (NotAuthorised Unauthenticated), snd (requireAdmin env req s1))"
    by (simp add: prod_eq_iff)
  show ?thesis
    unfolding OverviewPage_def OrdersPage_def DlqPageRoute_def CatalogPage_def
    using kpis.second_guard_refused [OF assms(1) refused] orders.second_guard_refused [OF assms(1) refused]
      dead_letters.second_guard_refused [OF assms(1) refused] products.second_guard_refused [OF assms(1) refused]
    by simp
qed

text \<open>An operator's visit: the exchange, the profile, and then the token that has been spent.\<close>

definition visit_env :: "fetch_reply list web_env" where
  "visit_env = admin_env\<lparr>web_parse := \<lambda>_ v. Accept v\<rparr>"

definition visit_world :: "fetch_reply list net" where
  "visit_world = \<lparr>net_world =
     [Response 200 None (Json (JObj [(''accessToken'', JStr ''at'')])),
      Response 200 None (Json (JObj [(''roles'', JArr [JStr ''OPS'']), (''mfaEnabled'', JBool True)])),
      Response 401 None (Json (JObj []))], net_log = [], net_waits = []\<rparr>"

definition operator_request :: web_request where
  "operator_request = \<lparr>wr_params = [], wr_query = [], wr_headers = [], wr_cookies = [(''souq_rt'', ''rt'')], wr_body = Unreadable\<rparr>"

definition plain_formats :: formats_of where
  "plain_formats = \<lparr>to_locale = \<lambda>_. [], to_fixed1 = \<lambda>_. [], format_money = \<lambda>_. []\<rparr>"

lemma operator_let_in:
  "\<exists>session s1. requireAdmin visit_env operator_request visit_world = (Inr session, s1) \<and>
     net_world s1 = [Response 401 None (Json (JObj []))]"
  by (simp add: requireAdmin_def exchange_refresh_def attempt_def and_then_def adminCall_def admin_request_id_def randomUUID_def fetch_def
      lift_sum_def visit_env_def admin_env_def visit_world_def operator_request_def ADMIN_SERVICES_def refresh_options_def me_options_def
      admin_received_def response_is_ok_def Let_def privileged_def includes_role_def get_prop_def lookup_def js_boolean.simps)

theorem admin_page_spends_its_token_witness:
  "fst (OverviewPage visit_env plain_formats operator_request visit_world) = Inl (NotAuthorised Unauthenticated)"
proof -
  obtain session s1 where let_in: "requireAdmin visit_env operator_request visit_world = (Inr session, s1)"
    and w: "net_world s1 = [Response 401 None (Json (JObj []))]"
    using operator_let_in by blast
  have "map_of (wr_cookies operator_request) ''souq_rt'' = Some ''rt''" by (simp add: operator_request_def)
  moreover have "spent visit_env ''rt'' (net_world s1)"
    by (simp add: spent_def w visit_env_def admin_env_def)
  ultimately show ?thesis
    using admin_page_spends_its_token [OF let_in] by blast
qed

definition panel_world :: "fetch_reply list net" where
  "panel_world = visit_world\<lparr>net_world := take 2 (net_world visit_world)\<rparr>"

theorem admin_panels_for_operators_witness:
  "\<exists>s' own me rf. panel_after visit_env plain_formats PDeadLetters operator_request panel_world = Some s' \<and> net_log s' = own @ [me, rf]"
proof -
  have "\<exists>s'. panel_after visit_env plain_formats PDeadLetters operator_request panel_world = Some s'"
    by (simp add: after_def DlqTable_def gathered_admin_run panel_world_def
      requireAdmin_def exchange_refresh_def attempt_def and_then_def adminCall_def admin_request_id_def randomUUID_def fetch_def
      lift_sum_def visit_env_def admin_env_def visit_world_def operator_request_def ADMIN_SERVICES_def refresh_options_def me_options_def
      read_options_def
      admin_received_def response_is_ok_def Let_def privileged_def includes_role_def get_prop_def lookup_def js_boolean.simps)
  then obtain s' where s': "panel_after visit_env plain_formats PDeadLetters operator_request panel_world = Some s'" by blast
  from admin_panels_for_operators [OF s'] s' show ?thesis
    by (auto simp: panel_world_def visit_world_def)
qed

end
