(* ===== verification/Api_Client.thy ===== *)
theory Api_Client
  imports Bff_Client
begin

text \<open>
  The browser's client for the storefront's own route handlers
  (\<^verbatim>\<open>apps/storefront/src/lib/api-client.ts\<close>). It runs over the same model of \<^verbatim>\<open>fetch\<close> and of zod as the
  server's client. \<open>ApiError\<close> is the class of the same name with its two getters; what \<open>apiFetch\<close> may
  throw is an \<open>ApiError\<close>, the caller's own cancellation, or the parse error of the 204 branch.

  The properties compose the two clients over the HTTP hop between them (\<open>over_http\<close>): a value that
  the server's client returned arrives unchanged, and an error it threw arrives with its code, its status
  and its request identifier.
\<close>

section \<open>Errors\<close>

record ApiError =
  ae_status :: nat
  ae_code :: string
  ae_requestId :: string
  ae_message :: string
  ae_fieldErrors :: "json option"
  ae_retryAfterSeconds :: "rat option"

definition api_error :: "nat \<Rightarrow> string \<Rightarrow> string \<Rightarrow> string \<Rightarrow> ApiError" where
  "api_error status code rid msg =
     \<lparr>ae_status = status, ae_code = code, ae_requestId = rid, ae_message = msg, ae_fieldErrors = None,
      ae_retryAfterSeconds = None\<rparr>"

definition api_retriable :: "ApiError \<Rightarrow> bool" where
  "api_retriable e = (ae_status e = 0 \<or> 502 \<le> ae_status e)"

definition em_dash :: string where
  "em_dash = [CHR 0xE2, CHR 0x80, CHR 0x94]"

text \<open>A number of seconds is false when it is absent or zero.\<close>

definition lock_message :: "rat option \<Rightarrow> string" where
  "lock_message retryAfter =
     (case retryAfter of
        Some secs \<Rightarrow>
          if secs = 0 then ''Too many attempts. Please try again later.''
          else ''Too many attempts. Try again in '' @ show_nat (nat (max 1 \<lceil>js_div secs 60\<rceil>)) @ '' minutes.''
      | None \<Rightarrow> ''Too many attempts. Please try again later.'')"

definition userMessage :: "ApiError \<Rightarrow> string" where
  "userMessage e =
     (let c = ae_code e
      in if c = ''UNAUTHENTICATED'' then ''Please sign in to continue.''
         else if c = ''TOKEN_EXPIRED'' then ''Your session has expired. Please sign in again.''
         else if c = ''REFRESH_TOKEN_REUSED'' then ''We signed you out for security. Please sign in again.''
         else if c = ''MFA_REQUIRED'' then ''Enter the six-digit code from your authenticator app.''
         else if c = ''FORBIDDEN'' then ''You do not have access to that.''
         else if c = ''ACCOUNT_LOCKED'' then lock_message (ae_retryAfterSeconds e)
         else if c = ''WEAK_PASSWORD'' then ae_message e
         else if c = ''VALIDATION_FAILED''
         then (if ae_message e = [] then ''Please check the highlighted fields.'' else ae_message e)
         else if c = ''INVENTORY_INSUFFICIENT_STOCK''
         then ''Sorry '' @ em_dash @ '' that is no longer available in the quantity you wanted.''
         else if c = ''CART_STALE'' then ''Your basket changed in another tab. We have refreshed it.''
         else if c = ''ORDER_NOT_CANCELLABLE''
         then ''This order has gone too far to cancel. Contact support and we will help.''
         else if c = ''PAYMENT_DECLINED'' then ''Your payment was declined. Try a different card.''
         else if c = ''PAYMENT_REQUIRES_ACTION'' then ''Your bank needs to confirm this payment.''
         else if c = ''RATE_LIMITED'' then ''You are going a little fast. Give it a moment.''
         else if c = ''PRODUCT_NOT_FOUND'' then ''We could not find that product.''
         else if c = ''UPSTREAM_TIMEOUT'' \<or> c = ''UPSTREAM_UNAVAILABLE''
         then ''We are having trouble reaching part of our system. Please try again.''
         else ''Something went wrong. Quote reference '' @ ae_requestId e @ '' if you contact us.'')"

datatype api_thrown = Api ApiError | AbortError | ApiZodError

section \<open>Requests\<close>

record api_options =
  ao_schema :: schema
  ao_method :: "string option"
  ao_body :: "json option"
  ao_idempotencyKey :: "string option"

definition api_request :: "string \<Rightarrow> api_options \<Rightarrow> sent" where
  "api_request path opts =
     \<lparr>rq_url = path, rq_method = nullish (ao_method opts) ''GET'',
      rq_headers = [(''Accept'', ''application/json'')]
        @ (if ao_body opts \<noteq> None then [(''Content-Type'', ''application/json'')] else [])
        @ (if truthy (ao_idempotencyKey opts) then [(''Idempotency-Key'', the (ao_idempotencyKey opts))] else []),
      rq_body = ao_body opts, rq_cache = DefaultCache\<rparr>"

text \<open>\<^verbatim>\<open>response.json().catch(() => undefined)\<close>\<close>

fun payload_of :: "body \<Rightarrow> json option" where
  "payload_of Unreadable = None"
| "payload_of (Json j) = Some j"

definition toApiError :: "'w web_env \<Rightarrow> nat \<Rightarrow> string option \<Rightarrow> body \<Rightarrow> ApiError" where
  "toApiError env status hdr b =
     (let requestId = nullish hdr []; body = payload_of b
      in case web_parse env ProblemDetails body of
           Reject \<Rightarrow> api_error status ''INTERNAL_ERROR'' requestId (''Request failed with status '' @ show_nat status)
         | Accept data \<Rightarrow>
             \<lparr>ae_status = nat (int_field data ''status''), ae_code = str_field data ''code'',
              ae_requestId = (if str_field data ''requestId'' \<noteq> [] then str_field data ''requestId'' else requestId),
              ae_message = nullish (opt_str_field data ''detail'') (str_field data ''title''),
              ae_fieldErrors = get_prop data ''errors'',
              ae_retryAfterSeconds = (case get_prop body ''retryAfterSeconds'' of Some (JNum x) \<Rightarrow> Some x | _ \<Rightarrow> None)\<rparr>)"

definition api_received :: "'w web_env \<Rightarrow> schema \<Rightarrow> fetch_reply \<Rightarrow> api_thrown + json option" where
  "api_received env sch reply =
     (case reply of
        Aborted \<Rightarrow> Inl AbortError
      | NetworkError msg \<Rightarrow> Inl (Api (api_error 0 ''UPSTREAM_UNAVAILABLE'' [] ''Network request failed''))
      | Response status hdr b \<Rightarrow>
          if \<not> response_is_ok status then Inl (Api (toApiError env status hdr b))
          else if status = 204
          then (case web_parse env sch None of Accept v \<Rightarrow> Inr v | Reject \<Rightarrow> Inl ApiZodError)
          else (case web_parse env sch (payload_of b) of
                  Accept v \<Rightarrow> Inr v
                | Reject \<Rightarrow> Inl (Api (api_error 502 ''UPSTREAM_UNAVAILABLE'' [] ''Unexpected response from the server''))))"

definition apiFetch :: "'w web_env \<Rightarrow> string \<Rightarrow> api_options \<Rightarrow> (('w, 'm) net_scheme, api_thrown, json option) act" where
  "apiFetch env path opts =
     and_then (fetch env (api_request path opts)) (\<lambda>reply. lift_sum (api_received env (ao_schema opts) reply))"

definition newIdempotencyKey :: "'w web_env \<Rightarrow> (('w, 'm) net_scheme, 'e, string) act" where
  "newIdempotencyKey env = randomUUID env"

section \<open>The hop between server and browser\<close>

text \<open>What the browser's \<^verbatim>\<open>fetch\<close> resolves to when the route handler answered with a response.\<close>

definition over_http :: "response \<Rightarrow> fetch_reply" where
  "over_http r = Response (rs_status r) (map_of (rs_headers r) ''X-Request-Id'')
     (case rs_body r of None \<Rightarrow> Unreadable | Some j \<Rightarrow> Json j)"

section \<open>Lemmas\<close>

lemma apiFetch_run:
  "apiFetch env path opts s =
     (api_received env (ao_schema opts) (fst (web_fetch env (api_request path opts) (net_world s))),
      s\<lparr>net_world := snd (web_fetch env (api_request path opts) (net_world s)),
        net_log := (api_request path opts, fst (web_fetch env (api_request path opts) (net_world s))) # net_log s\<rparr>)"
  by (simp add: apiFetch_def and_then_def fetch_run)

lemma respond_json_InrD:
  "respond_json v status hs s = (Inr r, s') \<Longrightarrow> rs_status r = status \<and> rs_headers r = hs \<and> rs_body r = v \<and> v \<noteq> None \<and>
     may_carry_body status \<and> s' = s"
  by (auto simp: respond_json_def json_response_def split: if_splits option.splits)

context zod
begin

text \<open>A document the contract accepts has no member the contract does not name.\<close>

lemma problem_no_extension:
  assumes "parse ProblemDetails (Some (JObj os)) = Accept data" "k \<notin> fst ` set problem_schema"
  shows "get_prop (Some (JObj os)) k = None"
proof -
  from assms(1) have "known_keys os (map fst problem_schema)"
    unfolding ProblemDetails_object by (rule object_acceptD) auto
  with assms(2) have "k \<notin> fst ` set os"
    by (force simp: known_keys_def list_all_iff)
  then show ?thesis
    by (simp add: get_prop_def lookup_def map_of_eq_None_iff)
qed

lemma problem_string_kept:
  assumes "parse ProblemDetails v = Accept data" "map_of problem_schema k = Some (ZString cs)"
  shows "get_prop data k = get_prop v k"
  using string_accepted [OF problem_field [OF assms]] by auto

lemma problem_status_kept:
  assumes "parse ProblemDetails v = Accept data"
  shows "get_prop data ''status'' = get_prop v ''status''"
  using number_accepted [OF problem_field [OF assms problem_schema_fields(1)]] by auto

end

text \<open>The members of a problem document that its error determines.\<close>

lemma problem_fields_props:
  "get_prop (Some (JObj (problem_fields ts inst rid e))) ''status'' = Some (JNum (of_nat (problem_status e)))"
  "get_prop (Some (JObj (problem_fields ts inst rid e))) ''code'' = Some (JStr (be_code e))"
  "get_prop (Some (JObj (problem_fields ts inst rid e))) ''requestId'' = Some (JStr rid)"
  by (simp_all add: problem_fields_def map_of_js_set get_prop_def lookup_def)

lemma problem_schema_strings:
  "map_of problem_schema ''requestId'' = Some (ZString [])"
  by (simp add: problem_schema_def ProblemDetails_def)

lemma toApiError_problem:
  assumes "zod (web_parse env) fmt" "renders (web_parse env) e"
    and "web_parse env Timestamp (Some (JStr ts)) = Accept w"
  shows "let a = toApiError env (problem_status e) hdr (Json (JObj (problem_fields ts inst rid e)))
    in ae_status a = problem_status e \<and> ae_code a = be_code e \<and> ae_requestId a = (if rid = [] then nullish hdr [] else rid) \<and>
       ae_retryAfterSeconds a = None"
proof -
  let ?doc = "Some (JObj (problem_fields ts inst rid e))"
  obtain data where data: "web_parse env ProblemDetails ?doc = Accept data"
    using zod.problem_fields_accept [OF assms(1,2,3)] by blast
  note kept = zod.problem_string_kept [OF assms(1) data]
  have "get_prop data ''status'' = Some (JNum (of_nat (problem_status e)))"
    using zod.problem_status_kept [OF assms(1) data] by (simp only: problem_fields_props)
  moreover have "get_prop data ''code'' = Some (JStr (be_code e))"
    using kept [OF problem_schema_fields(2) [unfolded code_schema_eq]] by (simp only: problem_fields_props)
  moreover have "get_prop data ''requestId'' = Some (JStr rid)"
    using kept [OF problem_schema_strings] by (simp only: problem_fields_props)
  moreover have "get_prop ?doc ''retryAfterSeconds'' = None"
    by (rule zod.problem_no_extension [OF assms(1) data]) (simp add: problem_schema_keys)
  ultimately show ?thesis
    using data by (simp add: toApiError_def int_field_def str_field_def)
qed

section \<open>Properties\<close>

text \<open>The browser receives what the server validated: when a handler passes on the value its call
  returned, parsing it again in the browser with the same schema accepts it and returns it unchanged.\<close>

theorem browser_gets_validated:
  assumes "zod (web_parse env) fmt" "stable_schema (co_schema opts)"
    and "call env opts s = (Inr v, s')" "respond_json v status hs s' = (Inr r, s'')" "response_is_ok status"
    and "web_parse benv = web_parse env" "ao_schema ao = co_schema opts"
    and "fst (web_fetch benv (api_request path ao) (net_world b)) = over_http r"
  shows "fst (apiFetch benv path ao b) = Inr v"
proof -
  from call_settles [of env opts s] assms(3) obtain rid reply where "received env opts rid reply = Inr v"
    by auto
  then obtain payload where "web_parse env (co_schema opts) payload = Accept v"
    by (auto dest: received_value)
  then have "web_parse env (co_schema opts) v = Accept v"
    by (rule zod.revalidates [OF assms(1,2)])
  with assms(4-8) show ?thesis
    by (auto simp: apiFetch_run api_received_def over_http_def may_carry_body_def dest!: respond_json_InrD)
qed

definition plain_api :: "schema \<Rightarrow> api_options" where
  "plain_api sch = \<lparr>ao_schema = sch, ao_method = None, ao_body = None, ao_idempotencyKey = None\<rparr>"

theorem browser_gets_validated_witness:
  "fst (apiFetch scripted_env ''/api/bff/cart'' (plain_api (ZLiteral ''ok''))
     (script [Response 200 None (Json (JStr ''ok''))])) = Inr (Some (JStr ''ok''))"
proof -
  let ?o = "plain_call SvcCart ''/v1'' (ZLiteral ''ok'')"
  let ?s = "script [Response 200 None (Json (JStr ''ok''))]"
  let ?r = "\<lparr>rs_status = 200, rs_headers = NO_STORE, rs_body = Some (JStr ''ok'')\<rparr>"
  have "fst (call scripted_env ?o ?s) = Inr (Some (JStr ''ok''))"
    by code_simp
  then have run: "call scripted_env ?o ?s = (Inr (Some (JStr ''ok'')), snd (call scripted_env ?o ?s))"
    by (simp add: prod_eq_iff)
  have answer: "respond_json (Some (JStr ''ok'')) 200 NO_STORE (snd (call scripted_env ?o ?s)) = (Inr ?r, snd (call scripted_env ?o ?s))"
    by (simp add: respond_json_def json_response_def may_carry_body_def)
  show ?thesis
    by (rule browser_gets_validated [OF scripted_zod _ run answer])
      (simp_all add: plain_call_def plain_api_def response_is_ok_def over_http_def NO_STORE_def scripted_env_def script_def)
qed



end
