(* ===== verification/Toast_Store.thy ===== *)
theory Toast_Store
  imports Js_Number
begin

text \<open>
  The toast store of the storefront (\<^verbatim>\<open>apps/storefront/src/hooks/use-toast.ts\<close>), a module-level store with
  subscribers. The state is the module's variables: the counter, \<^verbatim>\<open>memoryState\<close>, the keys of
  \<^verbatim>\<open>removalTimers\<close> and the listeners, each with the state it was last given. A callback the store hands
  out (\<^verbatim>\<open>onOpenChange\<close>, \<^verbatim>\<open>dismiss\<close>) or schedules (the removal timer) is an operation; \<open>run_toasts\<close> lets the
  user, the timers and the components run them in any order.

  The lemmas show that at most three toasts are up, that identifiers are unique below the counter's wrap-around,
  and that a closed toast always has a timer that will remove it.
\<close>

section \<open>State\<close>

definition TOAST_LIMIT :: nat where
  "TOAST_LIMIT = 3"

record toast_props =
  tp_title :: "string option"
  tp_description :: "string option"
  tp_variant :: "string option"

record toaster_toast =
  tt_id :: string
  tt_props :: toast_props
  tt_open :: bool

record toast_store =
  count :: int
  toasts :: "toaster_toast list"
  removalTimers :: "string list"
  listeners :: "(nat \<times> toaster_toast list) list"

definition empty_store :: toast_store where
  "empty_store = \<lparr>count = 0, toasts = [], removalTimers = [], listeners = []\<rparr>"

section \<open>Operations\<close>

definition nextId :: "toast_store \<Rightarrow> string \<times> toast_store" where
  "nextId s = (let c = (count s + 1) mod MAX_SAFE_INTEGER in (show_int c, s\<lparr>count := c\<rparr>))"

definition dispatch :: "toaster_toast list \<Rightarrow> toast_store \<Rightarrow> toast_store" where
  "dispatch ts s = s\<lparr>toasts := ts, listeners := map (\<lambda>(l, _). (l, ts)) (listeners s)\<rparr>"

definition scheduleRemoval :: "string \<Rightarrow> toast_store \<Rightarrow> toast_store" where
  "scheduleRemoval i s =
     (if i \<in> set (removalTimers s) then s else s\<lparr>removalTimers := removalTimers s @ [i]\<rparr>)"

definition removal_fires :: "string \<Rightarrow> toast_store \<Rightarrow> toast_store" where
  "removal_fires i s =
     (let s1 = s\<lparr>removalTimers := removeAll i (removalTimers s)\<rparr>
      in dispatch (filter (\<lambda>t. tt_id t \<noteq> i) (toasts s1)) s1)"

definition close_toast :: "string \<Rightarrow> toaster_toast list \<Rightarrow> toaster_toast list" where
  "close_toast i ts = map (\<lambda>t. if tt_id t = i then t\<lparr>tt_open := False\<rparr> else t) ts"

definition dismiss :: "string \<Rightarrow> toast_store \<Rightarrow> toast_store" where
  "dismiss i s = scheduleRemoval i (dispatch (close_toast i (toasts s)) s)"

definition onOpenChange :: "string \<Rightarrow> bool \<Rightarrow> toast_store \<Rightarrow> toast_store" where
  "onOpenChange i up s = (if up then s else dismiss i s)"

definition toast :: "toast_props \<Rightarrow> toast_store \<Rightarrow> string \<times> toast_store" where
  "toast props s =
     (let (i, s1) = nextId s
      in (i, dispatch (take TOAST_LIMIT (\<lparr>tt_id = i, tt_props = props, tt_open = True\<rparr> # toasts s1)) s1))"

text \<open>A component that calls \<^verbatim>\<open>useToast\<close> renders \<^verbatim>\<open>memoryState\<close>, subscribes when its effect runs, and is
  removed when it unmounts.\<close>

definition subscribe :: "nat \<Rightarrow> toaster_toast list \<Rightarrow> toast_store \<Rightarrow> toast_store" where
  "subscribe l rendered s = s\<lparr>listeners := listeners s @ [(l, rendered)]\<rparr>"

fun drop_first :: "nat \<Rightarrow> (nat \<times> 'a) list \<Rightarrow> (nat \<times> 'a) list" where
  "drop_first l [] = []"
| "drop_first l ((l', v) # ls) = (if l' = l then ls else (l', v) # drop_first l ls)"

definition unsubscribe :: "nat \<Rightarrow> toast_store \<Rightarrow> toast_store" where
  "unsubscribe l s = s\<lparr>listeners := drop_first l (listeners s)\<rparr>"

section \<open>Runs\<close>

datatype toast_happening =
    Toast toast_props
  | Dismiss string
  | OpenChange string bool
  | RemovalFires string
  | Subscribe nat "toaster_toast list"
  | Unsubscribe nat

fun toast_event :: "toast_happening \<Rightarrow> toast_store \<Rightarrow> toast_store" where
  "toast_event (Toast props) s = snd (toast props s)"
| "toast_event (Dismiss i) s = dismiss i s"
| "toast_event (OpenChange i up) s = onOpenChange i up s"
| "toast_event (RemovalFires i) s = (if i \<in> set (removalTimers s) then removal_fires i s else s)"
| "toast_event (Subscribe l rendered) s = subscribe l rendered s"
| "toast_event (Unsubscribe l) s = unsubscribe l s"

definition run_toasts :: "toast_happening list \<Rightarrow> toast_store \<Rightarrow> toast_store" where
  "run_toasts es s = fold toast_event es s"

section \<open>The invariant\<close>

definition id_up_to :: "int \<Rightarrow> string \<Rightarrow> bool" where
  "id_up_to c i = (\<exists>k. 1 \<le> k \<and> k \<le> c \<and> i = show_int k)"

definition store_ok :: "toast_store \<Rightarrow> bool" where
  "store_ok s =
     (0 \<le> count s \<and> length (toasts s) \<le> TOAST_LIMIT \<and> distinct (map tt_id (toasts s)) \<and>
      (\<forall>t\<in>set (toasts s). id_up_to (count s) (tt_id t) \<and> (\<not> tt_open t \<longrightarrow> tt_id t \<in> set (removalTimers s))) \<and>
      distinct (removalTimers s))"

lemma dispatch_simps [simp]:
  "toasts (dispatch ts s) = ts" "count (dispatch ts s) = count s" "removalTimers (dispatch ts s) = removalTimers s"
  by (simp_all add: dispatch_def)

lemma scheduleRemoval_simps [simp]:
  "toasts (scheduleRemoval i s) = toasts s" "count (scheduleRemoval i s) = count s"
  "set (removalTimers (scheduleRemoval i s)) = insert i (set (removalTimers s))"
  "distinct (removalTimers (scheduleRemoval i s)) = distinct (removalTimers s)"
  by (auto simp: scheduleRemoval_def)

lemma close_toast_simps [simp]:
  "map tt_id (close_toast i ts) = map tt_id ts" "length (close_toast i ts) = length ts"
  by (simp_all add: close_toast_def)

lemma store_ok_empty: "store_ok empty_store"
  by (simp add: store_ok_def empty_store_def)


lemma id_up_to_mono: "id_up_to c i \<Longrightarrow> c \<le> d \<Longrightarrow> id_up_to d i"
  unfolding id_up_to_def using order_trans by blast

lemma id_up_to_new: "0 \<le> c \<Longrightarrow> id_up_to (c + 1) (show_int (c + 1))"
  unfolding id_up_to_def by (intro exI [of _ "c + 1"]) simp

lemma id_up_to_fresh: "0 \<le> c \<Longrightarrow> \<not> id_up_to c (show_int (c + 1))"
  by (auto simp: id_up_to_def dest!: show_int_inj [rotated 2])

lemma closedD: "t \<in> set (close_toast i ts) \<Longrightarrow> \<exists>t'\<in>set ts. tt_id t = tt_id t' \<and> (\<not> tt_open t \<longrightarrow> tt_id t' = i \<or> \<not> tt_open t')"
  by (auto simp: close_toast_def)

lemma dismiss_ok:
  assumes "store_ok s"
  shows "store_ok (dismiss i s)"
proof -
  have "\<forall>t\<in>set (close_toast i (toasts s)). id_up_to (count s) (tt_id t) \<and>
      (\<not> tt_open t \<longrightarrow> tt_id t \<in> insert i (set (removalTimers s)))"
    using assms by (fastforce simp: store_ok_def dest!: closedD)
  with assms show ?thesis
    by (simp add: store_ok_def dismiss_def)
qed

lemma removal_ok:
  assumes "store_ok s"
  shows "store_ok (removal_fires i s)"
proof -
  have "length (filter (\<lambda>t. tt_id t \<noteq> i) (toasts s)) \<le> TOAST_LIMIT"
    using assms length_filter_le [of "\<lambda>t. tt_id t \<noteq> i" "toasts s"] unfolding store_ok_def by linarith
  with assms show ?thesis
    by (auto simp: store_ok_def removal_fires_def Let_def distinct_map_filter distinct_removeAll)
qed

lemma toast_ok:
  assumes "store_ok s" "count s + 1 < MAX_SAFE_INTEGER"
  shows "store_ok (snd (toast props s))" "count (snd (toast props s)) = count s + 1"
proof -
  let ?i = "show_int (count s + 1)"
  let ?ts = "\<lparr>tt_id = ?i, tt_props = props, tt_open = True\<rparr> # toasts s"
  have mod: "(count s + 1) mod MAX_SAFE_INTEGER = count s + 1"
    using assms by (simp add: store_ok_def)
  then have run: "snd (toast props s) = dispatch (take TOAST_LIMIT ?ts) (s\<lparr>count := count s + 1\<rparr>)"
    by (simp add: toast_def nextId_def Let_def)
  have "distinct (map tt_id ?ts)"
    using assms(1) id_up_to_fresh [of "count s"] by (auto simp: store_ok_def)
  then have "distinct (map tt_id (take TOAST_LIMIT ?ts))"
    unfolding take_map [symmetric] by (rule distinct_take)
  moreover have "\<forall>t\<in>set (take TOAST_LIMIT ?ts). id_up_to (count s + 1) (tt_id t) \<and>
      (\<not> tt_open t \<longrightarrow> tt_id t \<in> set (removalTimers s))"
  proof
    fix t assume "t \<in> set (take TOAST_LIMIT ?ts)"
    then have "t \<in> set ?ts" by (rule in_set_takeD)
    with assms(1) show "id_up_to (count s + 1) (tt_id t) \<and> (\<not> tt_open t \<longrightarrow> tt_id t \<in> set (removalTimers s))"
      using id_up_to_new [of "count s"] by (auto simp: store_ok_def id_up_to_mono)
  qed
  ultimately show "store_ok (snd (toast props s))" "count (snd (toast props s)) = count s + 1"
    using assms(1) by (simp_all add: run store_ok_def del: take_Suc_Cons)
qed

text \<open>One event, and a run of fewer events than the counter can number.\<close>

lemma event_ok:
  assumes "store_ok s" "count s + 1 < MAX_SAFE_INTEGER"
  shows "store_ok (toast_event e s)" "count (toast_event e s) \<le> count s + 1"
proof -
  show "store_ok (toast_event e s)"
    by (cases e) (use assms in \<open>simp_all add: toast_ok dismiss_ok removal_ok onOpenChange_def\<close>,
      simp_all add: store_ok_def subscribe_def unsubscribe_def)
  show "count (toast_event e s) \<le> count s + 1"
    by (cases e) (use assms in \<open>simp_all add: toast_ok onOpenChange_def subscribe_def unsubscribe_def dismiss_def removal_fires_def Let_def\<close>)
qed

lemma run_ok:
  assumes "store_ok s" "count s + int (length es) < MAX_SAFE_INTEGER"
  shows "store_ok (run_toasts es s)"
  using assms
proof (induction es arbitrary: s)
  case (Cons e es)
  then have "count s + 1 < MAX_SAFE_INTEGER" by simp
  note step = event_ok [OF Cons.prems(1) this, of e]
  have "store_ok (run_toasts es (toast_event e s))"
    by (rule Cons.IH) (use step Cons.prems(2) in auto)
  then show ?case
    by (simp add: run_toasts_def)
qed (simp add: run_toasts_def)

section \<open>Properties\<close>

text \<open>In every run from an empty store at most three toasts are shown, no two share an identifier, and
  every toast that was closed is waiting for a removal timer.\<close>

theorem toasts_bounded_and_collected:
  assumes "int (length es) < MAX_SAFE_INTEGER"
  shows "length (toasts (run_toasts es empty_store)) \<le> 3 \<and> distinct (map tt_id (toasts (run_toasts es empty_store))) \<and>
    (\<forall>t\<in>set (toasts (run_toasts es empty_store)). \<not> tt_open t \<longrightarrow> tt_id t \<in> set (removalTimers (run_toasts es empty_store)))"
proof -
  have "store_ok (run_toasts es empty_store)"
    by (rule run_ok [OF store_ok_empty]) (use assms in \<open>simp add: empty_store_def\<close>)
  then show ?thesis
    by (simp add: store_ok_def TOAST_LIMIT_def)
qed

definition sample_props :: toast_props where
  "sample_props = \<lparr>tp_title = Some ''Added to your basket'', tp_description = None, tp_variant = Some ''success''\<rparr>"

definition sample_toasts :: "toast_happening list" where
  "sample_toasts = [Toast sample_props, Toast sample_props, Toast sample_props, OpenChange ''2'' False, Toast sample_props, Dismiss ''2'']"

theorem toasts_bounded_and_collected_witness:
  "map tt_id (toasts (run_toasts sample_toasts empty_store)) = [''4'', ''3'', ''2''] \<and>
   (\<forall>t\<in>set (toasts (run_toasts sample_toasts empty_store)). \<not> tt_open t \<longrightarrow>
      tt_id t \<in> set (removalTimers (run_toasts sample_toasts empty_store)))"
proof -
  have "map tt_id (toasts (run_toasts sample_toasts empty_store)) = [''4'', ''3'', ''2'']"
    by code_simp
  moreover have "int (length sample_toasts) < MAX_SAFE_INTEGER"
    by code_simp
  ultimately show ?thesis
    using toasts_bounded_and_collected [of sample_toasts] by simp
qed

end
