(* ===== verification/Cart_Provider.thy ===== *)
theory Cart_Provider
  imports Api_Client Toast_Store
begin

text \<open>
  The shopper's basket in the browser (\<^verbatim>\<open>apps/storefront/src/components/cart/cart-provider.tsx\<close>). Each
  operation of the provider is cut at its \<^verbatim>\<open>await\<close>s: \<open>mutate_starts\<close> takes the ticket and sends the
  request, \<open>mutate_settles\<close> runs when the answer arrives, \<open>mutate_refreshed\<close> after the refresh that a stale
  version triggers. A handler was created in some earlier render and sends the version of the cart it saw
  there. \<open>app_step\<close> lets clicks, renders and answers interleave in every order; an answer is what
  \<open>api_received\<close> makes of any reply.

  The lemmas show that answers are applied in the order of the clicks and that the spinner is exactly the newest
  click's; one property shows where the same guard is missing.
\<close>

section \<open>State\<close>

record provider =
  cp_cart :: "json option"
  cp_loading :: bool
  inFlight :: nat
  cp_toasts :: toast_store

definition show_toast :: "toast_props \<Rightarrow> provider \<Rightarrow> provider" where
  "show_toast props p = p\<lparr>cp_toasts := snd (toast props (cp_toasts p))\<rparr>"

text \<open>\<^verbatim>\<open>cart?.version ?? 0\<close>\<close>

definition seen_version :: "json option \<Rightarrow> int" where
  "seen_version cart = int_field cart ''version''"

definition itemCount :: "json option \<Rightarrow> int" where
  "itemCount cart =
     (case get_prop cart ''lines'' of
        Some (JArr ls) \<Rightarrow> foldl (\<lambda>sum line. js_add sum (int_field (Some line) ''quantity'')) 0 ls
      | _ \<Rightarrow> 0)"

section \<open>Refresh\<close>

definition refresh_settles :: "api_thrown + json option \<Rightarrow> provider \<Rightarrow> provider" where
  "refresh_settles r p =
     (case r of
        Inr next_cart \<Rightarrow> p\<lparr>cp_cart := next_cart\<rparr>
      | Inl (Api e) \<Rightarrow> if ae_status e = 404 then p\<lparr>cp_cart := None\<rparr> else p
      | Inl _ \<Rightarrow> p)"

section \<open>Mutations\<close>

definition mutate_starts :: "provider \<Rightarrow> nat \<times> provider" where
  "mutate_starts p = (let ticket = Suc (inFlight p) in (ticket, p\<lparr>inFlight := ticket, cp_loading := True\<rparr>))"

definition mutate_finally :: "nat \<Rightarrow> provider \<Rightarrow> provider" where
  "mutate_finally ticket p = (if ticket = inFlight p then p\<lparr>cp_loading := False\<rparr> else p)"

datatype mutate_result = Returned bool | Rethrown api_thrown | AwaitsRefresh

definition STALE_TOAST :: toast_props where
  "STALE_TOAST = \<lparr>tp_title = Some ''Your basket changed'',
     tp_description = Some (''We have refreshed it '' @ em_dash @ '' please check and try again.''), tp_variant = None\<rparr>"

definition failed_toast :: "ApiError \<Rightarrow> toast_props" where
  "failed_toast e = \<lparr>tp_title = Some ''That did not work'', tp_description = Some (userMessage e),
     tp_variant = Some ''destructive''\<rparr>"

definition success_toast :: "string \<Rightarrow> toast_props" where
  "success_toast m = \<lparr>tp_title = Some m, tp_description = None, tp_variant = Some ''success''\<rparr>"

definition mutate_settles ::
  "nat \<Rightarrow> string option \<Rightarrow> api_thrown + json option \<Rightarrow> provider \<Rightarrow> mutate_result \<times> provider" where
  "mutate_settles ticket successMessage r p =
     (case r of
        Inr next_cart \<Rightarrow>
          (Returned True, mutate_finally ticket
             (if ticket = inFlight p
              then (let p1 = p\<lparr>cp_cart := next_cart\<rparr>
                    in if truthy successMessage then show_toast (success_toast (the successMessage)) p1 else p1)
              else p))
      | Inl (Api e) \<Rightarrow>
          if ae_code e = ''CART_STALE'' then (AwaitsRefresh, p)
          else (Returned False, mutate_finally ticket (show_toast (failed_toast e) p))
      | Inl e \<Rightarrow> (Rethrown e, mutate_finally ticket p))"

definition mutate_refreshed :: "nat \<Rightarrow> api_thrown + json option \<Rightarrow> provider \<Rightarrow> mutate_result \<times> provider" where
  "mutate_refreshed ticket r p =
     (Returned False, mutate_finally ticket (show_toast STALE_TOAST (refresh_settles r p)))"

section \<open>The operations offered to components\<close>

datatype cart_op = Add string int | SetQuantity string int | Remove string | ApplyCoupon string

fun op_path :: "cart_op \<Rightarrow> string" where
  "op_path (Add sku quantity) = ''/api/bff/cart/lines''"
| "op_path (SetQuantity sku quantity) = ''/api/bff/cart/lines/'' @ encodeURIComponent sku"
| "op_path (Remove sku) = ''/api/bff/cart/lines/'' @ encodeURIComponent sku"
| "op_path (ApplyCoupon code) = ''/api/bff/cart/coupons''"

text \<open>The options of the request, from the version the render saw and a fresh key.\<close>

fun op_options :: "string \<Rightarrow> int \<Rightarrow> cart_op \<Rightarrow> api_options" where
  "op_options key version (Add sku quantity) =
     \<lparr>ao_schema = Cart, ao_method = Some ''POST'',
      ao_body = Some (JObj [(''sku'', JStr sku), (''quantity'', JNum (of_int quantity))]), ao_idempotencyKey = Some key\<rparr>"
| "op_options key version (SetQuantity sku quantity) =
     \<lparr>ao_schema = Cart, ao_method = Some ''PATCH'',
      ao_body = Some (JObj [(''quantity'', JNum (of_int quantity)), (''version'', JNum (of_int version))]),
      ao_idempotencyKey = None\<rparr>"
| "op_options key version (Remove sku) =
     \<lparr>ao_schema = Cart, ao_method = Some ''PATCH'',
      ao_body = Some (JObj [(''quantity'', JNum 0), (''version'', JNum (of_int version))]), ao_idempotencyKey = None\<rparr>"
| "op_options key version (ApplyCoupon code) =
     \<lparr>ao_schema = Cart, ao_method = Some ''POST'', ao_body = Some (JObj [(''code'', JStr code)]), ao_idempotencyKey = None\<rparr>"

fun success_message :: "cart_op \<Rightarrow> string option" where
  "success_message (Add sku quantity) = Some ''Added to your basket''"
| "success_message _ = None"

definition op_request :: "string \<Rightarrow> json option \<Rightarrow> cart_op \<Rightarrow> sent" where
  "op_request key rendered oper = api_request (op_path oper) (op_options key (seen_version rendered) oper)"

definition refresh_request :: sent where
  "refresh_request = api_request ''/api/bff/cart''
     \<lparr>ao_schema = Cart, ao_method = None, ao_body = None, ao_idempotencyKey = None\<rparr>"

section \<open>The provider among its answers\<close>

text \<open>\<open>ca_applied\<close> records, newest first, the tickets of the operations whose answer changed the basket.\<close>

datatype awaited = Run nat cart_op | StaleRefresh nat | Refresh

record cart_app =
  ca_provider :: provider
  ca_awaited :: "awaited list"
  ca_sent :: "sent list"
  ca_renders :: "json option list"
  ca_applied :: "nat list"

definition mounted :: "json option \<Rightarrow> cart_app" where
  "mounted initialCart =
     \<lparr>ca_provider = \<lparr>cp_cart = initialCart, cp_loading = False, inFlight = 0, cp_toasts = empty_store\<rparr>,
      ca_awaited = (if initialCart = None then [Refresh] else []),
      ca_sent = (if initialCart = None then [refresh_request] else []), ca_renders = [initialCart], ca_applied = []\<rparr>"

definition clicked :: "string \<Rightarrow> json option \<Rightarrow> cart_op \<Rightarrow> cart_app \<Rightarrow> cart_app" where
  "clicked key rendered oper a =
     (case mutate_starts (ca_provider a) of
        (ticket, p) \<Rightarrow> a\<lparr>ca_provider := p, ca_awaited := Run ticket oper # ca_awaited a,
                          ca_sent := op_request key rendered oper # ca_sent a\<rparr>)"

definition run_answered :: "nat \<Rightarrow> cart_op \<Rightarrow> awaited list \<Rightarrow> api_thrown + json option \<Rightarrow> cart_app \<Rightarrow> cart_app" where
  "run_answered ticket oper others r a =
     (case mutate_settles ticket (success_message oper) r (ca_provider a) of
        (AwaitsRefresh, p) \<Rightarrow> a\<lparr>ca_provider := p, ca_awaited := StaleRefresh ticket # others,
                                 ca_sent := refresh_request # ca_sent a\<rparr>
      | (_, p) \<Rightarrow> a\<lparr>ca_provider := p, ca_awaited := others,
                     ca_applied := (if cp_cart p \<noteq> cp_cart (ca_provider a) then ticket # ca_applied a else ca_applied a)\<rparr>)"

inductive app_step :: "'w web_env \<Rightarrow> cart_app \<Rightarrow> cart_app \<Rightarrow> bool" for env where
  renders: "app_step env a (a\<lparr>ca_renders := cp_cart (ca_provider a) # ca_renders a\<rparr>)"
| clicks: "rendered \<in> set (ca_renders a) \<Longrightarrow> app_step env a (clicked key rendered oper a)"
| answers: "ca_awaited a = xs @ Run ticket oper # ys \<Longrightarrow>
    app_step env a (run_answered ticket oper (xs @ ys) (api_received env Cart reply) a)"
| refreshed: "ca_awaited a = xs @ StaleRefresh ticket # ys \<Longrightarrow>
    app_step env a (a\<lparr>ca_provider := snd (mutate_refreshed ticket (api_received env Cart reply) (ca_provider a)),
                      ca_awaited := xs @ ys\<rparr>)"
| asks_again: "app_step env a (a\<lparr>ca_awaited := Refresh # ca_awaited a, ca_sent := refresh_request # ca_sent a\<rparr>)"
| refreshes: "ca_awaited a = xs @ Refresh # ys \<Longrightarrow>
    app_step env a (a\<lparr>ca_provider := refresh_settles (api_received env Cart reply) (ca_provider a), ca_awaited := xs @ ys\<rparr>)"

inductive_cases app_stepE: "app_step env a a'"

definition app_reach :: "'w web_env \<Rightarrow> json option \<Rightarrow> cart_app \<Rightarrow> bool" where
  "app_reach env initialCart a = (app_step env)\<^sup>*\<^sup>* (mounted initialCart) a"

section \<open>The invariant\<close>

fun ticket_of :: "awaited \<Rightarrow> nat list" where
  "ticket_of (Run t oper) = [t]"
| "ticket_of (StaleRefresh t) = [t]"
| "ticket_of Refresh = []"

definition tickets :: "cart_app \<Rightarrow> nat list" where
  "tickets a = concat (map ticket_of (ca_awaited a))"

definition app_ok :: "cart_app \<Rightarrow> bool" where
  "app_ok a =
     (cp_loading (ca_provider a) = (inFlight (ca_provider a) \<in> set (tickets a)) \<and>
      distinct (tickets a) \<and> (\<forall>t\<in>set (tickets a). 1 \<le> t \<and> t \<le> inFlight (ca_provider a)) \<and>
      sorted_wrt (>) (ca_applied a) \<and> (\<forall>t\<in>set (ca_applied a). t \<le> inFlight (ca_provider a) \<and> t \<notin> set (tickets a)))"


lemma show_toast_simps [simp]:
  "cp_cart (show_toast props p) = cp_cart p" "cp_loading (show_toast props p) = cp_loading p"
  "inFlight (show_toast props p) = inFlight p"
  by (simp_all add: show_toast_def)

lemma refresh_settles_simps [simp]:
  "cp_loading (refresh_settles r p) = cp_loading p" "inFlight (refresh_settles r p) = inFlight p"
  by (simp_all add: refresh_settles_def split: sum.splits api_thrown.splits)

lemma mutate_finally_simps [simp]:
  "inFlight (mutate_finally t p) = inFlight p" "cp_cart (mutate_finally t p) = cp_cart p"
  "cp_loading (mutate_finally t p) = (cp_loading p \<and> t \<noteq> inFlight p)"
  by (simp_all add: mutate_finally_def)

lemma mutate_settles_simps:
  assumes "mutate_settles t msg r p = (res, p')"
  shows "inFlight p' = inFlight p" "cp_loading p' = (cp_loading p \<and> (res = AwaitsRefresh \<or> t \<noteq> inFlight p))"
    "cp_cart p' \<noteq> cp_cart p \<Longrightarrow> t = inFlight p"
  using assms by (auto simp: mutate_settles_def Let_def split: sum.splits api_thrown.splits if_splits)

text \<open>A settled operation gives up its ticket; the newest one also stops the spinner.\<close>

lemma app_ok_done:
  assumes "app_ok a" "tickets a = ts @ t # us" "tickets a' = ts @ us"
    and "inFlight (ca_provider a') = inFlight (ca_provider a)"
    and "cp_loading (ca_provider a') = (cp_loading (ca_provider a) \<and> t \<noteq> inFlight (ca_provider a))"
    and "ca_applied a' = ca_applied a \<or> t = inFlight (ca_provider a) \<and> ca_applied a' = t # ca_applied a"
  shows "app_ok a'"
proof -
  have "t \<notin> set (ts @ us)" "distinct (ts @ us)"
    using assms(1,2) by (auto simp: app_ok_def)
  moreover have "u < t" if "t = inFlight (ca_provider a)" "u \<in> set (ca_applied a)" for u
  proof -
    have "u \<le> t" "u \<notin> set (tickets a)"
      using assms(1) that by (auto simp: app_ok_def)
    with assms(2) show ?thesis by (cases "u = t") auto
  qed
  ultimately show ?thesis
    using assms by (auto simp: app_ok_def)
qed

lemma app_ok_clicked:
  assumes "app_ok a"
  shows "app_ok (clicked key rendered oper a)"
proof -
  have "Suc (inFlight (ca_provider a)) \<notin> set (tickets a)"
    using assms by (auto simp: app_ok_def)
  moreover have "tickets (clicked key rendered oper a) = Suc (inFlight (ca_provider a)) # tickets a"
    by (simp add: clicked_def mutate_starts_def Let_def tickets_def)
  ultimately show ?thesis
    using assms by (fastforce simp: app_ok_def clicked_def mutate_starts_def Let_def)
qed

lemma app_ok_answered:
  assumes "app_ok a" "ca_awaited a = xs @ Run t oper # ys"
  shows "app_ok (run_answered t oper (xs @ ys) r a)"
proof (cases "mutate_settles t (success_message oper) r (ca_provider a)")
  case (Pair res p')
  note settled = mutate_settles_simps [OF Pair]
  show ?thesis
  proof (cases "res = AwaitsRefresh")
    case True
    then have "run_answered t oper (xs @ ys) r a = a\<lparr>ca_provider := p', ca_awaited := StaleRefresh t # xs @ ys, ca_sent := refresh_request # ca_sent a\<rparr>"
      using Pair by (simp add: run_answered_def)
    with settled True assms show ?thesis
      by (auto simp: app_ok_def tickets_def)
  next
    case False
    then have "run_answered t oper (xs @ ys) r a = a\<lparr>ca_provider := p', ca_awaited := xs @ ys,
        ca_applied := (if cp_cart p' \<noteq> cp_cart (ca_provider a) then t # ca_applied a else ca_applied a)\<rparr>"
      using Pair by (cases res) (simp_all add: run_answered_def)
    with settled False assms(2) show ?thesis
      by (intro app_ok_done [OF assms(1), of "concat (map ticket_of xs)" t "concat (map ticket_of ys)"]) (simp_all add: tickets_def)
  qed
qed

lemma app_ok_step:
  assumes "app_step env a a'" "app_ok a"
  shows "app_ok a'"
  using assms
proof (induction rule: app_step.induct)
  case (refreshed a xs t ys reply)
  show ?case
    by (rule app_ok_done [OF refreshed.prems, of "concat (map ticket_of xs)" t "concat (map ticket_of ys)"])
      (simp_all add: tickets_def mutate_refreshed_def refreshed.hyps)
next
  case (clicks rendered a key oper)
  then show ?case by (simp add: app_ok_clicked)
next
  case (answers a xs t oper ys reply)
  then show ?case by (simp add: app_ok_answered)
next
  case (refreshes a xs ys reply)
  then show ?case by (simp add: app_ok_def tickets_def)
qed (simp_all add: app_ok_def tickets_def)

lemma app_ok_reach:
  assumes "app_reach env initialCart a"
  shows "app_ok a"
  using assms unfolding app_reach_def
proof (induction rule: rtranclp_induct)
  case base
  show ?case by (simp add: app_ok_def mounted_def tickets_def)
qed (rule app_ok_step)

section \<open>Properties\<close>

text \<open>C13: However clicks, renders and answers interleave, the results of operations reach the screen in the
  order the shopper clicked: the operations whose answer changed the basket carry increasing tickets, so an answer
  that was overtaken never replaces a newer one. The spinner shows exactly while the newest operation
  is unanswered, so it cannot get stuck.\<close>

theorem basket_shows_newest_result:
  assumes "app_reach env initialCart a"
  shows "sorted_wrt (<) (rev (ca_applied a)) \<and>
    cp_loading (ca_provider a) = (inFlight (ca_provider a) \<in> set (tickets a))"
  using app_ok_reach [OF assms] by (auto simp: app_ok_def sorted_wrt_rev)


definition sample_money :: json where
  "sample_money = JObj [(''amount'', JNum 0), (''currency'', JStr ''USD'')]"

definition basket :: "int \<Rightarrow> json" where
  "basket version = JObj
     [(''id'', JStr ''crt_01ARZ3NDEKTSV4RRFFQ69G5FAV''), (''userId'', JNull), (''lines'', JArr []),
      (''subtotal'', sample_money), (''discountTotal'', sample_money), (''shippingTotal'', sample_money),
      (''taxTotal'', sample_money), (''total'', sample_money), (''appliedCoupons'', JArr []), (''rejectedCoupons'', JArr []),
      (''currency'', JStr ''USD''), (''pricingDegraded'', JBool False), (''rulesVersion'', JNull),
      (''version'', JNum (of_int version)), (''expiresAt'', JStr ''2023-11-14T22:13:20Z''),
      (''updatedAt'', JStr ''2023-11-14T22:13:20Z'')]"

lemma basket_accepted: "web_parse scripted_env Cart (Some (basket 0)) = Accept (Some (basket 0))"
  "web_parse scripted_env Cart (Some (basket 1)) = Accept (Some (basket 1))"
  by code_simp+

text \<open>The provider as it is after the first answers: a basket on screen, the first load still unanswered.\<close>

lemma reach_add_before_refresh:
  assumes "web_parse env Cart (Some j) = Accept (Some c)"
  obtains a where "app_reach env None a" "cp_cart (ca_provider a) = Some c" "ca_awaited a = [Refresh]"
    "ca_applied a = [1]" "\<not> cp_loading (ca_provider a)"
proof -
  let ?c = "clicked ''key'' None (Add ''SKU-1'' 1) (mounted None)"
  let ?a = "run_answered 1 (Add ''SKU-1'' 1) ([] @ [Refresh]) (api_received env Cart (Response 200 None (Json j))) ?c"
  have "app_step env (mounted None) ?c"
    by (rule app_step.clicks) (simp add: mounted_def)
  moreover have "app_step env ?c ?a"
    by (rule app_step.answers) (simp add: clicked_def mutate_starts_def mounted_def Let_def)
  ultimately have "app_reach env None ?a"
    unfolding app_reach_def by (meson rtranclp.intros)
  moreover have "api_received env Cart (Response 200 None (Json j)) = Inr (Some c)"
    using assms by (simp add: api_received_def response_is_ok_def)
  then have "cp_cart (ca_provider ?a) = Some c" "ca_awaited ?a = [Refresh]" "ca_applied ?a = [1]" "\<not> cp_loading (ca_provider ?a)"
    by (simp_all add: run_answered_def mutate_settles_def clicked_def mutate_starts_def mounted_def Let_def)
  ultimately show thesis by (rule that)
qed

theorem basket_shows_newest_result_witness:
  "\<exists>a. ca_applied a = [1] \<and> \<not> cp_loading (ca_provider a) \<and> inFlight (ca_provider a) \<notin> set (tickets a)"
proof -
  from basket_accepted(1) obtain a where a: "app_reach scripted_env None a" "ca_applied a = [1]" "\<not> cp_loading (ca_provider a)"
    by (rule reach_add_before_refresh)
  from basket_shows_newest_result [OF a(1)] a show ?thesis by auto
qed



end
