(* ===== verification/Order_Progress.thy ===== *)
theory Order_Progress
  imports Api_Client Event_Machine
begin

text \<open>
  The checkout progress view (\<^verbatim>\<open>apps/storefront/src/components/checkout/order-progress.tsx\<close>). The state holds
  the component's React state and refs together with the variables of its effect: the stream, the poll
  timer's handle, the current delay and whether the component was unmounted. The pending timers and the requests in
  flight are part of the state, because the effect forgets the handle of a timer that a broken stream
  overtakes. \<open>progress_event\<close> is everything that can happen to the component, one callback at a time;
  \<open>progress_panel\<close> is what it renders.

  The lemmas show that an unsettled order is always asked about again, within the bounds of the back-off and by no
  more than two chains of requests. Two properties show a settled order that is displayed as still being placed.
\<close>

section \<open>Steps and copy\<close>

definition STEPS :: "(string \<times> string \<times> string) list" where
  "STEPS =
     [(''PENDING'', ''Order received'', ''Checking availability''),
      (''STOCK_RESERVED'', ''Items reserved'', ''Authorising payment''),
      (''PAID'', ''Payment approved'', ''Confirming your items''),
      (''STOCK_COMMITTED'', ''Items confirmed'', ''Completing payment''),
      (''CONFIRMED'', ''Order confirmed'', ''All done'')]"

fun find_index :: "('a \<Rightarrow> bool) \<Rightarrow> 'a list \<Rightarrow> nat option" where
  "find_index P [] = None"
| "find_index P (x # xs) = (if P x then Some 0 else map_option Suc (find_index P xs))"

definition stepIndex :: "string \<Rightarrow> nat" where
  "stepIndex s = nullish (find_index (\<lambda>(status, _). status = s) STEPS) 0"

definition FAILURE_COPY :: "(string \<times> string \<times> string \<times> bool) list" where
  "FAILURE_COPY =
     [(''INSUFFICIENT_STOCK'', ''Some items sold out'',
        ''They went while you were checking out. Nothing has been charged.'', False),
      (''PAYMENT_DECLINED'', ''Your payment was declined'',
        ''Your bank turned down the payment. Nothing has been charged '' @ em_dash @ '' try another card.'', True),
      (''PAYMENT_TIMEOUT'', ''Payment took too long'',
        ''We could not reach your bank in time and released your items. Nothing has been charged.'', True),
      (''RESERVATION_TIMEOUT'', ''Checkout timed out'',
        ''Your items were released. Nothing has been charged.'', True),
      (''CUSTOMER_CANCELLED'', ''Order cancelled'',
        ''You cancelled this order. Nothing has been charged.'', True),
      (''FRAUD_REJECTED'', ''We could not complete this order'',
        ''Please contact support if you think this is a mistake.'', False)]"

section \<open>State\<close>

record progress =
  pr_status :: string
  pr_reason :: "string option"
  pr_unavailable :: "json list"
  pr_stalled :: bool
  settled :: bool
  cancelled :: bool
  source_open :: bool
  poll_delay :: rat
  pollTimer :: "nat option"
  pr_timers :: "(nat \<times> rat) list"
  pr_handles :: nat
  pr_polls :: nat
  pr_sent :: "sent list"
  pr_refreshes :: nat
  stall_timer :: bool

definition set_poll_timer :: "rat \<Rightarrow> progress \<Rightarrow> progress" where
  "set_poll_timer d p =
     p\<lparr>pr_timers := (pr_handles p, d) # pr_timers p, pollTimer := Some (pr_handles p), pr_handles := Suc (pr_handles p)\<rparr>"

definition clear_poll_timer :: "progress \<Rightarrow> progress" where
  "clear_poll_timer p =
     (case pollTimer p of None \<Rightarrow> p | Some h \<Rightarrow> p\<lparr>pr_timers := filter (\<lambda>(h', d). h' \<noteq> h) (pr_timers p)\<rparr>)"

section \<open>The effect\<close>

text \<open>\<^verbatim>\<open>apply\<close>: a payload that passes the contract replaces the state, and a terminal one stops the watch.\<close>

definition apply_status :: "'w web_env \<Rightarrow> json \<Rightarrow> progress \<Rightarrow> progress" where
  "apply_status env raw p =
     (case web_parse env OrderStatusResponse (Some raw) of
        Reject \<Rightarrow> p
      | Accept data \<Rightarrow>
          if cancelled p then p
          else let p1 = p\<lparr>pr_status := str_field data ''status'', pr_reason := opt_str_field data ''cancellationReason'',
                          pr_unavailable := (case get_prop data ''unavailable'' of Some (JArr us) \<Rightarrow> us | _ \<Rightarrow> [])\<rparr>
               in if get_prop data ''terminal'' = Some (JBool True)
                  then let p2 = clear_poll_timer (p1\<lparr>settled := True, source_open := False\<rparr>)
                       in if str_field data ''status'' = ''CONFIRMED'' then p2\<lparr>pr_refreshes := Suc (pr_refreshes p2)\<rparr> else p2
                  else p1)"

definition status_request :: "string \<Rightarrow> sent" where
  "status_request orderId =
     \<lparr>rq_url = ''/api/bff/orders/'' @ orderId @ ''/status'', rq_method = ''GET'', rq_headers = [], rq_body = None,
      rq_cache = NoStore\<rparr>"

text \<open>\<^verbatim>\<open>poll\<close> up to its \<^verbatim>\<open>await\<close>, and what follows the answer.\<close>

definition poll_starts :: "string \<Rightarrow> progress \<Rightarrow> progress" where
  "poll_starts orderId p =
     (if cancelled p \<or> settled p then p
      else p\<lparr>pr_polls := Suc (pr_polls p), pr_sent := status_request orderId # pr_sent p\<rparr>)"

definition poll_again :: "progress \<Rightarrow> progress" where
  "poll_again p =
     (if \<not> cancelled p \<and> \<not> settled p
      then (let d = min (js_times (poll_delay p) (3 / 2)) 5000 in set_poll_timer d (p\<lparr>poll_delay := d\<rparr>))
      else p)"

definition poll_answered :: "'w web_env \<Rightarrow> fetch_reply \<Rightarrow> progress \<Rightarrow> progress" where
  "poll_answered env reply p =
     (let p1 = p\<lparr>pr_polls := pr_polls p - 1\<rparr>
      in poll_again
           (case reply of
              Response status hdr (Json j) \<Rightarrow> if response_is_ok status then apply_status env j p1 else p1
            | _ \<Rightarrow> p1))"

definition stream_error :: "string \<Rightarrow> progress \<Rightarrow> progress" where
  "stream_error orderId p =
     (let p1 = p\<lparr>source_open := False\<rparr> in if \<not> settled p1 then poll_starts orderId p1 else p1)"

definition stall_fires :: "progress \<Rightarrow> progress" where
  "stall_fires p =
     (let p1 = p\<lparr>stall_timer := False\<rparr>
      in if \<not> settled p1 \<and> \<not> cancelled p1 then p1\<lparr>pr_stalled := True\<rparr> else p1)"

definition unmounts :: "progress \<Rightarrow> progress" where
  "unmounts p = clear_poll_timer (p\<lparr>cancelled := True, source_open := False, stall_timer := False\<rparr>)"

definition mounts :: "bool \<Rightarrow> string \<Rightarrow> progress" where
  "mounts has_EventSource initialStatus =
     (let p = \<lparr>pr_status = initialStatus, pr_reason = None, pr_unavailable = [], pr_stalled = False,
               settled = isTerminal initialStatus, cancelled = False, source_open = False, poll_delay = 500,
               pollTimer = None, pr_timers = [], pr_handles = 0, pr_polls = 0, pr_sent = [], pr_refreshes = 0,
               stall_timer = False\<rparr>
      in if settled p then p else set_poll_timer 2000 (p\<lparr>source_open := has_EventSource, stall_timer := True\<rparr>))"

datatype progress_happening =
    TimerFires nat
  | PollAnswered fetch_reply
  | StreamFrame body
  | StreamError
  | StallFires
  | Unmounts

text \<open>One callback. What is not pending, in flight or open cannot happen.\<close>

fun progress_event :: "'w web_env \<Rightarrow> string \<Rightarrow> progress_happening \<Rightarrow> progress \<Rightarrow> progress" where
  "progress_event env orderId (TimerFires h) p =
     (if h \<in> fst ` set (pr_timers p)
      then poll_starts orderId (p\<lparr>pr_timers := filter (\<lambda>(h', d). h' \<noteq> h) (pr_timers p)\<rparr>) else p)"
| "progress_event env orderId (PollAnswered reply) p = (if 0 < pr_polls p then poll_answered env reply p else p)"
| "progress_event env orderId (StreamFrame (Json j)) p = (if source_open p then apply_status env j p else p)"
| "progress_event env orderId (StreamFrame Unreadable) p = p"
| "progress_event env orderId StreamError p = (if source_open p then stream_error orderId p else p)"
| "progress_event env orderId StallFires p = (if stall_timer p then stall_fires p else p)"
| "progress_event env orderId Unmounts p = unmounts p"

definition watch :: "'w web_env \<Rightarrow> string \<Rightarrow> progress_happening list \<Rightarrow> progress \<Rightarrow> progress" where
  "watch env orderId es p = fold (progress_event env orderId) es p"

section \<open>Rendering\<close>

datatype mark = Completed | InProgress | NotStarted

datatype panel =
    FailurePanel string string "(string \<times> string) list" bool
  | ConfirmedPanel
  | ProgressPanel string string "(string \<times> string option \<times> mark) list" bool

definition shortage :: "json \<Rightarrow> string \<times> string" where
  "shortage u =
     (str_field (Some u) ''sku'',
      if int_field (Some u) ''available'' = 0 then ''out of stock''
      else ''only '' @ show_int (int_field (Some u) ''available'') @ '' left, you wanted '' @
           show_int (int_field (Some u) ''requested''))"

definition failure_panel :: "progress \<Rightarrow> panel" where
  "failure_panel p =
     (case nullish (map_of FAILURE_COPY (nullish (pr_reason p) []))
             (''We could not complete your order'', ''Nothing has been charged.'', True) of
        (title, body, retry) \<Rightarrow> FailurePanel title body (map shortage (pr_unavailable p)) retry)"

definition step_marks :: "string \<Rightarrow> (string \<times> string option \<times> mark) list" where
  "step_marks status =
     (let current = stepIndex status; compensating = (status = ''COMPENSATING'')
      in map (\<lambda>(i, (_, label, detail)).
            let finished = i < current; active = (i = current \<and> \<not> compensating)
            in (label, if active then Some detail else None,
                if finished then Completed else if active then InProgress else NotStarted))
           (enumerate 0 STEPS))"

definition progress_panel :: "progress \<Rightarrow> panel" where
  "progress_panel p =
     (if pr_status p = ''CANCELLED'' then failure_panel p
      else if pr_status p = ''CONFIRMED'' then ConfirmedPanel
      else let compensating = (pr_status p = ''COMPENSATING'')
           in ProgressPanel
                (if compensating then ''Releasing your items'' else ''Placing your order'')
                (if compensating
                 then ''Something went wrong. Undoing everything now '' @ em_dash @ '' nothing will be charged.''
                 else ''This usually takes a couple of seconds. Please do not close this page.'')
                (step_marks (pr_status p)) (pr_stalled p))"


section \<open>The invariant of the watch\<close>

definition delay_ok :: "rat \<Rightarrow> bool" where
  "delay_ok d = (500 \<le> d \<and> d \<le> 5000)"

definition asking :: "progress \<Rightarrow> nat" where
  "asking p = length (pr_timers p) + pr_polls p"

definition watch_ok :: "progress \<Rightarrow> bool" where
  "watch_ok p =
     (delay_ok (poll_delay p) \<and> (\<forall>x\<in>set (pr_timers p). delay_ok (snd x)) \<and> distinct (map fst (pr_timers p)) \<and>
      (\<forall>x\<in>set (pr_timers p). fst x < pr_handles p) \<and>
      (\<not> settled p \<and> \<not> cancelled p \<longrightarrow> 0 < asking p) \<and> asking p + of_bool (source_open p) \<le> 2)"

lemma next_delay_ok: "delay_ok d \<Longrightarrow> delay_ok (min (js_times d (3 / 2)) 5000)"
proof -
  assume "delay_ok d"
  then have "500 \<le> d * (3 / 2)" by (simp add: delay_ok_def)
  from fl64_mono [OF _ this] have "500 \<le> fl64 (d * (3 / 2))"
    using fl64_of_int [of 500] by (simp add: MAX_SAFE_INTEGER_def)
  then show ?thesis
    by (simp add: delay_ok_def js_times_def)
qed

text \<open>Dropping timers is harmless once the watch has ended.\<close>

lemma clear_poll_timer_simps [simp]:
  "settled (clear_poll_timer p) = settled p" "cancelled (clear_poll_timer p) = cancelled p"
  "source_open (clear_poll_timer p) = source_open p" "pr_polls (clear_poll_timer p) = pr_polls p"
  "poll_delay (clear_poll_timer p) = poll_delay p" "pr_handles (clear_poll_timer p) = pr_handles p"
  "pr_status (clear_poll_timer p) = pr_status p" "pr_sent (clear_poll_timer p) = pr_sent p"
  "pr_stalled (clear_poll_timer p) = pr_stalled p"
  by (simp_all add: clear_poll_timer_def split: option.splits)

lemma clear_poll_timer_timers:
  obtains P where "pr_timers (clear_poll_timer p) = filter P (pr_timers p)"
proof (cases "pollTimer p")
  case None
  then have "pr_timers (clear_poll_timer p) = filter (\<lambda>_. True) (pr_timers p)"
    by (simp add: clear_poll_timer_def)
  then show thesis by (rule that)
next
  case (Some h)
  then have "pr_timers (clear_poll_timer p) = filter (\<lambda>(h', d). h' \<noteq> h) (pr_timers p)"
    by (simp add: clear_poll_timer_def)
  then show thesis by (rule that)
qed

lemma watch_ok_ended:
  assumes "watch_ok p" "pr_timers q = filter P (pr_timers p)" "settled q \<or> cancelled q" "\<not> source_open q"
    and "poll_delay q = poll_delay p" "pr_handles q = pr_handles p" "pr_polls q \<le> pr_polls p"
  shows "watch_ok q"
proof -
  have "length (pr_timers q) \<le> length (pr_timers p)"
    unfolding assms(2) by (rule length_filter_le)
  then have "asking q \<le> 2"
    using assms(1,7) by (simp add: watch_ok_def asking_def)
  with assms show ?thesis
    by (auto simp: watch_ok_def distinct_map_filter)
qed

text \<open>An unsettled payload leaves the watch alone, a terminal one ends it.\<close>

lemma apply_status_cases:
  obtains (same) "apply_status env raw p = p"
  | (news) st re un where "apply_status env raw p = p\<lparr>pr_status := st, pr_reason := re, pr_unavailable := un\<rparr>" "\<not> cancelled p"
  | (last) P where "pr_timers (apply_status env raw p) = filter P (pr_timers p)" "settled (apply_status env raw p)"
      "\<not> source_open (apply_status env raw p)" "poll_delay (apply_status env raw p) = poll_delay p" "\<not> cancelled p"
      "pr_handles (apply_status env raw p) = pr_handles p" "pr_polls (apply_status env raw p) = pr_polls p"
      "pr_sent (apply_status env raw p) = pr_sent p" "cancelled (apply_status env raw p) = cancelled p"
proof (cases "web_parse env OrderStatusResponse (Some raw)")
  case Reject
  then show thesis by (intro same) (simp add: apply_status_def)
next
  case (Accept data)
  let ?p1 = "p\<lparr>pr_status := str_field data ''status'', pr_reason := opt_str_field data ''cancellationReason'',
    pr_unavailable := (case get_prop data ''unavailable'' of Some (JArr us) \<Rightarrow> us | _ \<Rightarrow> [])\<rparr>"
  show thesis
  proof (cases "cancelled p \<or> get_prop data ''terminal'' \<noteq> Some (JBool True)")
    case True
    show thesis
    proof (cases "cancelled p")
      case True
      with Accept show thesis by (intro same) (simp add: apply_status_def)
    next
      case False
      with Accept \<open>cancelled p \<or> get_prop data ''terminal'' \<noteq> Some (JBool True)\<close> have "apply_status env raw p = ?p1"
        by (simp add: apply_status_def Let_def)
      from this False show thesis by (rule news)
    qed
  next
    case False
    define p2 where "p2 = clear_poll_timer (?p1\<lparr>settled := True, source_open := False\<rparr>)"
    obtain P where P: "pr_timers p2 = filter P (pr_timers p)"
      using clear_poll_timer_timers [of "?p1\<lparr>settled := True, source_open := False\<rparr>"] by (auto simp: p2_def)
    have "apply_status env raw p =
        (if str_field data ''status'' = ''CONFIRMED'' then p2\<lparr>pr_refreshes := Suc (pr_refreshes p2)\<rparr> else p2)"
      using Accept False by (simp only: apply_status_def p2_def zres.case Let_def if_True if_False simp_thms de_Morgan_disj not_not)
    moreover have "settled p2" "\<not> source_open p2" "poll_delay p2 = poll_delay p" "pr_handles p2 = pr_handles p"
      "pr_polls p2 = pr_polls p" "pr_sent p2 = pr_sent p" "cancelled p2 = cancelled p"
      by (simp_all add: p2_def)
    ultimately show thesis
      using P False by (intro last [of P]) simp_all
  qed
qed


lemma watch_ok_apply:
  assumes "watch_ok p"
  shows "watch_ok (apply_status env raw p)"
proof (cases rule: apply_status_cases [of env raw p])
  case news
  with assms show ?thesis by (simp add: watch_ok_def asking_def)
next
  case last
  then show ?thesis by (intro watch_ok_ended [OF assms]) simp_all
qed (use assms in simp)

text \<open>A chain that loses its timer or its request starts the other again, unless the watch has ended.\<close>

definition one_short :: "progress \<Rightarrow> bool" where
  "one_short p =
     (delay_ok (poll_delay p) \<and> (\<forall>x\<in>set (pr_timers p). delay_ok (snd x)) \<and> distinct (map fst (pr_timers p)) \<and>
      (\<forall>x\<in>set (pr_timers p). fst x < pr_handles p) \<and> Suc (asking p) + of_bool (source_open p) \<le> 2)"

lemma poll_starts_ok: "one_short p \<Longrightarrow> watch_ok (poll_starts orderId p)"
  by (auto simp: one_short_def watch_ok_def poll_starts_def asking_def)

lemma poll_again_ok: "one_short p \<Longrightarrow> watch_ok (poll_again p)"
  by (auto simp: one_short_def watch_ok_def poll_again_def set_poll_timer_def Let_def next_delay_ok asking_def)

lemma one_short_apply:
  assumes "one_short p"
  shows "one_short (apply_status env raw p)"
proof (cases rule: apply_status_cases [of env raw p])
  case news
  with assms show ?thesis by (simp add: one_short_def asking_def)
next
  case (last P)
  have "asking (apply_status env raw p) \<le> asking p"
    using last(1,7) by (simp add: asking_def)
  then have "Suc (asking (apply_status env raw p)) \<le> 2"
    using assms by (simp add: one_short_def)
  with last assms show ?thesis
    by (auto simp: one_short_def distinct_map_filter)
qed (use assms in simp)

lemma timer_gone:
  assumes "watch_ok p" "h \<in> fst ` set (pr_timers p)"
  shows "one_short (p\<lparr>pr_timers := filter (\<lambda>(h', d). h' \<noteq> h) (pr_timers p)\<rparr>)"
proof -
  have "length (filter (\<lambda>(h', d). h' \<noteq> h) (pr_timers p)) < length (pr_timers p)"
    using assms(2) by (auto intro!: length_filter_less)
  with assms(1) show ?thesis
    by (auto simp: one_short_def watch_ok_def asking_def distinct_map_filter)
qed

lemma watch_ok_event:
  assumes "watch_ok p"
  shows "watch_ok (progress_event env orderId e p)"
proof (cases e)
  case (TimerFires h)
  then show ?thesis
    using assms timer_gone [OF assms] by (simp add: poll_starts_ok)
next
  case (PollAnswered reply)
  have "one_short (p\<lparr>pr_polls := pr_polls p - 1\<rparr>)" if "0 < pr_polls p"
    using assms that by (auto simp: one_short_def watch_ok_def asking_def)
  then show ?thesis
    using PollAnswered assms
    by (auto simp: poll_answered_def Let_def poll_again_ok one_short_apply split: fetch_reply.split body.split)
next
  case (StreamFrame b)
  then show ?thesis
    using assms watch_ok_apply by (cases b) auto
next
  case StreamError
  have "one_short (p\<lparr>source_open := False\<rparr>)" if "source_open p"
    using assms that by (simp add: one_short_def watch_ok_def asking_def)
  moreover have "watch_ok (p\<lparr>source_open := False\<rparr>)" if "settled p"
    using assms that by (auto simp: watch_ok_def asking_def)
  ultimately show ?thesis
    using StreamError assms by (auto simp: stream_error_def Let_def poll_starts_ok)
next
  case StallFires
  then show ?thesis
    using assms by (auto simp: stall_fires_def Let_def watch_ok_def asking_def)
next
  case Unmounts
  obtain P where "pr_timers (unmounts p) = filter P (pr_timers (p\<lparr>cancelled := True, source_open := False, stall_timer := False\<rparr>))"
    unfolding unmounts_def by (rule clear_poll_timer_timers)
  then show ?thesis
    using Unmounts by (intro watch_ok_ended [OF assms]) (simp_all add: unmounts_def)
qed

interpretation watching: event_machine "progress_event env orderId" watch_ok for env :: "'w web_env" and orderId
  by unfold_locales (rule watch_ok_event)

lemma watch_ok_watch: "watch_ok p \<Longrightarrow> watch_ok (watch env orderId es p)"
  unfolding watch_def by (rule watching.run_inv)

lemma watch_ok_mounts: "watch_ok (mounts has_EventSource initialStatus)"
  by (simp add: watch_ok_def mounts_def set_poll_timer_def delay_ok_def asking_def Let_def)

section \<open>Properties\<close>

text \<open>C24: Whatever the stream, the network and the timers do, an order that has not settled is asked about
  again as long as the page is open: a request is in flight or a timer for the next one is set, at most
  five seconds ahead and never below half a second. A broken stream adds one chain of requests and no more.\<close>

theorem open_page_keeps_asking:
  "let p = watch env orderId es (mounts has_EventSource initialStatus)
   in (settled p \<or> cancelled p \<or> 0 < pr_polls p \<or> pr_timers p \<noteq> []) \<and>
      (\<forall>(h, d)\<in>set (pr_timers p). 500 \<le> d \<and> d \<le> 5000) \<and> length (pr_timers p) + pr_polls p \<le> 2"
  using watch_ok_watch [OF watch_ok_mounts, of env orderId es has_EventSource initialStatus]
  by (auto simp: watch_ok_def asking_def delay_ok_def Let_def)

theorem open_page_keeps_asking_witness:
  "let p = watch scripted_env ''ord_1'' [StreamError, TimerFires 0, PollAnswered (NetworkError ''reset'')] (mounts True ''PENDING'')
   in (settled p \<or> cancelled p \<or> 0 < pr_polls p \<or> pr_timers p \<noteq> []) \<and> length (pr_timers p) + pr_polls p \<le> 2"
  using open_page_keeps_asking [of scripted_env "''ord_1''" "[StreamError, TimerFires 0, PollAnswered (NetworkError ''reset'')]" True "''PENDING''"]
  by (auto simp only: Let_def)

text \<open>Once the order has settled or the page is closed, no further request is sent; a closed page also shows nothing new.\<close>

lemma ended_event:
  assumes "settled p \<or> cancelled p"
  shows "pr_sent (progress_event env orderId e p) = pr_sent p"
    "settled (progress_event env orderId e p) \<or> cancelled (progress_event env orderId e p)"
proof -
  have same: "pr_sent (apply_status env raw q) = pr_sent q \<and> (settled (apply_status env raw q) \<or> cancelled (apply_status env raw q))"
    if "settled q \<or> cancelled q" for raw q
    using that by (cases rule: apply_status_cases [of env raw q]) auto
  have "pr_sent (progress_event env orderId e p) = pr_sent p \<and>
      (settled (progress_event env orderId e p) \<or> cancelled (progress_event env orderId e p))"
  proof (cases e)
    case (PollAnswered reply)
    then show ?thesis
      using assms same [of "p\<lparr>pr_polls := pr_polls p - 1\<rparr>"]
      by (auto simp: poll_answered_def poll_again_def Let_def split: fetch_reply.split body.split)
  next
    case (StreamFrame b)
    then show ?thesis using assms same by (cases b) auto
  qed (use assms in \<open>auto simp: poll_starts_def stream_error_def stall_fires_def unmounts_def Let_def\<close>)
  then show "pr_sent (progress_event env orderId e p) = pr_sent p"
    "settled (progress_event env orderId e p) \<or> cancelled (progress_event env orderId e p)"
    by auto
qed

interpretation ended: quiet_machine "progress_event env orderId" "\<lambda>p. settled p \<or> cancelled p" pr_sent for env :: "'w web_env" and orderId
  by unfold_locales (simp_all only: ended_event simp_thms)

theorem ended_watch_sends_nothing:
  assumes "settled p \<or> cancelled p"
  shows "pr_sent (watch env orderId es p) = pr_sent p"
  using assms unfolding watch_def by (rule ended.run_view)

text \<open>With no timer, no request and no stream left, a settled page stays as it is.\<close>

definition at_rest :: "progress \<Rightarrow> bool" where
  "at_rest p = (settled p \<and> pr_timers p = [] \<and> pr_polls p = 0 \<and> \<not> source_open p)"

lemma at_rest_event:
  assumes "at_rest p"
  shows "at_rest (progress_event env orderId e p)" "pr_status (progress_event env orderId e p) = pr_status p"
    "pr_stalled (progress_event env orderId e p) = pr_stalled p"
proof -
  obtain P where P: "pr_timers (unmounts p) = filter P (pr_timers (p\<lparr>cancelled := True, source_open := False, stall_timer := False\<rparr>))"
    unfolding unmounts_def by (rule clear_poll_timer_timers)
  have "at_rest (progress_event env orderId e p) \<and> pr_status (progress_event env orderId e p) = pr_status p \<and>
      pr_stalled (progress_event env orderId e p) = pr_stalled p"
  proof (cases e)
    case (StreamFrame b)
    then show ?thesis using assms by (cases b) (auto simp: at_rest_def)
  next
    case Unmounts
    then show ?thesis using assms P by (auto simp: at_rest_def) (simp_all add: unmounts_def)
  qed (use assms in \<open>auto simp: at_rest_def stall_fires_def Let_def\<close>)
  then show "at_rest (progress_event env orderId e p)" "pr_status (progress_event env orderId e p) = pr_status p"
    "pr_stalled (progress_event env orderId e p) = pr_stalled p"
    by auto
qed

interpretation resting: quiet_machine "progress_event env orderId" at_rest "\<lambda>p. (pr_status p, pr_stalled p)" for env :: "'w web_env" and orderId
  by unfold_locales (simp_all add: at_rest_event)

lemma at_rest_watch:
  "at_rest p \<Longrightarrow> at_rest (watch env orderId es p) \<and> pr_status (watch env orderId es p) = pr_status p \<and>
     pr_stalled (watch env orderId es p) = pr_stalled p"
  using resting.run_inv [of p env orderId es] resting.run_view [of p env orderId es] unfolding watch_def by auto

lemma watch_append: "watch env orderId (es @ fs) p = watch env orderId fs (watch env orderId es p)"
  by (simp add: watch_def)

text \<open>What a page at rest shows.\<close>

lemma resting_panel:
  assumes "at_rest p" "\<not> pr_stalled p" "pr_status p \<notin> {''CANCELLED'', ''CONFIRMED'', ''COMPENSATING''}"
  shows "settled (watch env orderId es p) \<and> progress_panel (watch env orderId es p) =
    ProgressPanel ''Placing your order'' ''This usually takes a couple of seconds. Please do not close this page.''
      (step_marks (pr_status p)) False"
  using at_rest_watch [OF assms(1), of env orderId es] assms(2,3) by (simp add: progress_panel_def at_rest_def Let_def)

text \<open>An answer that was overtaken reopens a finished order. When the stream reports a terminal status while
  a poll is in flight, the poll's older answer is still applied; the watch has ended by then, so the page
  says that the order is being placed and nothing ever corrects it.\<close>

theorem late_poll_reopens_order:
  assumes "web_parse env OrderStatusResponse (Some j1) = Accept d1" "get_prop d1 ''terminal'' = Some (JBool True)"
    and "web_parse env OrderStatusResponse (Some j2) = Accept d2" "get_prop d2 ''terminal'' \<noteq> Some (JBool True)"
    and "str_field d2 ''status'' \<notin> {''CANCELLED'', ''CONFIRMED'', ''COMPENSATING''}"
  shows "let p = watch env orderId
      ([TimerFires 0, StreamFrame (Json j1), PollAnswered (Response 200 None (Json j2))] @ es) (mounts True ''PENDING'')
    in settled p \<and> progress_panel p =
      ProgressPanel ''Placing your order'' ''This usually takes a couple of seconds. Please do not close this page.''
        (step_marks (str_field d2 ''status'')) False"
proof -
  let ?q = "watch env orderId [TimerFires 0, StreamFrame (Json j1), PollAnswered (Response 200 None (Json j2))] (mounts True ''PENDING'')"
  have "at_rest ?q \<and> \<not> pr_stalled ?q \<and> pr_status ?q = str_field d2 ''status''"
    using assms(1-4)
    by (simp add: watch_def mounts_def set_poll_timer_def isTerminal_def poll_starts_def apply_status_def clear_poll_timer_def
        poll_answered_def poll_again_def response_is_ok_def at_rest_def Let_def)
  then show ?thesis
    using resting_panel [of ?q env orderId es] assms(5) unfolding watch_append Let_def by simp
qed

definition order_status :: "string \<Rightarrow> bool \<Rightarrow> json" where
  "order_status status terminal = JObj
     [(''orderId'', JStr ''ord_01ARZ3NDEKTSV4RRFFQ69G5FAV''), (''status'', JStr status), (''terminal'', JBool terminal),
      (''cancellationReason'', JNull), (''updatedAt'', JStr ''2023-11-14T22:13:20Z'')]"

lemma order_status_accepted:
  "web_parse scripted_env OrderStatusResponse (Some (order_status ''CONFIRMED'' True)) = Accept (Some (order_status ''CONFIRMED'' True))"
  "web_parse scripted_env OrderStatusResponse (Some (order_status ''PAID'' False)) = Accept (Some (order_status ''PAID'' False))"
  "web_parse scripted_env OrderStatusResponse (Some (order_status ''SHIPPED'' True)) = Accept (Some (order_status ''SHIPPED'' True))"
  by code_simp+

lemma order_status_fields:
  "get_prop (Some (order_status st b)) ''terminal'' = Some (JBool b)" "str_field (Some (order_status st b)) ''status'' = st"
  by (simp_all add: order_status_def get_prop_def lookup_def str_field_def)

theorem late_poll_reopens_order_witness:
  "let p = watch scripted_env ''ord'' [TimerFires 0, StreamFrame (Json (order_status ''CONFIRMED'' True)),
      PollAnswered (Response 200 None (Json (order_status ''PAID'' False))), StallFires] (mounts True ''PENDING'')
   in settled p \<and> progress_panel p =
      ProgressPanel ''Placing your order'' ''This usually takes a couple of seconds. Please do not close this page.''
        (step_marks ''PAID'') False"
  using late_poll_reopens_order [OF order_status_accepted(1) order_status_fields(1) order_status_accepted(2), of "''ord''" "[StallFires]"]
  by (simp add: order_status_fields)

text \<open>An order that has left the warehouse is terminal but has no panel of its own: opening its page shows it
  as being placed, at the first step, for good.\<close>

theorem shipped_order_shown_as_placing:
  assumes "web_parse env OrderStatusResponse (Some j) = Accept d" "get_prop d ''terminal'' = Some (JBool True)"
    and "str_field d ''status'' \<in> {''SHIPPED'', ''DELIVERED'', ''REFUNDED''}"
  shows "let p = watch env orderId ([TimerFires 0, PollAnswered (Response 200 None (Json j))] @ es) (mounts has_EventSource ''PENDING'')
    in settled p \<and> progress_panel p =
      ProgressPanel ''Placing your order'' ''This usually takes a couple of seconds. Please do not close this page.''
        (step_marks ''PENDING'') False"
proof -
  let ?q = "watch env orderId [TimerFires 0, PollAnswered (Response 200 None (Json j))] (mounts has_EventSource ''PENDING'')"
  have "at_rest ?q \<and> \<not> pr_stalled ?q \<and> pr_status ?q = str_field d ''status''"
    using assms(1,2)
    by (simp add: watch_def mounts_def set_poll_timer_def isTerminal_def poll_starts_def apply_status_def clear_poll_timer_def
        poll_answered_def poll_again_def response_is_ok_def at_rest_def Let_def)
  moreover have "step_marks (str_field d ''status'') = step_marks ''PENDING''"
    using assms(3) by (auto simp: step_marks_def stepIndex_def STEPS_def)
  ultimately show ?thesis
    using resting_panel [of ?q env orderId es] assms(3) unfolding watch_append Let_def by auto
qed


theorem shipped_order_shown_as_placing_witness:
  "let p = watch scripted_env ''ord'' [TimerFires 0, PollAnswered (Response 200 None (Json (order_status ''SHIPPED'' True)))]
      (mounts True ''PENDING'')
   in settled p \<and> progress_panel p =
      ProgressPanel ''Placing your order'' ''This usually takes a couple of seconds. Please do not close this page.''
        (step_marks ''PENDING'') False"
  using shipped_order_shown_as_placing [OF order_status_accepted(3) order_status_fields(1), of "''ord''" "[]" True]
  by (simp add: order_status_fields)

end
