(* ===== verification/Search_Box.thy ===== *)
theory Search_Box
  imports Api_Client Event_Machine Product_Cards
begin

text \<open>
  The search box with type-ahead (\<^verbatim>\<open>components/layout/search-box.tsx\<close>). Each run of its effect has a number, which stands for the
  timer and the abort controller it creates; a timer or a request carries the number of the run and the query it closes over.
  The effect runs again when the value changes; its cleanup clears the timer and aborts the requests of its own
  controller, and an aborted request settles before anything else happens on the page, as a rejection.
  \<open>run_box\<close> lets keystrokes, the timer and the answers happen in any order.

  The lemmas show the invariant \<open>box_ok\<close>: whatever is still under way was asked for what the box holds now, there is at most one
  request, and the spinner turns exactly while there is one. So an answer that comes late is never shown for another query.
\<close>

section \<open>State\<close>

record search_box =
  sb_value :: string
  sb_suggestions :: "json list"
  sb_open :: bool
  sb_loading :: bool
  sb_run :: nat
  sb_timers :: "(nat \<times> string) list"
  sb_inflight :: "(nat \<times> string) list"
  sb_sent :: "sent list"
  sb_pushed :: "string list"

definition suggest_options :: api_options where
  "suggest_options = \<lparr>ao_schema = SuggestResponse, ao_method = None, ao_body = None, ao_idempotencyKey = None\<rparr>"

definition suggest_request :: "string \<Rightarrow> sent" where
  "suggest_request query = api_request (''/api/bff/suggest?q='' @ encodeURIComponent query) suggest_options"

section \<open>The effect\<close>

text \<open>\<^verbatim>\<open>.then\<close>, \<^verbatim>\<open>.catch\<close> and \<^verbatim>\<open>.finally\<close> of the request.\<close>

definition suggest_settles :: "'w web_env \<Rightarrow> fetch_reply \<Rightarrow> search_box \<Rightarrow> search_box" where
  "suggest_settles env reply s =
     (case api_received env SuggestResponse reply of
        Inr data \<Rightarrow> s\<lparr>sb_suggestions := list_field data ''suggestions'', sb_open := (list_field data ''suggestions'' \<noteq> [])\<rparr>
      | Inl _ \<Rightarrow> s\<lparr>sb_suggestions := []\<rparr>)\<lparr>sb_loading := False\<rparr>"

definition effect_cleanup :: "'w web_env \<Rightarrow> search_box \<Rightarrow> search_box" where
  "effect_cleanup env s =
     (let aborted = filter (\<lambda>(n, q). n = sb_run s) (sb_inflight s)
      in fold (\<lambda>_. suggest_settles env Aborted) aborted
           (s\<lparr>sb_timers := filter (\<lambda>(n, q). n \<noteq> sb_run s) (sb_timers s),
              sb_inflight := filter (\<lambda>(n, q). n \<noteq> sb_run s) (sb_inflight s)\<rparr>))"

definition effect_body :: "search_box \<Rightarrow> search_box" where
  "effect_body s =
     (let query = trim (sb_value s); n = Suc (sb_run s)
      in if length query < 2 then s\<lparr>sb_run := n, sb_suggestions := [], sb_loading := False\<rparr>
         else s\<lparr>sb_run := n, sb_timers := sb_timers s @ [(n, query)]\<rparr>)"

definition set_value :: "'w web_env \<Rightarrow> string \<Rightarrow> search_box \<Rightarrow> search_box" where
  "set_value env v s = (if v = sb_value s then s else effect_body (effect_cleanup env (s\<lparr>sb_value := v\<rparr>)))"

definition timer_fires :: "nat \<Rightarrow> search_box \<Rightarrow> search_box" where
  "timer_fires n s =
     (case map_of (sb_timers s) n of
        None \<Rightarrow> s
      | Some query \<Rightarrow>
          s\<lparr>sb_timers := filter (\<lambda>(m, q). m \<noteq> n) (sb_timers s), sb_loading := True,
            sb_inflight := sb_inflight s @ [(n, query)], sb_sent := suggest_request query # sb_sent s\<rparr>)"

definition suggest_answered :: "'w web_env \<Rightarrow> nat \<Rightarrow> fetch_reply \<Rightarrow> search_box \<Rightarrow> search_box" where
  "suggest_answered env n reply s =
     (if n \<in> fst ` set (sb_inflight s)
      then suggest_settles env reply (s\<lparr>sb_inflight := filter (\<lambda>(m, q). m \<noteq> n) (sb_inflight s)\<rparr>)
      else s)"

section \<open>The other handlers\<close>

definition box_clear :: "'w web_env \<Rightarrow> search_box \<Rightarrow> search_box" where
  "box_clear env s =
     (if \<not> sb_loading s \<and> sb_value s \<noteq> [] then set_value env [] (s\<lparr>sb_suggestions := []\<rparr>) else s)"

definition box_submit :: "search_box \<Rightarrow> search_box" where
  "box_submit s =
     (let query = trim (sb_value s)
      in s\<lparr>sb_open := False,
           sb_pushed := (if query \<noteq> [] then ''/search?q='' @ encodeURIComponent query else ''/search'') # sb_pushed s\<rparr>)"

definition box_focus :: "search_box \<Rightarrow> search_box" where
  "box_focus s = (if sb_suggestions s \<noteq> [] then s\<lparr>sb_open := True\<rparr> else s)"

text \<open>A click outside, the escape key and a followed suggestion close the list.\<close>

definition box_close :: "search_box \<Rightarrow> search_box" where
  "box_close s = s\<lparr>sb_open := False\<rparr>"

definition suggestion_href :: "json \<Rightarrow> string" where
  "suggestion_href suggestion =
     (if str_field (Some suggestion) ''type'' = ''product'' \<and> str_field (Some suggestion) ''productId'' \<noteq> []
      then ''/products/'' @ str_field (Some suggestion) ''productId''
      else ''/search?q='' @ encodeURIComponent (str_field (Some suggestion) ''text''))"

definition shown_suggestions :: "search_box \<Rightarrow> (string \<times> string \<times> string option) list" where
  "shown_suggestions s =
     (if sb_open s
      then map (\<lambda>g. (suggestion_href g, str_field (Some g) ''text'',
                     if str_field (Some g) ''type'' \<noteq> ''query'' then Some (str_field (Some g) ''type'') else None))
             (take 8 (sb_suggestions s))
      else [])"

section \<open>Runs\<close>

definition box_mounts :: "string \<Rightarrow> search_box" where
  "box_mounts q =
     effect_body \<lparr>sb_value = q, sb_suggestions = [], sb_open = False, sb_loading = False, sb_run = 0, sb_timers = [], sb_inflight = [],
                  sb_sent = [], sb_pushed = []\<rparr>"

datatype box_happening =
    BoxTyped string
  | BoxUrl string
  | BoxTimer nat
  | BoxAnswer nat fetch_reply
  | BoxClear
  | BoxSubmit
  | BoxFocus
  | BoxClose

fun box_event :: "'w web_env \<Rightarrow> box_happening \<Rightarrow> search_box \<Rightarrow> search_box" where
  "box_event env (BoxTyped v) = set_value env v"
| "box_event env (BoxUrl q) = set_value env q"
| "box_event env (BoxTimer n) = timer_fires n"
| "box_event env (BoxAnswer n reply) = suggest_answered env n reply"
| "box_event env BoxClear = box_clear env"
| "box_event env BoxSubmit = box_submit"
| "box_event env BoxFocus = box_focus"
| "box_event env BoxClose = box_close"

definition run_box :: "'w web_env \<Rightarrow> string \<Rightarrow> box_happening list \<Rightarrow> search_box" where
  "run_box env q es = fold (box_event env) es (box_mounts q)"

section \<open>The invariant\<close>

definition box_ok :: "search_box \<Rightarrow> bool" where
  "box_ok s =
     ((\<forall>x\<in>set (sb_timers s @ sb_inflight s). x = (sb_run s, trim (sb_value s)) \<and> 2 \<le> length (trim (sb_value s))) \<and>
      length (sb_timers s @ sb_inflight s) \<le> 1 \<and>
      (sb_loading s \<longleftrightarrow> sb_inflight s \<noteq> []) \<and>
      (length (trim (sb_value s)) < 2 \<longrightarrow> sb_suggestions s = []))"

lemma settles_fields [simp]:
  "sb_value (suggest_settles env reply s) = sb_value s" "sb_run (suggest_settles env reply s) = sb_run s"
  "sb_timers (suggest_settles env reply s) = sb_timers s" "sb_inflight (suggest_settles env reply s) = sb_inflight s"
  "sb_loading (suggest_settles env reply s) = False" "sb_sent (suggest_settles env reply s) = sb_sent s"
  by (simp_all add: suggest_settles_def split: sum.split)

text \<open>The list an answer leaves behind.\<close>

definition answer_list :: "'w web_env \<Rightarrow> fetch_reply \<Rightarrow> json list" where
  "answer_list env reply =
     (case api_received env SuggestResponse reply of Inr data \<Rightarrow> list_field data ''suggestions'' | Inl _ \<Rightarrow> [])"

lemma settles_suggestions [simp]: "sb_suggestions (suggest_settles env reply s) = answer_list env reply"
  by (simp add: suggest_settles_def answer_list_def split: sum.split)

lemma answer_list_aborted [simp]: "answer_list env Aborted = []"
  by (simp add: answer_list_def api_received_def)

text \<open>Of what is under way there is nothing, a timer, or a request.\<close>

lemma box_ok_cases:
  assumes "box_ok s"
  obtains (idle) "sb_timers s = []" "sb_inflight s = []" "\<not> sb_loading s"
  | (armed) "sb_timers s = [(sb_run s, trim (sb_value s))]" "sb_inflight s = []" "\<not> sb_loading s" "2 \<le> length (trim (sb_value s))"
  | (asking) "sb_timers s = []" "sb_inflight s = [(sb_run s, trim (sb_value s))]" "sb_loading s" "2 \<le> length (trim (sb_value s))"
proof (cases "sb_timers s")
  case Nil
  then show thesis
    using assms idle asking by (cases "sb_inflight s") (auto simp: box_ok_def)
next
  case (Cons t ts)
  then show thesis
    using assms armed by (auto simp: box_ok_def)
qed

lemma set_value_ok:
  assumes "box_ok s"
  shows "box_ok (set_value env v s)"
  using assms
  by (cases rule: box_ok_cases [OF assms])
     (auto simp: set_value_def effect_cleanup_def effect_body_def Let_def box_ok_def)

lemma box_step_ok:
  assumes "box_ok s"
  shows "box_ok (box_event env e s)"
proof (cases e)
  case (BoxTyped v)
  then show ?thesis using assms by (simp add: set_value_ok)
next
  case (BoxUrl q)
  then show ?thesis using assms by (simp add: set_value_ok)
next
  case (BoxTimer n)
  show ?thesis
    using assms by (cases rule: box_ok_cases [OF assms]) (auto simp: BoxTimer timer_fires_def box_ok_def)
next
  case (BoxAnswer n reply)
  show ?thesis
    using assms by (cases rule: box_ok_cases [OF assms]) (auto simp: BoxAnswer suggest_answered_def box_ok_def)
next
  case BoxClear
  have "box_ok (s\<lparr>sb_suggestions := []\<rparr>)" using assms by (simp add: box_ok_def)
  then show ?thesis using assms by (simp add: BoxClear box_clear_def set_value_ok)
qed (use assms in \<open>auto simp: box_submit_def box_focus_def box_close_def Let_def box_ok_def\<close>)

interpretation box: event_machine "box_event env" box_ok for env
  by unfold_locales (rule box_step_ok)

lemma box_mounts_ok: "box_ok (box_mounts q)"
  by (simp add: box_mounts_def effect_body_def Let_def box_ok_def)

lemma run_box_ok: "box_ok (run_box env q es)"
  unfolding run_box_def by (rule box.run_inv [OF box_mounts_ok])

text \<open>C14: However typing, timers and answers interleave, an answer is shown only if it answers the only request still out, and
  that request was made for exactly what the box holds; any other answer changes nothing. The spinner turns exactly
  while a request is out, and below two characters the box offers nothing.\<close>

theorem suggestions_fit_the_box:
  "let s = run_box env url es; s' = box_event env (BoxAnswer n reply) s
   in (s' = s \<or> sb_inflight s = [(n, trim (sb_value s))] \<and> sb_inflight s' = [] \<and> sb_suggestions s' = answer_list env reply) \<and>
      (sb_loading s = (sb_inflight s \<noteq> [])) \<and>
      (if length (trim (sb_value s)) < 2 then shown_suggestions s = [] \<and> sb_inflight s = [] else True)"
proof -
  let ?s = "run_box env url es"
  have ok: "box_ok ?s" by (rule run_box_ok)
  then show ?thesis
    by (cases rule: box_ok_cases [OF ok])
       (auto simp: Let_def suggest_answered_def shown_suggestions_def box_ok_def)
qed

text \<open>The box also gets there: from any state, a new query of two characters or more, its timer and the answer leave exactly
  the answered suggestions.\<close>

theorem box_reaches_answer:
  assumes "v \<noteq> sb_value (run_box env url es)" "2 \<le> length (trim v)"
  shows "\<exists>n. (let s = run_box env url (es @ [BoxTyped v, BoxTimer n, BoxAnswer n reply])
    in hd (sb_sent s) = suggest_request (trim v) \<and> sb_suggestions s = answer_list env reply \<and> \<not> sb_loading s)"
proof -
  let ?s = "run_box env url es"
  have ok: "box_ok ?s" by (rule run_box_ok)
  let ?t = "set_value env v ?s"
  have t: "sb_timers ?t = [(sb_run ?t, trim v)]" "sb_inflight ?t = []"
    using assms by (cases rule: box_ok_cases [OF ok]; simp add: set_value_def effect_cleanup_def effect_body_def Let_def)+
  show ?thesis
    by (rule exI [of _ "sb_run ?t"]) (simp add: run_box_def [of env url "es @ _"] t timer_fires_def suggest_answered_def Let_def flip: run_box_def)
qed

end
