(* ===== verification/Storefront_Pages.thy ===== *)
theory Storefront_Pages
  imports Search_Page Api_Client
begin

text \<open>
  The server-rendered pages \<^verbatim>\<open>app/page.tsx\<close> and \<^verbatim>\<open>app/products/[slug]/page.tsx\<close>: which services they ask, what
  they make of a failure, and what they show. A section that renders nothing is \<open>None\<close>. Each section runs against the network on its
  own, as its \<^verbatim>\<open>Suspense\<close> boundary does.

  The strip of recommended products is written twice in the sources, on the home page and on the product page;
  the locale \<open>ranked_strip\<close> states what both have in common and its lemmas hold for both: the strip never fails, and
  it shows in the recommender's order exactly the recommended products the catalogue knows.
\<close>

section \<open>Optional calls\<close>

definition settled :: "('s, 'e, 'a) act \<Rightarrow> ('s, 'f, 'e + 'a) act" where
  "settled m s = (case m s of (r, s') \<Rightarrow> (Inr r, s'))"

text \<open>\<^verbatim>\<open>const { key } = await gather([], { key: call(opts) })\<close>\<close>

definition gathered :: "'w web_env \<Rightarrow> string \<Rightarrow> call_options \<Rightarrow> (('w, 'm) net_scheme, thrown, json option) act" where
  "gathered env key opts =
     and_then (settled (call env opts)) (\<lambda>r.
     and_then (lift_sum (gather [] [(key, r)])) (\<lambda>out.
     ret (case map_of out key of Some (Some v) \<Rightarrow> v | _ \<Rightarrow> None)))"

text \<open>\<^verbatim>\<open>new Map(products.map((p) => [p.id, p]))\<close> and the walk over the ranked ids.\<close>

definition by_id :: "json list \<Rightarrow> string \<rightharpoonup> json" where
  "by_id products = map_of (rev (map (\<lambda>p. (str_field (Some p) ''id'', p)) products))"

definition ordered :: "string list \<Rightarrow> json list \<Rightarrow> json list" where
  "ordered ids products = List.map_filter (by_id products) ids"

definition batch_options :: "string list \<Rightarrow> nat \<Rightarrow> call_options" where
  "batch_options ids seconds =
     (plain_call SvcCatalog (''/v1/products/batch?ids='' @ join_commas (map encodeURIComponent ids)) (z_array Product))
       \<lparr>co_revalidate := Some seconds\<rparr>"

definition recommended_ids :: "json option \<Rightarrow> string list" where
  "recommended_ids recommendations = map (\<lambda>i. str_field (Some i) ''productId'') (list_field recommendations ''items'')"

definition json_list :: "json option \<Rightarrow> json list" where
  "json_list v = (case v of Some (JArr js) \<Rightarrow> js | _ \<Rightarrow> [])"

section \<open>app/page.tsx\<close>

definition home_recommendations :: call_options where
  "home_recommendations =
     (plain_call SvcRecommendation ''/v1/recommendations?placement=home_for_you&count=10'' RecommendationResponse)
       \<lparr>co_revalidate := Some 60\<rparr>"

record strip =
  st_title :: string
  st_href :: "string option"
  st_cards :: "(ProductCardItem \<times> bool) list"

definition first_five :: "ProductCardItem list \<Rightarrow> (ProductCardItem \<times> bool) list" where
  "first_five items = map (\<lambda>(i, item). (item, i < 5)) (enumerate 0 items)"

definition RecommendedStrip :: "'w web_env \<Rightarrow> (('w, 'm) net_scheme, thrown, strip option) act" where
  "RecommendedStrip env =
     and_then (gathered env ''recommendations'' home_recommendations) (\<lambda>recommendations.
     if recommended_ids recommendations = [] then ret None
     else and_then (gathered env ''products'' (batch_options (recommended_ids recommendations) 60)) (\<lambda>products.
     if json_list products = [] then ret None
     else let shown = ordered (recommended_ids recommendations) (json_list products)
          in if shown = [] then ret None
             else ret (Some \<lparr>st_title = (if bool_field recommendations ''fallback'' then ''Popular right now'' else ''Recommended for you''),
                             st_href = Some ''/search'', st_cards = first_five (map fromProduct shown)\<rparr>)))"

definition newest_options :: call_options where
  "newest_options = (plain_call SvcSearch ''/v1/search?q=&sort=newest&size=10'' SearchResponse)\<lparr>co_revalidate := Some 300\<rparr>"

definition NewArrivalsStrip :: "'w web_env \<Rightarrow> (('w, 'm) net_scheme, thrown, strip option) act" where
  "NewArrivalsStrip env =
     and_then (gathered env ''results'' newest_options) (\<lambda>results.
     if list_field results ''hits'' = [] then ret None
     else ret (Some \<lparr>st_title = ''New arrivals'', st_href = Some ''/search?sort=newest'',
                     st_cards = map (\<lambda>hit. (fromSearchHit hit, False)) (list_field results ''hits'')\<rparr>))"

definition category_options :: call_options where
  "category_options =
     (plain_call SvcCatalog ''/v1/categories'' (z_array Category))\<lparr>co_revalidate := Some 600, co_tags := Some [''categories'']\<rparr>"

definition category_root :: "json \<Rightarrow> bool" where
  "category_root c = (length (list_field (Some c) ''path'') = 1 \<and> 0 < num_field (Some c) ''productCount'')"

definition CategoryTiles :: "'w web_env \<Rightarrow> (rat \<Rightarrow> string) \<Rightarrow> (('w, 'm) net_scheme, thrown, (string \<times> string \<times> string) list option) act" where
  "CategoryTiles env to_locale =
     and_then (gathered env ''categories'' category_options) (\<lambda>categories.
     let roots = filter category_root (json_list categories)
     in if roots = [] then ret None
        else ret (Some (map (\<lambda>c. (''/search?category='' @ str_field (Some c) ''slug'', str_field (Some c) ''name'',
                                  to_locale (num_field (Some c) ''productCount'') @ '' items'')) roots)))"

section \<open>app/products/[slug]/page.tsx\<close>

text \<open>What leaves the page: Next.js's not-found signal, or an error for the error boundary.\<close>

datatype page_thrown = NotFoundPage | Boundary thrown

definition product_options :: "string \<Rightarrow> call_options" where
  "product_options slug =
     (plain_call SvcCatalog (''/v1/products/'' @ encodeURIComponent slug) Product)
       \<lparr>co_revalidate := Some 60, co_tags := Some [''product:'' @ slug]\<rparr>"

definition loadProduct :: "'w web_env \<Rightarrow> string \<Rightarrow> (('w, 'm) net_scheme, page_thrown, json option) act" where
  "loadProduct env slug =
     attempt (call env (product_options slug))
       (\<lambda>error. case error of
                  Bff e \<Rightarrow> if be_status e = 404 then raise NotFoundPage else raise (Boundary error)
                | _ \<Rightarrow> raise (Boundary error))"

definition not_gone :: "json \<Rightarrow> bool" where
  "not_gone v = (get_prop (Some v) ''available'' \<noteq> Some (JNum 0))"

definition metadata_primary :: "json list \<Rightarrow> json option" where
  "metadata_primary variants = (case find not_gone variants of Some v \<Rightarrow> Some v | None \<Rightarrow> first_of variants)"

record metadata =
  md_title :: string
  md_description :: "string option"
  md_canonical :: "string option"
  md_index :: "bool option"
  md_image :: "string option"
  md_price :: "(string \<times> string) option"

definition product_metadata :: "(rat \<Rightarrow> string) \<Rightarrow> json option \<Rightarrow> metadata" where
  "product_metadata number_text product =
     \<lparr>md_title = str_field product ''title'',
      md_description = Some (take 160 (str_field product ''description'')),
      md_canonical = Some (''/products/'' @ str_field product ''slug''),
      md_index = Some (str_field product ''status'' = ''ACTIVE''),
      md_image = map_option (\<lambda>i. str_field (Some i) ''url'') (first_of (list_field product ''images'')),
      md_price = map_option (\<lambda>v. (number_text (js_div (price_amount v) 100), str_field (get_prop (Some v) ''price'') ''currency''))
        (metadata_primary (list_field product ''variants''))\<rparr>"

definition generateMetadata ::
  "'w web_env \<Rightarrow> (rat \<Rightarrow> string) \<Rightarrow> string \<Rightarrow> (('w, 'm) net_scheme, page_thrown, metadata) act" where
  "generateMetadata env number_text slug =
     attempt (and_then (loadProduct env slug) (\<lambda>product. ret (product_metadata number_text product)))
       (\<lambda>_. ret \<lparr>md_title = ''Product'', md_description = None, md_canonical = None, md_index = None, md_image = None, md_price = None\<rparr>)"

datatype buy_box = Picker "json list" | AddToCart string "json option" | NoBuyBox

definition product_primary :: "json option \<Rightarrow> json option" where
  "product_primary product = cheapest (list_field product ''variants'')"

definition buy_box_of :: "json option \<Rightarrow> buy_box" where
  "buy_box_of product =
     (if 1 < length (list_field product ''variants'') then Picker (list_field product ''variants'')
      else case product_primary product of
             Some v \<Rightarrow> AddToCart (str_field (Some v) ''sku'') (get_prop (Some v) ''available'')
           | None \<Rightarrow> NoBuyBox)"

definition gallery_images :: "json option \<Rightarrow> json list" where
  "gallery_images product =
     (if list_field product ''images'' \<noteq> [] then list_field product ''images''
      else list_field (product_primary product) ''images'')"

text \<open>The source and the alternative text of each picture, the large one first.\<close>

definition Gallery :: "json list \<Rightarrow> string \<Rightarrow> (string \<times> string) option \<times> (string \<times> string) list" where
  "Gallery images title =
     (map_option (\<lambda>i. (str_field (Some i) ''url'', if str_field (Some i) ''alt'' \<noteq> [] then str_field (Some i) ''alt'' else title))
        (first_of images),
      (if 1 < length images
       then map (\<lambda>(n, i). (str_field (Some i) ''url'',
                  if str_field (Some i) ''alt'' \<noteq> [] then str_field (Some i) ''alt''
                  else title @ '' '' @ em_dash @ '' view '' @ show_nat (n + 1)))
              (enumerate 0 (take 5 images))
       else []))"

definition Breadcrumbs :: "string list \<Rightarrow> string \<Rightarrow> (string \<times> string) list" where
  "Breadcrumbs path title =
     (''/'', ''Home'') # map (\<lambda>seg. (''/search?category='' @ seg, replace_char CHR ''-'' CHR '' '' seg)) path @ [([], title)]"

record product_view =
  vw_title :: string
  vw_price :: "(json option \<times> json option) option"
  vw_stock :: "json option"
  vw_buy :: buy_box
  vw_specs :: "(string \<times> json) list"

definition product_view_of :: "json option \<Rightarrow> product_view" where
  "product_view_of product =
     (let primary = product_primary product
      in \<lparr>vw_title = str_field product ''title'',
          vw_price = map_option (\<lambda>v. (get_prop (Some v) ''price'', get_prop (Some v) ''listPrice'')) primary,
          vw_stock = get_prop primary ''available'',
          vw_buy = buy_box_of product,
          vw_specs = map (\<lambda>(k, v). (replace_char CHR ''_'' CHR '' '' k, v)) (fields_of (get_prop product ''attributes''))\<rparr>)"

definition product_page :: "'w web_env \<Rightarrow> string \<Rightarrow> (('w, 'm) net_scheme, page_thrown, product_view) act" where
  "product_page env slug = and_then (loadProduct env slug) (\<lambda>product. ret (product_view_of product))"

definition reviews_options :: "string \<Rightarrow> call_options" where
  "reviews_options productId =
     (plain_call SvcReview (''/v1/products/'' @ encodeURIComponent productId @ ''/reviews?limit=5'') ReviewPage)
       \<lparr>co_revalidate := Some 120\<rparr>"

definition Reviews :: "'w web_env \<Rightarrow> string \<Rightarrow> (('w, 'm) net_scheme, thrown, review_row list option) act" where
  "Reviews env productId =
     and_then (gathered env ''reviews'' (reviews_options productId)) (\<lambda>reviews.
     if list_field reviews ''items'' = [] then ret None
     else ret (Some (map ReviewRow (list_field reviews ''items''))))"

definition similar_options :: "string \<Rightarrow> call_options" where
  "similar_options productId =
     (plain_call SvcRecommendation
        (''/v1/recommendations?placement=pdp_similar&itemId='' @ encodeURIComponent productId @ ''&count=5'') RecommendationResponse)
       \<lparr>co_revalidate := Some 300\<rparr>"

definition SimilarProducts :: "'w web_env \<Rightarrow> string \<Rightarrow> (('w, 'm) net_scheme, thrown, strip option) act" where
  "SimilarProducts env productId =
     and_then (gathered env ''recommendations'' (similar_options productId)) (\<lambda>recommendations.
     if recommended_ids recommendations = [] then ret None
     else and_then (gathered env ''products'' (batch_options (recommended_ids recommendations) 300)) (\<lambda>products.
     if json_list products = [] then ret None
     else let shown = ordered (recommended_ids recommendations) (json_list products)
          in if shown = [] then ret None
             else ret (Some \<lparr>st_title = ''You might also like'', st_href = None,
                             st_cards = map (\<lambda>p. (fromProduct p, False)) shown\<rparr>)))"

section \<open>Structured data\<close>

text \<open>\<^verbatim>\<open>JSON.stringify\<close>. Numbers are rendered by an argument.\<close>

definition json_char :: "char \<Rightarrow> string" where
  "json_char c =
     (if c = CHR 34 then [CHR 92, CHR 34] else if c = CHR 92 then [CHR 92, CHR 92]
      else if c = CHR 8 then [CHR 92] @ ''b'' else if c = CHR 9 then [CHR 92] @ ''t''
      else if c = CHR 10 then [CHR 92] @ ''n'' else if c = CHR 12 then [CHR 92] @ ''f''
      else if c = CHR 13 then [CHR 92] @ ''r''
      else if code_unit c < 32
      then [CHR 92] @ ''u00'' @ to_lower [hex_digit (code_unit c div 16), hex_digit (code_unit c mod 16)]
      else [c])"

definition json_quote :: "string \<Rightarrow> string" where
  "json_quote t = [CHR 34] @ concat (map json_char t) @ [CHR 34]"

fun json_text :: "(rat \<Rightarrow> string) \<Rightarrow> json \<Rightarrow> string" where
  "json_text number_text JNull = ''null''"
| "json_text number_text (JBool b) = (if b then ''true'' else ''false'')"
| "json_text number_text (JNum x) = number_text x"
| "json_text number_text (JStr t) = json_quote t"
| "json_text number_text (JArr js) = ''['' @ join_commas (map (json_text number_text) js) @ '']''"
| "json_text number_text (JObj fs) = ''{'' @ join_commas (map (\<lambda>(k, j). json_quote k @ '':'' @ json_text number_text j) fs) @ ''}''"

definition product_image :: "json option \<Rightarrow> json option" where
  "product_image product = or_else (first_of (list_field product ''images'')) (first_of (list_field (product_primary product) ''images''))"

definition offer_json :: "(rat \<Rightarrow> string) \<Rightarrow> json \<Rightarrow> json" where
  "offer_json to_fixed2 v =
     JObj [(''@type'', JStr ''Offer''), (''price'', JStr (to_fixed2 (js_div (price_amount v) 100))),
           (''priceCurrency'', JStr (str_field (get_prop (Some v) ''price'') ''currency'')),
           (''availability'', JStr (if not_gone v then ''https://schema.org/InStock'' else ''https://schema.org/OutOfStock''))]"

definition rating_json :: "json option \<Rightarrow> (string \<times> json) list" where
  "rating_json rating =
     (if rating \<noteq> None \<and> 0 < num_field rating ''count''
      then [(''aggregateRating'', JObj [(''@type'', JStr ''AggregateRating''), (''ratingValue'', JNum (num_field rating ''average'')),
              (''reviewCount'', JNum (num_field rating ''count''))])]
      else [])"

definition optional_member :: "string \<Rightarrow> json option \<Rightarrow> (string \<times> json) list" where
  "optional_member k v = (case v of Some j \<Rightarrow> [(k, j)] | None \<Rightarrow> [])"

definition product_ld :: "(rat \<Rightarrow> string) \<Rightarrow> json option \<Rightarrow> json" where
  "product_ld to_fixed2 product =
     (let primary = product_primary product; brand = str_field product ''brand''
      in JObj ([(''@context'', JStr ''https://schema.org''), (''@type'', JStr ''Product''), (''name'', JStr (str_field product ''title'')),
                (''description'', JStr (str_field product ''description''))]
        @ optional_member ''sku'' (get_prop primary ''sku'')
        @ (if brand \<noteq> [] then [(''brand'', JObj [(''@type'', JStr ''Brand''), (''name'', JStr brand)])] else [])
        @ optional_member ''image'' (map_option (\<lambda>i. JArr [JStr (str_field (Some i) ''url'')]) (product_image product))
        @ rating_json (not_null (get_prop product ''rating''))
        @ optional_member ''offers'' (map_option (offer_json to_fixed2) primary)))"

text \<open>What the page puts between \<^verbatim>\<open><script>\<close> and \<^verbatim>\<open></script>\<close>.\<close>

definition ld_html :: "(rat \<Rightarrow> string) \<Rightarrow> (rat \<Rightarrow> string) \<Rightarrow> json option \<Rightarrow> string" where
  "ld_html number_text to_fixed2 product = json_text number_text (product_ld to_fixed2 product)"

section \<open>Running the optional calls\<close>

lemma gathered_run:
  "gathered env key opts s =
     (Inr (case fst (call env opts s) of Inr v \<Rightarrow> v | Inl e \<Rightarrow> None), snd (call env opts s))"
  by (cases "call env opts s"; cases "fst (call env opts s)")
     (simp_all add: gathered_def settled_def and_then_def lift_sum_def)

section \<open>Ranked strips\<close>

lemma ordered_ids:
  "map (\<lambda>p. str_field (Some p) ''id'') (ordered ids products) =
     filter (\<lambda>i. i \<in> (\<lambda>p. str_field (Some p) ''id'') ` set products) ids"
proof (induction ids)
  case (Cons i ids)
  have "by_id products i = None \<longleftrightarrow> i \<notin> (\<lambda>p. str_field (Some p) ''id'') ` set products"
    by (simp add: by_id_def map_of_eq_None_iff image_image)
  moreover have "str_field (Some p) ''id'' = i" if "by_id products i = Some p" for p
    using map_of_SomeD [OF that [unfolded by_id_def]] by auto
  ultimately show ?case
    using Cons by (auto simp: ordered_def List.map_filter_simps split: option.split)
qed (simp add: ordered_def List.map_filter_simps)

text \<open>A strip asks the recommender by \<open>rec_options\<close> and the catalogue by \<open>batch_options\<close>, and shows a \<open>view\<close> with one card for
  each product; \<open>run\<close> is the component.\<close>

locale ranked_strip =
  fixes run :: "'w web_env \<Rightarrow> (('w, 'm) net_scheme, thrown, strip option) act"
    and rec_options :: call_options
    and seconds :: nat
    and view :: "json option \<Rightarrow> json list \<Rightarrow> strip"
  assumes run_law: "run env =
      and_then (gathered env ''recommendations'' rec_options) (\<lambda>recommendations.
      if recommended_ids recommendations = [] then ret None
      else and_then (gathered env ''products'' (batch_options (recommended_ids recommendations) seconds)) (\<lambda>products.
      if json_list products = [] then ret None
      else let shown = ordered (recommended_ids recommendations) (json_list products)
           in if shown = [] then ret None else ret (Some (view recommendations shown))))"
    and view_law: "map (\<lambda>c. pc_productId (fst c)) (st_cards (view r ps)) = map (\<lambda>p. str_field (Some p) ''id'') ps"
begin

lemma never_fails: "\<exists>st. fst (run env s) = Inr st"
  by (simp add: run_law and_then_def gathered_run Let_def split: sum.split)

lemma shows_ranked:
  assumes "fst (run env s) = Inr (Some st)"
  obtains r ps where "fst (call env rec_options s) = Inr r"
    and "fst (call env (batch_options (recommended_ids r) seconds) (snd (call env rec_options s))) = Inr ps"
    and "map (\<lambda>c. pc_productId (fst c)) (st_cards st) =
      filter (\<lambda>i. i \<in> (\<lambda>p. str_field (Some p) ''id'') ` set (json_list ps)) (recommended_ids r)"
proof -
  let ?r = "call env rec_options s"
  have none: "recommended_ids None = []" "json_list None = []"
    by (simp_all add: recommended_ids_def list_field_def get_prop_def json_list_def)
  from assms obtain r where r: "fst ?r = Inr r" and ids: "recommended_ids r \<noteq> []"
    by (cases "fst ?r") (auto simp: run_law and_then_def gathered_run none split: if_splits)
  let ?b = "call env (batch_options (recommended_ids r) seconds) (snd ?r)"
  from assms r ids obtain ps where ps: "fst ?b = Inr ps" "st = view r (ordered (recommended_ids r) (json_list ps))"
    by (cases "fst ?b") (auto simp: run_law and_then_def gathered_run none Let_def split: if_splits)
  with r view_law [of r "ordered (recommended_ids r) (json_list ps)"] show thesis
    by (intro that) (simp_all add: ordered_ids)
qed

end

definition home_strip :: "json option \<Rightarrow> json list \<Rightarrow> strip" where
  "home_strip r shown =
     \<lparr>st_title = (if bool_field r ''fallback'' then ''Popular right now'' else ''Recommended for you''),
      st_href = Some ''/search'', st_cards = first_five (map fromProduct shown)\<rparr>"

definition similar_strip :: "json option \<Rightarrow> json list \<Rightarrow> strip" where
  "similar_strip r shown =
     \<lparr>st_title = ''You might also like'', st_href = None, st_cards = map (\<lambda>p. (fromProduct p, False)) shown\<rparr>"

lemma card_id: "pc_productId (fromProduct p) = str_field (Some p) ''id''"
  by (simp add: fromProduct_def Let_def)

lemma first_five_items: "map fst (first_five items) = items"
  by (simp add: first_five_def case_prod_unfold comp_def)

interpretation home: ranked_strip RecommendedStrip home_recommendations 60 home_strip
proof unfold_locales
  fix r ps
  have "map (\<lambda>c. pc_productId (fst c)) (st_cards (home_strip r ps)) = map pc_productId (map fst (first_five (map fromProduct ps)))"
    by (simp add: home_strip_def)
  then show "map (\<lambda>c. pc_productId (fst c)) (st_cards (home_strip r ps)) = map (\<lambda>p. str_field (Some p) ''id'') ps"
    by (simp add: first_five_items card_id)
qed (simp only: RecommendedStrip_def home_strip_def)

interpretation similar: ranked_strip "\<lambda>env. SimilarProducts env productId" "similar_options productId" 300 similar_strip for productId
proof unfold_locales
  show "map (\<lambda>c. pc_productId (fst c)) (st_cards (similar_strip r ps)) = map (\<lambda>p. str_field (Some p) ''id'') ps" for r ps
    by (simp add: similar_strip_def card_id)
qed (simp only: SimilarProducts_def similar_strip_def)


text \<open>A catalogue that returns the two recommended products in the other order, with a third beside them.\<close>

definition open_env :: "fetch_reply list web_env" where
  "open_env = scripted_env\<lparr>web_parse := \<lambda>_ v. Accept v\<rparr>"

definition ranked_script :: "fetch_reply list net" where
  "ranked_script = script
     [Response 200 None (Json (JObj [(''items'', JArr [JObj [(''productId'', JStr ''b'')], JObj [(''productId'', JStr ''x'')], JObj [(''productId'', JStr ''a'')]])])),
      Response 200 None (Json (JArr [JObj [(''id'', JStr ''a'')], JObj [(''id'', JStr ''c'')], JObj [(''id'', JStr ''b'')]]))]"


section \<open>The product page\<close>

text \<open>The page says that there is no such product only when catalog-service answered with an error status; when the service could not
  be reached, timed out or answered outside the contract, the failure goes to the error boundary.\<close>

theorem outage_is_not_not_found:
  assumes "fst (loadProduct env slug s) = Inl NotFoundPage"
  shows "\<exists>rq status hdr b. (rq, Response status hdr b) \<in> set (net_log (snd (call env (product_options slug) s))) \<and>
    \<not> response_is_ok status"
proof -
  from assms obtain e where e: "fst (call env (product_options slug) s) = Inl (Bff e)" "be_status e = 404"
    by (cases "call env (product_options slug) s")
      (auto simp: loadProduct_def attempt_def split: sum.splits thrown.splits if_splits)
  with call_settles [of env "product_options slug" s] obtain rid reply rq
    where r: "received env (product_options slug) rid reply = Inl (Bff e)"
      and m: "(rq, reply) \<in> set (net_log (snd (call env (product_options slug) s)))"
    by auto
  from r e(2) show ?thesis
    by (cases reply) (use m in \<open>auto simp: received_def Let_def bff_error_def split: if_splits zres.splits body.splits\<close>)
qed

theorem outage_is_not_not_found_witness:
  "\<exists>rq status hdr b. (rq, Response status hdr b) \<in>
     set (net_log (snd (call open_env (product_options ''gone'') (script [Response 404 None Unreadable])))) \<and> \<not> response_is_ok status"
proof -
  have "case fst (loadProduct open_env ''gone'' (script [Response 404 None Unreadable])) of Inl NotFoundPage \<Rightarrow> True | _ \<Rightarrow> False"
    by code_simp
  then have "fst (loadProduct open_env ''gone'' (script [Response 404 None Unreadable])) = Inl NotFoundPage"
    by (auto split: sum.splits page_thrown.splits)
  from outage_is_not_not_found [OF this] show ?thesis .
qed

text \<open>A card and the page it leads to name the same price, the lowest of the product's variants.\<close>

theorem card_price_is_page_price:
  assumes "list_field (Some product) ''variants'' \<noteq> []"
    and "\<forall>v\<in>set (list_field (Some product) ''variants''). get_prop (Some v) ''price'' \<notin> {None, Some JNull}"
  shows "\<exists>v\<in>set (list_field (Some product) ''variants'').
    pc_price (fromProduct product) = get_prop (Some v) ''price'' \<and>
    map_option fst (vw_price (product_view_of (Some product))) = Some (get_prop (Some v) ''price'') \<and>
    (\<forall>w\<in>set (list_field (Some product) ''variants''). price_amount v \<le> price_amount w)"
proof -
  from assms(1) obtain c where c: "cheapest (list_field (Some product) ''variants'') = Some c"
    by (cases "cheapest (list_field (Some product) ''variants'')") auto
  show ?thesis
  proof (intro bexI [of _ c] conjI)
    show "c \<in> set (list_field (Some product) ''variants'')" using cheapest_least(1) [OF c] .
    with assms(2) have "get_prop (Some c) ''price'' \<notin> {None, Some JNull}" by blast
    then show "pc_price (fromProduct product) = get_prop (Some c) ''price''"
      by (auto simp: fromProduct_def Let_def c or_else_def)
    show "map_option fst (vw_price (product_view_of (Some product))) = Some (get_prop (Some c) ''price'')"
      by (simp add: product_view_of_def Let_def product_primary_def c)
  qed (use cheapest_least(2) [OF c] in blast)
qed

lemma quote_keeps:
  assumes "\<forall>c\<in>set m. json_char c = [c]"
  shows "\<exists>x y. json_quote (a @ m @ b) = x @ m @ y"
proof -
  have "concat (map json_char m) = m" using assms by (induction m) auto
  then have "json_quote (a @ m @ b) = ([CHR 34] @ concat (map json_char a)) @ m @ (concat (map json_char b) @ [CHR 34])"
    by (simp add: json_quote_def)
  then show ?thesis by blast
qed

lemma join_commas_member: "x \<in> set xs \<Longrightarrow> \<exists>u v. join_commas xs = u @ x @ v"
proof (induction xs rule: join_commas.induct)
  case (2 y)
  then have "join_commas [y] = [] @ x @ []" by simp
  then show ?case by blast
next
  case (3 y z xs)
  show ?case
  proof (cases "x = y")
    case True
    then have "join_commas (y # z # xs) = [] @ x @ ('','' @ join_commas (z # xs))" by simp
    then show ?thesis by blast
  next
    case False
    with 3 obtain u v where "join_commas (z # xs) = u @ x @ v" by auto
    then have "join_commas (y # z # xs) = (y @ '','' @ u) @ x @ v" by simp
    then show ?thesis by blast
  qed
qed simp

lemma object_member:
  assumes "(k, JStr t) \<in> set fs"
  shows "\<exists>u v. json_text number_text (JObj fs) = u @ json_quote t @ v"
proof -
  have "json_quote k @ '':'' @ json_quote t \<in> set (map (\<lambda>(k, j). json_quote k @ '':'' @ json_text number_text j) fs)"
    using assms by (force simp: image_iff)
  from join_commas_member [OF this] obtain u v where
    "join_commas (map (\<lambda>(k, j). json_quote k @ '':'' @ json_text number_text j) fs) = u @ (json_quote k @ '':'' @ json_quote t) @ v"
    by blast
  then have "json_text number_text (JObj fs) = (''{'' @ u @ json_quote k @ '':'') @ json_quote t @ (v @ ''}'')" by simp
  then show ?thesis by blast
qed

text \<open>A title that contains the closing tag of the element reaches the page unchanged inside it: the browser ends the script
  there and reads the rest of the title as markup.\<close>

theorem title_ends_script:
  assumes "str_field product ''title'' = a @ ''</script>'' @ b"
  shows "\<exists>x y. ld_html number_text to_fixed2 product = x @ ''</script>'' @ y"
proof -
  have "\<forall>c\<in>set ''</script>''. json_char c = [c]" by (simp add: json_char_def)
  from quote_keeps [OF this, of a b] assms obtain x y where q: "json_quote (str_field product ''title'') = x @ ''</script>'' @ y"
    by auto
  have "\<exists>u v. ld_html number_text to_fixed2 product = u @ json_quote (str_field product ''title'') @ v"
    unfolding ld_html_def product_ld_def Let_def by (rule object_member [of "''name''"]) simp
  with q show ?thesis by (metis append.assoc)
qed

definition scripted_product :: json where
  "scripted_product = JObj [(''title'', JStr ''</script><img onerror=x>''), (''variants'', JArr [])]"

theorem title_ends_script_witness:
  "\<exists>x y. ld_html (\<lambda>_. ''0'') (\<lambda>_. ''0.00'') (Some scripted_product) = x @ ''</script>'' @ y"
  by (rule title_ends_script [of _ "[]" "''<img onerror=x>''"]) (simp add: scripted_product_def str_field_def get_prop_def lookup_def)

definition two_prices :: json where
  "two_prices = JObj [(''variants'', JArr
     [JObj [(''price'', JObj [(''amount'', JNum 900)])], JObj [(''price'', JObj [(''amount'', JNum 700)])]])]"

theorem card_price_is_page_price_witness:
  "map_option fst (vw_price (product_view_of (Some two_prices))) = Some (pc_price (fromProduct two_prices))"
  using card_price_is_page_price [of two_prices] by (auto simp: two_prices_def list_field_def get_prop_def lookup_def)

end
