(* ===== verification/Bff_Routes.thy ===== *)
theory Bff_Routes
  imports Bff_Client
begin

text \<open>
  The storefront's session (\<^verbatim>\<open>apps/storefront/src/lib/session.ts\<close>) and Route Handlers
  (\<^verbatim>\<open>apps/storefront/src/app/api/bff/**/route.ts\<close>). The state of one request adds to the network the exchange
  of the refresh token, cached for the request, and the cookies set so far. The incoming request is
  a \<open>web_request\<close>; its cookies are the jar's. Each handler is its \<^verbatim>\<open>try\<close> block under \<open>guarded\<close>, which is
  the \<^verbatim>\<open>catch\<close> that renders the error.
\<close>

section \<open>State\<close>

record cookie =
  ck_name :: string
  ck_value :: string
  ck_httpOnly :: bool
  ck_secure :: bool
  ck_sameSite :: "string option"
  ck_path :: string
  ck_maxAge :: nat

record 'w bff = "'w net" +
  bff_exchange :: "(thrown + string option) option"
  bff_set_cookies :: "cookie list"

type_synonym ('w, 'a) bff_act = "('w bff, thrown, 'a) act"

section \<open>session.ts\<close>

definition REFRESH_COOKIE :: string where
  "REFRESH_COOKIE = ''souq_rt''"

definition REFRESH_PATH :: string where
  "REFRESH_PATH = ''/api/bff/auth''"

definition CART_COOKIE :: string where
  "CART_COOKIE = ''souq_cart''"

definition cookie_value :: "web_request \<Rightarrow> string \<Rightarrow> string option" where
  "cookie_value req n = map_of (wr_cookies req) n"

definition exchange_token :: "'w web_env \<Rightarrow> string \<Rightarrow> ('w, string option) bff_act" where
  "exchange_token env refreshToken =
     attempt
       (and_then (call env ((plain_call SvcIdentity ''/v1/auth/refresh'' TokenPair)
            \<lparr>co_method := Some ''POST'', co_body := Some (JObj [(''refreshToken'', JStr refreshToken)])\<rparr>))
          (\<lambda>pair. ret (Some (str_field pair ''accessToken''))))
       (\<lambda>err. case err of Bff e \<Rightarrow> if be_status e = 401 then ret None else raise err | _ \<Rightarrow> raise err)"

definition getAccessToken :: "'w web_env \<Rightarrow> web_request \<Rightarrow> ('w, string option) bff_act" where
  "getAccessToken env req s =
     (case cookie_value req REFRESH_COOKIE of
        None \<Rightarrow> (Inr None, s)
      | Some refreshToken \<Rightarrow>
          if refreshToken = [] then (Inr None, s)
          else case bff_exchange s of
                 Some cached \<Rightarrow> (cached, s)
               | None \<Rightarrow>
                   (case exchange_token env refreshToken s of (r, s') \<Rightarrow> (r, s'\<lparr>bff_exchange := Some r\<rparr>)))"

definition requireAccessToken :: "'w web_env \<Rightarrow> web_request \<Rightarrow> ('w, string) bff_act" where
  "requireAccessToken env req =
     and_then (getAccessToken env req)
       (\<lambda>token. if truthy token then ret (the token)
                else raise (Bff (bff_error 401 ''UNAUTHENTICATED'' [] ''this endpoint requires a signed-in user'')))"

definition in_production :: "'w web_env \<Rightarrow> bool" where
  "in_production env = (web_variable env ''NODE_ENV'' = Some ''production'')"

definition refreshCookieOptions :: "'w web_env \<Rightarrow> nat \<Rightarrow> string \<Rightarrow> cookie" where
  "refreshCookieOptions env maxAgeSeconds v =
     \<lparr>ck_name = REFRESH_COOKIE, ck_value = v, ck_httpOnly = True, ck_secure = in_production env,
      ck_sameSite = Some ''strict'', ck_path = REFRESH_PATH, ck_maxAge = maxAgeSeconds\<rparr>"

definition getCartId :: "web_request \<Rightarrow> string option" where
  "getCartId req = cookie_value req CART_COOKIE"

definition set_cookie :: "cookie \<Rightarrow> ('w, unit) bff_act" where
  "set_cookie c = modify (\<lambda>s. s\<lparr>bff_set_cookies := c # bff_set_cookies s\<rparr>)"

section \<open>What the handlers share\<close>

definition guarded :: "'w web_env \<Rightarrow> string \<Rightarrow> ('w, response) bff_act \<Rightarrow> ('w, response) bff_act" where
  "guarded env inst m = attempt m (problemResponse env inst)"

text \<open>\<^verbatim>\<open>schema.parse(await request.json())\<close>\<close>

definition parse_body :: "'w web_env \<Rightarrow> schema \<Rightarrow> web_request \<Rightarrow> ('w, json option) bff_act" where
  "parse_body env sch req =
     (case wr_body req of
        Unreadable \<Rightarrow> raise SyntaxError
      | Json j \<Rightarrow> (case web_parse env sch (Some j) of Accept v \<Rightarrow> ret v | Reject \<Rightarrow> raise ZodError))"

definition PROBLEM_NO_STORE :: "(string \<times> string) list" where
  "PROBLEM_NO_STORE = NO_STORE @ [(''Content-Type'', ''application/problem+json'')]"

definition no_content :: response where
  "no_content = \<lparr>rs_status = 204, rs_headers = NO_STORE, rs_body = None\<rparr>"

section \<open>cart/\<close>

definition no_basket :: "string \<Rightarrow> json" where
  "no_basket ts = JObj
     [(''type'', JStr ''https://errors.souq.dev/bff/cart-not-found''), (''title'', JStr ''No basket''),
      (''status'', JNum 404), (''code'', JStr ''CART_NOT_FOUND''), (''instance'', JStr ''/api/bff/cart''),
      (''requestId'', JStr []), (''timestamp'', JStr ts)]"

definition cart_call :: "string \<Rightarrow> string option \<Rightarrow> call_options" where
  "cart_call path token = (plain_call SvcCart path Cart)\<lparr>co_accessToken := token\<rparr>"

definition get_cart_bff :: "'w web_env \<Rightarrow> web_request \<Rightarrow> ('w, response) bff_act" where
  "get_cart_bff env req = guarded env ''/api/bff/cart''
     (and_then (getAccessToken env req) (\<lambda>token.
        let cartId = getCartId req
        in if \<not> truthy token \<and> \<not> truthy cartId
           then and_then (asks (\<lambda>s. web_iso env (net_world s)))
                  (\<lambda>ts. respond_json (Some (no_basket ts)) 404 PROBLEM_NO_STORE)
           else and_then (call env (cart_call
                  (if truthy token then ''/v1/carts/mine'' else ''/v1/carts/'' @ encodeURIComponent (the cartId)) token))
                  (\<lambda>cart. respond_json cart 200 NO_STORE)))"

definition CART_COOKIE_MAX_AGE :: nat where
  "CART_COOKIE_MAX_AGE = 60 * 60 * 24 * 30"

definition cart_cookie :: "'w web_env \<Rightarrow> string \<Rightarrow> cookie" where
  "cart_cookie env v =
     \<lparr>ck_name = CART_COOKIE, ck_value = v, ck_httpOnly = False, ck_secure = in_production env,
      ck_sameSite = Some ''lax'', ck_path = ''/'', ck_maxAge = CART_COOKIE_MAX_AGE\<rparr>"

definition lines_path :: "string option \<Rightarrow> string option \<Rightarrow> string" where
  "lines_path token cartId =
     (if truthy token then ''/v1/carts/mine/lines''
      else if truthy cartId then ''/v1/carts/'' @ encodeURIComponent (the cartId) @ ''/lines''
      else ''/v1/carts/lines'')"

definition post_cart_lines :: "'w web_env \<Rightarrow> web_request \<Rightarrow> ('w, response) bff_act" where
  "post_cart_lines env req = guarded env ''/api/bff/cart/lines''
     (and_then (parse_body env AddToCartRequest req) (\<lambda>body.
      and_then (getAccessToken env req) (\<lambda>token.
      let cartId = getCartId req
      in and_then (call env ((cart_call (lines_path token cartId) token)
             \<lparr>co_method := Some ''POST'', co_body := body, co_idempotencyKey := map_of (wr_headers req) ''Idempotency-Key''\<rparr>))
           (\<lambda>cart. and_then (respond_json cart 200 NO_STORE)
              (\<lambda>response. and_then
                 (if Some (str_field cart ''id'') \<noteq> cartId then set_cookie (cart_cookie env (str_field cart ''id'')) else ret ())
                 (\<lambda>_. ret response))))))"

definition patch_cart_line :: "'w web_env \<Rightarrow> web_request \<Rightarrow> ('w, response) bff_act" where
  "patch_cart_line env req =
     (let sku = path_param req ''sku''
      in guarded env (''/api/bff/cart/lines/'' @ sku)
           (and_then (parse_body env UpdateCartLineRequest req) (\<lambda>body.
            and_then (getAccessToken env req) (\<lambda>token.
            and_then (call env ((cart_call
                (if truthy token then ''/v1/carts/mine/lines/'' @ encodeURIComponent sku
                 else ''/v1/carts/'' @ encodeURIComponent (nullish (getCartId req) []) @ ''/lines/'' @ encodeURIComponent sku) token)
                \<lparr>co_method := Some ''PATCH'', co_body := body\<rparr>))
              (\<lambda>cart. respond_json cart 200 NO_STORE)))))"

definition post_cart_coupon :: "'w web_env \<Rightarrow> web_request \<Rightarrow> ('w, response) bff_act" where
  "post_cart_coupon env req = guarded env ''/api/bff/cart/coupons''
     (and_then (parse_body env ApplyCouponRequest req) (\<lambda>body.
      and_then (getAccessToken env req) (\<lambda>token.
      and_then (call env ((cart_call
          (if truthy token then ''/v1/carts/mine/coupons''
           else ''/v1/carts/'' @ encodeURIComponent (nullish (getCartId req) []) @ ''/coupons'') token)
          \<lparr>co_method := Some ''POST'', co_body := body\<rparr>))
        (\<lambda>cart. respond_json cart 200 NO_STORE))))"

section \<open>orders/\<close>

definition missing_key_problem :: "string \<Rightarrow> json" where
  "missing_key_problem ts = JObj
     [(''type'', JStr ''https://errors.souq.dev/bff/validation-failed''), (''title'', JStr ''Missing idempotency key''),
      (''status'', JNum 400), (''detail'', JStr ''Placing an order requires an Idempotency-Key header.''),
      (''code'', JStr ''VALIDATION_FAILED''), (''instance'', JStr ''/api/bff/orders''), (''requestId'', JStr []),
      (''timestamp'', JStr ts)]"

definition post_orders :: "'w web_env \<Rightarrow> web_request \<Rightarrow> ('w, response) bff_act" where
  "post_orders env req = guarded env ''/api/bff/orders''
     (let idempotencyKey = map_of (wr_headers req) ''Idempotency-Key''
      in if \<not> truthy idempotencyKey
         then and_then (asks (\<lambda>s. web_iso env (net_world s)))
                (\<lambda>ts. respond_json (Some (missing_key_problem ts)) 400 PROBLEM_NO_STORE)
         else and_then (requireAccessToken env req) (\<lambda>token.
              and_then (parse_body env CreateOrderRequest req) (\<lambda>body.
              and_then (call env ((plain_call SvcOrder ''/v1/orders'' CreateOrderResponse)
                  \<lparr>co_method := Some ''POST'', co_body := body, co_accessToken := Some token,
                   co_idempotencyKey := idempotencyKey\<rparr>))
                (\<lambda>result. respond_json result 202 NO_STORE))))"

definition get_order_status :: "'w web_env \<Rightarrow> web_request \<Rightarrow> ('w, response) bff_act" where
  "get_order_status env req =
     (let ident = path_param req ''id''
      in guarded env (''/api/bff/orders/'' @ ident)
           (and_then (requireAccessToken env req) (\<lambda>token.
            and_then (call env ((plain_call SvcOrder (''/v1/orders/'' @ encodeURIComponent ident @ ''/status'') OrderStatusResponse)
                \<lparr>co_accessToken := Some token, co_attempts := Some 1\<rparr>))
              (\<lambda>status. respond_json status 200 NO_STORE))))"

definition get_order_history :: "'w web_env \<Rightarrow> web_request \<Rightarrow> ('w, response) bff_act" where
  "get_order_history env req = guarded env ''/api/bff/orders/history''
     (and_then (requireAccessToken env req) (\<lambda>token.
      let cursor = map_of (wr_query req) ''cursor''
      in and_then (call env ((plain_call SvcOrder
            (''/v1/orders/mine?limit=20'' @
             (if truthy cursor then ''&cursor='' @ encodeURIComponent (the cursor) else [])) OrderPage)
            \<lparr>co_accessToken := Some token\<rparr>))
           (\<lambda>page. respond_json page 200 NO_STORE)))"

section \<open>suggest/\<close>

definition no_suggestions :: json where
  "no_suggestions = JObj [(''suggestions'', JArr [])]"

definition get_suggest :: "'w web_env \<Rightarrow> web_request \<Rightarrow> ('w, response) bff_act" where
  "get_suggest env req =
     (let query = (case map_of (wr_query req) ''q'' of None \<Rightarrow> [] | Some q \<Rightarrow> trim q)
      in if length query < 2 then respond_json (Some no_suggestions) 200 []
         else attempt
                (and_then (call env ((plain_call SvcSearch (''/v1/suggest?q='' @ encodeURIComponent (take 100 query)) SuggestResponse)
                     \<lparr>co_revalidate := Some 30\<rparr>))
                   (\<lambda>result. respond_json result 200
                      [(''Cache-Control'', ''public, max-age=30, stale-while-revalidate=120'')]))
                (\<lambda>_. respond_json (Some no_suggestions) 200 []))"

section \<open>auth/\<close>

definition ForgotPasswordRequest :: schema where
  "ForgotPasswordRequest = z_strict [(''email'', ZString [Email, MaxLen 254])]"

definition AcceptedResponse :: schema where
  "AcceptedResponse = ZObject Passthrough [(''status'', z_string), (''message'', z_string)]"

definition post_forgot_password :: "'w web_env \<Rightarrow> web_request \<Rightarrow> ('w, response) bff_act" where
  "post_forgot_password env req = guarded env ''/api/bff/auth/forgot-password''
     (and_then (parse_body env ForgotPasswordRequest req) (\<lambda>body.
      and_then (call env ((plain_call SvcIdentity ''/v1/auth/forgot-password'' AcceptedResponse)
          \<lparr>co_method := Some ''POST'', co_body := body\<rparr>))
        (\<lambda>result. respond_json result 202 NO_STORE)))"

definition REFRESH_MAX_AGE :: nat where
  "REFRESH_MAX_AGE = 60 * 60 * 24 * 30"

text \<open>\<^verbatim>\<open>{ ...result, tokens: { ...result.tokens, refreshToken: undefined, accessToken: '' } }\<close>: an undefined
  property is not serialised.\<close>

definition stripped_login :: "json option \<Rightarrow> json" where
  "stripped_login result = JObj (js_set ''tokens''
     (JObj (js_set ''accessToken'' (JStr [])
        (filter (\<lambda>(k, v). k \<noteq> ''refreshToken'') (fields_of (get_prop result ''tokens'')))))
     (fields_of result))"

definition sign_in :: "'w web_env \<Rightarrow> web_request \<Rightarrow> ('w, response) bff_act" where
  "sign_in env req =
     and_then (parse_body env LoginRequest req) (\<lambda>body.
     and_then (call env ((plain_call SvcIdentity ''/v1/auth/login'' LoginResponse)
         \<lparr>co_method := Some ''POST'', co_body := body\<rparr>)) (\<lambda>result.
     let refreshToken = opt_str_field (get_prop result ''tokens'') ''refreshToken''
     in and_then (if truthy refreshToken then set_cookie (refreshCookieOptions env REFRESH_MAX_AGE (the refreshToken)) else ret ())
          (\<lambda>_. respond_json (Some (stripped_login result)) 200 NO_STORE)))"

definition post_login :: "'w web_env \<Rightarrow> web_request \<Rightarrow> ('w, response) bff_act" where
  "post_login env req = guarded env ''/api/bff/auth/login'' (sign_in env req)"

definition cleared_cart_cookie :: cookie where
  "cleared_cart_cookie =
     \<lparr>ck_name = CART_COOKIE, ck_value = [], ck_httpOnly = False, ck_secure = False, ck_sameSite = None,
      ck_path = ''/'', ck_maxAge = 0\<rparr>"

definition post_logout :: "'w web_env \<Rightarrow> web_request \<Rightarrow> ('w, response) bff_act" where
  "post_logout env req =
     and_then (set_cookie (refreshCookieOptions env 0 [])) (\<lambda>_.
     and_then (set_cookie cleared_cart_cookie) (\<lambda>_.
     and_then
       (case cookie_value req REFRESH_COOKIE of
          None \<Rightarrow> ret ()
        | Some refreshToken \<Rightarrow>
            if refreshToken = [] then ret ()
            else attempt
                   (and_then (call env ((plain_call SvcIdentity ''/v1/auth/logout'' ZUndefined)
                        \<lparr>co_method := Some ''POST'', co_body := Some (JObj [(''refreshToken'', JStr refreshToken)])\<rparr>))
                      (\<lambda>_. ret ()))
                   (\<lambda>_. ret ()))
       (\<lambda>_. ret no_content)))"

definition post_register :: "'w web_env \<Rightarrow> web_request \<Rightarrow> ('w, response) bff_act" where
  "post_register env req = guarded env ''/api/bff/auth/register''
     (and_then (parse_body env RegisterRequest req) (\<lambda>body.
      and_then (call env ((plain_call SvcIdentity ''/v1/auth/register'' AcceptedResponse)
          \<lparr>co_method := Some ''POST'', co_body := body\<rparr>))
        (\<lambda>result. respond_json result 202 NO_STORE)))"

section \<open>me/\<close>

definition not_signed_in :: "string \<Rightarrow> json" where
  "not_signed_in ts = JObj
     [(''type'', JStr ''https://errors.souq.dev/bff/unauthenticated''), (''title'', JStr ''Not signed in''),
      (''status'', JNum 401), (''code'', JStr ''UNAUTHENTICATED''), (''instance'', JStr ''/api/bff/me''),
      (''requestId'', JStr []), (''timestamp'', JStr ts)]"

definition get_me :: "'w web_env \<Rightarrow> web_request \<Rightarrow> ('w, response) bff_act" where
  "get_me env req = guarded env ''/api/bff/me''
     (and_then (getAccessToken env req) (\<lambda>token.
        if \<not> truthy token
        then and_then (asks (\<lambda>s. web_iso env (net_world s)))
               (\<lambda>ts. respond_json (Some (not_signed_in ts)) 401 PROBLEM_NO_STORE)
        else and_then (call env ((plain_call SvcIdentity ''/v1/me'' UserProfile)\<lparr>co_accessToken := token\<rparr>))
               (\<lambda>profile. respond_json profile 200 NO_STORE)))"

definition EnrolStart :: schema where
  "EnrolStart = z_strict [(''secret'', z_string), (''uri'', z_string)]"

definition EnrolComplete :: schema where
  "EnrolComplete = z_strict [(''recoveryCodes'', z_array z_string)]"

definition CodeBody :: schema where
  "CodeBody = ZObject Strip [(''code'', ZString [Pattern (rx_rep 6 (RCls cls_digit))])]"

definition ChangePasswordRequest :: schema where
  "ChangePasswordRequest = z_strict
     [(''currentPassword'', ZString [MinLen 1, MaxLen 1024]), (''newPassword'', ZString [MinLen 1, MaxLen 1024])]"

definition identity_call :: "string \<Rightarrow> schema \<Rightarrow> string \<Rightarrow> json option \<Rightarrow> string \<Rightarrow> call_options" where
  "identity_call path sch meth body token =
     (plain_call SvcIdentity path sch)\<lparr>co_method := Some meth, co_body := body, co_accessToken := Some token\<rparr>"

definition post_mfa :: "'w web_env \<Rightarrow> web_request \<Rightarrow> ('w, response) bff_act" where
  "post_mfa env req = guarded env ''/api/bff/me/mfa''
     (and_then (requireAccessToken env req) (\<lambda>token.
      and_then (call env (identity_call ''/v1/me/mfa'' EnrolStart ''POST'' None token))
        (\<lambda>enrolment. respond_json enrolment 200 NO_STORE)))"

definition delete_mfa :: "'w web_env \<Rightarrow> web_request \<Rightarrow> ('w, response) bff_act" where
  "delete_mfa env req = guarded env ''/api/bff/me/mfa''
     (and_then (requireAccessToken env req) (\<lambda>token.
      and_then (parse_body env CodeBody req) (\<lambda>body.
      and_then (call env (identity_call ''/v1/me/mfa'' ZUndefined ''DELETE'' body token))
        (\<lambda>_. ret no_content))))"

definition post_mfa_confirm :: "'w web_env \<Rightarrow> web_request \<Rightarrow> ('w, response) bff_act" where
  "post_mfa_confirm env req = guarded env ''/api/bff/me/mfa/confirm''
     (and_then (requireAccessToken env req) (\<lambda>token.
      and_then (parse_body env CodeBody req) (\<lambda>body.
      and_then (call env (identity_call ''/v1/me/mfa/confirm'' EnrolComplete ''POST'' body token))
        (\<lambda>result. respond_json result 200 NO_STORE))))"

definition post_password :: "'w web_env \<Rightarrow> web_request \<Rightarrow> ('w, response) bff_act" where
  "post_password env req = guarded env ''/api/bff/me/password''
     (and_then (requireAccessToken env req) (\<lambda>token.
      and_then (parse_body env ChangePasswordRequest req) (\<lambda>body.
      and_then (call env (identity_call ''/v1/me/password'' ZUndefined ''POST'' body token))
        (\<lambda>_. ret no_content))))"

section \<open>health/ready\<close>

definition REQUIRED :: "string list" where
  "REQUIRED = [''SOUQ_IDENTITY_URL'', ''SOUQ_CATALOG_URL'', ''SOUQ_CART_URL'', ''SOUQ_ORDER_URL'', ''SOUQ_SEARCH_URL'']"

definition get_ready :: "'w web_env \<Rightarrow> nat \<times> string list" where
  "get_ready env =
     (let missing = filter (\<lambda>n. \<not> truthy (web_variable env n)) REQUIRED
      in if missing \<noteq> [] then (503, missing) else (200, []))"

section \<open>What the handlers send\<close>

text \<open>Every exchange of the log was about a request of a given kind.\<close>

definition sent_only :: "(sent \<Rightarrow> bool) \<Rightarrow> 'w bff \<Rightarrow> bool" where
  "sent_only good s = list_all (\<lambda>(rq, reply). good rq) (net_log s)"

lemma keeps_call:
  assumes "\<And>rid. good (bff_request opts (the (SERVICES env (co_service opts)) @ co_path opts) (call_method opts) rid)"
  shows "keeps (sent_only good) (call env opts) (\<lambda>v. \<exists>payload. web_parse env (co_schema opts) payload = Accept v)"
proof (rule keepsI)
  fix s :: "'a bff" assume "sent_only good s"
  moreover obtain rid rs where "net_log (snd (call env opts s)) =
      map (Pair (bff_request opts (the (SERVICES env (co_service opts)) @ co_path opts) (call_method opts) rid)) rs @ net_log s"
    by (rule call_log)
  ultimately show "sent_only good (snd (call env opts s))"
    using assms by (auto simp: sent_only_def list_all_iff)
next
  fix s :: "'a bff" and v assume "fst (call env opts s) = Inr v"
  with call_settles [of env opts s] show "\<exists>payload. web_parse env (co_schema opts) payload = Accept v"
    using received_value by fastforce
qed

lemma keeps_problemResponse [keeps_rules]: "keeps (sent_only good) (problemResponse env inst err) (\<lambda>_. True)"
proof (rule keepsI)
  fix s :: "'a bff" assume "sent_only good s"
  moreover have "net_log (snd (problemResponse env inst err s)) = net_log s"
    by (simp add: problemResponse_def and_then_def randomUUID_def respond_json_def split: thrown.splits prod.splits option.splits)
  ultimately show "sent_only good (snd (problemResponse env inst err s))"
    by (simp add: sent_only_def)
qed simp

lemma keeps_guarded [keeps_rules]:
  "keeps (sent_only good) m (\<lambda>_. True) \<Longrightarrow> keeps (sent_only good) (guarded env inst m) (\<lambda>_. True)"
  unfolding guarded_def by (rule keeps_attempt) (auto intro: keeps_rules)

lemma keeps_parse_body [keeps_rules]: "keeps P (parse_body env sch req) (\<lambda>_. True)"
  by (simp add: keeps_def parse_body_def split: body.splits zres.splits)

lemma keeps_respond_json [keeps_rules]: "keeps P (respond_json v status hs) (\<lambda>_. True)"
  by (simp add: keeps_def respond_json_def split: option.splits)

lemma keeps_asks [keeps_rules]: "keeps P (asks f) (\<lambda>_. True)"
  by (simp add: keeps_def)

lemma keeps_true: "keeps P m Q \<Longrightarrow> keeps P m (\<lambda>_. True)"
  by (simp add: keeps_def)

definition refresh_url :: "'w web_env \<Rightarrow> string" where
  "refresh_url env = the (SERVICES env SvcIdentity) @ ''/v1/auth/refresh''"

lemma keeps_exchange_token:
  assumes "\<And>rq. rq_url rq = refresh_url env \<Longrightarrow> good rq"
  shows "keeps (sent_only good) (exchange_token env rt) (\<lambda>_. True)"
proof -
  let ?o = "(plain_call SvcIdentity ''/v1/auth/refresh'' TokenPair)
    \<lparr>co_method := Some ''POST'', co_body := Some (JObj [(''refreshToken'', JStr rt)])\<rparr>"
  have "keeps (sent_only good) (call env ?o) (\<lambda>_. True)"
    by (rule keeps_true [OF keeps_call]) (rule assms, simp add: bff_request_def plain_call_def refresh_url_def)
  then show ?thesis
    unfolding exchange_token_def
    by (intro keeps_attempt keeps_and_then [OF _ keeps_ret]) (auto split: thrown.split intro: keeps_rules)
qed

lemma keeps_getAccessToken:
  assumes "\<And>rq. rq_url rq = refresh_url env \<Longrightarrow> good rq"
  shows "keeps (sent_only good) (getAccessToken env req) (\<lambda>_. True)"
proof (rule keepsI)
  fix s :: "'a bff" assume "sent_only good s"
  then have "sent_only good (snd (exchange_token env rt s))" for rt
    using keeps_state [OF keeps_exchange_token [of env good rt]] assms by blast
  with \<open>sent_only good s\<close> show "sent_only good (snd (getAccessToken env req s))"
    by (auto simp: getAccessToken_def sent_only_def split: option.splits prod.splits) (metis snd_conv)+
qed simp

lemma keeps_requireAccessToken:
  assumes "\<And>rq. rq_url rq = refresh_url env \<Longrightarrow> good rq"
  shows "keeps (sent_only good) (requireAccessToken env req) (\<lambda>token. token \<noteq> [])"
  unfolding requireAccessToken_def
  by (rule keeps_and_then [OF keeps_getAccessToken [OF assms]])
    (auto elim!: truthyE intro!: keeps_rules)

section \<open>What the handlers throw\<close>

definition throws_only :: "('s, 'e, 'a) act \<Rightarrow> ('e \<Rightarrow> bool) \<Rightarrow> bool" where
  "throws_only m E = (\<forall>s e. fst (m s) = Inl e \<longrightarrow> E e)"

named_theorems throws_rules \<open>rules for the errors an action may throw\<close>

lemma throws_ret [throws_rules]: "throws_only (ret a) E"
  by (simp add: throws_only_def)

lemma throws_raise [throws_rules]: "E e \<Longrightarrow> throws_only (raise e) E"
  by (simp add: throws_only_def)

lemma throws_modify [throws_rules]: "throws_only (modify f) E"
  by (simp add: throws_only_def)

lemma throws_if [throws_rules]: "throws_only m E \<Longrightarrow> throws_only n E \<Longrightarrow> throws_only (if b then m else n) E"
  by simp

lemma throws_and_then [throws_rules]:
  assumes "throws_only m E" "\<And>a. throws_only (k a) E"
  shows "throws_only (and_then m k) E"
  unfolding throws_only_def
proof (intro allI impI)
  fix s e assume *: "fst (and_then m k s) = Inl e"
  obtain x s' where "m s = (x, s')" by (cases "m s")
  with * assms show "E e" by (cases x) (auto simp: throws_only_def and_then_def dest: spec [of _ s])
qed

text \<open>An envelope passed through has no properties besides those of the contract.\<close>

definition envelope_ok :: "thrown \<Rightarrow> bool" where
  "envelope_ok err =
     (case err of Bff e \<Rightarrow> fst ` set (problem_base e) \<subseteq> fst ` set problem_schema | _ \<Rightarrow> True)"

lemma throws_call:
  assumes "zod (web_parse env) fmt"
  shows "throws_only (call env opts) envelope_ok"
proof -
  have plain: "envelope_ok (Bff (bff_error status code rid msg))" for status code rid msg
    by (simp add: envelope_ok_def bff_error_def problem_base_def problem_schema_keys)
  have "envelope_ok (Bff (toProblem env status b svc rid))" for status b svc rid
    using zod.problem_base_keys [OF assms zod.envelope_renders [OF assms]] plain
    by (auto simp: toProblem_def envelope_ok_def split: body.splits zres.splits)
  with plain have rec: "received env opts rid reply = Inl err \<Longrightarrow> envelope_ok err" for rid reply err
    by (auto simp: received_def Let_def split: fetch_reply.splits if_splits body.splits zres.splits)
      (simp_all add: envelope_ok_def)
  show ?thesis
    unfolding throws_only_def
  proof (intro allI impI)
    fix s err assume "fst (call env opts s) = Inl err"
    with call_settles [of env opts s] rec show "envelope_ok err"
      by (auto simp: envelope_ok_def problem_base_def problem_schema_keys dest: sym)
  qed
qed

lemma throws_parse_body [throws_rules]: "throws_only (parse_body env sch req) envelope_ok"
  by (simp add: throws_only_def parse_body_def envelope_ok_def split: body.splits zres.splits)

lemma throws_respond_json [throws_rules]: "throws_only (respond_json v status hs) envelope_ok"
  by (simp add: throws_only_def respond_json_def envelope_ok_def split: option.splits)

lemma problem_body_keys:
  assumes "envelope_ok err" "problemResponse env inst err s = (Inr r, s')" "k \<notin> fst ` set problem_schema"
  shows "get_prop (rs_body r) k = None"
proof -
  from assms(2) obtain ts rid where doc:
    "case err of Bff e \<Rightarrow> rs_status r = problem_status e \<and> rs_body r = Some (JObj (problem_fields ts inst rid e))
     | _ \<Rightarrow> rs_status r = 500 \<and> rs_body r = Some (JObj (internal_fields ts inst rid))"
    by (rule problemResponse_run)
  have "fst ` set (problem_fields ts inst rid e) =
      fst ` set (problem_base e) \<union> {''status'', ''code'', ''instance'', ''requestId'', ''timestamp''}" for e
    by (simp add: problem_fields_def keys_js_spread del: js_spread.simps)
  then have "k \<notin> fst ` set (problem_fields ts inst rid e)" if "err = Bff e" for e
    using assms(1,3) that unfolding envelope_ok_def problem_schema_keys by auto
  moreover have "k \<notin> fst ` set (internal_fields ts inst rid)"
    using assms(3) by (auto simp: internal_fields_def problem_schema_keys)
  ultimately show ?thesis
    using doc by (cases err) (auto simp: get_prop_def lookup_def map_of_eq_None_iff)
qed

lemma call_loop_more: "net.more (snd (call_loop env opts url meth rid l i m s)) = net.more s"
proof (induction env opts url meth rid l i m arbitrary: s rule: call_loop.induct)
  case (1 env opts url meth rid l i m)
  obtain x s1 where run: "once env opts url meth rid s = (x, s1)" "net.more s1 = net.more s"
    by (simp add: once_run)
  show ?case
    using run 1 by (subst call_loop.simps)
      (cases x, auto simp: attempt_def and_then_def sleep_below_def)
qed

text \<open>A call leaves the cookies and the cached exchange alone.\<close>

lemma call_keeps_request:
  "bff_set_cookies (snd (call env opts s)) = bff_set_cookies s \<and> bff_exchange (snd (call env opts s)) = bff_exchange s"
proof -
  have "net.more (snd (call env opts s)) = net.more s"
  proof (cases "truthy (SERVICES env (co_service opts))")
    case True
    then show ?thesis
      by (rule call_run [of env opts s]) (simp add: call_loop_more)
  next
    case False
    then show ?thesis by (simp add: call_def)
  qed
  then show ?thesis
    by (cases s; cases "snd (call env opts s)") simp
qed

section \<open>Properties\<close>

text \<open>A request as the browser starts it: nothing sent yet, no cookie set.\<close>

definition fresh_bff :: "'w \<Rightarrow> 'w bff" where
  "fresh_bff w = \<lparr>net_world = w, net_log = [], net_waits = [], bff_exchange = None, bff_set_cookies = []\<rparr>"

definition web_get :: web_request where
  "web_get = \<lparr>wr_params = [], wr_query = [], wr_headers = [], wr_cookies = [], wr_body = Unreadable\<rparr>"

text \<open>What the order route may send.\<close>

lemma post_orders_sent:
  assumes "net_log s = []" "(rq, reply) \<in> set (net_log (snd (post_orders env req s)))" "rq_url rq \<noteq> refresh_url env"
  shows "\<exists>key token. map_of (wr_headers req) ''Idempotency-Key'' = Some key \<and> key \<noteq> [] \<and> token \<noteq> [] \<and>
    map_of (rq_headers rq) ''Idempotency-Key'' = Some key \<and> map_of (rq_headers rq) ''Authorization'' = Some (''Bearer '' @ token)"
proof -
  define good where "good rq \<longleftrightarrow> rq_url rq = refresh_url env \<or> (\<exists>key token.
    map_of (wr_headers req) ''Idempotency-Key'' = Some key \<and> key \<noteq> [] \<and> token \<noteq> [] \<and>
    map_of (rq_headers rq) ''Idempotency-Key'' = Some key \<and> map_of (rq_headers rq) ''Authorization'' = Some (''Bearer '' @ token))" for rq :: sent
  let ?o = "\<lambda>body token. (plain_call SvcOrder ''/v1/orders'' CreateOrderResponse)
    \<lparr>co_method := Some ''POST'', co_body := body, co_accessToken := Some token,
     co_idempotencyKey := map_of (wr_headers req) ''Idempotency-Key''\<rparr>"
  have order: "keeps (sent_only good) (call env (?o body token)) (\<lambda>_. True)"
    if "truthy (map_of (wr_headers req) ''Idempotency-Key'')" "token \<noteq> []" for body token
    by (rule keeps_true [OF keeps_call])
      (use that in \<open>auto elim!: truthyE simp: good_def bff_request_def request_headers_def plain_call_def\<close>)
  have "keeps (sent_only good) (post_orders env req) (\<lambda>_. True)"
    unfolding post_orders_def Let_def
    by (intro keeps_guarded keeps_if keeps_and_then [OF keeps_asks] keeps_respond_json
        keeps_and_then [OF keeps_requireAccessToken] keeps_and_then [OF keeps_parse_body] keeps_and_then [OF order])
      (auto simp: good_def)
  moreover have "sent_only good s"
    using assms(1) by (simp add: sent_only_def)
  ultimately have "sent_only good (snd (post_orders env req s))"
    by (rule keeps_state)
  with assms(2,3) show ?thesis
    by (force simp: sent_only_def list_all_iff good_def)
qed

text \<open>C10: Placing an order never reaches order-service without the caller's idempotency key and a bearer
  token: besides the exchange of the refresh token, every request the route sends carries both.\<close>

theorem order_requests_carry_key_and_token:
  assumes "net_log s = []" "(rq, reply) \<in> set (net_log (snd (post_orders env req s)))" "rq_url rq \<noteq> refresh_url env"
  shows "\<exists>key token. map_of (wr_headers req) ''Idempotency-Key'' = Some key \<and> key \<noteq> [] \<and> token \<noteq> [] \<and>
    map_of (rq_headers rq) ''Idempotency-Key'' = Some key \<and> map_of (rq_headers rq) ''Authorization'' = Some (''Bearer '' @ token)"
  using assms by (rule post_orders_sent)

text \<open>A session whose exchange succeeds, with a parser that accepts everything as it is.\<close>

definition lenient_env :: "fetch_reply list web_env" where
  "lenient_env = scripted_env\<lparr>web_parse := \<lambda>_ v. Accept v,
     web_variable := \<lambda>n. if starts_with n ''SOUQ_'' then Some (''http://'' @ n) else None\<rparr>"

definition token_reply :: fetch_reply where
  "token_reply = Response 200 None (Json (JObj [(''accessToken'', JStr ''at'')]))"

definition signed_in :: web_request where
  "signed_in = web_get\<lparr>wr_cookies := [(''souq_rt'', ''rt'')], wr_headers := [(''Idempotency-Key'', ''k1'')], wr_body := Json (JObj [])\<rparr>"

text \<open>Running a handler symbolically: the schemas stay folded.\<close>

lemmas run_defs = guarded_def attempt_def and_then_def parse_body_def requireAccessToken_def getAccessToken_def
  exchange_token_def call_def call_loop.simps once_run incomingRequestId_def randomUUID_def received_def
  call_method_def max_attempts_def plain_call_def respond_json_def json_response_def may_carry_body_def
  response_is_ok_def cookie_value_def REFRESH_COOKIE_def fresh_bff_def Let_def

lemma lenient_simps [simp]:
  "web_parse lenient_env sch v = Accept v" "web_fetch lenient_env = scripted_fetch" "web_request_id lenient_env = None"
  "web_uuid lenient_env w = (''uuid'', w)"
  "SERVICES lenient_env svc = Some (''http://SOUQ_'' @ to_upper (service_text svc) @ ''_URL'')"
  by (simp_all add: lenient_env_def scripted_env_def starts_with_def SERVICES_def)

lemma scripted_simps [simp]:
  "web_parse scripted_env = zparse any_format" "web_fetch scripted_env = scripted_fetch" "web_request_id scripted_env = None"
  "web_uuid scripted_env w = (''uuid'', w)" "SERVICES scripted_env svc = Some ''http://svc''"
  by (simp_all add: scripted_env_def starts_with_def SERVICES_def)

lemma upper_names: "to_upper ''order'' = ''ORDER''" "to_upper ''identity'' = ''IDENTITY''"
  by code_simp+

definition order_script :: "fetch_reply list" where
  "order_script = [token_reply, Response 202 None (Json (JObj []))]"

theorem order_requests_carry_key_and_token_witness:
  "\<exists>rq reply token. (rq, reply) \<in> set (net_log (snd (post_orders lenient_env signed_in (fresh_bff order_script)))) \<and>
     map_of (rq_headers rq) ''Authorization'' = Some (''Bearer '' @ token)"
proof -
  let ?s = "fresh_bff order_script"
  have urls: "map (rq_url \<circ> fst) (net_log (snd (post_orders lenient_env signed_in ?s))) =
      [''http://SOUQ_ORDER_URL/v1/orders'', ''http://SOUQ_IDENTITY_URL/v1/auth/refresh'']"
    by (simp add: post_orders_def run_defs signed_in_def web_get_def order_script_def token_reply_def upper_names
        str_field_def get_prop_def lookup_def bff_request_def)
  obtain rq reply where "(rq, reply) \<in> set (net_log (snd (post_orders lenient_env signed_in ?s)))"
    "rq_url rq = ''http://SOUQ_ORDER_URL/v1/orders''"
  proof (cases "net_log (snd (post_orders lenient_env signed_in ?s))")
    case (Cons x xs)
    with urls that [of "fst x" "snd x"] show thesis by simp
  qed (use urls in simp)
  moreover have "refresh_url lenient_env = ''http://SOUQ_IDENTITY_URL/v1/auth/refresh''"
    by (simp add: refresh_url_def upper_names)
  ultimately show ?thesis
    using order_requests_carry_key_and_token [of ?s rq reply lenient_env signed_in] by (fastforce simp: fresh_bff_def)
qed

lemma stripped_tokens:
  "get_prop (get_prop (Some (stripped_login result)) ''tokens'') ''refreshToken'' = None"
  "get_prop (get_prop (Some (stripped_login result)) ''tokens'') ''accessToken'' = Some (JStr [])"
proof -
  have tokens: "get_prop (Some (stripped_login result)) ''tokens'' = Some (JObj (js_set ''accessToken'' (JStr [])
      (filter (\<lambda>(k, v). k \<noteq> ''refreshToken'') (fields_of (get_prop result ''tokens'')))))"
    by (simp add: stripped_login_def get_prop_def [of "Some (JObj _)"] lookup_def map_of_js_set)
  have "map_of (filter (\<lambda>(k, v). k \<noteq> ''refreshToken'') fs) ''refreshToken'' = None" for fs :: "(string \<times> json) list"
    by (auto simp: map_of_eq_None_iff)
  then show "get_prop (get_prop (Some (stripped_login result)) ''tokens'') ''refreshToken'' = None"
    "get_prop (get_prop (Some (stripped_login result)) ''tokens'') ''accessToken'' = Some (JStr [])"
    unfolding tokens by (simp_all add: get_prop_def lookup_def map_of_js_set)
qed

text \<open>C11: Signing in hands no credential to the browser's scripts: in whatever the login route answers, the
  \<^verbatim>\<open>tokens\<close> object has no refresh token and an empty access token.\<close>

theorem login_strips_tokens:
  assumes "zod (web_parse env) fmt" "post_login env req s = (Inr r, s')"
  shows "get_prop (get_prop (rs_body r) ''tokens'') ''refreshToken'' = None \<and>
    get_prop (get_prop (rs_body r) ''tokens'') ''accessToken'' \<in> {None, Some (JStr [])}"
proof -
  have throws: "throws_only (sign_in env req) envelope_ok"
    unfolding sign_in_def Let_def set_cookie_def by (intro throws_rules throws_call [OF assms(1)])
  obtain x s1 where run: "sign_in env req s = (x, s1)" by (cases "sign_in env req s")
  show ?thesis
  proof (cases x)
    case (Inl err)
    with throws run have "envelope_ok err"
      unfolding throws_only_def by (metis fst_conv)
    moreover have "problemResponse env ''/api/bff/auth/login'' err s1 = (Inr r, s')"
      using assms(2) run Inl unfolding post_login_def guarded_def attempt_def by simp
    moreover have "''tokens'' \<notin> fst ` set problem_schema"
      by (simp add: problem_schema_keys)
    ultimately have "get_prop (rs_body r) ''tokens'' = None"
      by (rule problem_body_keys)
    then show ?thesis by (simp add: get_prop_def)
  next
    case (Inr r')
    then have "sign_in env req s = (Inr r, s')"
      using assms(2) run unfolding post_login_def guarded_def attempt_def by simp
    then obtain result s2 where "respond_json (Some (stripped_login result)) 200 NO_STORE s2 = (Inr r, s')"
      unfolding sign_in_def Let_def by (elim and_then_InrE)
    then have "rs_body r = Some (stripped_login result)"
      by (auto simp: respond_json_def split: option.splits dest: json_response_SomeD)
    then show ?thesis
      by (simp add: stripped_tokens)
  qed
qed

definition login_reply :: json where
  "login_reply = JObj
     [(''tokens'', JObj [(''accessToken'', JStr ''at''), (''expiresIn'', JNum 900), (''tokenType'', JStr ''Bearer''),
        (''refreshToken'', JStr ''rt'')]),
      (''user'', JObj [(''id'', zero_id ''usr''), (''email'', JStr ''a@b''), (''fullName'', JStr ''A''), (''locale'', JStr ''en-GB''),
        (''roles'', JArr []), (''mfaEnabled'', JBool False), (''emailVerified'', JBool True),
        (''createdAt'', JStr ''2023-11-14T22:13:20Z'')])]"

definition login_request :: web_request where
  "login_request = web_get\<lparr>wr_body := Json (JObj [(''email'', JStr ''a@b''), (''password'', JStr ''p'')])\<rparr>"

lemma login_request_ok:
  "\<exists>v. zparse any_format LoginRequest (Some (JObj [(''email'', JStr ''a@b''), (''password'', JStr ''p'')])) = Accept v"
proof -
  have "zparse any_format LoginRequest (Some (JObj [(''email'', JStr ''a@b''), (''password'', JStr ''p'')])) \<noteq> Reject"
    by code_simp
  then show ?thesis by (meson zres.exhaust)
qed

lemma login_reply_ok: "\<exists>v. zparse any_format LoginResponse (Some login_reply) = Accept v"
proof -
  have "zparse any_format LoginResponse (Some login_reply) \<noteq> Reject"
    by code_simp
  then show ?thesis by (meson zres.exhaust)
qed

theorem login_strips_tokens_witness:
  "\<exists>r. fst (post_login scripted_env login_request (fresh_bff [Response 200 None (Json login_reply)])) = Inr r \<and>
     rs_status r = 200 \<and> get_prop (get_prop (rs_body r) ''tokens'') ''refreshToken'' = None"
proof -
  let ?run = "post_login scripted_env login_request (fresh_bff [Response 200 None (Json login_reply)])"
  have "map_sum id rs_status (fst ?run) = Inr 200"
  proof -
    obtain v where "zparse any_format LoginRequest (Some (JObj [(''email'', JStr ''a@b''), (''password'', JStr ''p'')])) = Accept v"
      using login_request_ok by blast
    moreover obtain w where "zparse any_format LoginResponse (Some login_reply) = Accept w"
      using login_reply_ok by blast
    ultimately show ?thesis
      by (simp add: post_login_def sign_in_def set_cookie_def run_defs login_request_def web_get_def)
  qed
  then obtain r where r: "fst ?run = Inr r" "rs_status r = 200"
    by (cases "fst ?run") auto
  then have "?run = (Inr r, snd ?run)"
    by (metis prod.collapse)
  from login_strips_tokens [OF scripted_zod this] r show ?thesis
    by blast
qed

text \<open>An outage is not a sign-out. The session comes out as signed out only without a refresh cookie, or
  when identity-service itself answered the exchange with an error status; a timeout or a connection
  failure is thrown.\<close>

theorem signed_out_only_by_identity:
  assumes "bff_exchange s = None" "getAccessToken env req s = (Inr None, s')"
  shows "\<not> truthy (cookie_value req REFRESH_COOKIE) \<or>
    (\<exists>rq status hdr b. (rq, Response status hdr b) \<in> set (net_log s') \<and> \<not> response_is_ok status)"
proof (cases "truthy (cookie_value req REFRESH_COOKIE)")
  case True
  then obtain rt where rt: "cookie_value req REFRESH_COOKIE = Some rt" "rt \<noteq> []"
    by (rule truthyE)
  let ?o = "(plain_call SvcIdentity ''/v1/auth/refresh'' TokenPair)
    \<lparr>co_method := Some ''POST'', co_body := Some (JObj [(''refreshToken'', JStr rt)])\<rparr>"
  from assms rt obtain s1 where ex: "exchange_token env rt s = (Inr None, s1)" "net_log s' = net_log s1"
    by (auto simp: getAccessToken_def split: prod.splits)
  obtain x s2 where run: "call env ?o s = (x, s2)" by (cases "call env ?o s")
  have "\<exists>e. x = Inl (Bff e) \<and> be_status e = 401 \<and> s2 = s1"
    using ex(1) run by (cases x) (auto simp: exchange_token_def attempt_def and_then_def split: thrown.splits if_splits)
  then obtain e where e: "x = Inl (Bff e)" "be_status e = 401" "s2 = s1" by blast
  with call_settles [of env ?o s] run obtain rid rq reply where
    reply: "received env ?o rid reply = Inl (Bff e)" "(rq, reply) \<in> set (net_log s1)"
    by (auto dest: sym)
  from reply(1) e(2) have "\<exists>status hdr b. reply = Response status hdr b \<and> \<not> response_is_ok status"
    by (cases reply) (auto simp: received_def Let_def bff_error_def split: if_splits body.splits zres.splits)
  with reply(2) ex(2) show ?thesis by fastforce
qed simp

theorem signed_out_only_by_identity_witness:
  "\<exists>rq status hdr b. (rq, Response status hdr b) \<in>
     set (net_log (snd (getAccessToken lenient_env signed_in (fresh_bff [Response 401 None Unreadable])))) \<and> \<not> response_is_ok status"
proof -
  let ?run = "getAccessToken lenient_env signed_in (fresh_bff [Response 401 None Unreadable])"
  have "fst ?run = Inr None"
    by code_simp
  then have "?run = (Inr None, snd ?run)"
    by (metis prod.collapse)
  moreover have "truthy (cookie_value signed_in REFRESH_COOKIE)"
    by code_simp
  ultimately show ?thesis
    using signed_out_only_by_identity [of "fresh_bff [Response 401 None Unreadable]" lenient_env signed_in "snd ?run"]
    by (simp add: fresh_bff_def)
qed

text \<open>A request body that fails validation is answered by a 500 \<^verbatim>\<open>INTERNAL_ERROR\<close>, like a bug of the handler:
  the failed parse is not a \<^verbatim>\<open>BffError\<close>.\<close>

theorem invalid_body_is_internal_error:
  assumes "wr_body req = Json j" "web_parse env AddToCartRequest (Some j) = Reject"
  shows "\<exists>r s'. post_cart_lines env req s = (Inr r, s') \<and> rs_status r = 500 \<and>
    get_prop (rs_body r) ''code'' = Some (JStr ''INTERNAL_ERROR'')"
proof -
  obtain u w where "web_uuid env (net_world s) = (u, w)"
    by (cases "web_uuid env (net_world s)")
  then show ?thesis
    using assms by (simp add: post_cart_lines_def guarded_def attempt_def parse_body_def and_then_def problemResponse_def
        randomUUID_def respond_json_def json_response_def may_carry_body_def internal_fields_def get_prop_def lookup_def)
qed

theorem invalid_body_is_internal_error_witness:
  "\<exists>r. fst (post_cart_lines scripted_env (web_get\<lparr>wr_body := Json JNull\<rparr>) (fresh_bff [])) = Inr r \<and> rs_status r = 500"
proof -
  have "web_parse scripted_env AddToCartRequest (Some JNull) = Reject"
    by code_simp
  then show ?thesis
    using invalid_body_is_internal_error [of "web_get\<lparr>wr_body := Json JNull\<rparr>" JNull scripted_env "fresh_bff []"] by force
qed

text \<open>C36: Signing out cannot fail: whatever identity-service does, the reply is 204 and the browser is told
  to drop the refresh cookie, under the very attributes it was set with, and the basket cookie.\<close>

theorem logout_always_signs_out:
  "fst (post_logout env req s) = Inr no_content \<and>
   (\<exists>rest. bff_set_cookies (snd (post_logout env req s)) = cleared_cart_cookie # refreshCookieOptions env 0 [] # rest)"
proof -
  have revoke: "\<exists>s2. attempt (and_then (call env opts) (\<lambda>_. ret ())) (\<lambda>_. ret ()) s1 = (Inr () :: thrown + unit, s2) \<and>
      bff_set_cookies s2 = bff_set_cookies s1" for opts and s1 :: "'a bff"
    using call_keeps_request [of env opts s1]
    by (cases "call env opts s1"; cases "fst (call env opts s1)") (auto simp: attempt_def and_then_def)
  show ?thesis
  proof (cases "truthy (cookie_value req REFRESH_COOKIE)")
    case True
    then obtain rt where rt: "cookie_value req REFRESH_COOKIE = Some rt" "rt \<noteq> []"
      by (rule truthyE)
    obtain s2 where "attempt (and_then (call env ((plain_call SvcIdentity ''/v1/auth/logout'' ZUndefined)
          \<lparr>co_method := Some ''POST'', co_body := Some (JObj [(''refreshToken'', JStr rt)])\<rparr>)) (\<lambda>_. ret ())) (\<lambda>_. ret ())
        (s\<lparr>bff_set_cookies := cleared_cart_cookie # refreshCookieOptions env 0 [] # bff_set_cookies s\<rparr>) = (Inr () :: thrown + unit, s2)"
      "bff_set_cookies s2 = cleared_cart_cookie # refreshCookieOptions env 0 [] # bff_set_cookies s"
      using revoke by fastforce
    with rt show ?thesis
      by (simp add: post_logout_def set_cookie_def and_then_def [of "attempt _ _"])
  next
    case False
    then show ?thesis
      by (auto simp: post_logout_def set_cookie_def and_then_def truthy_def split: option.splits)
  qed
qed

text \<open>The type-ahead route answers 200 whatever happens to search-service.\<close>

theorem suggest_never_fails: "\<exists>r. fst (get_suggest env req s) = Inr r \<and> rs_status r = 200"
proof -
  have ok: "\<exists>r. fst (respond_json (Some no_suggestions) 200 [] s :: (thrown + response) \<times> 'a bff) = Inr r \<and> rs_status r = 200" for s
    by (simp add: respond_json_def json_response_def may_carry_body_def)
  have found: "rs_status r = 200" if "and_then m (\<lambda>v. respond_json v 200 hs) s = (Inr r, s')" for m hs s s' and r
    using that by (auto elim!: and_then_InrE simp: respond_json_def split: option.splits dest: json_response_SomeD)
  have caught: "\<exists>r. fst (attempt (and_then m (\<lambda>v. respond_json v 200 hs)) (\<lambda>_. respond_json (Some no_suggestions) 200 []) s ::
      (thrown + response) \<times> 'a bff) = Inr r \<and> rs_status r = 200" for m :: "('a, json option) bff_act" and hs s
    using ok found [of m hs s] unfolding attempt_def by (auto split: prod.splits sum.splits)
  show ?thesis
    unfolding get_suggest_def Let_def using ok caught by (cases "map_of (wr_query req) ''q''") auto
qed

end
