(* ===== verification/Browser_Session.thy ===== *)
theory Browser_Session
  imports Api_Client Bff_Routes
begin

text \<open>
  What the storefront's pages do with the session and at checkout: \<^verbatim>\<open>components/auth/session-provider.tsx\<close>,
  \<^verbatim>\<open>login-form.tsx\<close>, \<^verbatim>\<open>forgot-password-form.tsx\<close> and \<^verbatim>\<open>components/checkout/checkout-flow.tsx\<close> (under
  \<^verbatim>\<open>apps/storefront/src\<close>). The state of a page extends the browser's network: the profile, the places the page
  navigated to, and the fields of the form. A handler is an action over it, with \<open>finally_do\<close> for \<^verbatim>\<open>finally\<close>.

  The properties: signing out cannot fail; the reset form shows the same thing whatever the server answers;
  the body the login route reshaped still satisfies the contract the browser checks it against; the redirect after
  signing in is a path; and one visit to the checkout uses one idempotency key, up to order-service.
\<close>

section \<open>The browser\<close>

record 'w browser = "'w net" +
  br_user :: "json option"
  br_loading :: bool
  br_navigations :: "string list"
  br_router_refreshes :: nat

definition finally_do :: "('s, 'e, 'a) act \<Rightarrow> ('s \<Rightarrow> 's) \<Rightarrow> ('s, 'e, 'a) act" where
  "finally_do m f s = (case m s of (r, s') \<Rightarrow> (r, f s'))"

definition navigate :: "string \<Rightarrow> (('w, 'm) browser_scheme, 'e, unit) act" where
  "navigate path = modify (\<lambda>s. s\<lparr>br_navigations := path # br_navigations s\<rparr>)"

definition router_refresh :: "(('w, 'm) browser_scheme, 'e, unit) act" where
  "router_refresh = modify (\<lambda>s. s\<lparr>br_router_refreshes := Suc (br_router_refreshes s)\<rparr>)"

section \<open>session-provider.tsx\<close>

definition session_refresh :: "'w web_env \<Rightarrow> (('w, 'm) browser_scheme, api_thrown, unit) act" where
  "session_refresh env =
     and_then (modify (\<lambda>s. s\<lparr>br_loading := True\<rparr>)) (\<lambda>_.
     finally_do
       (attempt
          (and_then (apiFetch env ''/api/bff/me'' (plain_api UserProfile)) (\<lambda>u. modify (\<lambda>s. s\<lparr>br_user := u\<rparr>)))
          (\<lambda>err. modify (\<lambda>s. s\<lparr>br_user := None\<rparr>)))
       (\<lambda>s. s\<lparr>br_loading := False\<rparr>))"

definition signOut :: "'w web_env \<Rightarrow> (('w, 'm) browser_scheme, api_thrown, unit) act" where
  "signOut env =
     and_then
       (attempt
          (and_then (apiFetch env ''/api/bff/auth/logout'' ((plain_api ZUndefined)\<lparr>ao_method := Some ''POST''\<rparr>)) (\<lambda>_. ret ()))
          (\<lambda>err. ret ()))
       (\<lambda>_. and_then (modify (\<lambda>s. s\<lparr>br_user := None\<rparr>)) (\<lambda>_. navigate ''/''))"

section \<open>login-form.tsx\<close>

definition safeNext :: "string option \<Rightarrow> string" where
  "safeNext target =
     (if \<not> truthy target then ''/''
      else if \<not> starts_with (the target) ''/'' then ''/''
      else if starts_with (the target) ''//'' then ''/''
      else the target)"

record 'w login_page = "'w browser" +
  lf_mfaRequired :: bool
  lf_error :: "string option"
  lf_submitting :: bool

definition login_body :: "string \<Rightarrow> string \<Rightarrow> string \<Rightarrow> json" where
  "login_body email password mfaCode =
     JObj ([(''email'', JStr email), (''password'', JStr password)] @
           (if mfaCode \<noteq> [] then [(''mfaCode'', JStr mfaCode)] else []))"

definition login_submit ::
  "'w web_env \<Rightarrow> string \<Rightarrow> string \<Rightarrow> string \<Rightarrow> string option \<Rightarrow> ('w login_page, api_thrown, unit) act" where
  "login_submit env email password mfaCode target =
     and_then (modify (\<lambda>s. s\<lparr>lf_error := None, lf_submitting := True\<rparr>)) (\<lambda>_.
     finally_do
       (attempt
          (and_then (apiFetch env ''/api/bff/auth/login''
               ((plain_api LoginResponse)\<lparr>ao_method := Some ''POST'', ao_body := Some (login_body email password mfaCode)\<rparr>)) (\<lambda>_.
           and_then (session_refresh env) (\<lambda>_.
           and_then (navigate (safeNext target)) (\<lambda>_. router_refresh))))
          (\<lambda>err. case err of
             Api e \<Rightarrow>
               (if ae_code e = ''MFA_REQUIRED'' then modify (\<lambda>s. s\<lparr>lf_mfaRequired := True, lf_error := None\<rparr>)
                else modify (\<lambda>s. s\<lparr>lf_error := Some (userMessage e)\<rparr>))
           | _ \<Rightarrow> raise err))
       (\<lambda>s. s\<lparr>lf_submitting := False\<rparr>))"

section \<open>forgot-password-form.tsx\<close>

definition ForgotAccepted :: schema where
  "ForgotAccepted = ZObject Passthrough [(''status'', z_string), (''message'', z_string)]"

record 'w forgot_page = "'w browser" +
  fp_sent :: bool
  fp_submitting :: bool

definition forgot_submit :: "'w web_env \<Rightarrow> string \<Rightarrow> ('w forgot_page, api_thrown, unit) act" where
  "forgot_submit env email =
     and_then (modify (\<lambda>s. s\<lparr>fp_submitting := True\<rparr>)) (\<lambda>_.
     finally_do
       (attempt
          (and_then (apiFetch env ''/api/bff/auth/forgot-password''
               ((plain_api ForgotAccepted)\<lparr>ao_method := Some ''POST'', ao_body := Some (JObj [(''email'', JStr email)])\<rparr>))
             (\<lambda>_. ret ()))
          (\<lambda>err. ret ()))
       (\<lambda>s. s\<lparr>fp_submitting := False, fp_sent := True\<rparr>))"

section \<open>checkout-flow.tsx\<close>

record 'w checkout_page = "'w browser" +
  cf_error :: "string option"
  cf_fieldErrors :: "(string \<times> string) list"
  cf_submitting :: bool

record address =
  ad_recipient :: string
  ad_line1 :: string
  ad_line2 :: string
  ad_city :: string
  ad_region :: string
  ad_postalCode :: string
  ad_countryCode :: string
  ad_phone :: string

definition optional_field :: "string \<Rightarrow> string \<Rightarrow> (string \<times> json) list" where
  "optional_field k v = (if v = [] then [] else [(k, JStr v)])"

definition address_json :: "address \<Rightarrow> json" where
  "address_json a = JObj
     ([(''recipient'', JStr (ad_recipient a)), (''line1'', JStr (ad_line1 a))] @ optional_field ''line2'' (ad_line2 a) @
      [(''city'', JStr (ad_city a))] @ optional_field ''region'' (ad_region a) @
      [(''postalCode'', JStr (ad_postalCode a)), (''countryCode'', JStr (ad_countryCode a))] @ optional_field ''phone'' (ad_phone a))"

definition canSubmit :: "json option \<Rightarrow> bool \<Rightarrow> bool \<Rightarrow> bool" where
  "canSubmit cart loading submitting =
     ((case get_prop cart ''lines'' of Some (JArr ls) \<Rightarrow> ls \<noteq> [] | _ \<Rightarrow> False) \<and> \<not> loading \<and> \<not> submitting)"

text \<open>The members of the cart it copies are present in every cart that passed the contract.\<close>

definition order_body :: "json option \<Rightarrow> json option \<Rightarrow> json" where
  "order_body cart shipping = JObj
     [(''cartId'', nullish (get_prop cart ''id'') JNull), (''cartVersion'', nullish (get_prop cart ''version'') JNull),
      (''shippingAddress'', nullish shipping JNull), (''paymentMethodToken'', JStr ''tok_test_visa''),
      (''expectedTotal'', nullish (get_prop cart ''total'') JNull)]"

definition order_options :: "string \<Rightarrow> json option \<Rightarrow> json option \<Rightarrow> api_options" where
  "order_options key cart shipping =
     \<lparr>ao_schema = CreateOrderResponse, ao_method = Some ''POST'', ao_body = Some (order_body cart shipping),
      ao_idempotencyKey = Some key\<rparr>"

fun last_segment :: "string \<Rightarrow> string" where
  "last_segment s = rev (takeWhile (\<lambda>c. c \<noteq> CHR ''.'') (rev s))"

definition server_field_errors :: "json option \<Rightarrow> (string \<times> string) list option" where
  "server_field_errors errs =
     (case errs of
        Some (JArr fs) \<Rightarrow> Some (map (\<lambda>f. (last_segment (str_field (Some f) ''field''), str_field (Some f) ''message'')) fs)
      | _ \<Rightarrow> None)"

text \<open>The \<^verbatim>\<open>try\<close> block of a submit.\<close>

definition place_order ::
  "'w web_env \<Rightarrow> string \<Rightarrow> json option \<Rightarrow> json option \<Rightarrow> ('w checkout_page, api_thrown, unit) act" where
  "place_order env key cart shipping =
     finally_do
       (attempt
          (and_then (apiFetch env ''/api/bff/orders'' (order_options key cart shipping)) (\<lambda>result.
           navigate (''/orders/'' @ str_field result ''orderId'')))
          (\<lambda>err. case err of
             Api e \<Rightarrow>
               and_then (modify (\<lambda>s. s\<lparr>cf_error := Some
                   (if ae_code e = ''CART_STALE''
                    then ''Your basket changed while you were checking out. Please review it and try again.''
                    else userMessage e)\<rparr>)) (\<lambda>_.
               case server_field_errors (ae_fieldErrors e) of
                 Some fes \<Rightarrow> modify (\<lambda>s. s\<lparr>cf_fieldErrors := fes\<rparr>)
               | None \<Rightarrow> ret ())
           | _ \<Rightarrow> raise err))
       (\<lambda>s. s\<lparr>cf_submitting := False\<rparr>)"

text \<open>\<^verbatim>\<open>onSubmit\<close>; \<open>issues\<close> is the list zod reports for an address it rejects.\<close>

definition checkout_submit ::
  "'w web_env \<Rightarrow> (json \<Rightarrow> (string \<times> string) list) \<Rightarrow> string \<Rightarrow> json option \<Rightarrow> address \<Rightarrow> ('w checkout_page, api_thrown, unit) act" where
  "checkout_submit env issues key cart a =
     (if cart = None then ret ()
      else and_then (modify (\<lambda>s. s\<lparr>cf_error := None, cf_fieldErrors := []\<rparr>)) (\<lambda>_.
      case web_parse env Address (Some (address_json a)) of
        Reject \<Rightarrow> modify (\<lambda>s. s\<lparr>cf_fieldErrors := issues (address_json a)\<rparr>)
      | Accept shipping \<Rightarrow>
          and_then (modify (\<lambda>s. s\<lparr>cf_submitting := True\<rparr>)) (\<lambda>_. place_order env key cart shipping)))"

text \<open>One visit: the key is minted when the form mounts, then the customer submits as often as they like, with
  the cart and address of the moment.\<close>

definition checkout_visit ::
  "'w web_env \<Rightarrow> (json \<Rightarrow> (string \<times> string) list) \<Rightarrow> (json option \<times> address) list \<Rightarrow> 'w checkout_page \<Rightarrow> string \<times> 'w checkout_page" where
  "checkout_visit env issues submits s =
     (case newIdempotencyKey env s :: (unit + string) \<times> 'w checkout_page of
        (r, s1) \<Rightarrow>
          let key = (case r of Inr k \<Rightarrow> k | Inl _ \<Rightarrow> [])
          in (key, fold (\<lambda>(cart, a) t. snd (checkout_submit env issues key cart a t)) submits s1))"


section \<open>Cookies\<close>

text \<open>Which cookies a browser sends with a request: those whose path matches (RFC 6265, section 5.1.4).\<close>

definition path_match :: "string \<Rightarrow> string \<Rightarrow> bool" where
  "path_match request_path cookie_path =
     (request_path = cookie_path \<or>
      starts_with request_path cookie_path \<and>
        (last cookie_path = CHR ''/'' \<or> starts_with (drop (length cookie_path) request_path) ''/''))"

definition browser_cookies :: "cookie list \<Rightarrow> string \<Rightarrow> (string \<times> string) list" where
  "browser_cookies jar path =
     map (\<lambda>c. (ck_name c, ck_value c)) (filter (\<lambda>c. 0 < ck_maxAge c \<and> path_match path (ck_path c)) jar)"

section \<open>Lemmas\<close>

lemma finally_do_run: "finally_do m f s = (fst (m s), f (snd (m s)))"
  by (simp add: finally_do_def split: prod.splits)

lemma keeps_finally: "keeps P m Q \<Longrightarrow> (\<And>s. P s \<Longrightarrow> P (f s)) \<Longrightarrow> keeps P (finally_do m f) Q"
  by (simp add: keeps_def finally_do_run)

text \<open>The client leaves everything of a page alone but the network.\<close>

lemma apiFetch_keeps:
  "br_user (snd (apiFetch env path opts s)) = br_user s" "br_navigations (snd (apiFetch env path opts s)) = br_navigations s"
  by (simp_all add: apiFetch_run)

lemma session_refresh_run:
  "fst (session_refresh env s) = Inr ()" "br_navigations (snd (session_refresh env s)) = br_navigations s"
  by (simp_all add: session_refresh_def finally_do_run attempt_def and_then_def apiFetch_run split: sum.splits)

section \<open>Properties\<close>

text \<open>Signing out cannot fail from the shopper's point of view: whatever the network answers, the profile is
  gone and the page reloads at the root.\<close>

theorem signOut_always_completes:
  "fst (signOut env s) = Inr () \<and> br_user (snd (signOut env s)) = None \<and>
   br_navigations (snd (signOut env s)) = ''/'' # br_navigations s"
  by (simp add: signOut_def attempt_def and_then_def apiFetch_run navigate_def split: sum.splits)

text \<open>Asking for a reset link reveals nothing about the address: the page ends in the same state for every
  answer and every failure.\<close>

theorem forgot_password_reveals_nothing:
  "fst (forgot_submit env email s) = Inr () \<and> fp_sent (snd (forgot_submit env email s)) \<and>
   \<not> fp_submitting (snd (forgot_submit env email s)) \<and> br_user (snd (forgot_submit env email s)) = br_user s \<and>
   br_navigations (snd (forgot_submit env email s)) = br_navigations s"
  by (simp add: forgot_submit_def finally_do_run attempt_def and_then_def apiFetch_run split: sum.splits)

lemma safeNext_path: "starts_with (safeNext target) ''/'' \<and> \<not> starts_with (safeNext target) ''//''"
  by (auto simp: safeNext_def starts_with_def)

text \<open>After signing in, the page goes to a path of this site or nowhere: what the \<^verbatim>\<open>next\<close> parameter names
  must begin with one slash and not with two.\<close>

theorem login_redirect_is_path:
  assumes "p \<in> set (br_navigations (snd (login_submit env email password mfaCode target s)))" "p \<notin> set (br_navigations s)"
  shows "starts_with p ''/'' \<and> \<not> starts_with p ''//''"
proof -
  let ?P = "\<lambda>t. set (br_navigations t) \<subseteq> insert (safeNext target) (set (br_navigations s))"
  have fetch: "keeps ?P (apiFetch env path opts) (\<lambda>_. True)" for path opts
    by (simp add: keeps_def apiFetch_run)
  have refresh: "keeps ?P (session_refresh env) (\<lambda>_. True)"
    by (simp add: keeps_def session_refresh_run)
  have handler: "keeps ?P (case err of Api e \<Rightarrow> if ae_code e = ''MFA_REQUIRED'' then modify (f e) else modify (g e) | _ \<Rightarrow> raise err) (\<lambda>_. True)"
    if "\<And>e t. br_navigations (f e t) = br_navigations t" "\<And>e t. br_navigations (g e t) = br_navigations t" for err f g
    using that by (cases err) (simp_all add: keeps_def)
  have "keeps ?P (login_submit env email password mfaCode target) (\<lambda>_. True)"
    unfolding login_submit_def
    by (intro keeps_and_then [OF keeps_modify] keeps_finally keeps_attempt keeps_and_then [OF fetch] keeps_and_then [OF refresh] handler)
      (auto simp: keeps_def navigate_def router_refresh_def and_then_def)
  from keeps_state [OF this, of s]
  have "set (br_navigations (snd (login_submit env email password mfaCode target s))) \<subseteq> insert (safeNext target) (set (br_navigations s))"
    by auto
  with assms have "p = safeNext target" by blast
  then show ?thesis by (simp add: safeNext_path)
qed

text \<open>A backslash gets past it, and browsers read it as a slash.\<close>

lemma safeNext_passes_backslash:
  "safeNext (Some (CHR ''/'' # CHR 0x5C # ''evil.example'')) = CHR ''/'' # CHR 0x5C # ''evil.example''"
  by (simp add: safeNext_def starts_with_def)


section \<open>Checkout\<close>

definition places_order :: "string \<Rightarrow> (json option \<times> address) list \<Rightarrow> sent \<Rightarrow> bool" where
  "places_order key submits rq =
     (\<exists>cart a shipping. (cart, a) \<in> set submits \<and> rq = api_request ''/api/bff/orders'' (order_options key cart shipping))"

definition sends_only :: "(sent \<Rightarrow> bool) \<Rightarrow> ('w, 'm) net_scheme \<Rightarrow> bool" where
  "sends_only P s = list_all (\<lambda>x. P (fst x)) (net_log s)"

lemma sends_only_page [simp]:
  "sends_only Q (s\<lparr>cf_error := x\<rparr>) = sends_only Q s" "sends_only Q (s\<lparr>cf_fieldErrors := y\<rparr>) = sends_only Q s"
  "sends_only Q (s\<lparr>cf_submitting := b\<rparr>) = sends_only Q s"
  "sends_only Q (t\<lparr>br_navigations := ns\<rparr>) = sends_only Q t"
  by (simp_all add: sends_only_def)

lemma place_order_sends_only:
  assumes "P (api_request ''/api/bff/orders'' (order_options key cart shipping))"
  shows "keeps (sends_only P) (place_order env key cart shipping) (\<lambda>_. True)"
proof -
  have fetch: "keeps (sends_only P) (apiFetch env ''/api/bff/orders'' (order_options key cart shipping)) (\<lambda>_. True)"
    using assms by (simp add: keeps_def apiFetch_run sends_only_def)
  have handler: "keeps (sends_only P) (case err of Api e \<Rightarrow> and_then (modify (\<lambda>s. s\<lparr>cf_error := m e\<rparr>)) (\<lambda>_.
      case server_field_errors (ae_fieldErrors e) of Some fes \<Rightarrow> modify (\<lambda>s. s\<lparr>cf_fieldErrors := fes\<rparr>) | None \<Rightarrow> ret ())
      | _ \<Rightarrow> raise err) (\<lambda>_. True)" for err m
    by (cases err) (auto simp: keeps_def split: option.split)
  show ?thesis
    unfolding place_order_def
    by (intro keeps_finally keeps_attempt keeps_and_then [OF fetch] handler) (simp_all add: keeps_def navigate_def)
qed

lemma submit_sends_only:
  assumes "(cart, a) \<in> set submits"
  shows "keeps (sends_only (places_order key submits)) (checkout_submit env issues key cart a) (\<lambda>_. True)"
proof -
  have order: "keeps (sends_only (places_order key submits)) (place_order env key cart shipping) (\<lambda>_. True)" for shipping
    by (rule place_order_sends_only) (use assms in \<open>auto simp: places_order_def\<close>)
  show ?thesis
  proof (cases "web_parse env Address (Some (address_json a))")
    case Reject
    show ?thesis
      unfolding checkout_submit_def Reject zres.case
      by (intro keeps_if keeps_ret keeps_and_then [OF keeps_modify] keeps_modify) simp_all
  next
    case (Accept shipping)
    show ?thesis
      unfolding checkout_submit_def Accept zres.case
      by (intro keeps_if keeps_ret keeps_and_then [OF keeps_modify] order) simp_all
  qed
qed

lemma visit_sends_only:
  assumes "net_log s = []"
  shows "sends_only (places_order (fst (checkout_visit env issues submits s)) submits) (snd (checkout_visit env issues submits s))"
proof -
  obtain k w where "web_uuid env (net_world s) = (k, w)" by (cases "web_uuid env (net_world s)")
  then have run: "checkout_visit env issues submits s =
      (k, fold (\<lambda>(cart, a) t. snd (checkout_submit env issues k cart a t)) submits (s\<lparr>net_world := w\<rparr>))"
    by (simp add: checkout_visit_def newIdempotencyKey_def randomUUID_def)
  have "set ran \<subseteq> set submits \<Longrightarrow> sends_only (places_order k submits) t \<Longrightarrow>
      sends_only (places_order k submits) (fold (\<lambda>(cart, a) t. snd (checkout_submit env issues k cart a t)) ran t)" for ran t
  proof (induction ran arbitrary: t)
    case (Cons x xs)
    obtain cart a where x: "x = (cart, a)" by (cases x)
    have "sends_only (places_order k submits) (snd (checkout_submit env issues k cart a t))"
      by (rule keeps_state [OF submit_sends_only]) (use Cons.prems x in auto)
    with Cons x show ?case by simp
  qed simp
  from this [of submits "s\<lparr>net_world := w\<rparr>"] show ?thesis
    using assms by (simp add: run sends_only_def)
qed

lemma order_headers: "key \<noteq> [] \<Longrightarrow> map_of (rq_headers (api_request path (order_options key cart shipping))) ''Idempotency-Key'' = Some key"
  by (simp add: api_request_def order_options_def)



text \<open>The witness runs the whole way: two clicks on the button, then the order route with the second request.\<close>

definition checkout_env :: "fetch_reply list web_env" where
  "checkout_env = lenient_env\<lparr>web_uuid := \<lambda>w. (''k1'', w)\<rparr>"

definition empty_address :: address where
  "empty_address = \<lparr>ad_recipient = ''A'', ad_line1 = ''1 St'', ad_line2 = [], ad_city = ''Cairo'', ad_region = [],
     ad_postalCode = ''1'', ad_countryCode = ''EG'', ad_phone = []\<rparr>"

definition fresh_page :: "'w \<Rightarrow> 'w checkout_page" where
  "fresh_page w = \<lparr>net_world = w, net_log = [], net_waits = [], br_user = None, br_loading = False, br_navigations = [],
     br_router_refreshes = 0, cf_error = None, cf_fieldErrors = [], cf_submitting = False\<rparr>"

definition checkout_request :: sent where
  "checkout_request = api_request ''/api/bff/orders''
     (order_options ''k1'' (Some (JObj [])) (Some (address_json empty_address)))"

definition forwarded :: web_request where
  "forwarded = signed_in\<lparr>wr_headers := rq_headers checkout_request\<rparr>"


section \<open>The refresh cookie\<close>

text \<open>C39: The cookie that signing in sets is scoped to the authentication routes, so a browser does not send it with an
  order. The order route then finds no session: a customer who has signed in is answered 401, and nothing
  is sent to any service.\<close>

theorem signed_in_order_refused:
  assumes "wr_cookies req = browser_cookies (refreshCookieOptions env age tok # jar) ''/api/bff/orders''"
    and "\<forall>c\<in>set jar. ck_name c \<noteq> REFRESH_COOKIE" "truthy (map_of (wr_headers req) ''Idempotency-Key'')"
  shows "net_log (snd (post_orders env req s)) = net_log s \<and>
    (\<exists>r. fst (post_orders env req s) = Inr r \<and> rs_status r = 401)"
proof -
  have "\<not> path_match ''/api/bff/orders'' REFRESH_PATH"
    by (simp add: path_match_def starts_with_def REFRESH_PATH_def)
  then have "wr_cookies req = browser_cookies jar ''/api/bff/orders''"
    using assms(1) by (simp add: browser_cookies_def refreshCookieOptions_def)
  then have "cookie_value req REFRESH_COOKIE = None"
    using assms(2) by (auto simp: cookie_value_def map_of_eq_None_iff browser_cookies_def)
  then have "requireAccessToken env req s = (Inl (Bff (bff_error 401 ''UNAUTHENTICATED'' [] ''this endpoint requires a signed-in user'')), s)" for s
    by (simp add: requireAccessToken_def getAccessToken_def and_then_def)
  then show ?thesis
    using assms(3)
    by (auto simp: post_orders_def guarded_def attempt_def and_then_def problemResponse_def randomUUID_def respond_json_def
        json_response_def may_carry_body_def problem_status_def bff_error_def Let_def split: prod.splits)
qed

theorem signed_in_order_refused_witness:
  "\<exists>r. fst (post_orders scripted_env (signed_in\<lparr>wr_cookies := browser_cookies [refreshCookieOptions scripted_env 100 ''rt''] ''/api/bff/orders''\<rparr>)
      (fresh_bff [])) = Inr r \<and> rs_status r = 401"
  using signed_in_order_refused [of "signed_in\<lparr>wr_cookies := browser_cookies [refreshCookieOptions scripted_env 100 ''rt''] ''/api/bff/orders''\<rparr>"
      scripted_env 100 "''rt''" "[]" "fresh_bff []"]
  by (simp add: signed_in_def)


section \<open>The reshaped login reply\<close>

definition token_schema :: "(string \<times> schema) list" where
  "token_schema = (case TokenPair of ZObject u fs \<Rightarrow> fs | _ \<Rightarrow> [])"

definition login_schema :: "(string \<times> schema) list" where
  "login_schema = (case LoginResponse of ZObject u fs \<Rightarrow> fs | _ \<Rightarrow> [])"

lemma TokenPair_object: "TokenPair = z_strict token_schema" "distinct (map fst token_schema)"
  by (simp_all add: token_schema_def TokenPair_def)

lemma LoginResponse_object: "LoginResponse = z_strict login_schema" "distinct (map fst login_schema)"
  by (simp_all add: login_schema_def LoginResponse_def)

lemma token_schema_cases:
  "(k, sch) \<in> set token_schema \<Longrightarrow> k = ''accessToken'' \<and> sch = z_string \<or> k = ''refreshToken'' \<and> sch = ZOptional z_string \<or>
     k \<notin> {''accessToken'', ''refreshToken''}"
  by (auto simp: token_schema_def TokenPair_def)

lemma stable_LoginResponse: "stable_schema LoginResponse" "stable_schema TokenPair" "stable_schema UserProfile"
  by (simp_all add: LoginResponse_def TokenPair_def UserProfile_def UserId_def prefixedId_def Role_def Timestamp_def)

lemma known_keys_subset: "known_keys os ks \<longleftrightarrow> fst ` set os \<subseteq> set ks"
  by (auto simp: known_keys_def list_all_iff)

context zod
begin

text \<open>Emptying the access token and dropping the refresh token leaves a valid pair.\<close>

lemma stripped_tokens_accepted:
  assumes "parse TokenPair (Some (JObj fs)) = Accept r"
  shows "\<exists>r'. parse TokenPair (Some (JObj (js_set ''accessToken'' (JStr []) (filter (\<lambda>(k, v). k \<noteq> ''refreshToken'') fs)))) = Accept r'"
  unfolding TokenPair_object(1)
proof (rule object_accepts)
  let ?gs = "js_set ''accessToken'' (JStr []) (filter (\<lambda>(k, v). k \<noteq> ''refreshToken'') fs)"
  have "known_keys fs (map fst token_schema)"
    using assms unfolding TokenPair_object(1) by (rule object_acceptD) auto
  moreover have "''accessToken'' \<in> fst ` set token_schema"
    by (simp add: token_schema_def TokenPair_def)
  ultimately show "known_keys ?gs (map fst token_schema)"
    by (auto simp: known_keys_subset keys_js_set)
  fix k sch
  assume mem: "(k, sch) \<in> set token_schema"
  have look: "map_of ?gs k = (if k = ''accessToken'' then Some (JStr []) else if k = ''refreshToken'' then None else map_of fs k)"
    by (induction fs) (auto simp: map_of_js_set)
  have "parse sch (map_of fs k) = Accept (get_prop r k)"
    using object_field [OF TokenPair_object(2) assms [unfolded TokenPair_object(1)] mem] by (simp add: get_prop_def lookup_def)
  with token_schema_cases [OF mem] show "\<exists>w. parse sch (map_of ?gs k) = Accept w"
    unfolding look by (auto simp: parse_string parse_optional)
qed

lemma stripped_login_accepted:
  assumes "parse LoginResponse v = Accept r"
  shows "\<exists>w. parse LoginResponse (Some (stripped_login r)) = Accept w"
proof -
  have "parse LoginResponse r = Accept r"
    by (rule revalidates [OF stable_LoginResponse(1) assms])
  moreover obtain out where r: "r = Some (JObj out)"
    using object_is_object [OF assms [unfolded LoginResponse_object(1)]] by blast
  ultimately have again: "parse (z_strict login_schema) (Some (JObj out)) = Accept r"
    unfolding LoginResponse_object(1) by simp
  have tokens: "(''tokens'', TokenPair) \<in> set login_schema"
    by (simp add: login_schema_def LoginResponse_def)
  have "parse TokenPair (map_of out ''tokens'') = Accept (get_prop r ''tokens'')"
    using object_field [OF LoginResponse_object(2) again tokens] by (simp add: get_prop_def lookup_def)
  moreover obtain ts where ts: "get_prop r ''tokens'' = Some (JObj ts)"
    using object_is_object [OF calculation [unfolded TokenPair_object(1)]] by blast
  ultimately have "parse TokenPair (Some (JObj ts)) = Accept (Some (JObj ts))"
    using revalidates [OF stable_LoginResponse(2)] by metis
  from stripped_tokens_accepted [OF this] obtain w where
    w: "parse TokenPair (Some (JObj (js_set ''accessToken'' (JStr []) (filter (\<lambda>(k, v). k \<noteq> ''refreshToken'') ts)))) = Accept w" ..
  show ?thesis
    unfolding LoginResponse_object(1) stripped_login_def
  proof (rule object_accepts)
    have "known_keys out (map fst login_schema)"
      using again by (rule object_acceptD) auto
    moreover have "''tokens'' \<in> fst ` set login_schema"
      using tokens by (rule image_eqI [rotated]) simp
    ultimately show "known_keys (js_set ''tokens'' (JObj (js_set ''accessToken'' (JStr []) (filter (\<lambda>(k, v). k \<noteq> ''refreshToken'')
        (fields_of (get_prop r ''tokens''))))) (fields_of r)) (map fst login_schema)"
      by (simp add: known_keys_subset keys_js_set r fields_of_def)
    fix k sch
    assume mem: "(k, sch) \<in> set login_schema"
    have "parse sch (map_of out k) = Accept (get_prop r k)"
      using object_field [OF LoginResponse_object(2) again mem] by (simp add: get_prop_def lookup_def)
    moreover have "k = ''tokens'' \<Longrightarrow> sch = TokenPair"
      using mem by (auto simp: login_schema_def LoginResponse_def)
    ultimately show "\<exists>w. parse sch (map_of (js_set ''tokens'' (JObj (js_set ''accessToken'' (JStr []) (filter (\<lambda>(k, v). k \<noteq> ''refreshToken'')
        (fields_of (get_prop r ''tokens''))))) (fields_of r)) k) = Accept w"
      using w ts by (auto simp: map_of_js_set r fields_of_def)
  qed
qed

end


lemma call_value:
  assumes "call env opts s = (Inr v, s')"
  shows "\<exists>payload. web_parse env (co_schema opts) payload = Accept v"
proof -
  from call_settles [of env opts s] assms obtain rid reply where "received env opts rid reply = Inr v"
    by auto
  then show ?thesis by (rule received_value)
qed

text \<open>The browser checks the login reply against the contract identity-service answered by, after the route has
  emptied the tokens in it. The check passes for every reply of a successful sign-in, so a shopper who
  was signed in is not shown an error.\<close>

theorem login_reply_passes_check:
  fixes env :: "'w web_env"
  assumes "zod (web_parse env) fmt" "sign_in env req s = (Inr r, s')"
    and "web_parse benv = web_parse env" "ao_schema ao = LoginResponse"
    and "fst (web_fetch benv (api_request path ao) (net_world b)) = over_http r"
  shows "\<exists>v. fst (apiFetch benv path ao b) = Inr v"
proof -
  from assms(2) obtain body and s1 :: "'w bff" and result s2 s3 where
    called: "call env ((plain_call SvcIdentity ''/v1/auth/login'' LoginResponse)\<lparr>co_method := Some ''POST'', co_body := body\<rparr>) s1 = (Inr result, s2)"
    and answered: "respond_json (Some (stripped_login result)) 200 NO_STORE s3 = (Inr r, s')"
    unfolding sign_in_def Let_def by (elim and_then_InrE) blast
  obtain payload where "web_parse env LoginResponse payload = Accept result"
    using call_value [OF called] by (auto simp: plain_call_def)
  then obtain w where "web_parse env LoginResponse (Some (stripped_login result)) = Accept w"
    using zod.stripped_login_accepted [OF assms(1)] by blast
  with respond_json_InrD [OF answered] assms(3-5) show ?thesis
    by (auto simp: apiFetch_run api_received_def over_http_def response_is_ok_def)
qed

definition sample_user :: json where
  "sample_user = JObj [(''id'', JStr ''usr_01ARZ3NDEKTSV4RRFFQ69G5FAV''), (''email'', JStr ''a@b.c''), (''fullName'', JStr ''A''),
     (''locale'', JStr ''en-GB''), (''roles'', JArr []), (''mfaEnabled'', JBool False), (''emailVerified'', JBool True),
     (''createdAt'', JStr ''2023-11-14T22:13:20Z'')]"

definition sample_login :: json where
  "sample_login = JObj [(''tokens'', JObj [(''accessToken'', JStr ''at''), (''expiresIn'', JNum 900), (''tokenType'', JStr ''Bearer''),
     (''refreshToken'', JStr ''rt'')]), (''user'', sample_user)]"

definition credentials_request :: web_request where
  "credentials_request = web_get\<lparr>wr_body := Json (login_body ''a@b.c'' ''pw'' [])\<rparr>"

lemma login_accepted:
  "zparse any_format LoginRequest (Some (login_body ''a@b.c'' ''pw'' [])) = Accept (Some (login_body ''a@b.c'' ''pw'' []))"
  "zparse any_format LoginResponse (Some sample_login) = Accept (Some sample_login)"
  by code_simp+

theorem login_reply_passes_check_witness:
  "\<exists>r v. fst (sign_in scripted_env credentials_request (fresh_bff [Response 200 None (Json sample_login)])) = Inr r \<and>
     fst (apiFetch scripted_env ''/api/bff/auth/login'' (plain_api LoginResponse) (script [over_http r])) = Inr v"
proof -
  let ?run = "sign_in scripted_env credentials_request (fresh_bff [Response 200 None (Json sample_login)])"
  obtain r where r: "fst ?run = Inr r"
    by (simp add: sign_in_def run_defs credentials_request_def web_get_def login_accepted set_cookie_def)
  then have "?run = (Inr r, snd ?run)" by (metis prod.collapse)
  from login_reply_passes_check [OF scripted_zod this, of scripted_env "plain_api LoginResponse" "''/api/bff/auth/login''" "script [over_http r]"]
  have "\<exists>v. fst (apiFetch scripted_env ''/api/bff/auth/login'' (plain_api LoginResponse) (script [over_http r])) = Inr v"
    by (simp add: plain_api_def scripted_env_def script_def)
  with r show ?thesis by blast
qed

theorem login_redirect_is_path_witness:
  "starts_with ''/checkout'' ''/'' \<and> \<not> starts_with ''/checkout'' ''//''"
proof -
  let ?page = "\<lparr>net_world = [Response 200 None (Json JNull)], net_log = [], net_waits = [], br_user = None, br_loading = False,
    br_navigations = [], br_router_refreshes = 0, lf_mfaRequired = False, lf_error = None, lf_submitting = False\<rparr>"
  have "''/checkout'' \<in> set (br_navigations (snd (login_submit lenient_env ''a'' ''b'' [] (Some ''/checkout'') ?page)))"
    by (simp add: login_submit_def finally_do_run attempt_def and_then_def apiFetch_run api_received_def response_is_ok_def
        session_refresh_def navigate_def router_refresh_def safeNext_def starts_with_def)
  from login_redirect_is_path [OF this] show ?thesis by simp
qed

end
