(* ===== verification/Account_Forms.thy ===== *)
theory Account_Forms
  imports Browser_Session Event_Machine Product_Cards
begin

text \<open>
  The account pages of the storefront: registration, change of password and the enrolment of a second factor
  (\<^verbatim>\<open>components/auth/\<close>), and the order history (\<^verbatim>\<open>components/checkout/order-history.tsx\<close>). The two forms are actions on the page's
  state, like the sign-in form. The enrolment is a machine: what is rendered decides which events are possible, a request
  and its answer are two events, and between them the user may type, cancel or lose the session.

  The lemmas: the recovery codes, once received, leave the screen only after the box that confirms they were saved is ticked; the
  code sent for confirmation always has six digits; the password form reports success only on a successful answer;
  every order of the contract has a label in the history, and only a pending one offers to be cancelled.
\<close>

section \<open>register-form.tsx\<close>

definition TERMS_VERSION :: string where
  "TERMS_VERSION = ''v1''"

definition RegisterAccepted :: schema where
  "RegisterAccepted = ZObject Passthrough [(''status'', z_string), (''message'', z_string)]"

record 'w register_page = "'w browser" +
  rg_error :: "string option"
  rg_submitted :: bool
  rg_submitting :: bool

definition register_body :: "string \<Rightarrow> string \<Rightarrow> string \<Rightarrow> json" where
  "register_body email password fullName =
     JObj [(''email'', JStr email), (''password'', JStr password), (''fullName'', JStr fullName), (''locale'', JStr ''en-GB''),
           (''acceptedTermsVersion'', JStr TERMS_VERSION)]"

definition register_submit :: "'w web_env \<Rightarrow> string \<Rightarrow> string \<Rightarrow> string \<Rightarrow> ('w register_page, api_thrown, unit) act" where
  "register_submit env email password fullName =
     and_then (modify (\<lambda>s. s\<lparr>rg_error := None, rg_submitting := True\<rparr>)) (\<lambda>_.
     finally_do
       (attempt
          (and_then (apiFetch env ''/api/bff/auth/register''
               ((plain_api RegisterAccepted)\<lparr>ao_method := Some ''POST'', ao_body := Some (register_body email password fullName)\<rparr>))
             (\<lambda>_. modify (\<lambda>s. s\<lparr>rg_submitted := True\<rparr>)))
          (\<lambda>err. case err of Api e \<Rightarrow> modify (\<lambda>s. s\<lparr>rg_error := Some (userMessage e)\<rparr>) | _ \<Rightarrow> raise err))
       (\<lambda>s. s\<lparr>rg_submitting := False\<rparr>))"

section \<open>change-password-form.tsx\<close>

record 'w password_page = "'w browser" +
  pw_current :: string
  pw_next :: string
  pw_confirm :: string
  pw_error :: "string option"
  pw_done :: bool
  pw_submitting :: bool

definition pw_mismatch :: "('w, 'm) password_page_scheme \<Rightarrow> bool" where
  "pw_mismatch s = (pw_confirm s \<noteq> [] \<and> pw_next s \<noteq> pw_confirm s)"

definition password_options :: "string \<Rightarrow> string \<Rightarrow> api_options" where
  "password_options current new =
     (plain_api ZUndefined)\<lparr>ao_method := Some ''POST'',
       ao_body := Some (JObj [(''currentPassword'', JStr current), (''newPassword'', JStr new)])\<rparr>"

definition password_submit :: "'w web_env \<Rightarrow> ('w password_page, api_thrown, unit) act" where
  "password_submit env s =
     (if pw_mismatch s then (Inr (), s)
      else
        and_then (modify (\<lambda>s. s\<lparr>pw_error := None, pw_submitting := True\<rparr>)) (\<lambda>_.
        finally_do
          (attempt
             (and_then (apiFetch env ''/api/bff/me/password'' (password_options (pw_current s) (pw_next s))) (\<lambda>_.
              and_then (modify (\<lambda>s. s\<lparr>pw_done := True, pw_current := [], pw_next := [], pw_confirm := []\<rparr>)) (\<lambda>_. router_refresh)))
             (\<lambda>err. case err of Api e \<Rightarrow> modify (\<lambda>s. s\<lparr>pw_error := Some (userMessage e)\<rparr>) | _ \<Rightarrow> raise err))
          (\<lambda>s. s\<lparr>pw_submitting := False\<rparr>)) s)"

section \<open>mfa-enrolment.tsx\<close>

definition MfaStarted :: schema where
  "MfaStarted = z_strict [(''secret'', z_string), (''uri'', z_string)]"

definition MfaCompleted :: schema where
  "MfaCompleted = z_strict [(''recoveryCodes'', z_array z_string)]"

text \<open>The two places where a handler waits for an answer; \<open>mf_awaits\<close> holds the handlers that are suspended there.\<close>

datatype mfa_await = AwaitStart | AwaitConfirm

record mfa_page =
  mf_user :: "json option"
  mf_loading :: bool
  mf_enrolment :: "json option"
  mf_code :: string
  mf_recoveryCodes :: "string list option"
  mf_acknowledged :: bool
  mf_error :: "string option"
  mf_busy :: bool
  mf_awaits :: "mfa_await list"
  mf_sent :: "sent list"

datatype mfa_panel =
    MfaSkeleton
  | MfaSignIn
  | MfaOn
  | MfaRecovery "string list" bool
  | MfaSetUp bool
  | MfaForm string bool

definition mfa_panel_of :: "mfa_page \<Rightarrow> mfa_panel" where
  "mfa_panel_of s =
     (if mf_loading s then MfaSkeleton
      else case mf_user s of
        None \<Rightarrow> MfaSignIn
      | Some _ \<Rightarrow>
          if bool_field (mf_user s) ''mfaEnabled'' \<and> mf_recoveryCodes s = None then MfaOn
          else case mf_recoveryCodes s of
            Some codes \<Rightarrow> MfaRecovery codes (mf_acknowledged s)
          | None \<Rightarrow>
              (case mf_enrolment s of
                 None \<Rightarrow> MfaSetUp (\<not> mf_busy s)
               | Some e \<Rightarrow> MfaForm (str_field (Some e) ''secret'') (\<not> (mf_busy s \<or> length (mf_code s) \<noteq> 6))))"

definition start_request :: sent where
  "start_request = api_request ''/api/bff/me/mfa'' ((plain_api MfaStarted)\<lparr>ao_method := Some ''POST''\<rparr>)"

definition mfa_sends :: "sent \<Rightarrow> mfa_await \<Rightarrow> mfa_page \<Rightarrow> mfa_page" where
  "mfa_sends rq w s = s\<lparr>mf_error := None, mf_busy := True, mf_awaits := mf_awaits s @ [w], mf_sent := rq # mf_sent s\<rparr>"

definition mfa_start :: "mfa_page \<Rightarrow> mfa_page" where
  "mfa_start s = mfa_sends start_request AwaitStart s"

definition mfa_started :: "'w web_env \<Rightarrow> fetch_reply \<Rightarrow> mfa_page \<Rightarrow> mfa_page" where
  "mfa_started env reply s =
     (case api_received env MfaStarted reply of
        Inr data \<Rightarrow> s\<lparr>mf_enrolment := data\<rparr>
      | Inl (Api e) \<Rightarrow> s\<lparr>mf_error := Some (userMessage e)\<rparr>
      | Inl _ \<Rightarrow> s\<lparr>mf_error := Some ''Could not start enrolment.''\<rparr>)\<lparr>mf_busy := False\<rparr>"

definition confirm_request :: "string \<Rightarrow> sent" where
  "confirm_request code =
     api_request ''/api/bff/me/mfa/confirm''
       ((plain_api MfaCompleted)\<lparr>ao_method := Some ''POST'', ao_body := Some (JObj [(''code'', JStr code)])\<rparr>)"

definition recovery_of :: "json option \<Rightarrow> string list" where
  "recovery_of data = map (\<lambda>j. case j of JStr t \<Rightarrow> t | _ \<Rightarrow> []) (list_field data ''recoveryCodes'')"

definition mfa_confirm :: "mfa_page \<Rightarrow> mfa_page" where
  "mfa_confirm s = mfa_sends (confirm_request (mf_code s)) AwaitConfirm s"

definition mfa_confirmed :: "'w web_env \<Rightarrow> fetch_reply \<Rightarrow> mfa_page \<Rightarrow> mfa_page" where
  "mfa_confirmed env reply s =
     (case api_received env MfaCompleted reply of
        Inr data \<Rightarrow> s\<lparr>mf_recoveryCodes := Some (recovery_of data), mf_code := []\<rparr>
      | Inl (Api e) \<Rightarrow> s\<lparr>mf_error := Some (userMessage e)\<rparr>
      | Inl _ \<Rightarrow> s\<lparr>mf_error := Some ''That code was not accepted.''\<rparr>)\<lparr>mf_busy := False\<rparr>"

text \<open>An answer resumes one of the suspended handlers, in whatever order the answers come.\<close>

definition mfa_resume :: "'w web_env \<Rightarrow> nat \<Rightarrow> fetch_reply \<Rightarrow> mfa_page \<Rightarrow> mfa_page" where
  "mfa_resume env i reply s =
     (if i < length (mf_awaits s)
      then let s1 = s\<lparr>mf_awaits := take i (mf_awaits s) @ drop (Suc i) (mf_awaits s)\<rparr>
           in case mf_awaits s ! i of
                AwaitStart \<Rightarrow> mfa_started env reply s1
              | AwaitConfirm \<Rightarrow> mfa_confirmed env reply s1
      else s)"

text \<open>\<^verbatim>\<open>maxLength\<close> is applied to what is typed, before the handler keeps its digits.\<close>

definition code_typed :: "string \<Rightarrow> string" where
  "code_typed typed = filter is_digit (take 6 typed)"

datatype mfa_happening =
    MfaSession "json option" bool
  | MfaStart
  | MfaType string
  | MfaConfirm
  | MfaAnswer nat fetch_reply
  | MfaCancel
  | MfaAcknowledge bool
  | MfaDone

text \<open>The events are those of the rendered panel; the session may change and answers may arrive at any time. \<^verbatim>\<open>Done\<close> also asks for the profile again, which is a change of the
  session that follows.\<close>

fun mfa_event :: "'w web_env \<Rightarrow> mfa_happening \<Rightarrow> mfa_page \<Rightarrow> mfa_page" where
  "mfa_event env (MfaSession user loading) s = s\<lparr>mf_user := user, mf_loading := loading\<rparr>"
| "mfa_event env MfaStart s = (if mfa_panel_of s = MfaSetUp True then mfa_start s else s)"
| "mfa_event env (MfaType typed) s =
     (case mfa_panel_of s of MfaForm _ _ \<Rightarrow> s\<lparr>mf_code := code_typed typed\<rparr> | _ \<Rightarrow> s)"
| "mfa_event env MfaConfirm s =
     (case mfa_panel_of s of MfaForm _ enabled \<Rightarrow> if enabled then mfa_confirm s else s | _ \<Rightarrow> s)"
| "mfa_event env (MfaAnswer i reply) s = mfa_resume env i reply s"
| "mfa_event env MfaCancel s = (case mfa_panel_of s of MfaForm _ _ \<Rightarrow> s\<lparr>mf_enrolment := None\<rparr> | _ \<Rightarrow> s)"
| "mfa_event env (MfaAcknowledge b) s = (case mfa_panel_of s of MfaRecovery _ _ \<Rightarrow> s\<lparr>mf_acknowledged := b\<rparr> | _ \<Rightarrow> s)"
| "mfa_event env MfaDone s =
     (case mfa_panel_of s of
        MfaRecovery _ ticked \<Rightarrow> if ticked then s\<lparr>mf_recoveryCodes := None, mf_loading := True\<rparr> else s
      | _ \<Rightarrow> s)"

definition mfa_mounts :: "json option \<Rightarrow> bool \<Rightarrow> mfa_page" where
  "mfa_mounts user loading =
     \<lparr>mf_user = user, mf_loading = loading, mf_enrolment = None, mf_code = [], mf_recoveryCodes = None, mf_acknowledged = False,
      mf_error = None, mf_busy = False, mf_awaits = [], mf_sent = []\<rparr>"

definition run_mfa :: "'w web_env \<Rightarrow> mfa_happening list \<Rightarrow> mfa_page \<Rightarrow> mfa_page" where
  "run_mfa env es s = fold (mfa_event env) es s"

section \<open>order-history.tsx\<close>

definition customerView :: "string \<Rightarrow> (string \<times> string) option" where
  "customerView status =
     (if status \<in> {''PENDING'', ''STOCK_RESERVED'', ''PAID'', ''STOCK_COMMITTED'', ''COMPENSATING''} then Some (''Processing'', ''secondary'')
      else if status = ''CONFIRMED'' then Some (''Confirmed'', ''success'')
      else if status = ''SHIPPED'' then Some (''Shipped'', ''default'')
      else if status = ''DELIVERED'' then Some (''Delivered'', ''success'')
      else if status = ''CANCELLED'' then Some (''Cancelled'', ''destructive'')
      else if status = ''REFUNDED'' then Some (''Refunded'', ''warning'')
      else None)"

record order_row =
  or_href :: string
  or_view :: "(string \<times> string) option"
  or_images :: "json list"
  or_more :: "nat option"
  or_cancel :: bool

definition order_row_of :: "json \<Rightarrow> order_row" where
  "order_row_of order =
     (let status = str_field (Some order) ''status''; lines = list_field (Some order) ''lines''
      in \<lparr>or_href = ''/orders/'' @ str_field (Some order) ''id'', or_view = customerView status, or_images = take 5 lines,
          or_more = (if 5 < length lines then Some (length lines - 5) else None),
          or_cancel = (\<not> isTerminal status \<and> status = ''PENDING'')\<rparr>)"

datatype history_panel = HistorySkeleton | HistorySignIn | HistoryError string | NoOrdersYet | Orders "order_row list"

record history =
  hi_orders :: "json list option"
  hi_error :: "string option"
  hi_cancelled :: bool

definition history_settles :: "'w web_env \<Rightarrow> fetch_reply \<Rightarrow> history \<Rightarrow> history" where
  "history_settles env reply s =
     (if hi_cancelled s then s
      else case api_received env OrderPage reply of
             Inr page \<Rightarrow> s\<lparr>hi_orders := Some (list_field page ''items'')\<rparr>
           | Inl (Api e) \<Rightarrow> s\<lparr>hi_error := Some (userMessage e)\<rparr>
           | Inl _ \<Rightarrow> s\<lparr>hi_error := Some ''Could not load your orders.''\<rparr>)"

definition history_panel_of :: "json option \<Rightarrow> bool \<Rightarrow> history \<Rightarrow> history_panel" where
  "history_panel_of user sessionLoading s =
     (if sessionLoading then HistorySkeleton
      else if user = None then HistorySignIn
      else case hi_error s of
             Some msg \<Rightarrow> HistoryError msg
           | None \<Rightarrow>
               (case hi_orders s of
                  None \<Rightarrow> HistorySkeleton
                | Some os \<Rightarrow> if os = [] then NoOrdersYet else Orders (map order_row_of os)))"

section \<open>The enrolment\<close>

definition six_digits :: "string \<Rightarrow> bool" where
  "six_digits code = (length code = 6 \<and> (\<forall>c\<in>set code. is_digit c))"

text \<open>The invariant: the code is made of digits, so is what was sent; the buttons are disabled exactly while an answer is
  outstanding, so there is never more than one, and none while recovery codes are shown.\<close>

definition mfa_ok :: "mfa_page \<Rightarrow> bool" where
  "mfa_ok s = ((\<forall>c\<in>set (mf_code s). is_digit c) \<and>
     (\<forall>rq\<in>set (mf_sent s). rq = start_request \<or> (\<exists>code. six_digits code \<and> rq = confirm_request code)) \<and>
     (mf_busy s \<longleftrightarrow> mf_awaits s \<noteq> []) \<and> length (mf_awaits s) \<le> 1 \<and> (mf_recoveryCodes s \<noteq> None \<longrightarrow> mf_awaits s = []))"

lemma mfa_panel_recovery:
  assumes "mf_recoveryCodes s = Some codes"
  shows "mfa_panel_of s \<in> {MfaSkeleton, MfaSignIn, MfaRecovery codes (mf_acknowledged s)}"
  using assms by (simp add: mfa_panel_of_def split: option.split)

lemma mfa_form_enabled:
  "mfa_panel_of s = MfaForm secret True \<Longrightarrow> length (mf_code s) = 6 \<and> \<not> mf_busy s \<and> mf_recoveryCodes s = None"
  by (simp add: mfa_panel_of_def split: if_splits option.splits)

lemma mfa_set_up_enabled: "mfa_panel_of s = MfaSetUp True \<Longrightarrow> \<not> mf_busy s \<and> mf_recoveryCodes s = None"
  by (simp add: mfa_panel_of_def split: if_splits option.splits)

lemma mfa_settled_fields [simp]:
  "mf_code (mfa_started env reply s) = mf_code s" "mf_sent (mfa_started env reply s) = mf_sent s"
  "mf_recoveryCodes (mfa_started env reply s) = mf_recoveryCodes s" "mf_awaits (mfa_started env reply s) = mf_awaits s"
  "mf_busy (mfa_started env reply s) = False"
  "mf_sent (mfa_confirmed env reply s) = mf_sent s" "mf_awaits (mfa_confirmed env reply s) = mf_awaits s"
  "mf_busy (mfa_confirmed env reply s) = False"
  by (simp_all add: mfa_started_def mfa_confirmed_def split: sum.split api_thrown.split)

lemma mfa_confirmed_code: "mf_code (mfa_confirmed env reply s) \<in> {mf_code s, []}"
  by (simp add: mfa_confirmed_def split: sum.split api_thrown.split)

lemma mfa_sends_ok:
  assumes "mfa_ok s" "\<not> mf_busy s" "mf_recoveryCodes s = None" "rq = start_request \<or> (\<exists>code. six_digits code \<and> rq = confirm_request code)"
  shows "mfa_ok (mfa_sends rq w s)"
  using assms by (simp add: mfa_ok_def mfa_sends_def)

lemma mfa_resume_ok:
  assumes "mfa_ok s"
  shows "mfa_ok (mfa_resume env i reply s)"
proof (cases "i < length (mf_awaits s)")
  case True
  with assms obtain w where one: "mf_awaits s = [w]" "i = 0"
    by (cases "mf_awaits s") (auto simp: mfa_ok_def)
  then have "mfa_resume env i reply s =
      (case w of AwaitStart \<Rightarrow> mfa_started env reply (s\<lparr>mf_awaits := []\<rparr>) | AwaitConfirm \<Rightarrow> mfa_confirmed env reply (s\<lparr>mf_awaits := []\<rparr>))"
    by (simp add: mfa_resume_def Let_def)
  then show ?thesis
    using assms mfa_confirmed_code [of env reply "s\<lparr>mf_awaits := []\<rparr>"] by (auto simp: mfa_ok_def split: mfa_await.split)
qed (simp add: mfa_resume_def assms)

interpretation mfa: event_machine "mfa_event env" mfa_ok for env
proof
  fix s e assume ok: "mfa_ok s"
  show "mfa_ok (mfa_event env e s)"
  proof (cases e)
    case MfaStart
    with ok show ?thesis
      by (auto simp: mfa_start_def dest!: mfa_set_up_enabled intro: mfa_sends_ok)
  next
    case MfaConfirm
    have "\<forall>c\<in>set (mf_code s). is_digit c" using ok by (simp add: mfa_ok_def)
    with MfaConfirm ok show ?thesis
      by (auto simp: mfa_confirm_def six_digits_def split: mfa_panel.split dest!: mfa_form_enabled intro!: mfa_sends_ok)
  next
    case (MfaAnswer i reply)
    with ok show ?thesis by (simp add: mfa_resume_ok)
  qed (use ok in \<open>auto simp: mfa_ok_def code_typed_def split: mfa_panel.split\<close>)
qed

lemma mfa_mounts_ok: "mfa_ok (mfa_mounts user loading)"
  by (simp add: mfa_ok_def mfa_mounts_def)

lemma run_mfa_ok: "mfa_ok (run_mfa env es (mfa_mounts user loading))"
  using mfa.run_inv [OF mfa_mounts_ok, of env es] by (simp add: run_mfa_def)

text \<open>Every confirmation the panel sends carries a code of exactly six digits, and no request is sent while another is outstanding.\<close>

theorem confirmations_carry_six_digits:
  "set (mf_sent (run_mfa env es (mfa_mounts user loading))) \<subseteq> insert start_request (confirm_request ` {code. six_digits code}) \<and>
   length (mf_awaits (run_mfa env es (mfa_mounts user loading))) \<le> 1"
  using run_mfa_ok [of env es user loading] by (auto simp: mfa_ok_def)

section \<open>Recovery codes\<close>

lemma mfa_event_keeps_codes:
  assumes "mfa_ok s" "mf_recoveryCodes s = Some codes" "e = MfaDone \<Longrightarrow> \<not> mf_acknowledged s"
  shows "mf_recoveryCodes (mfa_event env e s) = Some codes"
  using mfa_panel_recovery [OF assms(2)] assms by (cases e) (auto simp: mfa_resume_def mfa_ok_def)

lemma run_mfa_keeps_codes:
  assumes "mfa_ok s" "mf_recoveryCodes s = Some codes"
    "\<And>es1 es2. es = es1 @ MfaDone # es2 \<Longrightarrow> \<not> mf_acknowledged (run_mfa env es1 s)"
  shows "mf_recoveryCodes (run_mfa env es s) = Some codes"
  using assms
proof (induction es arbitrary: s)
  case (Cons e es)
  have "mf_recoveryCodes (mfa_event env e s) = Some codes"
    by (rule mfa_event_keeps_codes [OF Cons.prems(1,2)]) (use Cons.prems(3) [of "[]"] in \<open>simp add: run_mfa_def\<close>)
  moreover have "\<not> mf_acknowledged (run_mfa env es1 (mfa_event env e s))" if "es = es1 @ MfaDone # es2" for es1 es2
    using Cons.prems(3) [of "e # es1" es2] that by (simp add: run_mfa_def)
  ultimately have "mf_recoveryCodes (run_mfa env es (mfa_event env e s)) = Some codes"
    by (rule Cons.IH [OF mfa.step_inv [OF Cons.prems(1)]])
  then show ?case by (simp add: run_mfa_def)
qed (simp add: run_mfa_def)

lemma run_mfa_append: "run_mfa env (es @ es') s = run_mfa env es' (run_mfa env es s)"
  by (simp add: run_mfa_def)

text \<open>C25: Once the panel has recovery codes it keeps them, whatever happens in the session, whatever is clicked and whatever answers
  arrive, until \<^verbatim>\<open>Done\<close> is pressed at a moment when the box that confirms they were saved is ticked.\<close>

theorem recovery_codes_stay_until_saved:
  assumes "mf_recoveryCodes (run_mfa env es (mfa_mounts user loading)) = Some codes"
  shows "mf_recoveryCodes (run_mfa env (es @ es') (mfa_mounts user loading)) = Some codes \<or>
    (\<exists>es1 es2. es' = es1 @ MfaDone # es2 \<and> mf_acknowledged (run_mfa env (es @ es1) (mfa_mounts user loading)))"
  using run_mfa_keeps_codes [OF run_mfa_ok assms, of es'] by (auto simp: run_mfa_append)

text \<open>An enrolment: the form is cancelled while its confirmation is outstanding, and the codes arrive all the same.\<close>

definition sample_enrolment :: "mfa_happening list" where
  "sample_enrolment =
     [MfaStart, MfaAnswer 0 (Response 200 None (Json (JObj [(''secret'', JStr ''K5''), (''uri'', JStr ''otpauth:'')]))), MfaType ''123456'', MfaConfirm,
      MfaCancel, MfaAnswer 0 (Response 200 None (Json (JObj [(''recoveryCodes'', JArr [JStr ''k3'', JStr ''p0''])])))]"

theorem recovery_codes_stay_until_saved_witness:
  "mf_recoveryCodes (run_mfa scripted_env (sample_enrolment @ [MfaSession None True, MfaDone, MfaSession (Some (JObj [])) False])
       (mfa_mounts (Some (JObj [])) False)) = Some [''k3'', ''p0'']"
proof -
  let ?s = "mfa_mounts (Some (JObj [])) False"
  let ?es = "[MfaSession None True, MfaDone, MfaSession (Some (JObj [])) False]"
  have run: "mf_recoveryCodes (run_mfa scripted_env sample_enrolment ?s) = Some [''k3'', ''p0''] \<and>
      \<not> mf_acknowledged (run_mfa scripted_env sample_enrolment ?s)"
    by code_simp
  then have "\<not> (\<exists>es1 es2. ?es = es1 @ MfaDone # es2 \<and> mf_acknowledged (run_mfa scripted_env (sample_enrolment @ es1) ?s))"
    by (auto simp: Cons_eq_append_conv run_mfa_append) (auto simp: run_mfa_def)
  with recovery_codes_stay_until_saved [OF conjunct1 [OF run], of ?es] show ?thesis by blast
qed

section \<open>The other pages\<close>

text \<open>The form says that the password was changed only when the server answered with a success.\<close>

theorem password_done_only_on_success:
  assumes "\<not> pw_done s" "password_submit env s = (r, s')" "pw_done s'"
  shows "\<exists>status hdr b. (api_request ''/api/bff/me/password'' (password_options (pw_current s) (pw_next s)), Response status hdr b)
     \<in> set (net_log s') \<and> response_is_ok status"
  using assms
  by (auto simp: password_submit_def and_then_def finally_do_def attempt_def apiFetch_def fetch_def lift_sum_def router_refresh_def
      api_received_def modify_def raise_def split: if_splits prod.splits sum.splits fetch_reply.splits api_thrown.splits zres.splits)
     blast+

text \<open>Every status of the contract has a label in the history, and the history offers to cancel exactly the pending orders.\<close>

lemma customerView_total: "status \<in> set OrderStatus_options \<longleftrightarrow> customerView status \<noteq> None"
  by (auto simp: customerView_def OrderStatus_options_def)

lemma cancel_only_pending: "or_cancel (order_row_of order) \<longleftrightarrow> str_field (Some order) ''status'' = ''PENDING''"
  by (auto simp: order_row_of_def Let_def isTerminal_def)

end
