(* ===== verification/Spec2Isabelle.thy ===== *)
theory Spec2Isabelle
  imports Cart_Routes Review_Routes Notification_Consumer Admin_Controls Admin_Pages Cart_Provider Order_Progress Search_Box Storefront_Pages
    Account_Forms
begin

text \<open>
  \<^bold>\<open>The Souq commerce platform: its TypeScript code.\<close>

  The platform is a set of services behind two Next.js applications. Written in TypeScript, and modelled here, are the
  contracts every part shares (\<^verbatim>\<open>libs/ts-contracts\<close>), cart-service, review-service and
  notification-service (\<^verbatim>\<open>services/\<close>), and the storefront and the admin application (\<^verbatim>\<open>apps/\<close>). The browser talks to the route
  handlers of its application (the BFF), which call the services with a bearer token; the services store carts in Redis, reviews in
  MongoDB and the delivery log in Cassandra, price carts through pricing-engine, and exchange events over Kafka. The parts in other languages
  (identity, catalog, order, search, pricing and recommendation among them) appear as what answers a request: a function of the environment that may
  answer anything.

  \<^bold>\<open>Foundations.\<close>

  \<^item> \<open>Prelude\<close>: strings, options and lists as JavaScript has them, the collections of rewrite rules, generic lemmas.
    \<open>Js_Number\<close>: binary64 arithmetic on rationals, with the rounding error of each operation.
  \<^item> \<open>Effects\<close>: actions that thread a state and may throw, for code that awaits; \<open>keeps\<close> is the triple of the invariant proofs.
    \<open>Event_Machine\<close>: locales for components driven by events in any order.
  \<^item> \<open>Regex_Match\<close>, \<open>Zod_Schema\<close>, \<open>Zod_Revalidate\<close>: the regular expressions and the validation library, as a parser on JSON values. The
    locale \<open>zod\<close> states what the code relies on; the parser of \<open>Zod_Schema\<close> interprets it, given the format checks (e-mail, URL, UUID) as
    parameters.
  \<^item> \<open>Http\<close>, \<open>Web\<close>: what the two HTTP services share; \<^verbatim>\<open>fetch\<close>, responses, cookies and percent-encoding for the applications. A state keeps
    the log of what was sent, so that properties can say which requests were made.

  \<^bold>\<open>Contracts\<close> (\<^verbatim>\<open>libs/ts-contracts/src\<close>). \<open>Contracts_Primitives\<close>, \<open>Contracts_Events\<close> and \<open>Contracts_Api\<close> have one constant per schema, in the
  order and under the name of the source, and the helpers on money and order states.

  \<^bold>\<open>cart-service\<close> (\<^verbatim>\<open>services/cart-service/src\<close>).

  \<^item> \<open>Redis_Store\<close>: the Lua script, its loading and evaluation, and \<open>cas\<close>, which retries once after \<^verbatim>\<open>NOSCRIPT\<close>. The script serialises
    concurrent writers; \<open>cas\<close> returns after at most one reload.
  \<^item> \<open>Circuit_Breaker\<close>, \<open>Pricing_Client\<close>, \<open>Catalog_Client\<close>, \<open>Ulid\<close>: the clients' state machines and caches. The ring buffer refines the history of
    outcomes, and one probe at a time passes a half-open breaker.
  \<^item> \<open>Cart_Service\<close>: the record of a stored cart and every operation of \<^verbatim>\<open>CartService\<close>. \<open>Cart_Invariant\<close> shows that each keeps the limits on
    lines and quantities, \<open>Cart_Concurrency\<close> what survives when other requests run between any two of its commands,
    \<open>Cart_Properties\<close> what the operations do on each branch and where they go wrong.
  \<^item> \<open>Cart_Routes\<close>: the handlers, the error handler and the readiness probe; the invariant under any HTTP traffic.

  \<^bold>\<open>review-service\<close> (\<^verbatim>\<open>services/review-service/src\<close>). \<open>Rating\<close> is the arithmetic of averages, \<open>Reviews_Repository\<close> every
  operation on the collections with their unique indexes, \<open>Reviews_Properties\<close> the invariant of one live review per user and product, the
  equality of the incremental with the recomputed summary, and paging; \<open>Review_Routes\<close> the HTTP routes and the consumer of order events.

  \<^bold>\<open>notification-service\<close> (\<^verbatim>\<open>services/notification-service/src\<close>). \<open>Template_Texts\<close> and \<open>Templates\<close> hold the messages and their
  rendering (Mustache is a parameter with its documented laws), \<open>Delivery\<close> the claim of a dedupe key, consent, quiet hours, bounces,
  sending and logging; \<open>Delivery_Protocol\<close> is the step relation of concurrent deliveries and shows that a notification is sent at most once;
  \<open>Notification_Consumer\<close> maps events to commands and holds the webhook and the history.

  \<^bold>\<open>The storefront\<close> (\<^verbatim>\<open>apps/storefront/src\<close>).

  \<^item> Server: \<open>Bff_Client\<close> (\<^verbatim>\<open>lib/bff.ts\<close> and the problem documents) and \<open>Bff_Routes\<close> (\<^verbatim>\<open>lib/session.ts\<close> and every route handler). The retry loop of
    \<open>call\<close> is a recursion bounded by the number of attempts; its lemmas say exactly which requests it sends.
  \<^item> Browser: \<open>Api_Client\<close> (\<^verbatim>\<open>lib/api-client.ts\<close>), \<open>Toast_Store\<close> (\<^verbatim>\<open>hooks/use-toast.ts\<close>), \<open>Cart_Provider\<close>, \<open>Order_Progress\<close>, \<open>Search_Box\<close>,
    \<open>Browser_Session\<close> (session, sign-in, password reset, checkout) and \<open>Account_Forms\<close> (registration, password, second factor, order
    history). Components whose callbacks interleave are machines over a record of their state: an inductive step relation for the basket, an event
    function folded over any list of events for the others. Forms are actions on the page's state. The lemmas show which orders of events
    the guards of the code survive and which not, and follow a request across the hop: the error of a service to the message shown, the
    idempotency key of a visit to order-service, the cookie of a session to the routes that need it.
  \<^item> Pages: \<open>Storefront_Catalog\<close> (the catalogue's controls and \<^verbatim>\<open>lib/utils.ts\<close>), \<open>Product_Cards\<close>, \<open>Search_Page\<close> and \<open>Storefront_Pages\<close>. A component
    is what it shows of its data and what its handlers do; a page is the calls it makes and what it makes of their answers.

  \<^bold>\<open>The admin application\<close> (\<^verbatim>\<open>apps/admin/src\<close>). \<open>Admin_App\<close> holds the service client, the session check and the mutating routes,
  \<open>Admin_Controls\<close> the saga inspector, the dead-letter actions, the status and the price control, \<open>Admin_Pages\<close> the pages. Nothing is asked on behalf of
  anyone identity-service has not vouched for; and a page that asks for the session twice spends its refresh token.

  \<^bold>\<open>Conventions.\<close> A promise that settles is an action's result; a \<^verbatim>\<open>throw\<close> is \<open>Inl\<close>; \<^verbatim>\<open>undefined\<close> is \<open>None\<close> and \<^verbatim>\<open>null\<close> is \<open>JNull\<close>.
  The world outside (network, clock, random source, stores) is a record of functions on a state of arbitrary type. There is no fuel: every loop of the
  code ends, and its definition is a total function with its measure. Strings are lists of 8-bit characters, so lengths count bytes where the
  code counts UTF-16 units; for ASCII text they agree. Integers are unbounded where the code's numbers stay within the safe range,
  and rounded to binary64 where they may leave it (\<open>num\<close>, \<open>js_div\<close>, \<open>js_times\<close>).

  Theorems that describe defects are part of the development: they say under which condition the code does not do what its comments
  promise, and each has a witness that runs into it.

  \<^bold>\<open>Not modelled.\<close> Start-up, shutdown, metrics, tracing and log lines of the services; plugin registration of the HTTP framework; styling, icons,
  skeletons and the markup around the values a component shows; the wrappers of UI libraries (\<^verbatim>\<open>components/ui\<close>), layouts and error boundaries;
  the static help and legal texts (\<^verbatim>\<open>lib/content.ts\<close>); build configuration; the services in Go, Java, Python and C++, of which only the
  interfaces appear. They hold no decision on the data above.
\<close>

end
